(* ===== verification/Prelude.thy ===== *)
theory Prelude
  imports Main "HOL-Library.AList" "HOL-Library.Sublist" "HOL-Library.List_Lexorder" "HOL-Library.Char_ord"
begin

text \<open>
  What every component theory shares: Python's exceptions as values, results and
  state-passing actions that may raise, their invariant calculus, byte-string
  operations of the standard library, and the collections of facts the component
  proofs use.

  A Python \<^verbatim>\<open>str\<close> is modelled by its UTF-8 encoding and a \<^verbatim>\<open>bytes\<close> value by
  its bytes, both as HOL's \<^typ>\<open>string\<close> (a list of 8-bit characters). So
  \<^verbatim>\<open>s.encode()\<close> is the identity, \<^verbatim>\<open>a in b\<close> is the substring test
  on the encodings (UTF-8 is self-synchronising), and lengths and slices that count
  code points skip the continuation bytes. Strings with lone surrogates, which have no
  UTF-8 encoding, are outside the model.
\<close>

named_theorems keeps_intro \<open>rules that an action keeps a state invariant\<close>
named_theorems act_simps \<open>equations that run an action\<close>

section \<open>Exceptions\<close>

datatype exc_class =
    ValueError | JSONDecodeError | UnicodeDecodeError | TypeError | KeyError | IndexError
  | AttributeError | RuntimeError | NotImplementedError | AssertionError | OSError
  | FileExistsError | FileNotFoundError | TimeoutError | ConnectionError | BadZipFile
  | CalledProcessError | TimeoutExpired | StopIteration | OverflowError | HTTPError | SystemExit | KeyboardInterrupt

datatype exc = Exc (exc_kind: exc_class) (exc_msg: string)

text \<open>\<^verbatim>\<open>type(error).__name__\<close>.\<close>

fun class_name :: "exc_class \<Rightarrow> string" where
  "class_name ValueError = ''ValueError''"
| "class_name JSONDecodeError = ''JSONDecodeError''"
| "class_name UnicodeDecodeError = ''UnicodeDecodeError''"
| "class_name TypeError = ''TypeError''"
| "class_name KeyError = ''KeyError''"
| "class_name IndexError = ''IndexError''"
| "class_name AttributeError = ''AttributeError''"
| "class_name RuntimeError = ''RuntimeError''"
| "class_name NotImplementedError = ''NotImplementedError''"
| "class_name AssertionError = ''AssertionError''"
| "class_name OSError = ''OSError''"
| "class_name FileExistsError = ''FileExistsError''"
| "class_name FileNotFoundError = ''FileNotFoundError''"
| "class_name TimeoutError = ''TimeoutError''"
| "class_name ConnectionError = ''ConnectionError''"
| "class_name BadZipFile = ''BadZipFile''"
| "class_name CalledProcessError = ''CalledProcessError''"
| "class_name TimeoutExpired = ''TimeoutExpired''"
| "class_name StopIteration = ''StopIteration''"
| "class_name OverflowError = ''OverflowError''"
| "class_name HTTPError = ''HTTPError''"
| "class_name SystemExit = ''SystemExit''"
| "class_name KeyboardInterrupt = ''KeyboardInterrupt''"

text \<open>
  The parts of Python's class hierarchy that the \<^verbatim>\<open>except\<close> clauses rely on.
\<close>

definition is_value_error :: "exc_class \<Rightarrow> bool" where
  "is_value_error c \<longleftrightarrow> c = ValueError \<or> c = JSONDecodeError \<or> c = UnicodeDecodeError"

definition is_os_error :: "exc_class \<Rightarrow> bool" where
  "is_os_error c \<longleftrightarrow> c = OSError \<or> c = FileExistsError \<or> c = FileNotFoundError
     \<or> c = TimeoutError \<or> c = ConnectionError \<or> c = HTTPError"

text \<open>\<^verbatim>\<open>except Exception\<close> does not catch these two.\<close>

definition is_exception :: "exc_class \<Rightarrow> bool" where
  "is_exception c \<longleftrightarrow> c \<noteq> SystemExit \<and> c \<noteq> KeyboardInterrupt"

section \<open>Results: a value or a raised exception\<close>

type_synonym 'a res = "exc + 'a"

definition rbind :: "'a res \<Rightarrow> ('a \<Rightarrow> 'b res) \<Rightarrow> 'b res" where
  "rbind m f = (case m of Inl e \<Rightarrow> Inl e | Inr x \<Rightarrow> f x)"

lemma rbind_simps [simp]:
  "rbind (Inl e) f = Inl e"
  "rbind (Inr x) f = f x"
  by (simp_all add: rbind_def)

lemma rbind_cong [fundef_cong]:
  "m = m' \<Longrightarrow> (\<And>x. m' = Inr x \<Longrightarrow> f x = f' x) \<Longrightarrow> rbind m f = rbind m' f'"
  by (auto simp: rbind_def split: sum.splits)

lemma rbind_Inr_iff: "rbind m f = Inr y \<longleftrightarrow> (\<exists>x. m = Inr x \<and> f x = Inr y)"
  by (auto simp: rbind_def split: sum.splits)

lemma rbind_Inl_iff:
  "rbind m f = Inl e \<longleftrightarrow> m = Inl e \<or> (\<exists>x. m = Inr x \<and> f x = Inl e)"
  by (auto simp: rbind_def split: sum.splits)

text \<open>A list comprehension or a generator whose body may raise: left to right.\<close>

fun rmap :: "('a \<Rightarrow> 'b res) \<Rightarrow> 'a list \<Rightarrow> 'b list res" where
  "rmap f [] = Inr []"
| "rmap f (x # xs) = rbind (f x) (\<lambda>y. rbind (rmap f xs) (\<lambda>ys. Inr (y # ys)))"

text \<open>\<^verbatim>\<open>all(...)\<close> and \<^verbatim>\<open>any(...)\<close> stop at the first decisive element.\<close>

fun rall :: "('a \<Rightarrow> bool res) \<Rightarrow> 'a list \<Rightarrow> bool res" where
  "rall f [] = Inr True"
| "rall f (x # xs) = rbind (f x) (\<lambda>b. if b then rall f xs else Inr False)"

fun rany :: "('a \<Rightarrow> bool res) \<Rightarrow> 'a list \<Rightarrow> bool res" where
  "rany f [] = Inr False"
| "rany f (x # xs) = rbind (f x) (\<lambda>b. if b then Inr True else rany f xs)"

text \<open>Short-circuit \<^verbatim>\<open>and\<close> over conditions that may raise.\<close>

definition rand :: "bool res \<Rightarrow> bool res \<Rightarrow> bool res" where
  "rand p q = rbind p (\<lambda>b. if b then q else Inr False)"

lemma rand_simps [simp]:
  "rand (Inr True) q = q"
  "rand (Inr False) q = Inr False"
  "rand (Inl e) q = Inl e"
  by (simp_all add: rand_def)

lemma rand_True_iff: "rand p q = Inr True \<longleftrightarrow> p = Inr True \<and> q = Inr True"
  by (auto simp: rand_def rbind_def split: sum.splits)

lemma rmap_Inr_length: "rmap f xs = Inr ys \<Longrightarrow> length ys = length xs"
  by (induction xs arbitrary: ys) (auto simp: rbind_Inr_iff)

lemma rmap_Inr_iff: "rmap f xs = Inr ys \<longleftrightarrow> list_all2 (\<lambda>x y. f x = Inr y) xs ys"
proof (induction xs arbitrary: ys)
  case (Cons x xs)
  then show ?case by (cases ys) (auto simp: rbind_Inr_iff list_all2_Cons1)
qed auto

lemma rmap_mem: "rmap f xs = Inr ys \<Longrightarrow> x \<in> set xs \<Longrightarrow> \<exists>y \<in> set ys. f x = Inr y"
  by (induction xs arbitrary: ys) (auto simp: rbind_Inr_iff)

lemma rmap_source: "rmap f xs = Inr ys \<Longrightarrow> y \<in> set ys \<Longrightarrow> \<exists>x \<in> set xs. f x = Inr y"
  by (induction xs arbitrary: ys) (auto simp: rbind_Inr_iff)

section \<open>Actions: state passing with exceptions\<close>

text \<open>
  A method that mutates \<^verbatim>\<open>self\<close> and may raise: the state it leaves is returned
  whether or not it raises, since the mutations made before a raise stay.
\<close>

type_synonym ('s, 'a) act = "'s \<Rightarrow> 'a res \<times> 's"

definition ret :: "'a \<Rightarrow> ('s, 'a) act" where
  "ret x s = (Inr x, s)"

definition raise :: "exc_class \<Rightarrow> string \<Rightarrow> ('s, 'a) act" where
  "raise c m s = (Inl (Exc c m), s)"

definition lift :: "'a res \<Rightarrow> ('s, 'a) act" where
  "lift r s = (r, s)"

definition gets :: "('s \<Rightarrow> 'a) \<Rightarrow> ('s, 'a) act" where
  "gets f s = (Inr (f s), s)"

definition modify :: "('s \<Rightarrow> 's) \<Rightarrow> ('s, unit) act" where
  "modify f s = (Inr (), f s)"

definition bind :: "('s, 'a) act \<Rightarrow> ('a \<Rightarrow> ('s, 'b) act) \<Rightarrow> ('s, 'b) act" where
  "bind m f s = (case m s of (Inl e, t) \<Rightarrow> (Inl e, t) | (Inr x, t) \<Rightarrow> f x t)"

definition andthen :: "('s, 'a) act \<Rightarrow> ('s, 'b) act \<Rightarrow> ('s, 'b) act" where
  "andthen m n = bind m (\<lambda>_. n)"

definition when_do :: "bool \<Rightarrow> ('s, unit) act \<Rightarrow> ('s, unit) act" where
  "when_do b m = (if b then m else ret ())"

text \<open>\<^verbatim>\<open>try: m  except E: h\<close>, where \<^verbatim>\<open>c\<close> says which classes \<^verbatim>\<open>E\<close> catches.\<close>

definition catch :: "(exc_class \<Rightarrow> bool) \<Rightarrow> ('s, 'a) act \<Rightarrow> (exc \<Rightarrow> ('s, 'a) act) \<Rightarrow> ('s, 'a) act" where
  "catch c m h s = (case m s of
     (Inl e, t) \<Rightarrow> if c (exc_kind e) then h e t else (Inl e, t)
   | (Inr x, t) \<Rightarrow> (Inr x, t))"

text \<open>\<^verbatim>\<open>try: m  finally: n\<close>: an exception of \<^verbatim>\<open>n\<close> replaces the outcome of \<^verbatim>\<open>m\<close>.\<close>

definition finally_do :: "('s, 'a) act \<Rightarrow> ('s, unit) act \<Rightarrow> ('s, 'a) act" where
  "finally_do m n s = (case m s of (r, t) \<Rightarrow>
     (case n t of (Inl e, u) \<Rightarrow> (Inl e, u) | (Inr _, u) \<Rightarrow> (r, u)))"

fun for_each :: "'x list \<Rightarrow> ('x \<Rightarrow> ('s, unit) act) \<Rightarrow> ('s, unit) act" where
  "for_each [] body = ret ()"
| "for_each (x # xs) body = andthen (body x) (for_each xs body)"

lemma act_run [act_simps]:
  "ret x s = (Inr x, s)"
  "raise c m s = (Inl (Exc c m), s)"
  "lift r s = (r, s)"
  "gets g s = (Inr (g s), s)"
  "modify u s = (Inr (), u s)"
  by (simp_all add: ret_def raise_def lift_def gets_def modify_def)

lemma bind_run [simp, act_simps]:
  "bind (ret x) f = f x"
  "bind (raise c m) h = raise c m"
  "bind (gets g) k s = k (g s) s"
  "bind (modify u) j s = j () (u s)"
  "bind (lift (Inr y)) i = i y"
  "bind (lift (Inl e)) l = lift (Inl e)"
  by (simp_all add: bind_def fun_eq_iff act_run)

lemma bind_Pair [act_simps]:
  "bind (Pair (Inr x)) f = f x"
  "bind (Pair (Inl e)) h = Pair (Inl e)"
  by (simp_all add: bind_def fun_eq_iff)

lemma andthen_run [simp, act_simps]:
  "andthen (ret x) n = n"
  "andthen (modify u) n s = n (u s)"
  "andthen (raise c m) k = raise c m"
  "andthen (lift (Inl e)) l = lift (Inl e)"
  by (simp_all add: andthen_def)

lemma andthen_Pair [act_simps]:
  "andthen (Pair (Inr x)) n = n"
  "andthen (Pair (Inl e)) k = Pair (Inl e)"
  by (simp_all add: andthen_def bind_Pair)

lemma when_simps [simp, act_simps]:
  "when_do True m = m"
  "when_do False m = ret ()"
  by (simp_all add: when_do_def)

lemma bind_assoc: "bind (bind m f) g = bind m (\<lambda>x. bind (f x) g)"
  by (auto simp: bind_def fun_eq_iff split: prod.splits sum.splits)

lemma bind_Inr_iff:
  "bind m f s = (Inr y, u) \<longleftrightarrow> (\<exists>x t. m s = (Inr x, t) \<and> f x t = (Inr y, u))"
  by (auto simp: bind_def split: prod.splits sum.splits)

lemma for_each_append:
  "for_each (xs @ ys) body = andthen (for_each xs body) (for_each ys body)"
  by (induction xs) (simp_all add: andthen_def bind_assoc)

section \<open>Invariants of actions\<close>

text \<open>
  \<^verbatim>\<open>keeps I m\<close>: the action keeps the invariant, also when it raises half way.
\<close>

definition keeps :: "('s \<Rightarrow> bool) \<Rightarrow> ('s, 'a) act \<Rightarrow> bool" where
  "keeps I m \<longleftrightarrow> (\<forall>s. I s \<longrightarrow> I (snd (m s)))"

lemma keepsD: "keeps I m \<Longrightarrow> I s \<Longrightarrow> I (snd (m s))"
  by (simp add: keeps_def)

lemma keeps_basic [keeps_intro]:
  "keeps I (ret x)" "keeps I (raise c e)" "keeps I (lift r)" "keeps I (gets f)"
  by (simp_all add: keeps_def act_run)

lemma keeps_modify [keeps_intro]: "(\<And>s. I s \<Longrightarrow> I (u s)) \<Longrightarrow> keeps I (modify u)"
  by (simp add: keeps_def act_run)

lemma keeps_bind [keeps_intro]: "keeps I m \<Longrightarrow> (\<And>x. keeps I (f x)) \<Longrightarrow> keeps I (bind m f)"
  by (fastforce simp: keeps_def bind_def split: prod.splits sum.splits)

lemma keeps_andthen [keeps_intro]: "keeps I m \<Longrightarrow> keeps I n \<Longrightarrow> keeps I (andthen m n)"
  by (simp add: andthen_def keeps_bind)

lemma keeps_when [keeps_intro]: "keeps I m \<Longrightarrow> keeps I (when_do b m)"
  by (simp add: when_do_def keeps_basic)

lemma keeps_if [keeps_intro]: "keeps I m \<Longrightarrow> keeps I n \<Longrightarrow> keeps I (if b then m else n)"
  by simp

lemma keeps_catch [keeps_intro]: "keeps I m \<Longrightarrow> (\<And>e. keeps I (h e)) \<Longrightarrow> keeps I (catch c m h)"
  by (fastforce simp: keeps_def catch_def split: prod.splits sum.splits)

lemma keeps_finally [keeps_intro]: "keeps I m \<Longrightarrow> keeps I n \<Longrightarrow> keeps I (finally_do m n)"
  by (fastforce simp: keeps_def finally_do_def split: prod.splits sum.splits)

lemma keeps_for_each [keeps_intro]: "(\<And>x. keeps I (body x)) \<Longrightarrow> keeps I (for_each xs body)"
  by (induction xs) (auto intro: keeps_intro)

lemma keeps_prod [keeps_intro]: "(\<And>a b. keeps I (f a b)) \<Longrightarrow> keeps I (case p of (a, b) \<Rightarrow> f a b)"
  by (cases p) simp

lemma keeps_Let [keeps_intro]: "(\<And>x. keeps I (f x)) \<Longrightarrow> keeps I (Let v f)"
  by (simp add: Let_def)

text \<open>
  \<^verbatim>\<open>yields I J m\<close>: from a state with \<^verbatim>\<open>I\<close>, an action that returns leaves \<^verbatim>\<open>J\<close>; when it
  raises, nothing is promised. It is the calculus of the bounds whose violation raises.
\<close>

definition yields :: "('s \<Rightarrow> bool) \<Rightarrow> ('s \<Rightarrow> bool) \<Rightarrow> ('s, 'a) act \<Rightarrow> bool" where
  "yields I J m \<longleftrightarrow> (\<forall>s x t. I s \<longrightarrow> m s = (Inr x, t) \<longrightarrow> J t)"

lemma yieldsD: "yields I J m \<Longrightarrow> I s \<Longrightarrow> m s = (Inr x, t) \<Longrightarrow> J t"
  by (auto simp: yields_def)

lemma yields_raise: "yields I J (raise c e)"
  by (simp add: yields_def act_run)

lemma yields_pure: "yields I I (ret x)" "yields I I (lift r)" "yields I I (gets f)"
  by (simp_all add: yields_def act_run)

lemma yields_modify: "(\<And>s. I s \<Longrightarrow> J (u s)) \<Longrightarrow> yields I J (modify u)"
  by (simp add: yields_def act_run)

lemma yields_bind: "yields I J m \<Longrightarrow> (\<And>x. yields J K (f x)) \<Longrightarrow> yields I K (bind m f)"
  by (fastforce simp: yields_def bind_Inr_iff)

lemma yields_andthen: "yields I J m \<Longrightarrow> yields J K n \<Longrightarrow> yields I K (andthen m n)"
  by (simp add: andthen_def yields_bind)

lemma yields_if: "yields I J m \<Longrightarrow> yields I J n \<Longrightarrow> yields I J (if b then m else n)"
  by simp

lemma yields_prod: "(\<And>a b. yields I J (f a b)) \<Longrightarrow> yields I J (case p of (a, b) \<Rightarrow> f a b)"
  by (cases p) simp

lemma yields_for_each: "(\<And>x. yields I I (body x)) \<Longrightarrow> yields I I (for_each xs body)"
  by (induction xs) (auto intro: yields_pure yields_andthen)

lemma keeps_yields: "keeps I m \<Longrightarrow> yields I I m"
  by (metis keeps_def snd_conv yields_def)

lemmas yields_rules = yields_raise yields_pure yields_modify yields_bind yields_andthen
  yields_if yields_prod yields_for_each

text \<open>
  An order that single mutations respect and that composes: the interface through which
  monotonicity facts (a log that only grows, a cursor that never goes back) lift from
  the field updates of a component to its operations and to whole runs.
\<close>

locale state_order =
  fixes R :: "'s \<Rightarrow> 's \<Rightarrow> bool"
  assumes order_refl: "R s s"
    and order_trans: "R s t \<Longrightarrow> R t u \<Longrightarrow> R s u"
begin

definition grows :: "('s, 'a) act \<Rightarrow> bool" where
  "grows m \<longleftrightarrow> (\<forall>s. R s (snd (m s)))"

lemma growsD: "grows m \<Longrightarrow> R s (snd (m s))"
  by (simp add: grows_def)

lemma grows_basic: "grows (ret x)" "grows (raise c e)" "grows (lift r)" "grows (gets f)"
  by (simp_all add: grows_def order_refl act_run)

lemma grows_modify: "(\<And>s. R s (u s)) \<Longrightarrow> grows (modify u)"
  by (simp add: grows_def act_run)

lemma grows_bind: "grows m \<Longrightarrow> (\<And>x. grows (f x)) \<Longrightarrow> grows (bind m f)"
  by (auto simp: grows_def bind_def split: prod.splits sum.splits) (metis snd_conv order_trans)+

lemma grows_andthen: "grows m \<Longrightarrow> grows n \<Longrightarrow> grows (andthen m n)"
  by (simp add: andthen_def grows_bind)

lemma grows_when: "grows m \<Longrightarrow> grows (when_do b m)"
  by (simp add: when_do_def grows_basic)

lemma grows_if: "grows m \<Longrightarrow> grows n \<Longrightarrow> grows (if b then m else n)"
  by simp

lemma grows_catch: "grows m \<Longrightarrow> (\<And>e. grows (h e)) \<Longrightarrow> grows (catch c m h)"
  by (auto simp: grows_def catch_def split: prod.splits sum.splits) (metis snd_conv order_trans)+

lemma grows_finally: "grows m \<Longrightarrow> grows n \<Longrightarrow> grows (finally_do m n)"
  by (auto simp: grows_def finally_do_def split: prod.splits sum.splits) (metis snd_conv order_trans)+

lemma grows_for_each: "(\<And>x. grows (body x)) \<Longrightarrow> grows (for_each xs body)"
  by (induction xs) (auto intro: grows_basic grows_andthen)

lemma grows_prod: "(\<And>a b. grows (f a b)) \<Longrightarrow> grows (case p of (a, b) \<Rightarrow> f a b)"
  by (cases p) simp

lemma grows_Let: "(\<And>x. grows (f x)) \<Longrightarrow> grows (Let v f)"
  by (simp add: Let_def)

lemmas grows_rules =
  grows_basic grows_modify grows_bind grows_andthen grows_when grows_if grows_catch
  grows_finally grows_for_each grows_prod grows_Let

end

section \<open>Byte strings\<close>

fun contains :: "string \<Rightarrow> string \<Rightarrow> bool" where
  "contains n [] = (n = [])"
| "contains n (c # cs) = (prefix n (c # cs) \<or> contains n cs)"

lemma contains_iff: "contains n h \<longleftrightarrow> (\<exists>a b. h = a @ n @ b)"
proof (induction h)
  case (Cons c cs)
  have "(\<exists>a b. c # cs = a @ n @ b) \<longleftrightarrow> (\<exists>b. c # cs = n @ b) \<or> (\<exists>a b. cs = a @ n @ b)"
    by (metis append_Cons append_Nil list.exhaust list.inject)
  with Cons show ?case by (simp add: prefix_def)
qed simp

definition upper_ascii :: string where
  "upper_ascii = ''ABCDEFGHIJKLMNOPQRSTUVWXYZ''"

definition lower_ascii :: string where
  "lower_ascii = ''abcdefghijklmnopqrstuvwxyz''"

definition digit_chars :: string where
  "digit_chars = ''0123456789''"

definition lower_char :: "char \<Rightarrow> char" where
  "lower_char c = (case map_of (zip upper_ascii lower_ascii) c of None \<Rightarrow> c | Some d \<Rightarrow> d)"

text \<open>
  \<^verbatim>\<open>str.lower()\<close>. Besides \<^verbatim>\<open>A-Z\<close>, exactly two code points have a lower case that
  contains an ASCII letter: U+212A (Kelvin sign, to \<^verbatim>\<open>k\<close>) and U+0130 (to \<^verbatim>\<open>i\<close> and
  U+0307). The lower cases of all other non-ASCII characters are non-ASCII and are left
  as they are here; the code only ever searches the result for ASCII words.
\<close>

fun py_lower :: "string \<Rightarrow> string" where
  "py_lower [] = []"
| "py_lower (c # cs) =
     (if c = CHR 0xE2 \<and> take 2 cs = [CHR 0x84, CHR 0xAA] then CHR ''k'' # py_lower (drop 2 cs)
      else if c = CHR 0xC4 \<and> take 1 cs = [CHR 0xB0]
        then CHR ''i'' # CHR 0xCC # CHR 0x87 # py_lower (drop 1 cs)
      else lower_char c # py_lower cs)"

text \<open>Code points: a UTF-8 continuation byte is \<^verbatim>\<open>10xxxxxx\<close>.\<close>

definition is_cont :: "char \<Rightarrow> bool" where
  "is_cont c \<longleftrightarrow> digit7 c \<and> \<not> digit6 c"

definition py_len :: "string \<Rightarrow> nat" where
  "py_len s = length (filter (\<lambda>c. \<not> is_cont c) s)"

fun py_take :: "nat \<Rightarrow> string \<Rightarrow> string" where
  "py_take 0 s = takeWhile is_cont s"
| "py_take (Suc n) [] = []"
| "py_take (Suc n) (c # cs) = (if is_cont c then c # py_take (Suc n) cs else c # py_take n cs)"

lemma py_take_len: "py_len (py_take n s) \<le> n"
  by (induction n s rule: py_take.induct)
    (auto simp: py_len_def filter_empty_conv dest: set_takeWhileD)

lemma prefix_py_take: "prefix (py_take n s) s"
  by (induction n s rule: py_take.induct) (auto simp: takeWhile_is_prefix)

text \<open>\<^verbatim>\<open>bytes.partition(b'\n')\<close> in a loop: the complete lines and the unfinished tail.\<close>

fun split_lines :: "string \<Rightarrow> string list \<times> string" where
  "split_lines [] = ([], [])"
| "split_lines (c # cs) = (case split_lines cs of (ls, t) \<Rightarrow>
     if c = CHR 0x0A then ([] # ls, t)
     else (case ls of [] \<Rightarrow> ([], c # t) | l # ls' \<Rightarrow> ((c # l) # ls', t)))"

text \<open>\<^verbatim>\<open>bytes.strip()\<close>: ASCII whitespace.\<close>

definition is_space :: "char \<Rightarrow> bool" where
  "is_space c \<longleftrightarrow> c \<in> {CHR 0x20, CHR 0x09, CHR 0x0A, CHR 0x0B, CHR 0x0C, CHR 0x0D}"

definition bstrip :: "string \<Rightarrow> string" where
  "bstrip s = rev (dropWhile is_space (rev (dropWhile is_space s)))"

text \<open>\<^verbatim>\<open>re.fullmatch(r'[chars]{lo,hi}', s)\<close>.\<close>

definition fullmatch_class :: "string \<Rightarrow> nat \<Rightarrow> nat \<Rightarrow> string \<Rightarrow> bool" where
  "fullmatch_class chars lo hi s \<longleftrightarrow> lo \<le> length s \<and> length s \<le> hi \<and> list_all (\<lambda>c. c \<in> set chars) s"

definition alnum :: string where
  "alnum = upper_ascii @ lower_ascii @ digit_chars"

text \<open>
  \<^verbatim>\<open>str.isspace\<close> and \<^verbatim>\<open>\s\<close> of a \<^verbatim>\<open>str\<close> pattern, on the UTF-8 encoding: the number of
  bytes of the whitespace character that starts the string, 0 if there is none.
\<close>

definition ascii_space :: string where
  "ascii_space = [CHR 0x09, CHR 0x0A, CHR 0x0B, CHR 0x0C, CHR 0x0D,
     CHR 0x1C, CHR 0x1D, CHR 0x1E, CHR 0x1F, CHR 0x20]"

definition wide_space :: "string list" where
  "wide_space =
    [[CHR 0xC2, CHR 0x85], [CHR 0xC2, CHR 0xA0], [CHR 0xE1, CHR 0x9A, CHR 0x80],
     [CHR 0xE2, CHR 0x80, CHR 0x80], [CHR 0xE2, CHR 0x80, CHR 0x81], [CHR 0xE2, CHR 0x80, CHR 0x82],
     [CHR 0xE2, CHR 0x80, CHR 0x83], [CHR 0xE2, CHR 0x80, CHR 0x84], [CHR 0xE2, CHR 0x80, CHR 0x85],
     [CHR 0xE2, CHR 0x80, CHR 0x86], [CHR 0xE2, CHR 0x80, CHR 0x87], [CHR 0xE2, CHR 0x80, CHR 0x88],
     [CHR 0xE2, CHR 0x80, CHR 0x89], [CHR 0xE2, CHR 0x80, CHR 0x8A], [CHR 0xE2, CHR 0x80, CHR 0xA8],
     [CHR 0xE2, CHR 0x80, CHR 0xA9], [CHR 0xE2, CHR 0x80, CHR 0xAF], [CHR 0xE2, CHR 0x81, CHR 0x9F],
     [CHR 0xE3, CHR 0x80, CHR 0x80]]"

definition ws_len :: "string \<Rightarrow> nat" where
  "ws_len s = (case s of [] \<Rightarrow> 0 | c # _ \<Rightarrow>
     if c \<in> set ascii_space then 1
     else case filter (\<lambda>w. prefix w s) wide_space of [] \<Rightarrow> 0 | w # _ \<Rightarrow> length w)"

function lstrip :: "string \<Rightarrow> string" where
  "lstrip s = (if s = [] \<or> ws_len s = 0 then s else lstrip (drop (ws_len s) s))"
  by pat_completeness auto
termination
  by (relation "measure length") (auto simp: neq_Nil_conv)

declare lstrip.simps [simp del]

definition starts_with :: "string \<Rightarrow> string \<Rightarrow> bool" where
  "starts_with p s \<longleftrightarrow> prefix p s"

text \<open>\<^verbatim>\<open>s.split(sep, 1)[1]\<close>: what follows the first occurrence, if there is one.\<close>

fun after_first :: "string \<Rightarrow> string \<Rightarrow> string option" where
  "after_first sep s = (if prefix sep s then Some (drop (length sep) s)
     else (case s of [] \<Rightarrow> None | _ # cs \<Rightarrow> after_first sep cs))"

declare after_first.simps [simp del]

text \<open>\<^verbatim>\<open>sep.join(xs)\<close>.\<close>

fun join :: "string \<Rightarrow> string list \<Rightarrow> string" where
  "join sep [] = []"
| "join sep [x] = x"
| "join sep (x # y # ys) = x @ sep @ join sep (y # ys)"

end
