(* ===== verification/Bodies.thy ===== *)
theory Bodies
  imports Prelude
begin

text \<open>
  The request bodies of \<^verbatim>\<open>scripts/acceptance.py\<close>: \<^verbatim>\<open>PatternBody\<close>, a byte source
  whose byte at offset \<open>i\<close> is \<open>i mod 251\<close>, \<^verbatim>\<open>MultipartBody\<close>, which wraps it in a
  form upload, and \<^verbatim>\<open>pattern_hash\<close>. The locale \<open>byte_source\<close> is the contract the
  HTTP client and the hash loop rely on; both bodies are instances of it.
\<close>

section \<open>Python slices\<close>

text \<open>\<^verbatim>\<open>xs[i:j]\<close>, negative and out-of-range bounds included.\<close>

definition py_index :: "nat \<Rightarrow> int \<Rightarrow> nat" where
  "py_index n i = (if i < 0 then nat (max 0 (i + int n)) else min (nat i) n)"

definition py_slice :: "'a list \<Rightarrow> int \<Rightarrow> int \<Rightarrow> 'a list" where
  "py_slice xs i j = (let a = py_index (length xs) i; b = py_index (length xs) j
     in take (b - a) (drop a xs))"

definition slice_to :: "'a list \<Rightarrow> int \<Rightarrow> 'a list" where
  "slice_to xs j = take (py_index (length xs) j) xs"

definition slice_from :: "'a list \<Rightarrow> int \<Rightarrow> 'a list" where
  "slice_from xs i = drop (py_index (length xs) i) xs"

lemma slice_partition: "slice_to xs i @ slice_from xs i = xs"
  by (simp add: slice_to_def slice_from_def)

lemma slice_to_pos: "0 < i \<Longrightarrow> xs \<noteq> [] \<Longrightarrow> slice_to xs i \<noteq> []"
  by (simp add: slice_to_def py_index_def)

lemma length_slice_to: "0 \<le> i \<Longrightarrow> int (length (slice_to xs i)) \<le> i"
  by (simp add: slice_to_def py_index_def)

lemma py_slice_inside:
  assumes "0 \<le> i" and "0 \<le> c" and "i + c \<le> int (length xs)"
  shows "py_slice xs i (i + c) = take (nat c) (drop (nat i) xs)"
proof -
  have "min (nat i) (length xs) = nat i" "min (nat (i + c)) (length xs) = nat i + nat c"
    using assms by (simp_all add: min_def nat_add_distrib)
  with assms show ?thesis by (simp add: py_slice_def py_index_def)
qed

lemma upt_split: "i \<le> j \<Longrightarrow> j \<le> k \<Longrightarrow> [i..<j] @ [j..<k] = [i..<k]"
  by (metis le_Suc_ex upt_add_eq_append)

section \<open>The contract of a request body\<close>

locale byte_source =
  fixes read :: "'b \<Rightarrow> int \<Rightarrow> string \<times> 'b"
    and rest :: "'b \<Rightarrow> string"
    and ok :: "'b \<Rightarrow> bool"
  assumes read_ok: "ok b \<Longrightarrow> 0 < n \<Longrightarrow> ok (snd (read b n))"
    and read_rest: "ok b \<Longrightarrow> 0 < n \<Longrightarrow> rest b = fst (read b n) @ rest (snd (read b n))"
    and read_progress: "ok b \<Longrightarrow> 0 < n \<Longrightarrow> rest b \<noteq> [] \<Longrightarrow> fst (read b n) \<noteq> []"
    and read_bound: "ok b \<Longrightarrow> 0 < n \<Longrightarrow> int (length (fst (read b n))) \<le> n"
begin

text \<open>A client reads with amounts of its own choice.\<close>

fun reads :: "'b \<Rightarrow> int list \<Rightarrow> string list \<times> 'b" where
  "reads b [] = ([], b)"
| "reads b (n # ns) = (case read b n of (d, c) \<Rightarrow> case reads c ns of (ds, e) \<Rightarrow> (d # ds, e))"

text \<open>The client's loop \<^verbatim>\<open>while data := read(n)\<close>, with fuel for the iterations.\<close>

fun drain :: "nat \<Rightarrow> int \<Rightarrow> 'b \<Rightarrow> string list option" where
  "drain 0 n b = None"
| "drain (Suc k) n b = (case read b n of (d, c) \<Rightarrow>
     if d = [] then Some [] else map_option ((#) d) (drain k n c))"

lemma reads_rest:
  "ok b \<Longrightarrow> \<forall>n \<in> set ns. 0 < n
    \<Longrightarrow> rest b = concat (fst (reads b ns)) @ rest (snd (reads b ns)) \<and> ok (snd (reads b ns))"
proof (induction ns arbitrary: b)
  case (Cons n ns)
  have "ok (snd (read b n))" using Cons.prems by (auto intro: read_ok)
  moreover have "rest b = fst (read b n) @ rest (snd (read b n))"
    using Cons.prems by (intro read_rest) auto
  ultimately show ?case using Cons.IH [of "snd (read b n)"] Cons.prems(2)
    by (auto split: prod.splits)
qed simp

lemma empty_read_iff: "ok b \<Longrightarrow> 0 < n \<Longrightarrow> fst (read b n) = [] \<longleftrightarrow> rest b = []"
  using read_rest read_progress by fastforce

text \<open>Enough reads deliver everything, whatever their sizes.\<close>

lemma reads_complete:
  "ok b \<Longrightarrow> \<forall>n \<in> set ns. 0 < n \<Longrightarrow> length (rest b) \<le> length ns
    \<Longrightarrow> concat (fst (reads b ns)) = rest b"
proof (induction ns arbitrary: b)
  case (Cons n ns)
  let ?c = "snd (read b n)"
  have b: "rest b = fst (read b n) @ rest ?c" "ok ?c"
    using Cons.prems by (intro read_rest read_ok; simp)+
  have "length (rest ?c) \<le> length ns"
  proof (cases "rest b = []")
    case False
    with Cons.prems have "fst (read b n) \<noteq> []" by (simp add: read_progress)
    then have "Suc (length (rest ?c)) \<le> length (rest b)" unfolding b(1) by (cases "fst (read b n)") auto
    with Cons.prems(3) show ?thesis by simp
  qed (use b in simp)
  with Cons.IH [of ?c] b Cons.prems(2) show ?case by (auto split: prod.splits)
qed simp

text \<open>The loop ends after at most one read per remaining byte and one more.\<close>

lemma drain_complete:
  "ok b \<Longrightarrow> 0 < n \<Longrightarrow> length (rest b) < k \<Longrightarrow> \<exists>ds. drain k n b = Some ds \<and> concat ds = rest b"
proof (induction k arbitrary: b)
  case (Suc k)
  let ?d = "fst (read b n)" and ?c = "snd (read b n)"
  have b: "rest b = ?d @ rest ?c" "ok ?c"
    using Suc.prems by (intro read_rest read_ok; simp)+
  show ?case
  proof (cases "?d = []")
    case True
    then show ?thesis using empty_read_iff [OF Suc.prems(1,2)] by (auto split: prod.splits)
  next
    case False
    then have "length (rest ?c) < length (rest b)" using arg_cong [OF b(1), of length] by simp
    with Suc.prems(3) have "length (rest ?c) < k" by simp
    with b(2) Suc.prems(2) obtain ds where "drain k n ?c = Some ds" "concat ds = rest ?c"
      using Suc.IH [of ?c] by blast
    with False b show ?thesis by (auto split: prod.splits)
  qed
qed simp

end

section \<open>PatternBody\<close>

definition CHUNK :: int where
  "CHUNK = 65536"

definition PATTERN :: string where
  "PATTERN = concat (replicate 263 (map char_of [0..<251::nat]))"

record pattern_body =
  pb_size :: int
  pb_offset :: int

definition pattern_init :: "int \<Rightarrow> pattern_body" where
  "pattern_init nbytes = \<lparr>pb_size = nbytes, pb_offset = 0\<rparr>"

definition pattern_read :: "pattern_body \<Rightarrow> int \<Rightarrow> string \<times> pattern_body" where
  "pattern_read b amount =
     (let count = min (min CHUNK (max 0 amount)) (pb_size b - pb_offset b);
          start = pb_offset b mod 251;
          data = py_slice PATTERN start (start + count)
      in (data, b\<lparr>pb_offset := pb_offset b + count\<rparr>))"

definition pattern_ok :: "pattern_body \<Rightarrow> bool" where
  "pattern_ok b \<longleftrightarrow> 0 \<le> pb_offset b \<and> pb_offset b \<le> pb_size b"

definition pattern_byte :: "nat \<Rightarrow> char" where
  "pattern_byte i = char_of (i mod 251)"

definition pattern_rest :: "pattern_body \<Rightarrow> string" where
  "pattern_rest b = map pattern_byte [nat (pb_offset b)..<nat (pb_size b)]"

lemma nth_concat_replicate:
  "i < n * length xs \<Longrightarrow> concat (replicate n xs) ! i = xs ! (i mod length xs)"
proof (induction n arbitrary: i)
  case (Suc n)
  show ?case
  proof (cases "i < length xs")
    case False
    with Suc show ?thesis by (simp add: nth_append le_mod_geq)
  qed (simp add: nth_append)
qed simp

lemma length_PATTERN: "length PATTERN = 66013"
  by (simp add: PATTERN_def length_concat sum_list_replicate)

lemma nth_PATTERN: "i < 66013 \<Longrightarrow> PATTERN ! i = pattern_byte i"
  by (simp add: PATTERN_def nth_concat_replicate pattern_byte_def)

lemma PATTERN_slice:
  assumes "s < 251" and "c \<le> 65536"
  shows "take c (drop s PATTERN) = map (\<lambda>i. pattern_byte (s + i)) [0..<c]"
  by (rule nth_equalityI) (use assms in \<open>simp_all add: length_PATTERN nth_PATTERN\<close>)

lemma pattern_read_data:
  fixes n :: int
  assumes "pattern_ok b"
  defines "c \<equiv> min (min CHUNK (max 0 n)) (pb_size b - pb_offset b)"
  shows "fst (pattern_read b n) = map pattern_byte [nat (pb_offset b)..<nat (pb_offset b + c)]"
    and "snd (pattern_read b n) = b\<lparr>pb_offset := pb_offset b + c\<rparr>"
proof -
  let ?o = "nat (pb_offset b)" and ?s = "nat (pb_offset b) mod 251"
  have c: "0 \<le> c" "c \<le> 65536" and o: "pb_offset b = int ?o"
    using assms by (auto simp: c_def CHUNK_def pattern_ok_def)
  have s: "pb_offset b mod 251 = int ?s" by (subst o) (simp add: zmod_int)
  have "py_slice PATTERN (int ?s) (int ?s + c) = take (nat c) (drop ?s PATTERN)"
    using c by (subst py_slice_inside) (auto simp: length_PATTERN intro: order_trans [of _ "250 + 65536"])
  also have "\<dots> = map (\<lambda>i. pattern_byte (?s + i)) [0..<nat c]"
    using c by (intro PATTERN_slice) auto
  also have "\<dots> = map (\<lambda>i. pattern_byte (?o + i)) [0..<nat c]"
    by (simp add: pattern_byte_def mod_add_left_eq)
  also have "\<dots> = map pattern_byte [?o..<?o + nat c]"
    by (rule nth_equalityI) auto
  also have "?o + nat c = nat (pb_offset b + c)" using c o by linarith
  finally show "fst (pattern_read b n) = map pattern_byte [?o..<nat (pb_offset b + c)]"
    by (simp add: pattern_read_def Let_def s flip: c_def)
  show "snd (pattern_read b n) = b\<lparr>pb_offset := pb_offset b + c\<rparr>"
    by (simp add: pattern_read_def Let_def c_def)
qed

interpretation pb: byte_source pattern_read pattern_rest pattern_ok
proof unfold_locales
  fix b n assume b: "pattern_ok b" and n: "0 < (n :: int)"
  let ?c = "min (min CHUNK (max 0 n)) (pb_size b - pb_offset b)"
  note step = pattern_read_data [OF b, of n]
  have c: "0 \<le> ?c" "pb_offset b + ?c \<le> pb_size b" "?c \<le> n" and o: "0 \<le> pb_offset b"
    using b n by (auto simp: pattern_ok_def CHUNK_def)
  show "pattern_ok (snd (pattern_read b n))"
    unfolding step(2) pattern_ok_def using c o by simp
  show "pattern_rest b = fst (pattern_read b n) @ pattern_rest (snd (pattern_read b n))"
    unfolding step pattern_rest_def using c o
    by (simp add: upt_split nat_mono flip: map_append)
  show "int (length (fst (pattern_read b n))) \<le> n"
  proof -
    have "int (nat (x + y) - nat x) \<le> n" if "0 \<le> y" "y \<le> n" "0 \<le> x" for x y
      using that by linarith
    from this [OF c(1,3) o] show ?thesis unfolding step length_map length_upt .
  qed
  assume "pattern_rest b \<noteq> []"
  then have "0 < ?c" using n b by (auto simp: pattern_rest_def pattern_ok_def CHUNK_def)
  then have "nat (pb_offset b) < nat (pb_offset b + ?c)" using o by linarith
  then show "fst (pattern_read b n) \<noteq> []" unfolding step map_is_Nil_conv upt_eq_Nil_conv by linarith
qed

section \<open>MultipartBody\<close>

definition crlf :: string where
  "crlf = [CHR 0x0D, CHR 0x0A]"

definition quote :: string where
  "quote = [CHR 0x22]"

definition boundary :: string where
  "boundary = ''uart2llm-acceptance-fixed-boundary-v1''"

record multipart_body =
  mp_prefix :: string
  mp_suffix :: string
  mp_pattern :: pattern_body
  mp_length :: int

definition multipart_prefix :: string where
  "multipart_prefix =
     ''--'' @ boundary @ crlf @ ''Content-Disposition: form-data; name='' @ quote @ ''purpose'' @ quote
       @ crlf @ crlf @ ''fine-tune'' @ crlf
     @ ''--'' @ boundary @ crlf @ ''Content-Disposition: form-data; name='' @ quote @ ''file'' @ quote
       @ ''; filename='' @ quote @ ''pattern.bin'' @ quote @ crlf
     @ ''Content-Type: application/octet-stream'' @ crlf @ crlf"

definition multipart_suffix :: string where
  "multipart_suffix = crlf @ ''--'' @ boundary @ ''--'' @ crlf"

definition multipart_init :: "int \<Rightarrow> multipart_body" where
  "multipart_init nbytes = \<lparr>mp_prefix = multipart_prefix, mp_suffix = multipart_suffix,
     mp_pattern = pattern_init nbytes,
     mp_length = int (length multipart_prefix) + nbytes + int (length multipart_suffix)\<rparr>"

definition multipart_read :: "multipart_body \<Rightarrow> int \<Rightarrow> string \<times> multipart_body" where
  "multipart_read b n =
     (let amount = min CHUNK n in
      if mp_prefix b \<noteq> [] then
        (slice_to (mp_prefix b) amount, b\<lparr>mp_prefix := slice_from (mp_prefix b) amount\<rparr>)
      else case pattern_read (mp_pattern b) amount of (data, p) \<Rightarrow>
        if data \<noteq> [] then (data, b\<lparr>mp_pattern := p\<rparr>)
        else (slice_to (mp_suffix b) amount,
              b\<lparr>mp_pattern := p, mp_suffix := slice_from (mp_suffix b) amount\<rparr>))"

definition multipart_ok :: "multipart_body \<Rightarrow> bool" where
  "multipart_ok b \<longleftrightarrow> pattern_ok (mp_pattern b)"

definition multipart_rest :: "multipart_body \<Rightarrow> string" where
  "multipart_rest b = mp_prefix b @ pattern_rest (mp_pattern b) @ mp_suffix b"

interpretation mb: byte_source multipart_read multipart_rest multipart_ok
proof unfold_locales
  fix b n assume b: "multipart_ok b" and n: "0 < (n :: int)"
  let ?m = "min CHUNK n" and ?p = "mp_pattern b"
  have p: "pattern_ok ?p" and m: "0 < ?m" "?m \<le> n" using b n by (simp_all add: multipart_ok_def CHUNK_def)
  note pat = pb.read_ok [OF p m(1)] pb.read_rest [OF p m(1)] pb.read_bound [OF p m(1)]
    pb.empty_read_iff [OF p m(1)]
  note cut = slice_partition [of "mp_prefix b" ?m] slice_partition [of "mp_suffix b" ?m]
  have len: "int (length (slice_to xs ?m)) \<le> n" for xs :: string
    using length_slice_to [of ?m xs] m by linarith
  show "multipart_ok (snd (multipart_read b n))"
    using b pat(1) by (auto simp: multipart_read_def multipart_ok_def Let_def split: prod.splits)
  show "multipart_rest b = fst (multipart_read b n) @ multipart_rest (snd (multipart_read b n))"
    using cut pat(2,4) by (auto simp: multipart_read_def multipart_rest_def Let_def split: prod.splits)
  show "int (length (fst (multipart_read b n))) \<le> n"
    using len m(2) pat(3) by (auto simp: multipart_read_def Let_def split: prod.splits)
  assume "multipart_rest b \<noteq> []"
  then show "fst (multipart_read b n) \<noteq> []"
    using pat(4) slice_to_pos [OF m(1), of "mp_prefix b"] slice_to_pos [OF m(1), of "mp_suffix b"]
    by (auto simp: multipart_read_def multipart_rest_def Let_def split: prod.splits)
qed

section \<open>pattern\_hash\<close>

text \<open>
  \<^verbatim>\<open>while data := source.read(): digest.update(data)\<close>: the chunks the loop feeds to the
  digest. A streaming digest of the chunks is the digest \<open>H\<close> of their concatenation.
\<close>

definition pattern_loop :: "int \<Rightarrow> pattern_body \<Rightarrow> string list option" where
  "pattern_loop n b = pb.drain (nat n + 1) CHUNK b"

definition pattern_hash :: "(string \<Rightarrow> string) \<Rightarrow> int \<Rightarrow> string option" where
  "pattern_hash H n = map_option (H \<circ> concat) (pattern_loop n (pattern_init n))"

lemma pattern_init_ok: "0 \<le> n \<Longrightarrow> pattern_ok (pattern_init n)"
  by (simp add: pattern_ok_def pattern_init_def)

lemma pattern_init_rest: "pattern_rest (pattern_init n) = map pattern_byte [0..<nat n]"
  by (simp add: pattern_rest_def pattern_init_def)

lemma multipart_init_ok: "0 \<le> n \<Longrightarrow> multipart_ok (multipart_init n)"
  by (simp add: multipart_ok_def multipart_init_def pattern_init_ok)

text \<open>
  C40. The hash loop terminates for every size and hashes exactly the bytes
  \<open>0 mod 251, 1 mod 251, ..., (n-1) mod 251\<close>: the 65536-byte chunk boundaries and the
  wrap of the 66013-byte pattern table leave no trace.
\<close>

theorem pattern_hash_correct:
  assumes "0 \<le> n"
  shows "pattern_hash H n = Some (H (map (\<lambda>i. char_of (i mod 251)) [0..<nat n]))"
proof -
  have "length (pattern_rest (pattern_init n)) < nat n + 1" by (simp add: pattern_init_rest)
  then obtain ds where "pattern_loop n (pattern_init n) = Some ds"
      "concat ds = map pattern_byte [0..<nat n]"
    using pb.drain_complete [OF pattern_init_ok [OF assms], of CHUNK]
    by (fastforce simp: pattern_loop_def CHUNK_def pattern_init_rest)
  then show ?thesis by (simp add: pattern_hash_def pattern_byte_def [abs_def])
qed

theorem pattern_hash_correct_witness:
  "pattern_hash (\<lambda>s. s) 300 = Some (map (\<lambda>i. char_of (i mod 251)) [0..<nat 300])"
  using pattern_hash_correct [of 300 "\<lambda>s. s"] by simp

text \<open>
  However the HTTP client chooses its (positive) read sizes, the multipart body
  delivers the form prefix, then the pattern bytes in order, then the closing boundary,
  and the total is exactly the declared content length.
\<close>

lemma multipart_delivery:
  assumes "0 \<le> n" and "\<forall>k \<in> set ns. 0 < k" and "mp_length (multipart_init n) \<le> int (length ns)"
  shows "concat (fst (mb.reads (multipart_init n) ns))
           = multipart_prefix @ map (\<lambda>i. char_of (i mod 251)) [0..<nat n] @ multipart_suffix
       \<and> int (length (concat (fst (mb.reads (multipart_init n) ns)))) = mp_length (multipart_init n)"
proof -
  let ?b = "multipart_init n"
  have rest: "multipart_rest ?b = multipart_prefix @ map pattern_byte [0..<nat n] @ multipart_suffix"
    by (simp add: multipart_rest_def multipart_init_def pattern_init_rest)
  then have len: "int (length (multipart_rest ?b)) = mp_length ?b"
    using assms(1) by (simp add: multipart_init_def)
  with assms have "concat (fst (mb.reads ?b ns)) = multipart_rest ?b"
    by (intro mb.reads_complete multipart_init_ok) auto
  with rest len show ?thesis by (simp add: pattern_byte_def [abs_def])
qed

theorem multipart_delivery_witness:
  "concat (fst (mb.reads (multipart_init 3) (replicate 400 100)))
     = multipart_prefix @ map (\<lambda>i. char_of (i mod 251)) [0..<nat 3] @ multipart_suffix"
  using multipart_delivery [of 3 "replicate 400 100"]
  by (simp add: multipart_init_def multipart_prefix_def multipart_suffix_def crlf_def quote_def boundary_def)

end
