(* ===== verification/PyValue.thy ===== *)
theory PyValue
  imports Complex_Main Prelude
begin

text \<open>
  JSON-shaped Python values and the operations the scripts apply to them: subscripting,
  \<^verbatim>\<open>dict.get\<close>, truth values, equality and type tests, each with the exception Python
  raises on the wrong type. A dictionary is its items in insertion order; assignment is
  \<^const>\<open>AList.update\<close>, which replaces in place or appends, as Python does. A finite
  float is an exact rational: rounding is not modelled.
\<close>

datatype pyfloat = Finite rat | PosInf | NegInf | NaN

datatype pyval =
    PNone
  | PBool bool
  | PInt int
  | PFloat pyfloat
  | PStr string
  | PList "pyval list"
  | PDict "(string \<times> pyval) list"

type_synonym pydict = "(string \<times> pyval) list"

lemma size_dict_entry [termination_simp]:
  "(k, v) \<in> set d \<Longrightarrow> size v < Suc (size_list (size_prod (\<lambda>_. 0) size) d)"
  by (induction d) auto

lemma size_list_entry [termination_simp]:
  "v \<in> set vs \<Longrightarrow> size (v :: pyval) < Suc (size_list size vs)"
  by (induction vs) auto

section \<open>Truth value and equality\<close>

fun truthy :: "pyval \<Rightarrow> bool" where
  "truthy PNone = False"
| "truthy (PBool b) = b"
| "truthy (PInt n) = (n \<noteq> 0)"
| "truthy (PFloat f) = (f \<noteq> Finite 0)"
| "truthy (PStr s) = (s \<noteq> [])"
| "truthy (PList vs) = (vs \<noteq> [])"
| "truthy (PDict d) = (d \<noteq> [])"

text \<open>\<^verbatim>\<open>bool\<close> is a subclass of \<^verbatim>\<open>int\<close>: \<^verbatim>\<open>True == 1 == 1.0\<close>.\<close>

fun num_of :: "pyval \<Rightarrow> rat option" where
  "num_of (PBool b) = Some (if b then 1 else 0)"
| "num_of (PInt n) = Some (of_int n)"
| "num_of (PFloat (Finite r)) = Some r"
| "num_of _ = None"

fun py_eq :: "pyval \<Rightarrow> pyval \<Rightarrow> bool" where
  "py_eq (PList vs) (PList ws) = list_all2 py_eq vs ws"
| "py_eq (PDict d) (PDict e) \<longleftrightarrow> length d = length e \<and>
     list_all (\<lambda>(k, v). case map_of e k of None \<Rightarrow> False | Some w \<Rightarrow> py_eq v w) d"
| "py_eq v w \<longleftrightarrow> (case (num_of v, num_of w) of
       (Some a, Some b) \<Rightarrow> a = b
     | _ \<Rightarrow> v = w \<and> v \<noteq> PFloat NaN)"

section \<open>Access\<close>

text \<open>\<^verbatim>\<open>v[k]\<close> with a string key.\<close>

fun getitem :: "pyval \<Rightarrow> string \<Rightarrow> pyval res" where
  "getitem (PDict d) k = (case map_of d k of None \<Rightarrow> Inl (Exc KeyError k) | Some v \<Rightarrow> Inr v)"
| "getitem _ k = Inl (Exc TypeError ''type'')"

text \<open>\<^verbatim>\<open>v.get(k, dflt)\<close>.\<close>

fun pyget :: "pyval \<Rightarrow> string \<Rightarrow> pyval \<Rightarrow> pyval res" where
  "pyget (PDict d) k dflt = Inr (case map_of d k of None \<Rightarrow> dflt | Some v \<Rightarrow> v)"
| "pyget _ k dflt = Inl (Exc AttributeError ''get'')"

text \<open>\<^verbatim>\<open>v.get(k) == s\<close>.\<close>

definition get_eq :: "pyval \<Rightarrow> string \<Rightarrow> string \<Rightarrow> bool res" where
  "get_eq v k s = rbind (pyget v k PNone) (\<lambda>x. Inr (x = PStr s))"

lemma dropWhile_shorter [termination_simp]: "length (dropWhile p xs) < Suc (length xs)"
  by (simp add: length_dropWhile_le less_Suc_eq_le)

text \<open>\<^verbatim>\<open>for x in v\<close>: a list's elements, a dictionary's keys, a string's characters.\<close>

fun code_points :: "string \<Rightarrow> string list" where
  "code_points [] = []"
| "code_points (c # cs) =
     (c # takeWhile is_cont cs) # code_points (dropWhile is_cont cs)"

fun iterate :: "pyval \<Rightarrow> pyval list res" where
  "iterate (PList vs) = Inr vs"
| "iterate (PDict d) = Inr (map (PStr \<circ> fst) d)"
| "iterate (PStr s) = Inr (map PStr (code_points s))"
| "iterate _ = Inl (Exc TypeError ''type'')"

text \<open>\<^verbatim>\<open>v.items()\<close>.\<close>

fun items :: "pyval \<Rightarrow> pydict res" where
  "items (PDict d) = Inr d"
| "items _ = Inl (Exc AttributeError ''items'')"

text \<open>\<^verbatim>\<open>v or w\<close>.\<close>

definition py_or :: "pyval \<Rightarrow> pyval \<Rightarrow> pyval" where
  "py_or v w = (if truthy v then v else w)"

fun is_dict :: "pyval \<Rightarrow> bool" where
  "is_dict (PDict _) = True"
| "is_dict _ = False"

fun is_list :: "pyval \<Rightarrow> bool" where
  "is_list (PList _) = True"
| "is_list _ = False"

fun is_str :: "pyval \<Rightarrow> bool" where
  "is_str (PStr _) = True"
| "is_str _ = False"

text \<open>\<^verbatim>\<open>type(v) is int\<close> excludes the booleans.\<close>

fun int_of :: "pyval \<Rightarrow> int option" where
  "int_of (PInt n) = Some n"
| "int_of _ = None"

text \<open>\<^verbatim>\<open>v == n\<close> for an integer literal.\<close>

fun eq_int :: "pyval \<Rightarrow> int \<Rightarrow> bool" where
  "eq_int (PInt m) n = (m = n)"
| "eq_int (PBool b) n = ((if b then 1 else 0) = n)"
| "eq_int (PFloat f) n = (f = Finite (of_int n))"
| "eq_int _ n = False"

section \<open>Numbers\<close>

text \<open>\<^verbatim>\<open>v >= 0\<close> and \<^verbatim>\<open>v + w\<close> on ints and floats.\<close>

fun nonneg :: "pyval \<Rightarrow> bool" where
  "nonneg (PFloat PosInf) = True"
| "nonneg v = (case num_of v of None \<Rightarrow> False | Some r \<Rightarrow> 0 \<le> r)"

fun float_add :: "pyfloat \<Rightarrow> pyfloat \<Rightarrow> pyfloat" where
  "float_add (Finite a) (Finite b) = Finite (a + b)"
| "float_add NaN _ = NaN"
| "float_add _ NaN = NaN"
| "float_add PosInf NegInf = NaN"
| "float_add NegInf PosInf = NaN"
| "float_add PosInf _ = PosInf"
| "float_add _ PosInf = PosInf"
| "float_add NegInf _ = NegInf"
| "float_add _ NegInf = NegInf"

fun num_add :: "pyval \<Rightarrow> pyval \<Rightarrow> pyval res" where
  "num_add (PInt a) (PInt b) = Inr (PInt (a + b))"
| "num_add (PInt a) (PFloat g) = Inr (PFloat (float_add (Finite (of_int a)) g))"
| "num_add (PFloat f) (PInt b) = Inr (PFloat (float_add f (Finite (of_int b))))"
| "num_add (PFloat f) (PFloat g) = Inr (PFloat (float_add f g))"
| "num_add _ _ = Inl (Exc TypeError ''type'')"

section \<open>Containers of unknown type\<close>

text \<open>\<^verbatim>\<open>len(v)\<close>, \<^verbatim>\<open>v[0]\<close> and \<^verbatim>\<open>k in v\<close>; JSON objects have string keys only.\<close>

fun py_length :: "pyval \<Rightarrow> nat res" where
  "py_length (PList vs) = Inr (length vs)"
| "py_length (PDict d) = Inr (length d)"
| "py_length (PStr s) = Inr (py_len s)"
| "py_length _ = Inl (Exc TypeError ''type'')"

fun first_item :: "pyval \<Rightarrow> pyval res" where
  "first_item (PList vs) = (case vs of [] \<Rightarrow> Inl (Exc IndexError ''index'') | v # _ \<Rightarrow> Inr v)"
| "first_item (PStr s) = (case code_points s of [] \<Rightarrow> Inl (Exc IndexError ''index'') | c # _ \<Rightarrow> Inr (PStr c))"
| "first_item (PDict d) = Inl (Exc KeyError ''0'')"
| "first_item _ = Inl (Exc TypeError ''type'')"

fun py_in :: "string \<Rightarrow> pyval \<Rightarrow> bool res" where
  "py_in k (PDict d) = Inr (k \<in> fst ` set d)"
| "py_in k (PList vs) = Inr (PStr k \<in> set vs)"
| "py_in k (PStr s) = Inr (contains k s)"
| "py_in k _ = Inl (Exc TypeError ''type'')"

fun hashable :: "pyval \<Rightarrow> bool" where
  "hashable (PList _) = False"
| "hashable (PDict _) = False"
| "hashable _ = True"

text \<open>
  The functions of the standard library that the scripts call on whole documents:
  \<^verbatim>\<open>json.loads\<close> (None where it raises \<^verbatim>\<open>JSONDecodeError\<close>), \<^verbatim>\<open>json.dumps\<close> with and
  without \<^verbatim>\<open>ensure_ascii=False\<close>, \<^verbatim>\<open>hashlib.sha256(..).hexdigest()\<close> and \<^verbatim>\<open>str\<close> of a
  value that is not a string. Every definition takes them as an argument, and every
  theorem holds for all of them.
\<close>

record pylib =
  json_loads :: "string \<Rightarrow> pyval option"
  dumps :: "pyval \<Rightarrow> string"
  dumps_ascii :: "pyval \<Rightarrow> string"
  sha256 :: "string \<Rightarrow> string"
  repr_of :: "pyval \<Rightarrow> string"

definition to_str :: "pylib \<Rightarrow> pyval \<Rightarrow> string" where
  "to_str L v = (case v of PStr s \<Rightarrow> s | _ \<Rightarrow> repr_of L v)"

text \<open>\<^verbatim>\<open>json.loads(v)\<close> of a value: a type error unless it is a string.\<close>

definition loads :: "pylib \<Rightarrow> string \<Rightarrow> pyval res" where
  "loads L s = (case json_loads L s of None \<Rightarrow> Inl (Exc JSONDecodeError ''json'') | Some v \<Rightarrow> Inr v)"

definition loads_val :: "pylib \<Rightarrow> pyval \<Rightarrow> pyval res" where
  "loads_val L v = (case v of PStr s \<Rightarrow> loads L s | _ \<Rightarrow> Inl (Exc TypeError ''type''))"

section \<open>Every dictionary entry of a value, at any depth\<close>

fun entries :: "pyval \<Rightarrow> (string \<times> pyval) list" where
  "entries (PDict d) = concat (map (\<lambda>(k, v). (k, v) # entries v) d)"
| "entries (PList vs) = concat (map entries vs)"
| "entries _ = []"

lemma code_points_concat: "concat (code_points s) = s"
  by (induction s rule: code_points.induct) auto

lemma pyget_Inr_iff: "pyget v k d = Inr w \<longleftrightarrow>
    (\<exists>e. v = PDict e \<and> w = (case map_of e k of None \<Rightarrow> d | Some x \<Rightarrow> x))"
  by (cases v) auto

lemma getitem_Inr_iff: "getitem v k = Inr w \<longleftrightarrow> (\<exists>e. v = PDict e \<and> map_of e k = Some w)"
  by (cases v) (auto split: option.splits)

lemma pyval_induct [case_names None Bool Int Float Str List Dict]:
  assumes "P PNone" and "\<And>b. P (PBool b)" and "\<And>n. P (PInt n)" and "\<And>f. P (PFloat f)"
    and "\<And>s. P (PStr s)" and "\<And>vs. (\<And>v. v \<in> set vs \<Longrightarrow> P v) \<Longrightarrow> P (PList vs)"
    and "\<And>d. (\<And>k v. (k, v) \<in> set d \<Longrightarrow> P v) \<Longrightarrow> P (PDict d)"
  shows "P v"
proof (induction v)
  case (PDict d)
  have "P v" if "(k, v) \<in> set d" for k v
    using PDict [OF that, of v] by simp
  then show ?case by (rule assms(7))
qed (use assms in auto)

end
