(* ===== verification/Measurements.thy ===== *)
theory Measurements
  imports PyValue "HOL-Library.Multiset"
begin

text \<open>
  \<^verbatim>\<open>Measurements\<close> of \<^verbatim>\<open>scripts/acceptance.py\<close>: per-operation counters with bounded
  samples, memory rows kept as running sums, order statistics and the least-squares trend
  of the report. Times and values are exact rationals. The sums are shown to be those of
  the whole sample history, the trend of exactly linear data is its slope, and every
  bounded collection stays within its bound.
\<close>

section \<open>State\<close>

text \<open>\<^verbatim>\<open>deque(maxlen=m).append(x)\<close>.\<close>

definition deque_append :: "nat \<Rightarrow> 'a list \<Rightarrow> 'a \<Rightarrow> 'a list" where
  "deque_append m xs x = drop (length xs + 1 - m) (xs @ [x])"

record op_row =
  attempts :: nat
  successes :: nat
  failures :: nat
  nbytes :: int
  total_seconds :: rat
  latency_samples :: "rat list"
  first_event_samples :: "rat list"
  errors :: "(string \<times> nat) list"

record failure_entry =
  f_operation :: string
  f_error_type :: string
  f_message :: string

record mem_row =
  m_samples :: nat
  m_first :: rat
  m_last :: rat
  m_min :: rat
  m_max :: rat
  sum_t :: rat
  sum_y :: rat
  sum_tt :: rat
  sum_ty :: rat

record telemetry_entry =
  t_elapsed :: rat
  t_connected :: pyval
  t_paired :: pyval
  t_memory :: pydict

record measurements =
  ops :: "(string \<times> op_row) list"
  recent_failures :: "failure_entry list"
  telemetry :: "telemetry_entry list"
  memory :: "(string \<times> mem_row) list"
  telemetry_count :: nat
  telemetry_failures :: nat

definition measurements_init :: measurements where
  "measurements_init = \<lparr>ops = [], recent_failures = [], telemetry = [], memory = [],
     telemetry_count = 0, telemetry_failures = 0\<rparr>"

section \<open>Operations\<close>

definition empty_row :: op_row where
  "empty_row = \<lparr>attempts = 0, successes = 0, failures = 0, nbytes = 0, total_seconds = 0,
     latency_samples = [], first_event_samples = [], errors = []\<rparr>"

text \<open>\<^verbatim>\<open>errors[name] += 1\<close> on a \<^verbatim>\<open>Counter\<close>.\<close>

definition counter_inc :: "'k \<Rightarrow> ('k \<times> nat) list \<Rightarrow> ('k \<times> nat) list" where
  "counter_inc k c = AList.update k (Suc (case map_of c k of None \<Rightarrow> 0 | Some n \<Rightarrow> n)) c"

fun record_op :: "string \<Rightarrow> rat \<Rightarrow> int \<Rightarrow> rat option \<Rightarrow> exc option \<Rightarrow> measurements \<Rightarrow> measurements" where
  "record_op operation seconds cnt first_event err m =
     (let item = (case map_of (ops m) operation of None \<Rightarrow> empty_row | Some r \<Rightarrow> r);
          item = item\<lparr>attempts := attempts item + 1, total_seconds := total_seconds item + seconds\<rparr>
      in case err of
        Some e \<Rightarrow>
          let name = class_name (exc_kind e) in
          m\<lparr>ops := AList.update operation
               (item\<lparr>failures := failures item + 1, errors := counter_inc name (errors item)\<rparr>) (ops m),
            recent_failures := deque_append 32 (recent_failures m)
               \<lparr>f_operation = operation, f_error_type = name, f_message = py_take 300 (exc_msg e)\<rparr>\<rparr>
      | None \<Rightarrow>
          let item = item\<lparr>successes := successes item + 1, nbytes := nbytes item + cnt,
                latency_samples := deque_append 1024 (latency_samples item) seconds\<rparr>;
              item = (case first_event of None \<Rightarrow> item
                | Some t \<Rightarrow> item\<lparr>first_event_samples := deque_append 1024 (first_event_samples item) t\<rparr>)
          in m\<lparr>ops := AList.update operation item (ops m)\<rparr>)"

definition telemetry_paths :: "(string \<times> string list) list" where
  "telemetry_paths =
    [(''device.memory.internal_free'', [''device'', ''memory'', ''internal_free'']),
     (''device.memory.internal_min_free'', [''device'', ''memory'', ''internal_min_free'']),
     (''device.memory.psram_free'', [''device'', ''memory'', ''psram_free'']),
     (''device.memory.largest_internal_block'', [''device'', ''memory'', ''largest_internal_block'']),
     (''host.memory.rss_bytes'', [''host'', ''memory'', ''rss_bytes'']),
     (''host.memory.heap_bytes'', [''host'', ''memory'', ''heap_bytes''])]"

text \<open>\<^verbatim>\<open>value = value.get(part) if isinstance(value, dict) else None\<close> along a path.\<close>

fun walk :: "pyval \<Rightarrow> string list \<Rightarrow> pyval" where
  "walk v [] = v"
| "walk v (p # ps) = walk (case v of PDict d \<Rightarrow> (case map_of d p of None \<Rightarrow> PNone | Some w \<Rightarrow> w)
     | _ \<Rightarrow> PNone) ps"

text \<open>An int or a finite float, not a bool.\<close>

fun measured :: "pyval \<Rightarrow> rat option" where
  "measured (PInt n) = Some (of_int n)"
| "measured (PFloat (Finite r)) = Some r"
| "measured _ = None"

definition fresh_mem_row :: "rat \<Rightarrow> mem_row" where
  "fresh_mem_row y = \<lparr>m_samples = 0, m_first = y, m_last = y, m_min = y, m_max = y,
     sum_t = 0, sum_y = 0, sum_tt = 0, sum_ty = 0\<rparr>"

definition add_sample :: "rat \<Rightarrow> rat \<Rightarrow> mem_row \<Rightarrow> mem_row" where
  "add_sample t y row = row\<lparr>m_samples := m_samples row + 1,
     m_last := y, m_min := min (m_min row) y, m_max := max (m_max row) y,
     sum_t := sum_t row + t, sum_y := sum_y row + y,
     sum_tt := sum_tt row + t * t, sum_ty := sum_ty row + t * y\<rparr>"

text \<open>The loop over the paths: the rows and the values selected so far.\<close>

fun sample_paths :: "rat \<Rightarrow> pyval \<Rightarrow> (string \<times> string list) list
    \<Rightarrow> (string \<times> mem_row) list \<times> pydict \<Rightarrow> (string \<times> mem_row) list \<times> pydict" where
  "sample_paths t st [] acc = acc"
| "sample_paths t st ((path, parts) # ps) (rows, selected) =
     (let v = walk st parts in
      case measured v of
        None \<Rightarrow> sample_paths t st ps (rows, selected)
      | Some y \<Rightarrow>
          let row = (case map_of rows path of None \<Rightarrow> fresh_mem_row y | Some r \<Rightarrow> r)
          in sample_paths t st ps
               (AList.update path (add_sample t y row) rows, AList.update path v selected))"

text \<open>\<^verbatim>\<open>round(x, 3)\<close>, ties to even.\<close>

definition round_half_even :: "rat \<Rightarrow> int" where
  "round_half_even x = (let f = \<lfloor>x\<rfloor>; d = x - of_int f in
     if d < 1 / 2 then f else if 1 / 2 < d then f + 1 else if even f then f else f + 1)"

definition round3 :: "rat \<Rightarrow> rat" where
  "round3 x = of_int (round_half_even (x * 1000)) / 1000"

text \<open>
  A state that is not a dictionary is counted and then raises at \<^verbatim>\<open>state.get\<close>; the
  telemetry loop of \<^verbatim>\<open>main\<close> counts that as a telemetry failure.
\<close>

definition sample :: "rat \<Rightarrow> pyval \<Rightarrow> (measurements, unit) act" where
  "sample elapsed st =
     andthen (modify (\<lambda>m. m\<lparr>telemetry_count := telemetry_count m + 1\<rparr>))
     (bind (gets (\<lambda>m. sample_paths elapsed st telemetry_paths (memory m, []))) (\<lambda>(rows, selected).
      andthen (modify (\<lambda>m. m\<lparr>memory := rows\<rparr>))
     (bind (lift (pyget st ''connected'' PNone)) (\<lambda>connected.
      bind (lift (pyget st ''paired'' PNone)) (\<lambda>paired.
      modify (\<lambda>m. m\<lparr>telemetry := deque_append 120 (telemetry m)
        \<lparr>t_elapsed = round3 elapsed, t_connected = connected, t_paired = paired,
         t_memory = selected\<rparr>\<rparr>))))))"

definition telemetry_step :: "rat \<Rightarrow> pyval res \<Rightarrow> (measurements, unit) act" where
  "telemetry_step elapsed reply =
     catch is_exception (bind (lift reply) (sample elapsed))
       (\<lambda>_. modify (\<lambda>m. m\<lparr>telemetry_failures := telemetry_failures m + 1\<rparr>))"

section \<open>Report\<close>

text \<open>\<^verbatim>\<open>statistics.median\<close> of a sorted nonempty list.\<close>

definition median_sorted :: "rat list \<Rightarrow> rat" where
  "median_sorted xs = (let n = length xs in
     if odd n then xs ! (n div 2) else (xs ! (n div 2 - 1) + xs ! (n div 2)) / 2)"

text \<open>
  \<^verbatim>\<open>max(0, math.ceil(len(ordered) * .95) - 1)\<close>. The float product rounds to the exact
  integer at every multiple of 20, so the ceiling is that of \<open>19 n / 20\<close>.
\<close>

definition p95_index :: "nat \<Rightarrow> nat" where
  "p95_index n = (19 * n + 19) div 20 - 1"

record dist =
  d_samples :: nat
  d_min :: rat
  d_median :: rat
  d_p95 :: rat
  d_max :: rat

definition distribution :: "rat list \<Rightarrow> dist option" where
  "distribution samples = (let ordered = sort samples in
     if ordered = [] then None
     else Some \<lparr>d_samples = length ordered, d_min = ordered ! 0, d_median = median_sorted ordered,
       d_p95 = ordered ! p95_index (length ordered), d_max = last ordered\<rparr>)"

definition denominator :: "mem_row \<Rightarrow> rat" where
  "denominator row = of_nat (m_samples row) * sum_tt row - sum_t row ^ 2"

definition trend :: "mem_row \<Rightarrow> rat option" where
  "trend row = (if 0 < denominator row
     then Some ((of_nat (m_samples row) * sum_ty row - sum_t row * sum_y row) / denominator row * 3600)
     else None)"

record op_report =
  r_attempts :: nat
  r_successes :: nat
  r_failures :: nat
  r_bytes :: int
  r_total_seconds :: rat
  r_errors :: "(string \<times> nat) list"
  r_latency :: "dist option"
  r_first_event :: "dist option"
  r_bytes_per_second :: rat

definition report_row :: "rat \<Rightarrow> op_row \<Rightarrow> op_report" where
  "report_row elapsed row =
     \<lparr>r_attempts = attempts row, r_successes = successes row, r_failures = failures row,
      r_bytes = nbytes row, r_total_seconds = total_seconds row, r_errors = errors row,
      r_latency = distribution (latency_samples row),
      r_first_event = distribution (first_event_samples row),
      r_bytes_per_second = of_int (nbytes row) / max elapsed (1 / 1000)\<rparr>"

record report =
  operations :: "(string \<times> op_report) list"
  report_failures :: "failure_entry list"
  memory_trends :: "(string \<times> (nat \<times> rat \<times> rat \<times> rat \<times> rat \<times> rat option)) list"
  telemetry_samples :: nat
  report_telemetry_failures :: nat
  recent_telemetry :: "telemetry_entry list"

definition make_report :: "rat \<Rightarrow> measurements \<Rightarrow> report" where
  "make_report elapsed m =
     \<lparr>operations = map (\<lambda>(name, row). (name, report_row elapsed row)) (ops m),
      report_failures = recent_failures m,
      memory_trends = map (\<lambda>(name, row). (name, m_samples row, m_first row, m_last row,
         m_min row, m_max row, trend row)) (memory m),
      telemetry_samples = telemetry_count m,
      report_telemetry_failures = telemetry_failures m,
      recent_telemetry = telemetry m\<rparr>"

section \<open>Whole runs\<close>

datatype meas_event =
    Work string rat int "rat option" "exc option"
  | Poll rat "pyval res"

fun meas_step :: "meas_event \<Rightarrow> measurements \<Rightarrow> measurements" where
  "meas_step (Work name secs cnt first_event err) m = record_op name secs cnt first_event err m"
| "meas_step (Poll elapsed reply) m = snd (telemetry_step elapsed reply m)"

definition meas_run :: "meas_event list \<Rightarrow> measurements" where
  "meas_run es = fold meas_step es measurements_init"

subsection \<open>Counters and bounds\<close>

definition row_ok :: "op_row \<Rightarrow> bool" where
  "row_ok r \<longleftrightarrow> attempts r = successes r + failures r
     \<and> length (latency_samples r) = min 1024 (successes r)
     \<and> length (first_event_samples r) \<le> min 1024 (successes r)
     \<and> sum_list (map snd (errors r)) = failures r"

definition meas_ok :: "measurements \<Rightarrow> bool" where
  "meas_ok m \<longleftrightarrow> (\<forall>(name, r) \<in> set (ops m). row_ok r) \<and> length (recent_failures m) \<le> 32
     \<and> length (telemetry m) \<le> 120 \<and> length (telemetry m) \<le> telemetry_count m"

lemma length_deque_append [simp]:
  "length (deque_append m xs x) = (if length xs < m then length xs + 1 else m)"
  by (auto simp: deque_append_def)

lemma sum_counter_inc: "sum_list (map snd (counter_inc k c)) = Suc (sum_list (map snd c))"
  unfolding counter_inc_def by (induction c) auto

lemma set_AList_update: "set (AList.update k v xs) \<subseteq> insert (k, v) (set xs)"
  by (induction xs) auto

lemma row_ok_empty: "row_ok empty_row"
  by (simp add: row_ok_def empty_row_def)

lemma store_row_ok:
  assumes "meas_ok m" and "row_ok r"
  shows "meas_ok (m\<lparr>ops := AList.update name r (ops m)\<rparr>)"
    and "meas_ok (m\<lparr>ops := AList.update name r (ops m),
           recent_failures := deque_append 32 (recent_failures m) f\<rparr>)"
  using assms set_AList_update [of name r "ops m"] by (auto simp: meas_ok_def)

lemma row_success_ok:
  "row_ok r \<Longrightarrow> row_ok (r\<lparr>attempts := Suc (attempts r), total_seconds := t, successes := Suc (successes r),
     nbytes := n, latency_samples := deque_append 1024 (latency_samples r) x\<rparr>)"
  "row_ok r \<Longrightarrow> row_ok (r\<lparr>attempts := Suc (attempts r), total_seconds := t, successes := Suc (successes r),
     nbytes := n, latency_samples := deque_append 1024 (latency_samples r) x,
     first_event_samples := deque_append 1024 (first_event_samples r) y\<rparr>)"
  by (auto simp: row_ok_def min_def split: if_splits)

lemma row_failure_ok:
  "row_ok r \<Longrightarrow> row_ok (r\<lparr>attempts := Suc (attempts r), total_seconds := t, failures := Suc (failures r),
     errors := counter_inc name (errors r)\<rparr>)"
  by (simp add: row_ok_def sum_counter_inc)

lemma found_row_ok: "meas_ok m \<Longrightarrow> row_ok (case map_of (ops m) name of None \<Rightarrow> empty_row | Some r \<Rightarrow> r)"
  using row_ok_empty by (auto simp: meas_ok_def split: option.splits dest: map_of_SomeD)

lemma record_op_ok: "meas_ok m \<Longrightarrow> meas_ok (record_op name secs cnt fe err m)"
  using found_row_ok [of m name]
  by (cases err; cases fe) (simp_all add: Let_def store_row_ok row_success_ok row_failure_ok)

lemma sample_keeps_ok: "keeps meas_ok (sample elapsed st)"
proof -
  have "meas_ok (snd (sample elapsed st m))" if "meas_ok m" for m
    using that by (cases st) (auto simp: sample_def meas_ok_def act_simps split: prod.splits)
  then show ?thesis by (simp add: keeps_def)
qed

lemma meas_step_ok: "meas_ok m \<Longrightarrow> meas_ok (meas_step e m)"
proof (induction e m rule: meas_step.induct)
  case (2 elapsed reply m)
  have "keeps meas_ok (telemetry_step elapsed reply)"
    unfolding telemetry_step_def
    by (intro keeps_intro sample_keeps_ok) (simp add: meas_ok_def)
  with 2 show ?case by (simp add: keeps_def)
qed (simp add: record_op_ok del: record_op.simps)

lemma fold_keeps: "(\<And>e s. I s \<Longrightarrow> I (f e s)) \<Longrightarrow> I s \<Longrightarrow> I (fold f es s)"
  by (induction es arbitrary: s) auto

text \<open>
  After any sequence of finished work items and telemetry polls, every operation has
  as many attempts as successes and failures together, its error counter adds up to its
  failures, and all sample, failure and telemetry collections are within their bounds.
\<close>

lemma measurements_consistent: "meas_ok (meas_run es)"
proof -
  have "meas_ok measurements_init" by (simp add: meas_ok_def measurements_init_def)
  then show ?thesis unfolding meas_run_def by (rule fold_keeps [where I = meas_ok, rotated]) (rule meas_step_ok)
qed

subsection \<open>Memory rows summarise the whole history\<close>

text \<open>The specification: the (time, value) pairs a path was measured at.\<close>

fun history :: "string list \<Rightarrow> meas_event list \<Rightarrow> (rat \<times> rat) list" where
  "history parts [] = []"
| "history parts (Poll t (Inr st) # es) = (case measured (walk st parts) of
     None \<Rightarrow> history parts es | Some y \<Rightarrow> (t, y) # history parts es)"
| "history parts (_ # es) = history parts es"

definition row_of_history :: "(rat \<times> rat) list \<Rightarrow> mem_row option" where
  "row_of_history h = (if h = [] then None else Some
     \<lparr>m_samples = length h, m_first = snd (hd h), m_last = snd (last h),
      m_min = Min (snd ` set h), m_max = Max (snd ` set h),
      sum_t = sum_list (map fst h), sum_y = sum_list (map snd h),
      sum_tt = sum_list (map (\<lambda>(t, y). t * t) h), sum_ty = sum_list (map (\<lambda>(t, y). t * y) h)\<rparr>)"

definition add_opt :: "rat \<Rightarrow> rat \<Rightarrow> mem_row option \<Rightarrow> mem_row" where
  "add_opt t y r = add_sample t y (case r of None \<Rightarrow> fresh_mem_row y | Some r \<Rightarrow> r)"

lemma summary_snoc: "row_of_history (h @ [(t, y)]) = Some (add_opt t y (row_of_history h))"
proof (cases "h = []")
  case False
  then have "Min (insert y (snd ` set h)) = min (Min (snd ` set h)) y"
    "Max (insert y (snd ` set h)) = max (Max (snd ` set h)) y"
    by (simp_all add: min.commute max.commute)
  with False show ?thesis by (simp add: row_of_history_def add_opt_def add_sample_def)
qed (simp add: row_of_history_def add_opt_def add_sample_def fresh_mem_row_def)

lemma map_of_sample_paths:
  "distinct (map fst ps) \<Longrightarrow>
   map_of (fst (sample_paths t st ps (rows, sel))) p =
     (case map_of ps p of None \<Rightarrow> map_of rows p | Some parts \<Rightarrow>
       (case measured (walk st parts) of None \<Rightarrow> map_of rows p
        | Some y \<Rightarrow> Some (add_opt t y (map_of rows p))))"
proof (induction ps arbitrary: rows sel)
  case (Cons q ps)
  obtain path parts where q: "q = (path, parts)" by fastforce
  with Cons.prems have "map_of ps path = None" by (simp add: map_of_eq_None_iff)
  with Cons q show ?case
    by (auto simp: Let_def add_opt_def update_conv' split: option.splits)
qed simp

lemma memory_step:
  "memory (snd (telemetry_step t reply m)) = (case reply of Inl _ \<Rightarrow> memory m
     | Inr st \<Rightarrow> fst (sample_paths t st telemetry_paths (memory m, [])))"
proof -
  have "memory (snd (sample t st m)) = fst (sample_paths t st telemetry_paths (memory m, []))" for st
    by (cases st) (auto simp: sample_def act_simps split: prod.splits)
  then show ?thesis
    by (auto simp: telemetry_step_def catch_def act_simps bind_def split: sum.splits prod.splits)
       (metis (no_types, lifting) snd_conv)+
qed

lemma memory_record_op: "memory (record_op name secs cnt fe err m) = memory m"
  by (auto simp: Let_def split: option.splits)

lemma history_snoc: "history parts (es @ [e]) = history parts es @
    (case e of Poll t (Inr st) \<Rightarrow> (case measured (walk st parts) of None \<Rightarrow> [] | Some y \<Rightarrow> [(t, y)]) | _ \<Rightarrow> [])"
  by (induction parts es rule: history.induct) (auto split: meas_event.splits sum.splits option.splits)

lemma distinct_paths: "distinct (map fst telemetry_paths)"
  by (simp add: telemetry_paths_def)

text \<open>
  C38. Whatever was recorded and polled, in whatever order, the memory row of each path is
  the summary (count, first, last, minimum, maximum and the four sums) of the full list of
  numeric samples of that path, though the program never stores that list; paths outside
  the fixed list have no row, and polls that fail or lack the path contribute nothing.
\<close>

theorem memory_refines_history:
  "map_of (memory (meas_run es)) path =
     (case map_of telemetry_paths path of None \<Rightarrow> None | Some parts \<Rightarrow> row_of_history (history parts es))"
proof (induction es rule: rev_induct)
  case Nil
  show ?case by (simp add: meas_run_def measurements_init_def row_of_history_def split: option.split)
next
  case (snoc e es)
  show ?case
  proof (cases e)
    case (Work name secs cnt fe err)
    then show ?thesis using snoc
      by (simp add: meas_run_def history_snoc memory_record_op del: record_op.simps split: option.splits)
  next
    case (Poll t reply)
    show ?thesis
    proof (cases reply)
      case (Inl x)
      with Poll snoc show ?thesis
        by (simp add: meas_run_def history_snoc memory_step split: option.splits)
    next
      case (Inr st)
      with Poll snoc show ?thesis
        by (auto simp: meas_run_def history_snoc memory_step summary_snoc distinct_paths
            map_of_sample_paths add_opt_def split: option.splits)
    qed
  qed
qed

subsection \<open>The trend\<close>

definition spread :: "rat list \<Rightarrow> rat" where
  "spread ts = of_nat (length ts) * sum_list (map (\<lambda>t. t * t) ts) - (sum_list ts) ^ 2"

lemma sum_sq_diff: "sum_list (map (\<lambda>u. (u - t) ^ 2) ts)
    = sum_list (map (\<lambda>u. u * u) ts) - 2 * t * sum_list ts + of_nat (length ts) * (t :: rat) ^ 2"
  by (induction ts) (simp_all add: algebra_simps power2_eq_square)

lemma spread_Cons: "spread (t # ts) = spread ts + sum_list (map (\<lambda>u. (u - t) ^ 2) ts)"
  unfolding spread_def sum_sq_diff by (simp add: algebra_simps power2_eq_square)

lemma sum_sq_nonneg: "0 \<le> sum_list (map (\<lambda>u. (u - t) ^ 2) ts)" for t :: rat
  by (induction ts) auto

lemma sum_sq_zero_iff: "sum_list (map (\<lambda>u. (u - t) ^ 2) ts) = 0 \<longleftrightarrow> (\<forall>u \<in> set ts. u = t)" for t :: rat
  by (induction ts) (auto simp: add_nonneg_eq_0_iff sum_sq_nonneg)

lemma spread_nonneg: "0 \<le> spread ts"
proof (induction ts)
  case (Cons t ts)
  then show ?case by (simp add: spread_Cons sum_sq_nonneg)
qed (simp add: spread_def)

lemma spread_replicate: "spread (replicate n t) = 0"
  by (simp add: spread_def sum_list_replicate power2_eq_square)

lemma spread_zero_iff: "spread (t # ts) = 0 \<longleftrightarrow> (\<forall>u \<in> set ts. u = t)"
proof
  assume "spread (t # ts) = 0"
  with spread_nonneg [of ts] sum_sq_nonneg [of t ts] show "\<forall>u \<in> set ts. u = t"
    by (simp add: spread_Cons flip: sum_sq_zero_iff)
next
  assume "\<forall>u \<in> set ts. u = t"
  then have "t # ts = replicate (Suc (length ts)) t" by (simp add: replicate_length_same)
  then show "spread (t # ts) = 0"
    by (metis (no_types, lifting) length_replicate map_replicate spread_replicate)
qed

lemma denominator_summary: "row_of_history h = Some row \<Longrightarrow> denominator row = spread (map fst h)"
  by (auto simp: row_of_history_def denominator_def spread_def split_def o_def split: if_splits)

lemma linear_sums:
  "sum_list (map (\<lambda>t. a + b * t) ts) = of_nat (length ts) * a + b * sum_list (ts :: rat list)"
  "sum_list (map (\<lambda>t. t * (a + b * t)) ts) = a * sum_list ts + b * sum_list (map (\<lambda>t. t * t) ts)"
  by (induction ts) (simp_all add: algebra_simps)

lemma trend_facts:
  assumes "row_of_history h = Some row"
  shows "0 \<le> denominator row"
    and "trend row = None \<longleftrightarrow> (\<forall>u \<in> fst ` set h. \<forall>v \<in> fst ` set h. u = v)"
    and "map snd h = map (\<lambda>t. a + b * t) (map fst h) \<Longrightarrow> trend row \<noteq> None \<Longrightarrow> trend row = Some (b * 3600)"
proof -
  note den = denominator_summary [OF assms]
  obtain x xs where h: "h = x # xs" using assms by (cases h) (auto simp: row_of_history_def)
  show nonneg: "0 \<le> denominator row" by (simp add: den spread_nonneg)
  have "trend row = None \<longleftrightarrow> spread (map fst h) = 0"
    using nonneg den by (auto simp: trend_def)
  also have "\<dots> \<longleftrightarrow> (\<forall>u \<in> fst ` set h. \<forall>v \<in> fst ` set h. u = v)"
    by (auto simp: h spread_zero_iff) (metis fst_conv)
  finally show "trend row = None \<longleftrightarrow> (\<forall>u \<in> fst ` set h. \<forall>v \<in> fst ` set h. u = v)" .
  assume lin: "map snd h = map (\<lambda>t. a + b * t) (map fst h)" and some: "trend row \<noteq> None"
  let ?ts = "map fst h"
  have "map (\<lambda>(t, y). t * y) h = map (\<lambda>t. t * (a + b * t)) ?ts" using lin by (induction h) auto
  moreover have fields: "sum_y row = sum_list (map snd h)" "m_samples row = length ?ts"
      "sum_ty row = sum_list (map (\<lambda>(t, y). t * y) h)" "sum_t row = sum_list ?ts"
    using assms by (auto simp: row_of_history_def split: if_splits)
  ultimately have sums: "sum_y row = of_nat (length ?ts) * a + b * sum_list ?ts"
      "sum_ty row = a * sum_list ?ts + b * sum_list (map (\<lambda>t. t * t) ?ts)"
    by (simp_all only: lin linear_sums)
  have "of_nat (m_samples row) * sum_ty row - sum_t row * sum_y row = b * denominator row"
    unfolding den spread_def sums fields(2,4) by (simp add: algebra_simps power2_eq_square)
  with some show "trend row = Some (b * 3600)" by (auto simp: trend_def split: if_splits)
qed

text \<open>
  The reported trend: the denominator is never negative and vanishes exactly when all
  samples were taken at one time, so no report divides by zero; and for values that lie on
  a line of slope \<open>b\<close> per second the trend is \<open>3600 b\<close> bytes per hour.
\<close>

lemma trend_correct:
  assumes "row_of_history h = Some row"
  shows "0 \<le> denominator row
    \<and> (trend row = None \<longleftrightarrow> (\<forall>u \<in> fst ` set h. \<forall>v \<in> fst ` set h. u = v))
    \<and> (\<forall>a b. map snd h = map (\<lambda>t. a + b * t) (map fst h) \<longrightarrow> trend row \<noteq> None
         \<longrightarrow> trend row = Some (b * 3600))"
  using trend_facts [OF assms] by blast

theorem trend_correct_witness:
  "trend (add_sample 2 10 (add_sample 1 8 (fresh_mem_row 8))) = Some (2 * 3600)"
proof -
  let ?row = "add_sample 2 10 (add_sample 1 8 (fresh_mem_row 8))" and ?h = "[(1, 8), (2, 10)]"
  have "row_of_history ?h = Some ?row" by (simp add: row_of_history_def add_sample_def fresh_mem_row_def)
  note fact = conjunct2 [OF conjunct2 [OF trend_correct [OF this]], rule_format, of 6 2]
  show ?thesis
    by (rule fact) (simp_all add: trend_def denominator_def add_sample_def fresh_mem_row_def)
qed

subsection \<open>Order statistics\<close>

lemma p95_index_less: "0 < n \<Longrightarrow> p95_index n < n"
  by (simp add: p95_index_def)

lemma median_between:
  assumes "sorted xs" and "xs \<noteq> []"
  shows "xs ! 0 \<le> median_sorted xs" and "median_sorted xs \<le> xs ! (length xs div 2)"
proof -
  let ?n = "length xs"
  have n: "?n div 2 < ?n" "?n div 2 - 1 \<le> ?n div 2" using assms(2) by auto
  have "xs ! 0 \<le> xs ! (?n div 2 - 1)" "xs ! (?n div 2 - 1) \<le> xs ! (?n div 2)" "xs ! 0 \<le> xs ! (?n div 2)"
    using n by (auto intro!: sorted_nth_mono [OF assms(1)])
  then show "xs ! 0 \<le> median_sorted xs" "median_sorted xs \<le> xs ! (?n div 2)"
    by (auto simp: median_sorted_def Let_def field_simps)
qed

lemma sorted_prefix_count:
  assumes "sorted xs" and "i < length xs"
  shows "Suc i \<le> length (filter (\<lambda>x. x \<le> xs ! i) xs)"
proof -
  have "filter (\<lambda>x. x \<le> xs ! i) (take (Suc i) xs) = take (Suc i) xs"
    using assms by (auto simp: filter_id_conv in_set_conv_nth less_Suc_eq_le sorted_iff_nth_mono)
  then have "Suc i = length (filter (\<lambda>x. x \<le> xs ! i) (take (Suc i) xs))"
    using assms(2) by simp
  also have "\<dots> \<le> length (filter (\<lambda>x. x \<le> xs ! i) (take (Suc i) xs @ drop (Suc i) xs))"
    by (simp del: append_take_drop_id)
  finally show ?thesis by simp
qed

text \<open>
  The latency summary of a nonempty sample: the minimum, median, 95th percentile and
  maximum are ordered, the percentile is one of the samples, and at least 95 percent of
  the samples do not exceed it; an empty sample has no summary.
\<close>

lemma distribution_correct:
  "case distribution samples of
     None \<Rightarrow> samples = []
   | Some d \<Rightarrow> d_samples d = length samples
       \<and> d_min d \<le> d_median d \<and> d_median d \<le> d_p95 d \<and> d_p95 d \<le> d_max d
       \<and> d_p95 d \<in> set samples
       \<and> 95 * length samples \<le> 100 * length (filter (\<lambda>x. x \<le> d_p95 d) samples)
       \<and> list_all (\<lambda>x. d_min d \<le> x \<and> x \<le> d_max d) samples"
proof (cases "samples = []")
  case False
  let ?xs = "sort samples" and ?n = "length samples"
  have len: "length ?xs = ?n" by simp
  have xs: "?xs \<noteq> []" "sorted ?xs" "length ?xs = ?n" "0 < ?n"
    using False len by (metis length_0_conv, simp_all)
  note p = p95_index_less [OF xs(4)]
  have "?n div 2 \<le> p95_index ?n" using xs(4) by (simp add: p95_index_def)
  then have "?xs ! (?n div 2) \<le> ?xs ! p95_index ?n" using xs p by (intro sorted_nth_mono) auto
  with median_between [OF xs(2,1)] xs(3)
  have med: "?xs ! 0 \<le> median_sorted ?xs" "median_sorted ?xs \<le> ?xs ! p95_index ?n" by auto
  have last: "?xs ! i \<le> last ?xs" "?xs ! 0 \<le> ?xs ! i" if "i < ?n" for i
    using that xs by (auto simp: last_conv_nth intro!: sorted_nth_mono)
  have "?xs ! p95_index ?n \<in> set ?xs" using p xs(3) by (intro nth_mem) simp
  moreover have "Suc (p95_index ?n) \<le> length (filter (\<lambda>x. x \<le> ?xs ! p95_index ?n) ?xs)"
    using sorted_prefix_count [OF xs(2), of "p95_index ?n"] p xs(3) by simp
  moreover have "95 * ?n \<le> 100 * Suc (p95_index ?n)" using xs(4) by (simp add: p95_index_def)
  moreover have "length (filter P ?xs) = length (filter P samples)" for P
    by (metis mset_sort mset_filter size_mset)
  moreover have "?xs ! 0 \<le> x \<and> x \<le> last ?xs" if "x \<in> set samples" for x
    using that last xs(3) by (metis in_set_conv_nth set_sort)
  ultimately show ?thesis using med last(1) [OF p] xs(1,3)
    by (simp add: distribution_def Let_def list_all_iff)
qed (simp add: distribution_def)

end
