(* ===== verification/AcceptWork.thy ===== *)
theory AcceptWork
  imports Bodies Measurements
begin

text \<open>
  The client of \<^verbatim>\<open>scripts/acceptance.py\<close>: \<^verbatim>\<open>local_url\<close>, the class \<^verbatim>\<open>Endpoint\<close> with its set of
  active connections, and the four workloads. The gateway is an arbitrary function of the
  requests made so far; a reply is its status, its content type and the chunks of its body.
\<close>

section \<open>Loopback URLs\<close>

record url =
  u_scheme :: string
  u_username :: "string option"
  u_password :: "string option"
  u_query :: string
  u_fragment :: string
  u_host :: "string option"
  u_port :: "nat option res"
  u_path :: string

text \<open>
  The parsed value is that of \<^verbatim>\<open>urlsplit\<close>; \<^verbatim>\<open>ip\<close> is \<^verbatim>\<open>ipaddress.ip_address(host).is_loopback\<close>. Its
  errors, and an address that is not a loopback, leave with the same message.
\<close>

definition local_url :: "(string option \<Rightarrow> bool res) \<Rightarrow> url \<Rightarrow> url res" where
  "local_url ip v =
     (if (u_scheme v \<noteq> ''http'' \<and> u_scheme v \<noteq> ''https'') \<or> u_username v \<notin> {None, Some []}
         \<or> u_password v \<notin> {None, Some []} \<or> u_query v \<noteq> [] \<or> u_fragment v \<noteq> [] then
        Inl (Exc ValueError ''use a loopback HTTP(S) base URL without credentials, query or fragment'')
      else
        rbind (if u_host v = Some ''localhost'' then Inr () else
          (case ip (u_host v) of
             Inr True \<Rightarrow> Inr ()
           | Inr False \<Rightarrow> Inl (Exc ValueError ''acceptance runner connects only to localhost or a loopback IP'')
           | Inl e \<Rightarrow> if is_value_error (exc_kind e) \<or> exc_kind e = TypeError
               then Inl (Exc ValueError ''acceptance runner connects only to localhost or a loopback IP'') else Inl e)) (\<lambda>_.
        rbind (u_port v) (\<lambda>_. Inr v)))"

section \<open>Endpoint\<close>

type_synonym headers = "(string \<times> string) list"

record sent =
  se_host :: "string option"
  se_port :: nat
  se_method :: string
  se_path :: string
  se_headers :: headers
  se_body :: "string option"

record reply =
  rp_status :: int
  rp_type :: string
  rp_chunks :: "string list"

type_synonym upstream = "sent list \<Rightarrow> sent \<Rightarrow> reply res"

record endpoint =
  ep_url :: url
  ep_token :: string
  ep_active :: "nat list"
  ep_next :: nat
  ep_log :: "sent list"

type_synonym 'a work = "(endpoint, 'a) act"

definition endpoint_init :: "(string option \<Rightarrow> bool res) \<Rightarrow> url \<Rightarrow> string \<Rightarrow> endpoint res" where
  "endpoint_init ip base token = rbind (local_url ip base) (\<lambda>v.
     Inr \<lparr>ep_url = v, ep_token = token, ep_active = [], ep_next = 0, ep_log = []\<rparr>)"

definition strip_slashes :: "string \<Rightarrow> string" where
  "strip_slashes s = rev (dropWhile (\<lambda>c. c = CHR ''/'') (rev s))"

definition port_of :: "url \<Rightarrow> nat" where
  "port_of v = (case u_port v of Inr (Some p) \<Rightarrow> if p \<noteq> 0 then p else if u_scheme v = ''https'' then 443 else 80
     | _ \<Rightarrow> if u_scheme v = ''https'' then 443 else 80)"

definition the_request :: "endpoint \<Rightarrow> string \<Rightarrow> string \<Rightarrow> string option \<Rightarrow> headers \<Rightarrow> sent" where
  "the_request s m path body hs = \<lparr>se_host = u_host (ep_url s), se_port = port_of (ep_url s), se_method = m,
     se_path = strip_slashes (u_path (ep_url s)) @ path,
     se_headers = fold (\<lambda>(k, v). AList.update k v) hs
        [(''Authorization'', ''Bearer '' @ ep_token s), (''Connection'', ''close'')],
     se_body = body\<rparr>"

definition close_conn :: "nat \<Rightarrow> unit work" where
  "close_conn c = modify (\<lambda>s. s\<lparr>ep_active := filter (\<lambda>d. d \<noteq> c) (ep_active s)\<rparr>)"

text \<open>A connection becomes active before its request; an exception of the request closes it again.\<close>

definition open_conn :: "upstream \<Rightarrow> string \<Rightarrow> string \<Rightarrow> string option \<Rightarrow> headers \<Rightarrow> (nat \<times> reply) work" where
  "open_conn up m path body hs s =
     (let c = ep_next s; q = the_request s m path body hs;
          t = s\<lparr>ep_active := c # ep_active s, ep_next := c + 1, ep_log := ep_log s @ [q]\<rparr> in
      case up (ep_log s) q of
        Inr r \<Rightarrow> (Inr (c, r), t)
      | Inl e \<Rightarrow> (Inl e, if is_exception (exc_kind e) then snd (close_conn c t) else t))"

definition abort_all :: "unit work" where
  "abort_all = bind (gets ep_active) (\<lambda>cs. for_each cs close_conn)"

text \<open>\<^verbatim>\<open>conn, response, _ = endpoint.open(...); try: body  finally: endpoint.close(conn)\<close>.\<close>

definition using_conn :: "upstream \<Rightarrow> string \<Rightarrow> string \<Rightarrow> string option \<Rightarrow> headers \<Rightarrow> (reply \<Rightarrow> 'a work) \<Rightarrow> 'a work" where
  "using_conn up m path body hs work =
     bind (open_conn up m path body hs) (\<lambda>(c, r). finally_do (work r) (close_conn c))"

definition JSON_LIMIT :: nat where
  "JSON_LIMIT = 128 * 1024"

definition body_of :: "reply \<Rightarrow> string" where
  "body_of r = concat (rp_chunks r)"

text \<open>Decimal digits of a length.\<close>

fun digits_of :: "nat \<Rightarrow> string" where
  "digits_of n = (if n < 10 then [digit_chars ! n] else digits_of (n div 10) @ [digit_chars ! (n mod 10)])"

declare digits_of.simps [simp del]

definition json_request :: "pylib \<Rightarrow> upstream \<Rightarrow> string \<Rightarrow> string \<Rightarrow> pyval option \<Rightarrow> pyval work" where
  "json_request L up m path v =
     (let body = map_option (dumps L) v;
          hs = (case body of None \<Rightarrow> [] | Some b \<Rightarrow>
            [(''Content-Type'', ''application/json''), (''Content-Length'', digits_of (length b))])
      in using_conn up m path body hs (\<lambda>r.
        if rp_status r \<noteq> 200 then raise RuntimeError ''HTTP status''
        else let data = take (JSON_LIMIT + 1) (body_of r) in
          if JSON_LIMIT < length data then raise RuntimeError ''JSON response exceeds acceptance harness limit''
          else lift (loads L data)))"

section \<open>The event stream\<close>

definition FIXTURE_MODEL :: string where
  "FIXTURE_MODEL = ''uart2llm-acceptance-fixture-v1''"

text \<open>The expected texts, in UTF-8.\<close>

definition greeting :: string where
  "greeting = [CHR 0xE4, CHR 0xBD, CHR 0xA0, CHR 0xE5, CHR 0xA5, CHR 0xBD, CHR 0xEF, CHR 0xBC, CHR 0x8C,
     CHR 0xE4, CHR 0xB8, CHR 0xB2, CHR 0xE5, CHR 0x8F, CHR 0xA3]"

definition chinese :: string where
  "chinese = [CHR 0xE4, CHR 0xB8, CHR 0xAD, CHR 0xE6, CHR 0x96, CHR 0x87]"

record sse =
  ss_count :: int
  ss_first :: "rat option"
  ss_content :: string
  ss_arguments :: string
  ss_usage :: bool
  ss_extension :: bool
  ss_done :: bool

definition sse_init :: sse where
  "sse_init = \<lparr>ss_count = 0, ss_first = None, ss_content = [], ss_arguments = [], ss_usage = False,
     ss_extension = False, ss_done = False\<rparr>"

text \<open>\<^verbatim>\<open>response.readline(n)\<close>: up to and including a line feed, at most \<^verbatim>\<open>n\<close> bytes.\<close>

fun readline :: "nat \<Rightarrow> string \<Rightarrow> string" where
  "readline 0 s = []"
| "readline (Suc n) [] = []"
| "readline (Suc n) (c # s) = (if c = CHR 0x0A then [c] else c # readline n s)"

lemma readline_shorter [termination_simp]: "s \<noteq> [] \<Longrightarrow> length s - length (readline (Suc n) s) < length s"
  by (cases s) auto

definition LINE_MAX :: nat where
  "LINE_MAX = 8192"

function read_lines :: "string \<Rightarrow> string list" where
  "read_lines s = (if s = [] then [] else
     readline (Suc LINE_MAX) s # read_lines (drop (length (readline (Suc LINE_MAX) s)) s))"
  by pat_completeness auto
termination
  by (relation "measure length") (auto simp: readline_shorter)

declare read_lines.simps [simp del]

definition add_text :: "string \<Rightarrow> pyval \<Rightarrow> string res" where
  "add_text s v = (case v of PStr t \<Rightarrow> Inr (s @ t) | _ \<Rightarrow> Inl (Exc TypeError ''type''))"

definition sse_tool :: "pyval \<Rightarrow> (sse, unit) act" where
  "sse_tool tool =
     bind (lift (rbind (pyget tool ''function'' (PDict [])) (\<lambda>f. pyget f ''arguments'' (PStr [])))) (\<lambda>a.
     bind (gets ss_arguments) (\<lambda>s.
     bind (lift (add_text s a)) (\<lambda>t. modify (\<lambda>x. x\<lparr>ss_arguments := t\<rparr>))))"

definition sse_choice :: "pyval \<Rightarrow> (sse, unit) act" where
  "sse_choice choice =
     bind (lift (pyget choice ''delta'' (PDict []))) (\<lambda>delta.
     bind (lift (pyget delta ''content'' (PStr []))) (\<lambda>c.
     bind (gets ss_content) (\<lambda>s.
     bind (lift (add_text s c)) (\<lambda>t.
     andthen (modify (\<lambda>x. x\<lparr>ss_content := t\<rparr>))
    (bind (lift (rbind (pyget delta ''tool_calls'' (PList [])) iterate)) (\<lambda>tools. for_each tools sse_tool))))))"

definition sse_event :: "pyval \<Rightarrow> (sse, unit) act" where
  "sse_event event =
     bind (lift (rbind (pyget event ''usage'' (PDict [])) (\<lambda>u. pyget u ''total_tokens'' PNone))) (\<lambda>total_tokens.
     andthen (modify (\<lambda>x. x\<lparr>ss_usage := ss_usage x \<or> eq_int total_tokens 9\<rparr>))
    (bind (lift (rbind (pyget event ''fixture_extension'' (PDict [])) (\<lambda>u. pyget u ''preserved'' PNone))) (\<lambda>kept.
     andthen (modify (\<lambda>x. x\<lparr>ss_extension := ss_extension x \<or> kept = PBool True\<rparr>))
    (bind (lift (rbind (pyget event ''choices'' (PList [])) iterate)) (\<lambda>choices. for_each choices sse_choice)))))"

text \<open>One turn of the reading loop; \<^verbatim>\<open>clock\<close> is the time after so many bytes of the stream.\<close>

definition sse_line :: "pylib \<Rightarrow> (int \<Rightarrow> rat) \<Rightarrow> string \<Rightarrow> (sse, unit) act" where
  "sse_line L clock line =
     (if LINE_MAX < length line then raise RuntimeError ''SSE line exceeds bounded parser limit''
      else
      andthen (modify (\<lambda>x. x\<lparr>ss_count := ss_count x + int (length line)\<rparr>))
     (bind (gets ss_count) (\<lambda>n.
      if 65536 < n then raise RuntimeError ''unexpectedly large fixture stream''
      else if \<not> prefix ''data: '' line then ret ()
      else
      andthen (modify (\<lambda>x. x\<lparr>ss_first := (case ss_first x of None \<Rightarrow> Some (clock n) | Some t \<Rightarrow> Some t)\<rparr>))
      (let payload = bstrip (drop 6 line) in
       if payload = ''[DONE]'' then modify (\<lambda>x. x\<lparr>ss_done := True\<rparr>)
       else bind (gets ss_done) (\<lambda>finished.
         if finished then raise RuntimeError ''fixture emitted data after its completion marker''
         else bind (lift (loads L payload)) sse_event)))))"

definition sse_accepts :: "pylib \<Rightarrow> sse \<Rightarrow> bool res" where
  "sse_accepts L x = (if \<not> ss_done x \<or> ss_content x \<noteq> greeting then Inr False
     else rbind (loads L (ss_arguments x)) (\<lambda>v.
       Inr (py_eq v (PDict [(''value'', PStr chinese)]) \<and> ss_usage x \<and> ss_extension x)))"

definition stream_body :: pyval where
  "stream_body = PDict [(''model'', PStr FIXTURE_MODEL), (''stream'', PBool True),
     (''messages'', PList [PDict [(''role'', PStr ''user''), (''content'', PStr ''fixture'')]]),
     (''stream_options'', PDict [(''include_usage'', PBool True)])]"

definition read_stream :: "pylib \<Rightarrow> (int \<Rightarrow> rat) \<Rightarrow> reply \<Rightarrow> (int \<times> rat option) res" where
  "read_stream L clock r =
     (if rp_status r \<noteq> 200 \<or> \<not> contains ''text/event-stream'' (rp_type r)
      then Inl (Exc RuntimeError ''SSE returned an error or incorrect content type'')
      else case for_each (read_lines (body_of r)) (sse_line L clock) sse_init of
        (Inl e, _) \<Rightarrow> Inl e
      | (Inr _, x) \<Rightarrow> rbind (sse_accepts L x) (\<lambda>ok. if ok then Inr (ss_count x, ss_first x)
          else Inl (Exc RuntimeError ''SSE content/tool deltas/usage/extension/DONE verification failed'')))"

definition stream_work :: "pylib \<Rightarrow> upstream \<Rightarrow> (int \<Rightarrow> rat) \<Rightarrow> (int \<times> rat option) work" where
  "stream_work L up clock =
     (let body = dumps_ascii L stream_body in
      using_conn up ''POST'' ''/v1/chat/completions'' (Some body)
        [(''Content-Type'', ''application/json''), (''Content-Length'', digits_of (length body))]
        (\<lambda>r. lift (read_stream L clock r)))"

section \<open>Files\<close>

text \<open>The bytes an HTTP client reads from the body, in blocks of 8192.\<close>

definition upload_bytes :: "int \<Rightarrow> string option" where
  "upload_bytes n = map_option concat
     (mb.drain (nat (mp_length (multipart_init n)) + 1) 8192 (multipart_init n))"

definition read_upload :: "pylib \<Rightarrow> int \<Rightarrow> string \<Rightarrow> reply \<Rightarrow> (int \<times> rat option) res" where
  "read_upload L n expected r =
     (let data = take (JSON_LIMIT + 1) (body_of r) in
      if rp_status r \<noteq> 200 \<or> JSON_LIMIT < length data
      then Inl (Exc RuntimeError ''upload returned an error or oversized JSON'')
      else rbind (loads L data) (\<lambda>v.
        rbind (pyget v ''bytes'' PNone) (\<lambda>b. rbind (pyget v ''sha256'' PNone) (\<lambda>h.
        if \<not> eq_int b n \<or> h \<noteq> PStr expected then Inl (Exc RuntimeError ''upload size or SHA-256 mismatch'')
        else Inr (n, None)))))"

definition upload_work :: "pylib \<Rightarrow> upstream \<Rightarrow> int \<Rightarrow> string \<Rightarrow> (int \<times> rat option) work" where
  "upload_work L up n expected =
     using_conn up ''POST'' ''/v1/files'' (upload_bytes n)
       [(''Content-Type'', ''multipart/form-data; boundary='' @ boundary),
        (''Content-Length'', digits_of (nat (mp_length (multipart_init n)))), (''X-Expected-Sha256'', expected)]
       (\<lambda>r. lift (read_upload L n expected r))"

text \<open>\<^verbatim>\<open>while data := response.read(CHUNK)\<close>: the chunks up to the first empty one.\<close>

fun download_loop :: "int \<Rightarrow> string list \<Rightarrow> string \<Rightarrow> string res" where
  "download_loop n [] got = Inr got"
| "download_loop n (c # cs) got =
     (if c = [] then Inr got
      else if n < int (length (got @ c)) then Inl (Exc RuntimeError ''download exceeded declared fixture size'')
      else download_loop n cs (got @ c))"

definition read_download :: "pylib \<Rightarrow> int \<Rightarrow> string \<Rightarrow> reply \<Rightarrow> (int \<times> rat option) res" where
  "read_download L n expected r =
     (if rp_status r \<noteq> 200 then Inl (Exc RuntimeError ''download returned an error'')
      else rbind (download_loop n (rp_chunks r) []) (\<lambda>got.
        if int (length got) \<noteq> n \<or> sha256 L got \<noteq> expected
        then Inl (Exc RuntimeError ''download size or SHA-256 mismatch'')
        else Inr (int (length got), None)))"

definition download_work :: "pylib \<Rightarrow> upstream \<Rightarrow> int \<Rightarrow> string \<Rightarrow> (int \<times> rat option) work" where
  "download_work L up n expected =
     using_conn up ''GET'' (''/v1/files/fixture-pattern/content?size='' @ digits_of (nat n)) None []
       (\<lambda>r. lift (read_download L n expected r))"

section \<open>Jobs and models\<close>

definition require :: "bool res \<Rightarrow> string \<Rightarrow> unit work" where
  "require ok msg = bind (lift ok) (\<lambda>b. if b then ret () else raise RuntimeError msg)"

definition jobs_path :: string where
  "jobs_path = ''/v1/fine_tuning/jobs''"

definition first_event_ok :: "pyval \<Rightarrow> bool res" where
  "first_event_ok events = rbind (pyget events ''data'' PNone) (\<lambda>d.
     if \<not> truthy d then Inr False else rbind (first_item d) (\<lambda>e. get_eq e ''id'' ''event-fixture''))"

definition jobs_work :: "pylib \<Rightarrow> upstream \<Rightarrow> (int \<times> rat option) work" where
  "jobs_work L up =
     bind (json_request L up ''POST'' jobs_path (Some (PDict [(''training_file'', PStr ''file-fixture''),
        (''model'', PStr FIXTURE_MODEL)]))) (\<lambda>created.
     andthen (require (rand (get_eq created ''id'' ''ftjob-fixture'') (get_eq created ''status'' ''succeeded''))
        ''unexpected fixture job'')
    (bind (json_request L up ''GET'' (jobs_path @ ''/ftjob-fixture/events'') None) (\<lambda>events.
     andthen (require (first_event_ok events) ''job events did not survive proxying'')
    (bind (json_request L up ''GET'' (''/v1/models/'' @ FIXTURE_MODEL) None) (\<lambda>model.
     andthen (require (get_eq model ''id'' FIXTURE_MODEL) ''model resource mismatch'')
     (ret (0, None)))))))"

end
