(* ===== verification/AcceptMain.thy ===== *)
theory AcceptMain
  imports AcceptWork
begin

text \<open>
  \<^verbatim>\<open>main\<close> of \<^verbatim>\<open>scripts/acceptance.py\<close>: the limits of its arguments, the sentinel without which no
  workload starts, the workers, and the verdict. The four workers and the telemetry thread only
  share the measurements, behind their lock, so that a run is a list of turns in any order.
\<close>

section \<open>Arguments and sentinel\<close>

record config =
  cf_seconds :: pyfloat
  cf_file_bytes :: int
  cf_timeout :: pyfloat
  cf_telemetry :: pyfloat
  cf_token :: string
  cf_admin :: string

definition finite_where :: "(rat \<Rightarrow> bool) \<Rightarrow> pyfloat \<Rightarrow> bool" where
  "finite_where p f \<longleftrightarrow> (case f of Finite r \<Rightarrow> p r | _ \<Rightarrow> False)"

definition valid_config :: "config \<Rightarrow> bool" where
  "valid_config c \<longleftrightarrow> finite_where (\<lambda>r. 0 < r \<and> r \<le> 7 * 24 * 3600) (cf_seconds c)
     \<and> 1 \<le> cf_file_bytes c \<and> cf_file_bytes c \<le> 1024 ^ 3 \<and> finite_where (\<lambda>r. 0 < r) (cf_timeout c)
     \<and> finite_where (\<lambda>r. 1 \<le> r) (cf_telemetry c) \<and> cf_token c \<noteq> []"

definition field_of :: "pydict \<Rightarrow> string \<Rightarrow> pyval" where
  "field_of d k = (case map_of d k of None \<Rightarrow> PNone | Some v \<Rightarrow> v)"

definition fixture_model :: "pyval \<Rightarrow> bool" where
  "fixture_model v \<longleftrightarrow> (case v of PDict d \<Rightarrow> field_of d ''id'' = PStr FIXTURE_MODEL
     \<and> field_of d ''owned_by'' = PStr ''uart2llm-controlled-fixture'' | _ \<Rightarrow> False)"

definition fixture_marker :: "pyval \<Rightarrow> bool" where
  "fixture_marker v \<longleftrightarrow> (case v of PDict m \<Rightarrow> eq_int (field_of m ''version'') 1
     \<and> field_of m ''no_external_calls'' = PBool True \<and> field_of m ''pattern'' = PStr ''offset-mod-251'' | _ \<Rightarrow> False)"

definition is_fixture :: "pyval \<Rightarrow> bool res" where
  "is_fixture sentinel = (case sentinel of
     PDict d \<Rightarrow> if \<not> fixture_marker (case map_of d ''uart2llm_fixture'' of None \<Rightarrow> PDict [] | Some m \<Rightarrow> m)
       then Inr False
       else rbind (iterate (case map_of d ''data'' of None \<Rightarrow> PList [] | Some v \<Rightarrow> v)) (\<lambda>models.
         Inr (list_ex fixture_model models))
   | _ \<Rightarrow> Inr False)"

definition sentinel_check :: "pylib \<Rightarrow> upstream \<Rightarrow> unit work" where
  "sentinel_check L up =
     bind (json_request L up ''GET'' ''/v1/models'' None) (\<lambda>s.
     bind (lift (is_fixture s)) (\<lambda>ok.
     if ok then ret ()
     else raise RuntimeError ''REFUSED: upstream is not the controlled uart2llm fixture; no workload was started''))"

section \<open>Workers\<close>

datatype operation = Sse | Upload | Download | Jobs

fun operation_name :: "operation \<Rightarrow> string" where
  "operation_name Sse = ''sse''"
| "operation_name Upload = ''upload''"
| "operation_name Download = ''download''"
| "operation_name Jobs = ''jobs_models''"

text \<open>One turn of a worker, or one telemetry poll, with its times and the stop flag it reads.\<close>

datatype turn =
    WorkTurn operation rat rat bool
  | PollTurn rat "pyval res"

definition do_work :: "pylib \<Rightarrow> upstream \<Rightarrow> int \<Rightarrow> string \<Rightarrow> operation \<Rightarrow> (int \<times> rat option) work" where
  "do_work L up n expected p = (case p of Sse \<Rightarrow> stream_work L up of_int
     | Upload \<Rightarrow> upload_work L up n expected | Download \<Rightarrow> download_work L up n expected | Jobs \<Rightarrow> jobs_work L up)"

type_synonym session = "endpoint \<times> measurements"

definition work_turn :: "pylib \<Rightarrow> upstream \<Rightarrow> int \<Rightarrow> string \<Rightarrow> operation \<Rightarrow> rat \<Rightarrow> (session, unit) act" where
  "work_turn L up n expected p secs s = (case do_work L up n expected p (fst s) of
     (Inr (bytes, first), ep) \<Rightarrow>
       (Inr (), (ep, record_op (operation_name p) secs bytes first None (snd s)))
   | (Inl e, ep) \<Rightarrow> if is_exception (exc_kind e)
       then (Inr (), (ep, record_op (operation_name p) secs 0 None (Some e) (snd s)))
       else (Inl e, (ep, snd s)))"

fun turn_step :: "pylib \<Rightarrow> upstream \<Rightarrow> int \<Rightarrow> string \<Rightarrow> rat \<Rightarrow> turn \<Rightarrow> (session, unit) act" where
  "turn_step L up n expected deadline (WorkTurn p now secs stopped) =
     (if stopped \<or> deadline \<le> now then ret () else work_turn L up n expected p secs)"
| "turn_step L up n expected deadline (PollTurn elapsed state) =
     modify (\<lambda>(ep, m). (ep, snd (telemetry_step elapsed state m)))"

text \<open>The hash of the fixture file is that of \<^verbatim>\<open>Bodies\<close>; its loop always ends (no None) for a valid size.\<close>

definition accept_run :: "pylib \<Rightarrow> upstream \<Rightarrow> config \<Rightarrow> rat \<Rightarrow> turn list \<Rightarrow> (session, unit) act" where
  "accept_run L up c deadline turns =
     bind (\<lambda>(ep, m). case sentinel_check L up ep of (r, ep') \<Rightarrow> (r, (ep', m))) (\<lambda>_.
     case pattern_hash (sha256 L) (cf_file_bytes c) of
       None \<Rightarrow> raise TimeoutError ''hash''
     | Some expected \<Rightarrow> for_each turns (turn_step L up (cf_file_bytes c) expected deadline))"

section \<open>Verdict\<close>

definition row_clean :: "op_report \<Rightarrow> bool" where
  "row_clean r \<longleftrightarrow> 0 < r_successes r \<and> r_failures r = 0"

definition software_passed :: "bool \<Rightarrow> bool \<Rightarrow> bool \<Rightarrow> report \<Rightarrow> bool" where
  "software_passed finished interrupted admin rep \<longleftrightarrow>
     finished \<and> \<not> interrupted \<and> list_all (\<lambda>(name, r). row_clean r) (operations rep) \<and> length (operations rep) = 4
     \<and> (admin \<longrightarrow> 0 < telemetry_samples rep \<and> report_telemetry_failures rep = 0)"

definition soak_completed :: "rat \<Rightarrow> rat \<Rightarrow> bool \<Rightarrow> bool" where
  "soak_completed secs elapsed passed \<longleftrightarrow> 24 * 3600 \<le> secs \<and> 24 * 3600 \<le> elapsed \<and> passed"

end
