(* ===== verification/AcceptProps.thy ===== *)
theory AcceptProps
  imports AcceptMain
begin

text \<open>
  What the acceptance run guarantees: connections never leak, a download is judged by its
  bytes alone, no workload reaches an unverified upstream, and a passed verdict means that
  every operation succeeded and none ever failed.
\<close>

section \<open>Connections\<close>

text \<open>
  Connections are numbered in the order of their requests, so the \<^verbatim>\<open>i\<close>-th request of the log used
  the \<^verbatim>\<open>i\<close>-th connection. A request is cut off when it raises anything that \<^verbatim>\<open>except Exception\<close> does
  not catch, an interrupt of the main thread.
\<close>

definition cut_off :: "upstream \<Rightarrow> sent list \<Rightarrow> nat \<Rightarrow> bool" where
  "cut_off up qs i \<longleftrightarrow> (case up (take i qs) (qs ! i) of Inl e \<Rightarrow> \<not> is_exception (exc_kind e) | Inr r \<Rightarrow> False)"

definition lost :: "upstream \<Rightarrow> sent list \<Rightarrow> nat set" where
  "lost up qs = {i. i < length qs \<and> cut_off up qs i}"

text \<open>The active connections are the ones in use, \<^verbatim>\<open>cs\<close>, and the ones that were cut off.\<close>

definition conns :: "upstream \<Rightarrow> nat set \<Rightarrow> endpoint \<Rightarrow> bool" where
  "conns up cs s \<longleftrightarrow> ep_next s = length (ep_log s) \<and> set (ep_active s) = cs \<union> lost up (ep_log s)
     \<and> cs \<inter> lost up (ep_log s) = {} \<and> (\<forall>c\<in>cs. c < ep_next s)"

lemma lost_bound: "i \<in> lost up qs \<Longrightarrow> i < length qs"
  by (simp add: lost_def)

lemma lost_snoc:
  "lost up (qs @ [q]) = lost up qs \<union> (if cut_off up (qs @ [q]) (length qs) then {length qs} else {})"
  by (auto simp: lost_def cut_off_def nth_append less_Suc_eq)

lemma cut_off_last:
  "cut_off up (qs @ [q]) (length qs) \<longleftrightarrow> (case up qs q of Inl e \<Rightarrow> \<not> is_exception (exc_kind e) | Inr r \<Rightarrow> False)"
  by (simp add: cut_off_def)

lemma close_own:
  assumes "conns up (insert c cs) s" "c \<notin> cs" shows "conns up cs (snd (close_conn c s))"
  using assms by (auto simp: conns_def close_conn_def modify_def)

lemma using_conn_keeps:
  assumes work: "\<And>r cs. keeps (conns up cs) (work r)"
  shows "keeps (conns up cs) (using_conn up m path body hs work)"
proof -
  have "conns up cs (snd (using_conn up m path body hs work s))" if s: "conns up cs s" for s
  proof -
    let ?c = "ep_next s" and ?q = "the_request s m path body hs"
    let ?t = "s\<lparr>ep_active := ?c # ep_active s, ep_next := ?c + 1, ep_log := ep_log s @ [?q]\<rparr>"
    have new: "?c = length (ep_log s)" "?c \<notin> cs" "?c \<notin> lost up (ep_log s)"
      using s by (auto simp: conns_def lost_def)
    have t: "conns up (insert ?c cs) ?t" if "\<not> cut_off up (ep_log s @ [?q]) (length (ep_log s))"
      using s that new by (auto simp: conns_def lost_snoc)
    show ?thesis
    proof (cases "up (ep_log s) ?q")
      case (Inl e)
      show ?thesis
      proof (cases "is_exception (exc_kind e)")
        case True
        with Inl close_own [OF t new(2)] show ?thesis
          by (simp add: using_conn_def open_conn_def bind_def Let_def cut_off_last)
      next
        case False
        with Inl s new show ?thesis
          by (auto simp: using_conn_def open_conn_def bind_def Let_def conns_def lost_snoc cut_off_last)
      qed
    next
      case (Inr r)
      then have "conns up (insert ?c cs) (snd (work r ?t))"
        by (intro keepsD [OF work] t) (simp add: cut_off_last)
      from close_own [OF this new(2)] show ?thesis using Inr
        by (auto simp: using_conn_def open_conn_def bind_def Let_def finally_do_def split: prod.splits sum.splits)
    qed
  qed
  then show ?thesis by (simp add: keeps_def)
qed

lemma json_request_keeps: "keeps (conns up cs) (json_request L up m path v)"
  unfolding json_request_def Let_def by (intro using_conn_keeps keeps_intro)

lemma require_keeps: "keeps (conns up cs) (require ok msg)"
  unfolding require_def by (intro keeps_intro)

lemma do_work_keeps: "keeps (conns up cs) (do_work L up n expected p)"
  unfolding do_work_def stream_work_def upload_work_def download_work_def jobs_work_def Let_def
  by (cases p) (auto intro!: using_conn_keeps keeps_intro json_request_keeps require_keeps)

lemma sentinel_keeps: "keeps (conns up cs) (sentinel_check L up)"
  unfolding sentinel_check_def by (intro keeps_intro json_request_keeps)

lemma turn_keeps: "keeps (\<lambda>s. conns up cs (fst s)) (turn_step L up n expected deadline t)"
proof (cases t)
  case (WorkTurn p now secs stopped)
  have "keeps (\<lambda>s. conns up cs (fst s)) (work_turn L up n expected p secs)"
    using keepsD [OF do_work_keeps]
    by (auto simp: keeps_def work_turn_def split: prod.splits sum.splits) (metis snd_conv)+
  then show ?thesis by (auto simp: WorkTurn intro: keeps_intro)
next
  case (PollTurn elapsed state)
  then show ?thesis by (auto intro!: keeps_modify)
qed

text \<open>
  C26. No request leaks its connection, whatever upstream answers or raises: after the sentinel and
  any sequence of turns of the workers, run one after another, the active connections are exactly
  those whose request was cut off by an interrupt, which \<^verbatim>\<open>open\<close> does not close; when every request
  raises at most ordinary exceptions, none is active.
\<close>

theorem connections_closed:
  assumes ep: "endpoint_init ip base token = Inr ep"
    and run: "accept_run L up c deadline turns (ep, m) = (r, (t, m'))"
  shows "set (ep_active t) = {i. i < length (ep_log t) \<and> cut_off up (ep_log t) i}
    \<and> ((\<forall>log q e. up log q = Inl e \<longrightarrow> is_exception (exc_kind e)) \<longrightarrow> ep_active t = [])"
proof -
  let ?I = "\<lambda>s :: session. conns up {} (fst s)"
  have "keeps ?I (\<lambda>(ep, m). case sentinel_check L up ep of (r, ep') \<Rightarrow> (r, (ep', m)))"
    using keepsD [OF sentinel_keeps, of up "{}" _ L] by (simp add: keeps_def split_beta)
  moreover have "keeps ?I (for_each turns (turn_step L up n expected deadline))" for n expected
    by (rule keeps_for_each) (rule turn_keeps)
  ultimately have keep: "keeps ?I (accept_run L up c deadline turns)"
    unfolding accept_run_def by (intro keeps_bind) (auto intro: keeps_intro split: option.split)
  have "?I (ep, m)" using ep by (auto simp: endpoint_init_def rbind_Inr_iff conns_def lost_def)
  from keepsD [OF keep, OF this] have *: "set (ep_active t) = {i. i < length (ep_log t) \<and> cut_off up (ep_log t) i}"
    using run by (simp add: conns_def lost_def)
  moreover have "ep_active t = []" if "\<forall>log q e. up log q = Inl e \<longrightarrow> is_exception (exc_kind e)"
  proof -
    have "\<not> cut_off up (ep_log t) i" for i using that by (simp add: cut_off_def split: sum.split)
    with * show ?thesis by simp
  qed
  ultimately show ?thesis by blast
qed

text \<open>An upstream that always answers \<^verbatim>\<open>500\<close>.\<close>

definition demo_url :: url where
  "demo_url = \<lparr>u_scheme = ''http'', u_username = None, u_password = None, u_query = [], u_fragment = [],
     u_host = Some ''localhost'', u_port = Inr (Some 8765), u_path = []\<rparr>"

definition down :: upstream where
  "down earlier q = Inr \<lparr>rp_status = 500, rp_type = [], rp_chunks = []\<rparr>"

definition demo_endpoint :: endpoint where
  "demo_endpoint = \<lparr>ep_url = demo_url, ep_token = ''k'', ep_active = [], ep_next = 0, ep_log = []\<rparr>"

lemma demo_endpoint_init: "endpoint_init ip demo_url ''k'' = Inr demo_endpoint"
  by (simp add: endpoint_init_def local_url_def demo_url_def demo_endpoint_def)

text \<open>An upstream at which the user interrupts the run.\<close>

definition interrupting :: upstream where
  "interrupting earlier q = Inl (Exc KeyboardInterrupt [])"

theorem connections_closed_witness:
  "\<forall>L c m. ep_active (fst (snd (accept_run L down c 9 [WorkTurn Download 1 1 False] (demo_endpoint, m)))) = []
    \<and> set (ep_active (fst (snd (accept_run L interrupting c 9 [] (demo_endpoint, m))))) = {0}"
proof (intro allI conjI)
  fix L c m
  obtain r t m' where "accept_run L down c 9 [WorkTurn Download 1 1 False] (demo_endpoint, m) = (r, (t, m'))"
    by (metis surj_pair)
  from connections_closed [OF demo_endpoint_init this] this
  show "ep_active (fst (snd (accept_run L down c 9 [WorkTurn Download 1 1 False] (demo_endpoint, m)))) = []"
    by (simp add: down_def)
  obtain r t m' where run: "accept_run L interrupting c 9 [] (demo_endpoint, m) = (r, (t, m'))"
    by (metis surj_pair)
  then have "ep_log t = [the_request demo_endpoint ''GET'' ''/v1/models'' None []]"
    by (auto simp: accept_run_def sentinel_check_def json_request_def using_conn_def open_conn_def interrupting_def
        bind_def Let_def demo_endpoint_def the_request_def is_exception_def)
  with connections_closed [OF demo_endpoint_init run] run
  show "set (ep_active (fst (snd (accept_run L interrupting c 9 [] (demo_endpoint, m))))) = {0}"
    by (auto simp: cut_off_def interrupting_def is_exception_def)
qed

section \<open>The sentinel\<close>

lemma json_request_log:
  "ep_log (snd (json_request L up m path None s)) = ep_log s @ [the_request s m path None []]"
  by (auto simp: json_request_def using_conn_def open_conn_def bind_def Let_def finally_do_def close_conn_def
      modify_def raise_def lift_def split: prod.splits sum.splits if_splits)

text \<open>The sentinel as the program reads it: the document of a \<^verbatim>\<open>200\<close> answer within the limit.\<close>

definition sentinel_of :: "pylib \<Rightarrow> reply \<Rightarrow> pyval res" where
  "sentinel_of L r = (if rp_status r \<noteq> 200 \<or> JSON_LIMIT < length (body_of r) then Inl (Exc RuntimeError ''refused'')
     else loads L (body_of r))"

text \<open>
  C27. Fail closed: when the sentinel is not the controlled fixture's, or cannot be read, the run
  raises after exactly one request, the \<^verbatim>\<open>GET\<close> of the sentinel at the endpoint's own host, and
  no measurement has been made.
\<close>

theorem unverified_upstream_refused:
  assumes ep: "endpoint_init ip base token = Inr ep"
    and bad: "\<And>r. up [] (the_request ep ''GET'' ''/v1/models'' None []) = Inr r \<Longrightarrow>
       rbind (sentinel_of L r) is_fixture \<noteq> Inr True"
  shows "\<exists>e t. accept_run L up c deadline turns (ep, m) = (Inl e, (t, m))
    \<and> ep_log t = [the_request ep ''GET'' ''/v1/models'' None []]"
proof -
  have log: "ep_log ep = []" using ep by (auto simp: endpoint_init_def rbind_Inr_iff)
  obtain v t where json: "json_request L up ''GET'' ''/v1/models'' None ep = (v, t)" by fastforce
  have t: "ep_log t = [the_request ep ''GET'' ''/v1/models'' None []]"
    using json_request_log [of L up "''GET''" "''/v1/models''" ep] json log by simp
  have v: "rbind v is_fixture \<noteq> Inr True"
  proof (cases "up [] (the_request ep ''GET'' ''/v1/models'' None [])")
    case (Inl e)
    then have "\<exists>e. v = Inl e" using json log
      by (auto simp: json_request_def using_conn_def open_conn_def bind_def Let_def)
    then show ?thesis by auto
  next
    case (Inr r)
    have "v = (if rp_status r \<noteq> 200 then Inl (Exc RuntimeError ''HTTP status'')
        else if JSON_LIMIT < length (body_of r)
          then Inl (Exc RuntimeError ''JSON response exceeds acceptance harness limit'') else loads L (body_of r))"
      using json log Inr
      by (auto simp: json_request_def using_conn_def open_conn_def bind_def Let_def finally_do_def close_conn_def
          modify_def raise_def lift_def min_def split: prod.splits sum.splits if_splits)
    with bad [OF Inr] show ?thesis by (auto simp: sentinel_of_def split: if_splits)
  qed
  have "\<exists>e. sentinel_check L up ep = (Inl e, t)"
  proof (cases v)
    case (Inl e)
    then show ?thesis using json by (simp add: sentinel_check_def bind_def)
  next
    case (Inr s)
    then show ?thesis using json v by (cases "is_fixture s") (auto simp: sentinel_check_def bind_def lift_def raise_def)
  qed
  then show ?thesis using t by (auto simp: accept_run_def bind_def)
qed

theorem unverified_upstream_refused_witness:
  "\<forall>L c m. \<exists>e t. accept_run L down c 9 [WorkTurn Upload 1 1 False] (demo_endpoint, m) = (Inl e, (t, m))
     \<and> length (ep_log t) = 1"
proof (intro allI)
  fix L c m
  show "\<exists>e t. accept_run L down c 9 [WorkTurn Upload 1 1 False] (demo_endpoint, m) = (Inl e, (t, m))
     \<and> length (ep_log t) = 1"
    using unverified_upstream_refused [OF demo_endpoint_init, of down L c 9 "[WorkTurn Upload 1 1 False]" m]
    by (auto simp: down_def sentinel_of_def)
qed

section \<open>Downloads\<close>

lemma download_loop_iff:
  "download_loop n cs got = Inr t \<longleftrightarrow> t = got @ concat (takeWhile (\<lambda>c. c \<noteq> []) cs)
     \<and> (int (length t) \<le> n \<or> takeWhile (\<lambda>c. c \<noteq> []) cs = [])"
proof (induction cs arbitrary: got)
  case (Cons c cs)
  show ?case
  proof (cases "c = []")
    case False
    then show ?thesis using Cons.IH [of "got @ c"] by auto
  qed auto
qed auto

text \<open>
  A download passes exactly when the answer is \<^verbatim>\<open>200\<close> and the bytes before the end of the
  body have the declared size and the expected digest; how the body is cut into chunks, and
  the early size check, make no difference.
\<close>

lemma download_judged_by_bytes:
  "read_download L n expected r = Inr (k, first) \<longleftrightarrow>
     (let got = concat (takeWhile (\<lambda>c. c \<noteq> []) (rp_chunks r)) in
      rp_status r = 200 \<and> int (length got) = n \<and> sha256 L got = expected \<and> k = n \<and> first = None)"
  by (auto simp: read_download_def rbind_Inr_iff download_loop_iff Let_def split: if_splits)

section \<open>Requests stay local\<close>

definition local_log :: "url \<Rightarrow> string \<Rightarrow> endpoint \<Rightarrow> bool" where
  "local_log v token s \<longleftrightarrow> ep_url s = v \<and> ep_token s = token
     \<and> list_all (\<lambda>q. se_host q = u_host v \<and> se_port q = port_of v) (ep_log s)"

lemma open_conn_local: "keeps (local_log v token) (open_conn up m path body hs)"
  by (auto simp: keeps_def open_conn_def Let_def local_log_def the_request_def close_conn_def modify_def
      split: sum.splits)

lemma close_conn_local: "keeps (local_log v token) (close_conn c)"
  by (simp add: keeps_def close_conn_def modify_def local_log_def)

lemma using_conn_local: "(\<And>r. keeps (local_log v token) (work r)) \<Longrightarrow>
    keeps (local_log v token) (using_conn up m path body hs work)"
  unfolding using_conn_def by (intro keeps_intro open_conn_local close_conn_local)

lemma json_request_local: "keeps (local_log v token) (json_request L up m path w)"
  unfolding json_request_def Let_def by (intro using_conn_local keeps_intro)

lemma do_work_local: "keeps (local_log v token) (do_work L up n expected p)"
  unfolding do_work_def stream_work_def upload_work_def download_work_def jobs_work_def Let_def require_def
  by (cases p) (auto intro!: using_conn_local keeps_intro json_request_local)

lemma turn_local: "keeps (\<lambda>s. local_log v token (fst s)) (turn_step L up n expected deadline t)"
proof (cases t)
  case (WorkTurn p now secs stopped)
  have "keeps (\<lambda>s. local_log v token (fst s)) (work_turn L up n expected p secs)"
    using keepsD [OF do_work_local]
    by (auto simp: keeps_def work_turn_def split: prod.splits sum.splits) (metis snd_conv)+
  then show ?thesis by (auto simp: WorkTurn intro: keeps_intro)
next
  case (PollTurn elapsed state)
  then show ?thesis by (auto intro!: keeps_modify)
qed

lemma local_url_host:
  "local_url ip v = Inr w \<Longrightarrow> w = v \<and> (u_host v = Some ''localhost'' \<or> ip (u_host v) = Inr True)"
  by (auto simp: local_url_def rbind_Inr_iff split: if_splits sum.splits bool.splits)

text \<open>
  The token never leaves the machine: every request of the run, whatever the upstream
  answers, goes to the endpoint's own host and port, and that host is \<^verbatim>\<open>localhost\<close> or a loopback
  address.
\<close>

lemma requests_stay_local:
  assumes ep: "endpoint_init ip base token = Inr ep"
  shows "list_all (\<lambda>q. se_host q = u_host base \<and> se_port q = port_of base)
      (ep_log (fst (snd (accept_run L up c deadline turns (ep, m)))))
    \<and> (u_host base = Some ''localhost'' \<or> ip (u_host base) = Inr True)"
proof -
  have base: "local_url ip base = Inr base" and start: "local_log base token ep"
    using ep local_url_host by (auto simp: endpoint_init_def rbind_Inr_iff local_log_def)
  let ?I = "\<lambda>s :: session. local_log base token (fst s)"
  have "keeps (local_log base token) (sentinel_check L up)"
    unfolding sentinel_check_def by (intro keeps_intro json_request_local)
  then have "keeps ?I (\<lambda>(ep, m). case sentinel_check L up ep of (r, ep') \<Rightarrow> (r, (ep', m)))"
    by (simp add: keeps_def split_beta)
  moreover have "keeps ?I (for_each turns (turn_step L up n expected deadline))" for n expected
    by (rule keeps_for_each) (rule turn_local)
  ultimately have keep: "keeps ?I (accept_run L up c deadline turns)"
    unfolding accept_run_def by (intro keeps_bind) (auto intro: keeps_intro split: option.split)
  have "?I (ep, m)" using start by simp
  from keepsD [OF keep, OF this] local_url_host [OF base] show ?thesis by (simp add: local_log_def)
qed

theorem requests_stay_local_witness:
  "\<forall>L c m. list_all (\<lambda>q. se_host q = Some ''localhost'')
     (ep_log (fst (snd (accept_run L down c 9 [] (demo_endpoint, m)))))"
proof (intro allI)
  fix L c m
  show "list_all (\<lambda>q. se_host q = Some ''localhost'') (ep_log (fst (snd (accept_run L down c 9 [] (demo_endpoint, m)))))"
    using requests_stay_local [OF demo_endpoint_init, of L down c 9 "[]" m] by (simp add: demo_url_def list_all_iff)
qed

section \<open>The verdict\<close>

fun is_work :: "string \<Rightarrow> meas_event \<Rightarrow> bool" where
  "is_work name (Work n secs bytes first err) = (n = name)"
| "is_work name (Poll elapsed reply) = False"

fun is_failure :: "meas_event \<Rightarrow> bool" where
  "is_failure (Work n secs bytes first err) = (err \<noteq> None)"
| "is_failure (Poll elapsed reply) = False"

definition failures_of :: "string \<Rightarrow> meas_event list \<Rightarrow> nat" where
  "failures_of name es = length (filter (\<lambda>e. is_work name e \<and> is_failure e) es)"

definition successes_of :: "string \<Rightarrow> meas_event list \<Rightarrow> nat" where
  "successes_of name es = length (filter (\<lambda>e. is_work name e \<and> \<not> is_failure e) es)"

lemma telemetry_ops: "ops (snd (telemetry_step elapsed reply m)) = ops m"
proof -
  have "keeps (\<lambda>m'. ops m' = ops m) (telemetry_step elapsed reply)"
    unfolding telemetry_step_def sample_def by (auto simp: keeps_def catch_def bind_def Let_def modify_def
        lift_def raise_def andthen_def gets_def split: prod.splits sum.splits)
  then show ?thesis by (simp add: keeps_def)
qed

lemma counts_snoc:
  "failures_of name (es @ [e]) = failures_of name es + (if is_work name e \<and> is_failure e then 1 else 0)"
  "successes_of name (es @ [e]) = successes_of name es + (if is_work name e \<and> \<not> is_failure e then 1 else 0)"
  by (simp_all add: failures_of_def successes_of_def)

text \<open>The row of an operation counts its turns, and there is a row exactly for the operations that had one.\<close>

lemma row_counts:
  "case map_of (ops (meas_run es)) name of
     None \<Rightarrow> failures_of name es = 0 \<and> successes_of name es = 0
   | Some r \<Rightarrow> failures r = failures_of name es \<and> successes r = successes_of name es"
proof (induction es rule: rev_induct)
  case Nil
  then show ?case by (simp add: meas_run_def measurements_init_def failures_of_def successes_of_def)
next
  case (snoc e es)
  have run: "meas_run (es @ [e]) = meas_step e (meas_run es)" by (simp add: meas_run_def)
  show ?case
  proof (cases e)
    case (Work n secs bytes first err)
    show ?thesis unfolding run unfolding Work using snoc
      by (cases err; cases first; cases "n = name"; cases "map_of (ops (meas_run es)) name")
         (auto simp: Let_def update_conv' counts_snoc empty_row_def)
  next
    case (Poll elapsed reply)
    show ?thesis unfolding run unfolding Poll using snoc
      by (simp add: telemetry_ops counts_snoc split: option.splits)
  qed
qed

lemma ops_distinct: "distinct (map fst (ops (meas_run es)))"
proof (induction es rule: rev_induct)
  case Nil
  then show ?case by (simp add: meas_run_def measurements_init_def)
next
  case (snoc e es)
  then show ?case
    by (cases e) (auto simp: meas_run_def Let_def telemetry_ops distinct_update split: option.split)
qed

text \<open>
  C29. A passed verdict counts every turn of the run, in any interleaving: no operation ever
  failed, and four different operations each succeeded at least once.
\<close>

theorem passed_means_no_failure:
  assumes "software_passed finished interrupted admin (make_report elapsed (meas_run es))"
  shows "list_all (\<lambda>e. \<not> is_failure e) es
    \<and> (\<exists>ns. distinct ns \<and> length ns = 4 \<and> list_all (\<lambda>name. 0 < successes_of name es) ns)"
proof -
  let ?ns = "map fst (ops (meas_run es))"
  have clean: "failures r = 0 \<and> 0 < successes r" if "(name, r) \<in> set (ops (meas_run es))" for name r
    using assms that by (fastforce simp: software_passed_def make_report_def list_all_iff row_clean_def report_row_def)
  have row: "map_of (ops (meas_run es)) name = Some r" if "(name, r) \<in> set (ops (meas_run es))" for name r
    using that ops_distinct by (rule map_of_is_SomeI [rotated])
  have pos: "0 < successes_of name es" if r: "(name, r) \<in> set (ops (meas_run es))" for name r
    using row [OF r] clean [OF r] row_counts [where es = es and name = name] by simp
  have "list_all (\<lambda>name. 0 < successes_of name es) ?ns"
    unfolding list_all_iff using pos by force
  moreover have "failures_of name es = 0" for name
    using row_counts [where es = es and name = name] clean by (auto split: option.splits dest: map_of_SomeD)
  then have none: "\<not> (is_work name e \<and> is_failure e)" if "e \<in> set es" for name e
    using that by (auto simp: failures_of_def filter_empty_conv)
  have "\<not> is_failure e" if "e \<in> set es" for e
  proof (cases e)
    case (Work n secs bytes first err)
    with none [OF that, of n] show ?thesis by simp
  qed simp
  moreover have "length ?ns = 4" using assms by (simp add: software_passed_def make_report_def)
  ultimately show ?thesis using ops_distinct by (auto simp: list_all_iff intro!: exI [of _ ?ns])
qed

theorem passed_means_no_failure_witness:
  "list_all (\<lambda>e. \<not> is_failure e) (map (\<lambda>n. Work n 1 10 None None) [''sse'', ''upload'', ''download'', ''jobs_models''])"
proof -
  have "software_passed True False False (make_report 1 (meas_run
      (map (\<lambda>n. Work n 1 10 None None) [''sse'', ''upload'', ''download'', ''jobs_models''])))"
    by code_simp
  from passed_means_no_failure [OF this] show ?thesis by blast
qed

end
