(* ===== verification/Follow.thy ===== *)
theory Follow
  imports PyValue
begin

text \<open>
  The event follower of \<^verbatim>\<open>scripts/harness-check.py\<close>: the class \<^verbatim>\<open>Follow\<close> and the
  module's helpers. One field of the record per attribute; each method is an action, so
  what it changed before an exception stays changed. The server is an arbitrary function
  \<^verbatim>\<open>srv\<close> of the calls made so far, and the frames of the WebSocket arrive as a list of
  inputs with the monotonic time at which they are read. Sequence numbers and cursors are
  JSON integers.
\<close>

section \<open>Module helpers\<close>

definition MARKERS :: "string list" where
  "MARKERS = [''UART2LLM_HARNESS_SMOKE_OK'', ''MONEY-SKILL-LOADED'', ''SUBAGENT-AUDIT-DONE'',
     ''VERIFIED: 11'', ''HARNESS-WORKFLOW-DONE'', ''HARNESS-PARALLEL-DONE'',
     ''HARNESS-ADVANCED-DONE'', ''HARNESS-OWN-JOB-READY'', ''HARNESS-ADVANCED-VERIFIED'',
     ''HARNESS-CHILD-READY'', ''HARNESS-CHILD-RECOVERED'', ''HARNESS-FORK-VERIFIED'',
     ''HARNESS-JS-VERIFIED'', ''HARNESS-RALPH-VERIFIED'', ''HARNESS-COORDINATION-DONE'',
     ''HARNESS-REASONING-VERIFIED: 7321'']"

definition COORDINATION_SCRIPT :: string where
  "COORDINATION_SCRIPT = ''const values = [2,3,5,7]; const sum = values.reduce((a,b)=>a+b,0); ''
     @ ''const squares = values.reduce((a,b)=>a+b*b,0); ''
     @ ''return {marker:'' @ [CHR 0x27] @ ''HARNESS-JS-VERIFIED'' @ [CHR 0x27] @ '',sum,squares};''"

definition markers_in :: "string \<Rightarrow> string list" where
  "markers_in text = filter (\<lambda>m. contains m text) MARKERS"

text \<open>\<^verbatim>\<open>code\<close>: a short machine code, or None.\<close>

definition is_code :: "pyval \<Rightarrow> bool" where
  "is_code v \<longleftrightarrow> (case v of PStr s \<Rightarrow> fullmatch_class (alnum @ ''_./:-'') 1 100 s | _ \<Rightarrow> False)"

definition code :: "pyval \<Rightarrow> pyval" where
  "code v = (if is_code v then v else PNone)"

definition safe_error :: "pylib \<Rightarrow> exc \<Rightarrow> pydict" where
  "safe_error L e =
     (let result = [(''class'', PStr (class_name (exc_kind e)))] in
      case loads L (exc_msg e) of
        Inr (PDict d) \<Rightarrow> (case map_of d ''code'' of
            Some c \<Rightarrow> if is_code c then result @ [(''code'', c)] else result
          | None \<Rightarrow> result)
      | _ \<Rightarrow> result)"

lemma size_dict_lookup [termination_simp]:
  "map_of d k = Some c \<Longrightarrow> PDict d \<in> set vs \<Longrightarrow> size c < Suc (size_list size vs)"
proof -
  assume c: "map_of d k = Some c" and d: "PDict d \<in> set vs"
  have "size c < size (PDict d)" using size_dict_entry [OF map_of_SomeD [OF c]] by simp
  also have "size (PDict d) \<le> size_list size vs" using d by (rule size_list_estimation') simp
  finally show ?thesis by simp
qed

fun text_blocks :: "pyval \<Rightarrow> string list" where
  "text_blocks (PList vs) = concat (map (\<lambda>b. case b of
       PDict d \<Rightarrow>
         (case (map_of d ''type'' = Some (PStr ''text''), map_of d ''text'') of
            (True, Some (PStr s)) \<Rightarrow> [s]
          | _ \<Rightarrow> if map_of d ''type'' = Some (PStr ''tool-result'')
                then (case map_of d ''content'' of Some c \<Rightarrow> text_blocks c | None \<Rightarrow> [])
                else [])
     | _ \<Rightarrow> []) vs)"
| "text_blocks _ = []"

section \<open>The state\<close>

record attempt =
  chunks :: nat
  started :: bool
  ended :: bool
  outcome :: "pyval option"

record review =
  fixture_unchanged :: bool
  plan_scope_valid :: bool
  plan_sha256 :: string
  plan_bytes :: nat
  approved :: bool

type_synonym server = "(string \<times> pyval) list \<Rightarrow> string \<Rightarrow> pyval \<Rightarrow> pyval res"

record 'w follow =
  session_id :: pyval
  address :: pyval
  stream_id :: string
  events :: "pydict list"
  tools :: "(pyval \<times> pydict) list"
  attempts :: "(pyval \<times> attempt) list"
  counts :: "(pyval \<times> nat) list"
  usage :: pydict
  markers :: "string set"
  cursor :: int
  turn_ends :: "pydict list"
  children :: "(pyval \<times> pyval) list"
  available_tools :: "string set"
  gaps :: "string list"
  text_bytes :: nat
  received_bytes :: int
  frame_count :: int
  interaction_stream_id :: "string option"
  event_client_id :: pyval
  review_guard :: "('w \<Rightarrow> bool res) option"
  plan_reviews :: "review list"
  fixture_question :: "(string \<times> string) option"
  question_answers :: "string list"
  goal_states :: "pydict list"
  todo_states :: "(nat \<times> pyval list) list"
  owned_jobs :: "string set"
  sent :: "pyval list"
  calls :: "(string \<times> pyval) list"

definition session_address :: "pyval \<Rightarrow> pyval" where
  "session_address sid = PDict [(''kind'', PStr ''session''), (''sessionId'', sid)]"

definition follow_init :: "pyval \<Rightarrow> string \<Rightarrow> 'w follow" where
  "follow_init sid stream = \<lparr>session_id = sid, address = session_address sid, stream_id = stream, events = [], tools = [],
     attempts = [], counts = [], usage = [], markers = {}, cursor = -1, turn_ends = [],
     children = [], available_tools = {}, gaps = [], text_bytes = 0, received_bytes = 0,
     frame_count = 0, interaction_stream_id = None, event_client_id = PNone,
     review_guard = None, plan_reviews = [], fixture_question = None, question_answers = [],
     goal_states = [], todo_states = [], owned_jobs = {}, sent = [], calls = []\<rparr>"

type_synonym ('w, 'a) fact_of = "('w follow, 'a) act"

text \<open>A sequence number or cursor.\<close>

definition as_int :: "pyval \<Rightarrow> int res" where
  "as_int v = (case v of PInt n \<Rightarrow> Inr n | PBool b \<Rightarrow> Inr (if b then 1 else 0)
     | _ \<Rightarrow> Inl (Exc TypeError ''type''))"

text \<open>\<^verbatim>\<open>self.counts[k] += n\<close>; an unhashable key raises.\<close>

definition count_of :: "'w follow \<Rightarrow> string \<Rightarrow> nat" where
  "count_of s k = (case map_of (counts s) (PStr k) of None \<Rightarrow> 0 | Some n \<Rightarrow> n)"

definition add_count :: "pyval \<Rightarrow> nat \<Rightarrow> (pyval \<times> nat) list \<Rightarrow> (pyval \<times> nat) list" where
  "add_count k n c = AList.update k ((case map_of c k of None \<Rightarrow> 0 | Some m \<Rightarrow> m) + n) c"

definition bump :: "pyval \<Rightarrow> nat \<Rightarrow> ('w, unit) fact_of" where
  "bump k n = (if hashable k then modify (\<lambda>s. s\<lparr>counts := add_count k n (counts s)\<rparr>)
     else raise TypeError ''unhashable'')"

text \<open>\<^verbatim>\<open>self.harness.rpc(method, **args)\<close>: the call is logged, then answered or refused.\<close>

definition rpc :: "server \<Rightarrow> string \<Rightarrow> pyval \<Rightarrow> ('w, pyval) fact_of" where
  "rpc srv m args s = (srv (calls s) m args, s\<lparr>calls := calls s @ [(m, args)]\<rparr>)"

definition ws_send :: "pyval \<Rightarrow> ('w, unit) fact_of" where
  "ws_send v = modify (\<lambda>s. s\<lparr>sent := sent s @ [v]\<rparr>)"

section \<open>Interactions\<close>

definition next_outcome :: pyval where
  "next_outcome = PDict [(''kind'', PStr ''next'')]"

definition result_outcome :: "string \<Rightarrow> string \<Rightarrow> pyval" where
  "result_outcome qid choice = PDict [(''kind'', PStr ''result''), (''value'', PDict [(''answers'',
     PList [PDict [(''id'', PStr qid), (''selected'', PList [PStr choice])]])])]"

text \<open>The common opening of both guards: an own question request with a single question.\<close>

definition own_single_question :: "bool \<Rightarrow> pyval \<Rightarrow> pyval \<Rightarrow> bool res" where
  "own_single_question owned value questions =
     rand (Inr owned)
     (rand (rbind (pyget value ''event'' PNone) (\<lambda>e. Inr (e = PStr ''user-questions/request'')))
           (rbind (py_length questions) (\<lambda>n. Inr (n = 1))))"

definition is_review :: "bool \<Rightarrow> pyval \<Rightarrow> pyval \<Rightarrow> bool res" where
  "is_review owned value questions =
     rand (own_single_question owned value questions)
     (rbind (first_item questions) (\<lambda>q.
      rand (get_eq q ''id'' ''plan-review'')
     (rand (rbind (pyget q ''intent'' (PDict [])) (\<lambda>i. get_eq i ''kind'' ''plan-review''))
     (rand (rbind (pyget q ''intent'' (PDict [])) (\<lambda>i. get_eq i ''approve'' ''Approve''))
           (rbind (pyget q ''options'' (PList [])) (\<lambda>os.
            rbind (iterate os) (rany (\<lambda>p. get_eq p ''label'' ''Approve''))))))))"

definition is_fixture_question :: "'w follow \<Rightarrow> bool \<Rightarrow> pyval \<Rightarrow> pyval \<Rightarrow> bool res" where
  "is_fixture_question s owned value questions =
     (case fixture_question s of None \<Rightarrow> Inr False
      | Some (qid, question) \<Rightarrow>
          rand (own_single_question owned value questions)
         (rbind (first_item questions) (\<lambda>q.
          rand (get_eq q ''id'' qid)
         (rand (get_eq q ''question'' question)
         (rand (rbind (pyget q ''options'' (PList [])) (\<lambda>os.
                rbind (iterate os) (\<lambda>ps.
                rbind (rmap (\<lambda>p. pyget p ''label'' PNone) ps) (\<lambda>labels.
                Inr (labels = [PStr ''Blue'', PStr ''Green''])))))
         (rand (rbind (pyget q ''intent'' PNone) (\<lambda>i. Inr (\<not> truthy i)))
         (rand (rbind (pyget q ''multiSelect'' PNone) (\<lambda>m. Inr (\<not> truthy m)))
               (Inr (question_answers s = [])))))))))"

text \<open>The plan review itself: the decision and its record.\<close>

definition plan_in_scope :: "pyval \<Rightarrow> bool" where
  "plan_in_scope detail = (case detail of
       PStr s \<Rightarrow> starts_with ''#'' (lstrip s) \<and> contains ''price.py'' s \<and> contains ''verify.py'' s
     | _ \<Rightarrow> False)"

definition decide_review :: "pylib \<Rightarrow> 'w \<Rightarrow> pyval \<Rightarrow> ('w, bool) fact_of" where
  "decide_review L w q =
     bind (lift (pyget q ''detail'' (PStr []))) (\<lambda>detail.
     bind (gets review_guard) (\<lambda>guard.
     bind (lift (case guard of None \<Rightarrow> Inr False | Some g \<Rightarrow> g w)) (\<lambda>unchanged.
     bind (gets plan_reviews) (\<lambda>earlier.
     let scoped = plan_in_scope detail;
         allowed = unchanged \<and> scoped \<and> earlier = [];
         text = to_str L detail
     in andthen (modify (\<lambda>s. s\<lparr>plan_reviews := plan_reviews s @
          [\<lparr>fixture_unchanged = unchanged, plan_scope_valid = scoped,
            plan_sha256 = sha256 L text, plan_bytes = length text, approved = allowed\<rparr>]\<rparr>))
        (ret allowed)))))"

definition tell :: "server \<Rightarrow> pyval \<Rightarrow> pyval \<Rightarrow> ('w, pyval) fact_of" where
  "tell srv value oc =
     bind (gets event_client_id) (\<lambda>client.
     bind (lift (getitem value ''eventId'')) (\<lambda>event_id.
     rpc srv ''$events/result''
       (PDict [(''clientId'', client), (''eventId'', event_id), (''outcome'', oc)])))"

text \<open>Record the answer or the review, tell the server the outcome, fail unless it was granted.\<close>

definition settle :: "pylib \<Rightarrow> server \<Rightarrow> 'w \<Rightarrow> pyval \<Rightarrow> pyval \<Rightarrow> bool \<Rightarrow> bool \<Rightarrow> bool \<Rightarrow> ('w, unit) fact_of" where
  "settle L srv w value questions owned review fixture =
     bind (gets fixture_question) (\<lambda>fq.
     let qid = (case fq of None \<Rightarrow> [] | Some (i, _) \<Rightarrow> i) in
     andthen (when_do fixture (modify (\<lambda>s. s\<lparr>question_answers := question_answers s @ [qid]\<rparr>)))
     (bind (if review then bind (lift (first_item questions)) (decide_review L w) else ret False) (\<lambda>allowed.
     let outcome = (if allowed then result_outcome ''plan-review'' ''Approve''
                    else if fixture then result_outcome qid ''Blue'' else next_outcome) in
     andthen (tell srv value outcome)
     (when_do (owned \<and> \<not> fixture \<and> \<not> allowed)
       (raise RuntimeError ''unexpected_or_unsafe_fixture_interaction'')))))"

definition interaction :: "pylib \<Rightarrow> server \<Rightarrow> 'w \<Rightarrow> pyval \<Rightarrow> ('w, unit) fact_of" where
  "interaction L srv w value =
     bind (lift (pyget value ''type'' PNone)) (\<lambda>kind.
     if kind = PStr ''ready'' then
       bind (lift (getitem value ''clientId'')) (\<lambda>c. modify (\<lambda>s. s\<lparr>event_client_id := c\<rparr>))
     else if kind \<noteq> PStr ''waterfall'' then ret ()
     else
     bind (lift (pyget value ''agentId'' PNone)) (\<lambda>agent.
     bind (gets (\<lambda>s. agent = session_id s)) (\<lambda>owned.
     bind (lift (pyget value ''request'' PNone)) (\<lambda>request0.
     bind (lift (pyget (py_or request0 (PDict [])) ''questions'' (PList []))) (\<lambda>questions.
     bind (lift (is_review owned value questions)) (\<lambda>review.
     bind (\<lambda>s. (is_fixture_question s owned value questions, s)) (\<lambda>fixture.
     settle L srv w value questions owned review fixture)))))))"

section \<open>Durable events\<close>

text \<open>Each kind of event is one action; it returns the fields it adds to the brief record.\<close>

definition route_keys :: "string list" where
  "route_keys = [''provider'', ''model'', ''reasoningEffort'', ''maxTokens'']"

fun route_of :: "pyval \<Rightarrow> string list \<Rightarrow> pydict res" where
  "route_of conf [] = Inr []"
| "route_of conf (k # ks) = rbind (py_in k conf) (\<lambda>present.
     rbind (if present then rbind (getitem conf k) (\<lambda>v. Inr [(k, v)]) else Inr []) (\<lambda>first.
     rbind (route_of conf ks) (\<lambda>others. Inr (first @ others))))"

definition tool_names :: "pyval list \<Rightarrow> string list" where
  "tool_names ts = concat (map (\<lambda>t. case t of
       PDict d \<Rightarrow> (case map_of d ''name'' of
           Some (PStr n) \<Rightarrow> if is_code (PStr n) then [n] else [] | _ \<Rightarrow> [])
     | _ \<Rightarrow> []) ts)"

definition on_header :: "pyval \<Rightarrow> ('w, pydict) fact_of" where
  "on_header data =
     bind (lift (pyget data ''header'' (PDict []))) (\<lambda>header.
     bind (lift (pyget header ''config'' (PDict []))) (\<lambda>conf.
     bind (lift (route_of conf route_keys)) (\<lambda>route.
     bind (lift (pyget header ''tools'' (PList []))) (\<lambda>ts.
     bind (lift (iterate ts)) (\<lambda>offered.
     andthen (modify (\<lambda>s. s\<lparr>available_tools := available_tools s \<union> set (tool_names offered)\<rparr>))
     (ret [(''route'', PDict route)]))))))"

definition on_catalog :: "pyval \<Rightarrow> ('w, pydict) fact_of" where
  "on_catalog data =
     bind (lift (pyget data ''childId'' PNone)) (\<lambda>cid.
     bind (lift (pyget data ''mode'' PNone)) (\<lambda>mode.
     andthen (modify (\<lambda>s. if truthy cid
          \<and> \<not> list_ex (\<lambda>(c, m). py_eq cid c \<and> py_eq mode m) (children s)
        then s\<lparr>children := children s @ [(cid, mode)]\<rparr> else s))
     (ret [])))"

definition on_goal :: "pyval \<Rightarrow> ('w, pydict) fact_of" where
  "on_goal data =
     bind (lift (pyget data ''goal'' PNone)) (\<lambda>g0.
     bind (lift (rmap (\<lambda>k. rbind (pyget (py_or g0 (PDict [])) k PNone) (\<lambda>v. Inr (k, v)))
       [''id'', ''revision'', ''phase'', ''maxGoalRounds''])) (\<lambda>st.
     andthen (modify (\<lambda>s. s\<lparr>goal_states := goal_states s @ [st]\<rparr>)) (ret [])))"

definition on_todo :: "pyval \<Rightarrow> ('w, pydict) fact_of" where
  "on_todo data =
     bind (lift (pyget data ''todos'' (PList []))) (\<lambda>todos.
     bind (lift (py_length todos)) (\<lambda>n.
     bind (lift (iterate todos)) (\<lambda>ts.
     bind (lift (rmap (\<lambda>t. rbind (pyget t ''status'' PNone) (\<lambda>v. Inr (code v))) ts)) (\<lambda>statuses.
     andthen (modify (\<lambda>s. s\<lparr>todo_states := todo_states s @ [(n, statuses)]\<rparr>)) (ret [])))))"

definition on_turn_end :: "pydict \<Rightarrow> pyval \<Rightarrow> ('w, pydict) fact_of" where
  "on_turn_end brief data =
     bind (lift (pyget data ''reason'' (PDict []))) (\<lambda>reason.
     bind (lift (pyget reason ''kind'' PNone)) (\<lambda>kind.
     bind (lift (pyget reason ''error'' (PDict []))) (\<lambda>err.
     bind (lift (pyget err ''code'' PNone)) (\<lambda>c.
     let extra = [(''reason'', code kind), (''error_code'', code c)] in
     andthen (modify (\<lambda>s. s\<lparr>turn_ends := turn_ends s @ [brief @ extra]\<rparr>)) (ret extra)))))"

definition reasoning_count :: "pyval list \<Rightarrow> nat" where
  "reasoning_count bs = length (filter (\<lambda>b. case b of
       PDict d \<Rightarrow> map_of d ''type'' = Some (PStr ''reasoning'') | _ \<Rightarrow> False) bs)"

text \<open>\<^verbatim>\<open>type(v) in (int, float) and v >= 0\<close>; the counter starts from the integer 0.\<close>

definition usage_number :: "pyval \<Rightarrow> bool" where
  "usage_number v = (case v of PInt n \<Rightarrow> 0 \<le> n | PFloat f \<Rightarrow> nonneg (PFloat f) | _ \<Rightarrow> False)"

definition add_usage :: "string \<times> pyval \<Rightarrow> pydict \<Rightarrow> pydict" where
  "add_usage kv u = (case kv of (k, v) \<Rightarrow>
     if usage_number v then
       (case num_add (case map_of u k of None \<Rightarrow> PInt 0 | Some w \<Rightarrow> w) v of
          Inr w \<Rightarrow> AList.update k w u | Inl _ \<Rightarrow> u)
     else u)"

definition on_message :: "pyval \<Rightarrow> ('w, pydict) fact_of" where
  "on_message data =
     bind (lift (pyget data ''message'' (PDict []))) (\<lambda>message.
     bind (lift (rbind (pyget message ''content'' (PList [])) iterate)) (\<lambda>blocks.
     andthen (bump (PStr ''reasoning_blocks'') (reasoning_count blocks))
     (bind (lift (pyget message ''content'' PNone)) (\<lambda>content.
     andthen (modify (\<lambda>s. s\<lparr>
         text_bytes := text_bytes s + sum_list (map length (text_blocks content)),
         markers := markers s \<union> set (concat (map markers_in (text_blocks content)))\<rparr>))
     (bind (lift (pyget data ''usage'' PNone)) (\<lambda>u.
      bind (lift (items (py_or u (PDict [])))) (\<lambda>kvs.
      andthen (modify (\<lambda>s. s\<lparr>usage := fold add_usage kvs (usage s)\<rparr>))
      (bind (lift (pyget data ''interrupted'' (PBool False))) (\<lambda>i.
       ret [(''interrupted'', i)])))))))))"

subsection \<open>Tool calls\<close>

text \<open>
  The parsed arguments and whether they are an object. Only a failed parse resets them:
  a parsed list, number or null stays.
\<close>

definition parse_arguments :: "pylib \<Rightarrow> pyval \<Rightarrow> pyval \<times> bool" where
  "parse_arguments L arguments = (case loads_val L arguments of
       Inr v \<Rightarrow> (v, is_dict v) | Inl _ \<Rightarrow> (PDict [], False))"

definition codes_of :: "pyval list \<Rightarrow> pyval list" where
  "codes_of ks = filter is_code ks"

definition if_name :: "pyval \<Rightarrow> string list \<Rightarrow> ('w, pydict) fact_of \<Rightarrow> ('w, pydict) fact_of" where
  "if_name name ns m = (if name \<in> PStr ` set ns then m else ret [])"

definition own_child :: "pyval \<Rightarrow> (pyval \<times> pyval) list \<Rightarrow> bool res" where
  "own_child parsed cs = rany (\<lambda>(cid, mode).
     rbind (pyget parsed ''agent_id'' PNone) (\<lambda>a. Inr (py_eq cid a \<and> mode = PStr ''continuable''))) cs"

definition own_job :: "pyval \<Rightarrow> string set \<Rightarrow> bool res" where
  "own_job parsed jobs = rbind (pyget parsed ''job_id'' PNone) (\<lambda>j.
     if hashable j then Inr (j \<in> PStr ` jobs) else Inl (Exc TypeError ''unhashable''))"

definition on_tool_call :: "pylib \<Rightarrow> pyval \<Rightarrow> ('w, pydict) fact_of" where
  "on_tool_call L data =
     bind (lift (pyget data ''arguments'' (PStr []))) (\<lambda>arguments.
     let (parsed, valid) = parse_arguments L arguments in
     bind (lift (pyget data ''callId'' PNone)) (\<lambda>call_id.
     bind (lift (pyget data ''name'' PNone)) (\<lambda>raw_name.
     let name = code raw_name in
     bind (lift (iterate parsed)) (\<lambda>keys.
     andthen (if raw_name = PStr ''structured_output'' then
        bind (lift (get_eq parsed ''status'' ''complete'')) (\<lambda>complete.
        when_do complete (bind (lift (pyget parsed ''evidence'' (PStr []))) (\<lambda>ev.
          modify (\<lambda>s. s\<lparr>markers := markers s \<union> set (markers_in (dumps L ev))\<rparr>))))
        else ret ())
     (bind (if_name name [''create_goal''] (bind (lift (pyget parsed ''max_goal_rounds'' PNone)) (\<lambda>v.
        ret [(''goal_round_cap'', v)]))) (\<lambda>x1.
      bind (if_name name [''update_goal''] (bind (lift (pyget parsed ''action'' PNone)) (\<lambda>v.
        ret [(''goal_action'', code v)]))) (\<lambda>x2.
      bind (if_name name [''ralph''] (bind (lift (pyget parsed ''maxRounds'' PNone)) (\<lambda>v.
        ret [(''ralph_round_cap'', v)]))) (\<lambda>x3.
      bind (if_name name [''workflow''] (bind (lift (pyget parsed ''script'' PNone)) (\<lambda>v.
        ret [(''exact_pure_js_script'', PBool (v = PStr COORDINATION_SCRIPT))]))) (\<lambda>x4.
      bind (if_name name [''send_message'', ''interrupt_agent''] (bind (gets children) (\<lambda>cs.
        bind (lift (own_child parsed cs)) (\<lambda>b. ret [(''targets_own_child'', PBool b)])))) (\<lambda>x5.
      bind (if_name name [''pwsh''] (bind (lift (pyget parsed ''run_in_background'' PNone)) (\<lambda>v.
        ret [(''background'', PBool (v = PBool True))]))) (\<lambda>x6.
      bind (if_name name [''job_output'', ''job_kill''] (bind (gets owned_jobs) (\<lambda>jobs.
        bind (lift (own_job parsed jobs)) (\<lambda>b. ret [(''targets_own_job'', PBool b)])))) (\<lambda>x7.
      bind (lift (getitem data ''callId'')) (\<lambda>key.
      if hashable key then
        andthen (modify (\<lambda>s. s\<lparr>tools := AList.update key
           ([(''call_id'', call_id), (''name'', name),
             (''arguments_sha256'', PStr (sha256 L (to_str L arguments))),
             (''arguments_valid_json'', PBool valid), (''result_received'', PBool False),
             (''argument_keys'', PList (codes_of keys))] @ x1 @ x2 @ x3 @ x4 @ x5 @ x6 @ x7) (tools s)\<rparr>))
        (ret [])
      else raise TypeError ''unhashable'')))))))))))))"

subsection \<open>Tool results\<close>

definition job_id_chars :: string where
  "job_id_chars = alnum @ ''_-''"

text \<open>\<^verbatim>\<open>re.fullmatch(r'\s*started background job ([A-Za-z0-9_-]+)\s*', texts)\<close>.\<close>

definition started_job :: "string \<Rightarrow> string option" where
  "started_job texts =
     (let s = lstrip texts; p = ''started background job '' in
      if starts_with p s then
        let r = drop (length p) s;
            job = takeWhile (\<lambda>c. c \<in> set job_id_chars) r;
            tail = dropWhile (\<lambda>c. c \<in> set job_id_chars) r
        in if job \<noteq> [] \<and> lstrip tail = [] then Some job else None
      else None)"

definition newline :: string where
  "newline = [CHR 0x0A]"

definition goal_phase :: "pylib \<Rightarrow> string \<Rightarrow> pydict" where
  "goal_phase L texts =
     (case rbind (loads L texts) (\<lambda>v. rbind (pyget v ''goal'' PNone) (\<lambda>g.
            pyget (py_or g (PDict [])) ''phase'' PNone)) of
        Inr phase \<Rightarrow> [(''goal_result_phase'', code phase)] | Inl _ \<Rightarrow> [])"

definition pure_js_verified :: "pylib \<Rightarrow> string \<Rightarrow> bool" where
  "pure_js_verified L texts =
     (case after_first (newline @ ''Return value:'' @ newline) texts of
        None \<Rightarrow> False
      | Some t \<Rightarrow> (case loads L t of Inl _ \<Rightarrow> False
          | Inr v \<Rightarrow> py_eq v (PDict [(''marker'', PStr ''HARNESS-JS-VERIFIED''), (''sum'', PInt 17),
              (''squares'', PInt 87)])))"

definition ralph_verified :: "pylib \<Rightarrow> string \<Rightarrow> bool" where
  "ralph_verified L texts =
     (case after_first (newline @ ''Final report:'' @ newline) texts of
        None \<Rightarrow> False
      | Some t \<Rightarrow> (case loads L t of
            Inr (PDict d) \<Rightarrow> map_of d ''status'' = Some (PStr ''complete'')
              \<and> map_of d ''nextSteps'' = Some (PList []) \<and> map_of d ''blocker'' = Some (PStr [])
              \<and> contains ''HARNESS-RALPH-VERIFIED''
                  (dumps_ascii L (case map_of d ''evidence'' of None \<Rightarrow> PList [] | Some e \<Rightarrow> e))
          | _ \<Rightarrow> False))"

definition dict_update :: "pydict \<Rightarrow> pydict \<Rightarrow> pydict" where
  "dict_update new d = fold (\<lambda>(k, v). AList.update k v) new d"

definition has_name :: "pydict \<Rightarrow> string list \<Rightarrow> bool" where
  "has_name t ns \<longleftrightarrow> (case map_of t ''name'' of Some (PStr n) \<Rightarrow> n \<in> set ns | _ \<Rightarrow> False)"

definition flag :: "pydict \<Rightarrow> string \<Rightarrow> bool" where
  "flag t k = (case map_of t k of None \<Rightarrow> False | Some v \<Rightarrow> truthy v)"

text \<open>The fields one result block sets on its tool record, and the job it starts.\<close>

definition result_fields :: "pylib \<Rightarrow> string \<Rightarrow> bool \<Rightarrow> pydict \<Rightarrow> pydict" where
  "result_fields L texts err t =
     [(''result_received'', PBool True), (''is_error'', PBool err),
      (''result_text_bytes'', PInt (int (length texts))), (''result_sha256'', PStr (sha256 L texts)),
      (''markers'', PList (map PStr (markers_in texts)))]
     @ (if has_name t [''job_output'', ''job_kill''] then
          [(''job_status_killed'', PBool (contains ''[status: killed'' texts)),
           (''cancellation_requested'', PBool (contains ''requested cancellation of job '' texts))] else [])
     @ (if has_name t [''create_goal'', ''get_goal'', ''update_goal''] then goal_phase L texts else [])
     @ (if has_name t [''workflow''] then
          [(''pure_js_result_verified'', PBool (pure_js_verified L texts))] else [])
     @ (if has_name t [''ralph''] then
          [(''one_round_completion'',
              PBool (starts_with ''Ralph worker reported completion after 1 round.'' texts)),
           (''structured_report_verified'', PBool (ralph_verified L texts))] else [])"

definition result_job :: "string \<Rightarrow> bool \<Rightarrow> pydict \<Rightarrow> string set" where
  "result_job texts err t =
     (if has_name t [''pwsh''] \<and> flag t ''background'' \<and> \<not> err
      then (case started_job texts of None \<Rightarrow> {} | Some j \<Rightarrow> {j}) else {})"

definition on_result_block :: "pylib \<Rightarrow> pyval \<Rightarrow> ('w, unit) fact_of" where
  "on_result_block L block =
     bind (lift (pyget block ''type'' PNone)) (\<lambda>ty.
     if ty \<noteq> PStr ''tool-result'' then ret ()
     else
     bind (lift (pyget block ''toolCallId'' PNone)) (\<lambda>cid.
     if \<not> hashable cid then raise TypeError ''unhashable''
     else
     bind (lift (pyget block ''isError'' PNone)) (\<lambda>e.
     bind (lift (pyget block ''content'' PNone)) (\<lambda>content.
     let texts = join newline (text_blocks content); err = truthy e in
     modify (\<lambda>s.
       let t = (case map_of (tools s) cid of None \<Rightarrow> [(''call_id'', cid)] | Some t \<Rightarrow> t)
       in s\<lparr>tools := AList.update cid (dict_update (result_fields L texts err t) t) (tools s),
            markers := markers s \<union> set (markers_in texts),
            owned_jobs := owned_jobs s \<union> result_job texts err t\<rparr>)))))"

definition on_tool_result :: "pylib \<Rightarrow> pyval \<Rightarrow> ('w, pydict) fact_of" where
  "on_tool_result L data =
     bind (lift (pyget data ''message'' (PDict []))) (\<lambda>message.
     bind (lift (rbind (pyget message ''content'' (PList [])) iterate)) (\<lambda>blocks.
     andthen (for_each blocks (on_result_block L))
     (bind (lift (pyget data ''error'' (PDict []))) (\<lambda>err.
      bind (lift (pyget err ''code'' PNone)) (\<lambda>c. ret [(''error_code'', code c)])))))"

subsection \<open>The event log\<close>

definition on_kind :: "pylib \<Rightarrow> pyval \<Rightarrow> pydict \<Rightarrow> pyval \<Rightarrow> ('w, pydict) fact_of" where
  "on_kind L kind brief data =
     (if kind = PStr ''request/header'' then on_header data
      else if kind = PStr ''subagent/catalog'' then on_catalog data
      else if kind = PStr ''plan/mode'' then
        bind (lift (pyget data ''active'' PNone)) (\<lambda>v. ret [(''active'', v)])
      else if kind = PStr ''tool-workflow/run-end'' then
        bind (lift (pyget data ''stopReason'' PNone)) (\<lambda>v. ret [(''stop_reason'', code v)])
      else if kind = PStr ''goal/change'' then on_goal data
      else if kind = PStr ''todo/write'' then on_todo data
      else if kind = PStr ''turn/end'' then on_turn_end brief data
      else if kind = PStr ''assistant/message'' then on_message data
      else if kind = PStr ''tool/call'' then on_tool_call L data
      else if kind = PStr ''tool/result'' then on_tool_result L data
      else ret [])"

definition MAX_EVENTS :: int where
  "MAX_EVENTS = 15000"

definition MAX_STEPS :: nat where
  "MAX_STEPS = 48"

definition over_bound :: "'w follow \<Rightarrow> bool" where
  "over_bound s \<longleftrightarrow> MAX_EVENTS < int (length (events s)) \<or> MAX_STEPS < count_of s ''step/start''"

definition append_event :: "pydict \<Rightarrow> ('w, unit) fact_of" where
  "append_event brief =
     andthen (modify (\<lambda>s. s\<lparr>events := events s @ [brief]\<rparr>))
     (bind (gets over_bound) (\<lambda>over.
      when_do over (raise RuntimeError ''session_event_or_model_request_bound_exceeded'')))"

text \<open>The cursor and the gap check of an event that is not a repetition.\<close>

definition advance :: "int \<Rightarrow> bool \<Rightarrow> 'w follow \<Rightarrow> 'w follow" where
  "advance seq opening s = s\<lparr>cursor := seq,
     gaps := (if \<not> opening \<and> 0 \<le> cursor s \<and> seq \<noteq> cursor s + 1
              then gaps s @ [''durable_event_sequence''] else gaps s)\<rparr>"

definition event :: "pylib \<Rightarrow> pyval \<Rightarrow> bool \<Rightarrow> ('w, unit) fact_of" where
  "event L ev opening =
     bind (lift (getitem ev ''seq'')) (\<lambda>raw_seq.
     bind (lift (getitem ev ''type'')) (\<lambda>kind.
     bind (lift (pyget ev ''data'' (PDict []))) (\<lambda>data.
     bind (lift (as_int raw_seq)) (\<lambda>seq.
     bind (gets cursor) (\<lambda>cur.
     if seq \<le> cur then ret ()
     else
     andthen (modify (advance seq opening))
     (andthen (bump kind 1)
     (bind (lift (pyget ev ''time'' PNone)) (\<lambda>time.
      let brief = [(''seq'', raw_seq), (''type'', kind), (''time'', time)] in
      bind (on_kind L kind brief data) (\<lambda>extra.
      append_event (brief @ extra))))))))))"

section \<open>Follow stream\<close>

definition new_attempt :: attempt where
  "new_attempt = \<lparr>chunks = 0, started = False, ended = False, outcome = None\<rparr>"

definition set_attempt :: "pyval \<Rightarrow> (attempt \<Rightarrow> attempt) \<Rightarrow> 'w follow \<Rightarrow> 'w follow" where
  "set_attempt k f s = s\<lparr>attempts := AList.update k
     (f (case map_of (attempts s) k of None \<Rightarrow> new_attempt | Some a \<Rightarrow> a)) (attempts s)\<rparr>"

definition chunks_of :: "pyval \<Rightarrow> 'w follow \<Rightarrow> nat" where
  "chunks_of k s = (case map_of (attempts s) k of None \<Rightarrow> 0 | Some a \<Rightarrow> chunks a)"

definition check_index :: "pyval \<Rightarrow> pyval \<Rightarrow> string \<Rightarrow> ('w, unit) fact_of" where
  "check_index k f msg =
     bind (lift (pyget f ''index'' PNone)) (\<lambda>i.
     modify (\<lambda>s. if eq_int i (int (chunks_of k s)) then s else s\<lparr>gaps := gaps s @ [msg]\<rparr>))"

definition frame_step :: "pyval \<Rightarrow> pyval \<Rightarrow> pyval \<Rightarrow> ('w, unit) fact_of" where
  "frame_step k f ty =
     (if ty = PStr ''start'' then modify (set_attempt k (\<lambda>a. a\<lparr>started := True\<rparr>))
      else if ty = PStr ''chunk'' then
        andthen (check_index k f ''assistant_chunk_index'')
       (andthen (modify (set_attempt k (\<lambda>a. a\<lparr>chunks := chunks a + 1\<rparr>)))
                (bump (PStr ''live_assistant_chunks'') 1))
      else if ty = PStr ''end'' then
        andthen (check_index k f ''assistant_end_index'')
       (andthen (modify (set_attempt k (\<lambda>a. a\<lparr>ended := True\<rparr>)))
       (bind (lift (pyget f ''outcome'' (PDict []))) (\<lambda>oc.
        bind (lift (pyget oc ''kind'' PNone)) (\<lambda>kind.
        modify (set_attempt k (\<lambda>a. a\<lparr>outcome := Some kind\<rparr>))))))
      else ret ())"

definition assistant_frame :: "pyval \<Rightarrow> ('w, unit) fact_of" where
  "assistant_frame f =
     bind (lift (getitem f ''attemptId'')) (\<lambda>k.
     if \<not> hashable k then raise TypeError ''unhashable''
     else
     andthen (modify (set_attempt k (\<lambda>a. a)))
     (bind (lift (getitem f ''type'')) (frame_step k f)))"

definition snapshot_item :: "pylib \<Rightarrow> pyval \<Rightarrow> ('w, unit) fact_of" where
  "snapshot_item L item =
     bind (lift (pyget item ''type'' PNone)) (\<lambda>ty.
     if ty = PStr ''event'' then bind (lift (getitem item ''event'')) (\<lambda>e. event L e True)
     else ret ())"

definition consume :: "pylib \<Rightarrow> pyval \<Rightarrow> ('w, unit) fact_of" where
  "consume L value =
     bind (lift (pyget value ''type'' PNone)) (\<lambda>kind.
     if kind = PStr ''snapshot'' then
       bind (lift (pyget value ''hasMore'' PNone)) (\<lambda>more.
       if truthy more then raise RuntimeError ''opening_history_exceeds_bound''
       else
       bind (lift (rbind (pyget value ''records'' (PList [])) iterate)) (\<lambda>records.
       andthen (for_each records (snapshot_item L))
       (bind (lift (rbind (getitem value ''cursor'') as_int)) (\<lambda>c.
        andthen (modify (\<lambda>s. s\<lparr>cursor := c\<rparr>))
       (bind (lift (pyget value ''assistantStream'' (PDict []))) (\<lambda>a.
        bind (lift (pyget a ''activeAttempt'' PNone)) (\<lambda>active.
        when_do (truthy active) (raise RuntimeError ''unexpected_active_attempt_at_open''))))))))
     else if kind = PStr ''event'' then
       bind (lift (getitem value ''event'')) (\<lambda>e. event L e False)
     else if kind = PStr ''assistant-stream'' then
       bind (lift (getitem value ''frame'')) assistant_frame
     else ret ())"

section \<open>Frames\<close>

datatype ws_input = WsTimeout | WsText string

definition MAX_BYTES :: int where
  "MAX_BYTES = 32 * 1024 * 1024"

definition MAX_FRAMES :: int where
  "MAX_FRAMES = 100000"

text \<open>\<^verbatim>\<open>frame.get('streamId') in (self.stream_id, self.interaction_stream_id)\<close>.\<close>

definition opt_str :: "string option \<Rightarrow> pyval" where
  "opt_str x = (case x of None \<Rightarrow> PNone | Some t \<Rightarrow> PStr t)"

definition dispatch :: "pylib \<Rightarrow> server \<Rightarrow> 'w \<Rightarrow> pyval \<Rightarrow> ('w, unit) fact_of" where
  "dispatch L srv w frame =
     bind (lift (pyget frame ''streamId'' PNone)) (\<lambda>sid.
     bind (gets (\<lambda>s. (PStr (stream_id s), opt_str (interaction_stream_id s)))) (\<lambda>(own, inter).
     if sid \<noteq> own \<and> sid \<noteq> inter then ret ()
     else
     bind (lift (getitem frame ''type'')) (\<lambda>ty.
     if ty = PStr ''error'' then
       bind (lift (rbind (pyget frame ''error'' (PDict [])) (\<lambda>e. pyget e ''code'' PNone))) (\<lambda>c.
       raise RuntimeError (dumps_ascii L (PDict [(''code'', code c)])))
     else if ty = PStr ''end'' then raise ConnectionError ''harness_follow_ended''
     else if ty = PStr ''item'' then
       bind (lift (pyget frame ''value'' (PDict []))) (\<lambda>v.
       if sid = inter then interaction L srv w v else consume L v)
     else ret ())))"

definition receive :: "pylib \<Rightarrow> server \<Rightarrow> 'w \<Rightarrow> rat \<Rightarrow> rat \<Rightarrow> ws_input \<Rightarrow> ('w, unit) fact_of" where
  "receive L srv w deadline now inp =
     (if deadline \<le> now then raise TimeoutError ''harness_phase_deadline''
      else case inp of WsTimeout \<Rightarrow> ret ()
      | WsText raw \<Rightarrow>
          if raw = [] then raise ConnectionError ''harness_websocket_closed''
          else
          andthen (modify (\<lambda>s. s\<lparr>received_bytes := received_bytes s + int (py_len raw),
                                 frame_count := frame_count s + 1\<rparr>))
         (bind (gets (\<lambda>s. MAX_BYTES < received_bytes s \<or> MAX_FRAMES < frame_count s)) (\<lambda>over.
          if over then raise RuntimeError ''websocket_observation_bound_exceeded''
          else bind (lift (loads L raw)) (dispatch L srv w))))"

text \<open>
  A receive loop: it reads inputs until its exit condition holds. Running out of inputs
  is None: the program still waits.
\<close>

type_synonym 'w input = "rat \<times> 'w \<times> ws_input"

fun receive_until :: "pylib \<Rightarrow> server \<Rightarrow> rat \<Rightarrow> ('w follow \<Rightarrow> bool) \<Rightarrow> 'w input list \<Rightarrow> 'w follow
    \<Rightarrow> (unit res \<times> 'w input list) option \<times> 'w follow" where
  "receive_until L srv deadline stop inputs s =
     (if stop s then (Some (Inr (), inputs), s)
      else case inputs of [] \<Rightarrow> (None, s)
      | (now, w, inp) # rest \<Rightarrow> (case receive L srv w deadline now inp s of
            (Inl e, t) \<Rightarrow> (Some (Inl e, rest), t)
          | (Inr _, t) \<Rightarrow> receive_until L srv deadline stop rest t))"

declare receive_until.simps [simp del]

definition all_ended :: "'w follow \<Rightarrow> bool" where
  "all_ended s \<longleftrightarrow> list_all (\<lambda>(k, a). ended a) (attempts s)"

text \<open>\<^verbatim>\<open>self.turn_ends[-1]['reason']\<close> of the last turn.\<close>

definition last_reason :: "'w follow \<Rightarrow> pyval res" where
  "last_reason s = (if turn_ends s = [] then Inl (Exc IndexError ''index'')
     else getitem (PDict (last (turn_ends s))) ''reason'')"

definition wait_turn :: "pylib \<Rightarrow> server \<Rightarrow> rat \<Rightarrow> nat \<Rightarrow> 'w input list \<Rightarrow> 'w follow
    \<Rightarrow> (pyval res \<times> 'w input list) option \<times> 'w follow" where
  "wait_turn L srv deadline prior inputs s =
     (case receive_until L srv deadline (\<lambda>s. prior < length (turn_ends s)) inputs s of
        (None, t) \<Rightarrow> (None, t)
      | (Some (Inl e, rest), t) \<Rightarrow> (Some (Inl e, rest), t)
      | (Some (Inr _, rest), t) \<Rightarrow> (case receive_until L srv deadline all_ended rest t of
            (None, u) \<Rightarrow> (None, u)
          | (Some (Inl e, rest'), u) \<Rightarrow> (Some (Inl e, rest'), u)
          | (Some (Inr _, rest'), u) \<Rightarrow> (Some (last_reason u, rest'), u)))"

definition subscribe_reviews :: "pylib \<Rightarrow> server \<Rightarrow> ('w \<Rightarrow> bool res) option \<Rightarrow> string \<Rightarrow> rat \<Rightarrow> 'w input list
    \<Rightarrow> 'w follow \<Rightarrow> (unit res \<times> 'w input list) option \<times> 'w follow" where
  "subscribe_reviews L srv guard uuid deadline inputs s =
     (let s = s\<lparr>review_guard := guard, interaction_stream_id := Some uuid,
            sent := sent s @ [PDict [(''type'', PStr ''open''), (''streamId'', PStr uuid),
              (''endpoint'', PStr ''$events''), (''payload'', PDict [(''args'', PDict [])])]]\<rparr>
      in receive_until L srv deadline (\<lambda>s. truthy (event_client_id s)) inputs s)"

text \<open>\<^verbatim>\<open>Follow(harness, sid, address)\<close>: a missing or empty address is the session's own.\<close>

definition follow_at :: "pyval \<Rightarrow> pyval \<Rightarrow> string \<Rightarrow> 'w follow" where
  "follow_at sid adr stream = (follow_init sid stream)\<lparr>address := py_or adr (session_address sid)\<rparr>"

text \<open>
  \<^verbatim>\<open>open\<close> after the connection is made: the subscription, then frames until the
  snapshot has set the cursor.
\<close>

definition open_follow :: "pylib \<Rightarrow> server \<Rightarrow> rat \<Rightarrow> 'w input list
    \<Rightarrow> 'w follow \<Rightarrow> (unit res \<times> 'w input list) option \<times> 'w follow" where
  "open_follow L srv deadline inputs s =
     (let s = s\<lparr>sent := sent s @ [PDict [(''type'', PStr ''open''), (''streamId'', PStr (stream_id s)),
              (''endpoint'', PStr ''session/follow''), (''payload'', PDict [(''args'', PDict [(''request'',
                PDict [(''address'', address s), (''maxMessages'', PInt 100),
                       (''assistantStream'', PBool True)])])])]]\<rparr>
      in receive_until L srv deadline (\<lambda>s. 0 \<le> cursor s) inputs s)"

definition close_follow :: "'w follow \<Rightarrow> 'w follow" where
  "close_follow s = s\<lparr>sent := sent s @
     [PDict [(''type'', PStr ''cancel''), (''streamId'', PStr (stream_id s))]]\<rparr>"

section \<open>Summary\<close>

record summary =
  sum_session :: pyval
  sum_cursor :: int
  sum_counts :: "(pyval \<times> nat) list"
  sum_events :: "pydict list"
  sum_tools :: "pydict list"
  sum_attempts :: "(pyval \<times> attempt) list"
  sum_usage :: pydict
  sum_markers :: "string list"
  sum_text_bytes :: nat
  sum_gaps :: "string list"
  sum_frames :: int
  sum_bytes :: int
  sum_turn_ends :: "pydict list"
  sum_children :: "(pyval \<times> pyval) list"
  sum_available :: "string list"
  sum_reviews :: "review list"
  sum_answers :: "string list"
  sum_goals :: "pydict list"
  sum_todos :: "(nat \<times> pyval list) list"
  sum_jobs :: nat

text \<open>\<^verbatim>\<open>sorted\<close> compares code points; on UTF-8 encodings that is the byte order.\<close>

definition summary :: "'w follow \<Rightarrow> summary" where
  "summary s = \<lparr>sum_session = session_id s, sum_cursor = cursor s, sum_counts = counts s,
     sum_events = events s, sum_tools = map snd (tools s), sum_attempts = attempts s,
     sum_usage = usage s, sum_markers = sorted_list_of_set (markers s),
     sum_text_bytes = text_bytes s, sum_gaps = gaps s, sum_frames = frame_count s,
     sum_bytes = received_bytes s, sum_turn_ends = turn_ends s, sum_children = children s,
     sum_available = sorted_list_of_set (available_tools s), sum_reviews = plan_reviews s,
     sum_answers = question_answers s, sum_goals = goal_states s, sum_todos = todo_states s,
     sum_jobs = card (owned_jobs s)\<rparr>"

end
