(* ===== verification/PyText.thy ===== *)
theory PyText
  imports PyValue
begin

text \<open>
  Numbers as text, lines and words, and lines of a byte stream: \<^verbatim>\<open>int(s)\<close>, \<^verbatim>\<open>str.isdigit\<close>, \<^verbatim>\<open>str.strip\<close>,
  hexadecimal lengths, and the interface of a machine that reads a stream line by line.
\<close>

section \<open>Integers in text\<close>

fun rstrip :: "string \<Rightarrow> string" where
  "rstrip [] = []"
| "rstrip (c # cs) = (if lstrip (c # cs) = [] then [] else c # rstrip cs)"

definition strip :: "string \<Rightarrow> string" where
  "strip s = rstrip (lstrip s)"

definition is_digit :: "char \<Rightarrow> bool" where
  "is_digit c \<longleftrightarrow> c \<in> set digit_chars"

definition digit_value :: "char \<Rightarrow> nat" where
  "digit_value c = of_char c - 48"

text \<open>Digits with single underscores between them.\<close>

fun int_digits :: "nat \<Rightarrow> string \<Rightarrow> nat option" where
  "int_digits a [] = Some a"
| "int_digits a (c # cs) =
     (if is_digit c then int_digits (10 * a + digit_value c) cs
      else if c = CHR ''_'' \<and> cs \<noteq> [] \<and> is_digit (hd cs) then int_digits a cs
      else None)"

definition unsigned_int :: "string \<Rightarrow> nat option" where
  "unsigned_int s = (if s \<noteq> [] \<and> is_digit (hd s) \<and> length (filter is_digit s) \<le> 4300
     then int_digits 0 s else None)"

text \<open>
  \<^verbatim>\<open>int(s)\<close> of a header or argument text, None where it raises \<^verbatim>\<open>ValueError\<close>. Decimal digits
  outside ASCII, which no Latin-1 header can hold, are not modelled.
\<close>

definition py_int :: "string \<Rightarrow> int option" where
  "py_int s = (case strip s of [] \<Rightarrow> None
     | c # cs \<Rightarrow> if c = CHR ''-'' then map_option (\<lambda>n. - int n) (unsigned_int cs)
                else if c = CHR ''+'' then map_option int (unsigned_int cs)
                else map_option int (unsigned_int (c # cs)))"

text \<open>
  \<^verbatim>\<open>str.isdigit\<close> also accepts the superscripts, which \<^verbatim>\<open>int\<close> refuses.
\<close>

definition superscripts :: "string list" where
  "superscripts = [[CHR 0xC2, CHR 0xB2], [CHR 0xC2, CHR 0xB3], [CHR 0xC2, CHR 0xB9]]"

definition py_isdigit :: "string \<Rightarrow> bool" where
  "py_isdigit s \<longleftrightarrow> s \<noteq> [] \<and> list_all (\<lambda>p. p \<in> set superscripts \<or> length p = 1 \<and> is_digit (hd p)) (code_points s)"

section \<open>Lines of a text\<close>

text \<open>\<^verbatim>\<open>str.splitlines\<close>: the length of the line break that starts the string, 0 if none.\<close>

definition break_len :: "string \<Rightarrow> nat" where
  "break_len s = (if prefix [CHR 0x0D, CHR 0x0A] s then 2
     else case s of [] \<Rightarrow> 0 | c # _ \<Rightarrow>
       if c \<in> {CHR 0x0A, CHR 0x0B, CHR 0x0C, CHR 0x0D, CHR 0x1C, CHR 0x1D, CHR 0x1E} then 1
       else if prefix [CHR 0xC2, CHR 0x85] s then 2
       else if prefix [CHR 0xE2, CHR 0x80, CHR 0xA8] s \<or> prefix [CHR 0xE2, CHR 0x80, CHR 0xA9] s then 3
       else 0)"

function py_splitlines :: "string \<Rightarrow> string \<Rightarrow> string list" where
  "py_splitlines line s =
     (if s = [] then (if line = [] then [] else [line])
      else if break_len s \<noteq> 0 then line # py_splitlines [] (drop (break_len s) s)
      else py_splitlines (line @ [hd s]) (tl s))"
  by pat_completeness auto
termination
  by (relation "measure (\<lambda>(l, s). length s)") auto

declare py_splitlines.simps [simp del]

text \<open>The words between the occurrences of a separator character.\<close>

fun split_on :: "char \<Rightarrow> string \<Rightarrow> string list" where
  "split_on c [] = [[]]"
| "split_on c (x # xs) = (if x = c then [] # split_on c xs
     else case split_on c xs of [] \<Rightarrow> [[x]] | w # ws \<Rightarrow> (x # w) # ws)"

section \<open>Hexadecimal lengths\<close>

text \<open>\<^verbatim>\<open>f'{n:x}'\<close> and a reader for it.\<close>

definition hex_chars :: string where
  "hex_chars = ''0123456789abcdef''"

fun hex_of :: "nat \<Rightarrow> string" where
  "hex_of n = (if n < 16 then [hex_chars ! n] else hex_of (n div 16) @ [hex_chars ! (n mod 16)])"

declare hex_of.simps [simp del]

definition hex_value :: "char \<Rightarrow> nat option" where
  "hex_value c = map_of (zip hex_chars [0..<16]) c"

fun read_hex :: "nat \<Rightarrow> string \<Rightarrow> nat option" where
  "read_hex a [] = Some a"
| "read_hex a (c # cs) = (case hex_value c of None \<Rightarrow> None | Some d \<Rightarrow> read_hex (16 * a + d) cs)"

lemma hex_value_nth: "n < 16 \<Longrightarrow> hex_value (hex_chars ! n) = Some n"
proof -
  have "list_all (\<lambda>n. hex_value (hex_chars ! n) = Some n) [0..<16]" by code_simp
  then show "n < 16 \<Longrightarrow> hex_value (hex_chars ! n) = Some n" by (simp add: list_all_iff)
qed

lemma read_hex_append:
  "read_hex a (xs @ ys) = (case read_hex a xs of None \<Rightarrow> None | Some b \<Rightarrow> read_hex b ys)"
  by (induction a xs rule: read_hex.induct) (auto split: option.split)

lemma read_hex_of: "read_hex 0 (hex_of n) = Some n"
proof (induction n rule: hex_of.induct)
  case (1 n)
  then show ?case
    by (subst hex_of.simps) (auto simp: hex_value_nth read_hex_append split: option.split)
qed

lemma hex_of_chars: "set (hex_of n) \<subseteq> set hex_chars" "hex_of n \<noteq> []"
proof (induction n rule: hex_of.induct)
  case (1 n)
  have "m < 16 \<Longrightarrow> hex_chars ! m \<in> set hex_chars" for m
    by (rule nth_mem) (simp add: hex_chars_def)
  with 1 show "set (hex_of n) \<subseteq> set hex_chars"
    by (subst hex_of.simps) auto
  show "hex_of n \<noteq> []" by (subst hex_of.simps) simp
qed

section \<open>Lines of a stream\<close>

text \<open>
  The program keeps the unfinished last line in a buffer, appends each chunk to it and
  handles the lines that are complete.
\<close>

definition absorb :: "(string \<Rightarrow> ('s, unit) act) \<Rightarrow> string \<Rightarrow> string \<Rightarrow> ('s, string) act" where
  "absorb step buf chunk = (case split_lines (buf @ chunk) of (ls, t) \<Rightarrow>
     andthen (for_each ls step) (ret t))"

fun absorb_all :: "(string \<Rightarrow> ('s, unit) act) \<Rightarrow> string \<Rightarrow> string list \<Rightarrow> ('s, string) act" where
  "absorb_all step buf [] = ret buf"
| "absorb_all step buf (c # cs) = bind (absorb step buf c) (\<lambda>b. absorb_all step b cs)"

lemma split_lines_open: "split_lines s = (ls, t) \<Longrightarrow> split_lines t = ([], t)"
  by (induction s arbitrary: ls t) (auto split: prod.splits list.splits if_splits)

lemma split_lines_append:
  "split_lines s = (ls, t) \<Longrightarrow> split_lines (s @ u) =
     (case split_lines (t @ u) of (ms, v) \<Rightarrow> (ls @ ms, v))"
proof (induction s arbitrary: ls t)
  case (Cons c s)
  obtain ks r where s: "split_lines s = (ks, r)" by fastforce
  show ?case using Cons.prems Cons.IH [OF s]
    by (cases ks) (auto simp: s split: prod.splits list.splits if_splits)
qed simp

text \<open>
  A line machine: what lines other than those with its prefix do not do. Its clients
  learn that neither the way the stream is cut into chunks nor those other lines matter.
\<close>

locale line_machine =
  fixes step :: "string \<Rightarrow> ('s, unit) act" and pre :: string
  assumes other_lines: "\<not> prefix pre l \<Longrightarrow> step l s = (Inr (), s)"
begin

lemma for_each_relevant: "for_each (filter (prefix pre) ls) step = for_each ls step"
proof (induction ls)
  case (Cons l ls)
  have "andthen (step l) m = m" if "\<not> prefix pre l" for m :: "('s, unit) act"
    using other_lines [OF that] by (simp add: andthen_def bind_def fun_eq_iff)
  with Cons show ?case by simp
qed simp

lemma absorb_all_once:
  assumes "split_lines buf = ([], buf)"
  shows "absorb_all step buf cs = absorb step buf (concat cs)"
  using assms
proof (induction cs arbitrary: buf)
  case Nil
  then show ?case by (simp add: absorb_def)
next
  case (Cons c cs)
  obtain ls t where c: "split_lines (buf @ c) = (ls, t)" by fastforce
  obtain ms v where v: "split_lines (t @ concat cs) = (ms, v)" by fastforce
  have all: "split_lines (buf @ concat (c # cs)) = (ls @ ms, v)"
    using split_lines_append [OF c, of "concat cs"] v by simp
  have "absorb_all step t cs = absorb step t (concat cs)"
    by (rule Cons.IH) (rule split_lines_open [OF c])
  then show ?case
    by (simp add: absorb_def c v all [simplified] for_each_append andthen_def bind_assoc)
qed

lemma chunks_irrelevant:
  "absorb_all step [] cs = (case split_lines (concat cs) of (ls, t) \<Rightarrow>
     andthen (for_each (filter (prefix pre) ls) step) (ret t))"
  using absorb_all_once [of "[]" cs] by (simp add: absorb_def for_each_relevant split: prod.split)

end

end
