(* ===== verification/Checks.thy ===== *)
theory Checks
  imports PyText
begin

text \<open>
  The dictionary \<^verbatim>\<open>report['checks']\<close> of the acceptance scripts, in insertion order, the digests
  of a directory's files, and the rule by which a report has passed.
\<close>

type_synonym checks = "(string \<times> bool) list"
type_synonym digests = "(string \<times> string) list"

text \<open>\<^verbatim>\<open>report['checks'].update(new)\<close>.\<close>

definition add_checks :: "checks \<Rightarrow> checks \<Rightarrow> checks" where
  "add_checks new cs = fold (\<lambda>(k, b). AList.update k b) new cs"

text \<open>\<^verbatim>\<open>bool(report['checks']) and all(report['checks'].values())\<close>.\<close>

definition checks_pass :: "checks \<Rightarrow> bool" where
  "checks_pass cs \<longleftrightarrow> cs \<noteq> [] \<and> list_all snd cs"

abbreviation recorded :: "string \<Rightarrow> bool \<Rightarrow> checks \<Rightarrow> bool" where
  "recorded k b cs \<equiv> map_of cs k = Some b"

lemma added_other: "k \<notin> fst ` set new \<Longrightarrow> map_of (add_checks new cs) k = map_of cs k"
  unfolding add_checks_def by (induction new arbitrary: cs) (auto simp: update_conv')

lemma added_recorded:
  "distinct (map fst new) \<Longrightarrow> (k, b) \<in> set new \<Longrightarrow> recorded k b (add_checks new cs)"
  unfolding add_checks_def
proof (induction new arbitrary: cs)
  case (Cons x xs)
  then show ?case using added_other [of k xs "AList.update k b cs"]
    by (auto simp: add_checks_def update_conv' image_iff)
qed simp

lemma pass_recorded: "checks_pass cs \<Longrightarrow> recorded k b cs \<Longrightarrow> b"
  by (auto simp: checks_pass_def list_all_iff dest!: map_of_SomeD)

lemma pass_added: "checks_pass (add_checks new cs) \<Longrightarrow> distinct (map fst new) \<Longrightarrow> (k, b) \<in> set new \<Longrightarrow> b"
  using pass_recorded added_recorded by blast

text \<open>
  Two directory listings agree: the same names, and every digest unchanged.
\<close>

definition same_names :: "digests \<Rightarrow> digests \<Rightarrow> bool" where
  "same_names prior after \<longleftrightarrow> set (map fst prior) = set (map fst after)"

definition kept_files :: "(string \<Rightarrow> bool) \<Rightarrow> digests \<Rightarrow> digests \<Rightarrow> bool" where
  "kept_files p prior after \<longleftrightarrow> list_all (\<lambda>(n, h). p n \<longrightarrow> map_of after n = Some h) prior"

lemma kept_filesD: "kept_files p prior after \<Longrightarrow> (n, h) \<in> set prior \<Longrightarrow> p n \<Longrightarrow> map_of after n = Some h"
  by (auto simp: kept_files_def list_all_iff)

lemma unchanged_map:
  assumes "same_names prior after" and "kept_files (\<lambda>_. True) prior after" and "distinct (map fst prior)"
  shows "map_of prior = map_of after"
proof
  fix n
  show "map_of prior n = map_of after n"
  proof (cases "map_of prior n")
    case None
    then show ?thesis using assms(1) by (metis map_of_eq_None_iff same_names_def set_map)
  next
    case (Some h)
    then show ?thesis using kept_filesD [OF assms(2) map_of_SomeD] by simp
  qed
qed

end
