(* ===== verification/Runner.thy ===== *)
theory Runner
  imports Follow Checks
begin

text \<open>
  The class \<^verbatim>\<open>Runner\<close> of \<^verbatim>\<open>scripts/harness-check.py\<close> and the RPC reply of
  \<^verbatim>\<open>scripts/harness_support.py\<close>: sessions are created and prompted, children are opened,
  and everything is cancelled and closed at the end. The followers live in one list; a
  follower is named by its index.
\<close>

section \<open>RPC replies\<close>

text \<open>\<^verbatim>\<open>Harness.rpc\<close> on the decoded reply of the transport.\<close>

definition rpc_result :: "pylib \<Rightarrow> pyval \<Rightarrow> pyval res" where
  "rpc_result L reply =
     rbind (pyget reply ''result'' (PDict [])) (\<lambda>result.
     rbind (pyget result ''ok'' PNone) (\<lambda>ok.
     if \<not> truthy ok then
       rbind (pyget result ''error'' reply) (\<lambda>e. Inl (Exc RuntimeError (dumps L e)))
     else pyget result ''value'' PNone))"

definition rpc_envelope :: "string \<Rightarrow> string \<Rightarrow> pyval \<Rightarrow> pyval" where
  "rpc_envelope rpc_id m args = PDict [(''type'', PStr ''client-request''), (''rpcId'', PStr rpc_id),
     (''method'', PStr m), (''payload'', PDict [(''args'', args)])]"

text \<open>
  A server for the followers and the runner out of a transport, which posts an envelope and
  returns the decoded reply or raises.
\<close>

definition harness_server :: "pylib \<Rightarrow> (nat \<Rightarrow> string) \<Rightarrow> ((string \<times> pyval) list \<Rightarrow> pyval \<Rightarrow> pyval res) \<Rightarrow> server" where
  "harness_server L rpc_id transport earlier m args =
     rbind (transport earlier (rpc_envelope (rpc_id (length earlier)) m args)) (rpc_result L)"

section \<open>State and environment\<close>

record 'w runner =
  rn_sessions :: "pyval list"
  rn_follows :: "'w follow list"
  rn_inputs :: "'w input list list"
  rn_stop_files :: "string list"
  rn_stopped :: "string list"
  rn_cleanup :: bool
  rn_calls :: "(string \<times> pyval) list"

text \<open>
  The environment: the libraries and the server, the deadline, the result of each WebSocket
  connection, the frames each follower receives before the deadline, the fresh identifiers, and
  whether a stop file can be written.
\<close>

record 'w env =
  en_lib :: pylib
  en_server :: server
  en_deadline :: rat
  en_connect :: "nat \<Rightarrow> unit res"
  en_feed :: "nat \<Rightarrow> 'w input list"
  en_uuid :: "nat \<Rightarrow> string"
  en_write :: "string \<Rightarrow> unit res"
  en_cwd :: string
  en_model :: string
  en_reasoning :: string

definition PROVIDER :: string where
  "PROVIDER = ''uart2llm''"

definition runner_init :: "'w runner" where
  "runner_init = \<lparr>rn_sessions = [], rn_follows = [], rn_inputs = [], rn_stop_files = [], rn_stopped = [],
     rn_cleanup = False, rn_calls = []\<rparr>"

type_synonym ('w, 'a) run = "('w runner, 'a) act"

definition call :: "'w env \<Rightarrow> string \<Rightarrow> pyval \<Rightarrow> ('w, pyval) run" where
  "call E m args r = (en_server E (rn_calls r) m args, r\<lparr>rn_calls := rn_calls r @ [(m, args)]\<rparr>)"

definition request :: "(string \<times> pyval) list \<Rightarrow> pyval" where
  "request fs = PDict [(''request'', PDict fs)]"

text \<open>
  A receive loop of follower \<^verbatim>\<open>i\<close>. The frames of the environment are those that arrive before
  the deadline: a loop that has read them all raises on its next receive.
\<close>

definition on_follow :: "nat \<Rightarrow> ('w input list \<Rightarrow> 'w follow \<Rightarrow> ('a res \<times> 'w input list) option \<times> 'w follow)
    \<Rightarrow> ('w, 'a) run" where
  "on_follow i m r = (case m (rn_inputs r ! i) (rn_follows r ! i) of
     (Some (x, rest), f) \<Rightarrow> (x, r\<lparr>rn_follows := (rn_follows r)[i := f], rn_inputs := (rn_inputs r)[i := rest]\<rparr>)
   | (None, f) \<Rightarrow> (Inl (Exc TimeoutError ''harness_phase_deadline''),
       r\<lparr>rn_follows := (rn_follows r)[i := f], rn_inputs := (rn_inputs r)[i := []]\<rparr>))"

section \<open>Sessions and prompts\<close>

definition new_follow :: "'w env \<Rightarrow> pyval \<Rightarrow> pyval \<Rightarrow> ('w, nat) run" where
  "new_follow E sid adr r = (let n = length (rn_follows r) in
     (Inr n, r\<lparr>rn_follows := rn_follows r @ [follow_at sid adr (en_uuid E n)],
               rn_inputs := rn_inputs r @ [en_feed E n]\<rparr>))"

definition open_at :: "'w env \<Rightarrow> nat \<Rightarrow> ('w, unit) run" where
  "open_at E i = bind (lift (en_connect E i)) (\<lambda>_.
     on_follow i (open_follow (en_lib E) (en_server E) (en_deadline E)))"

definition create :: "'w env \<Rightarrow> ('w, nat) run" where
  "create E =
     bind (call E ''session/create'' (request [(''cwd'', PStr (en_cwd E)), (''agentPreset'', PStr ''standard'')])) (\<lambda>value.
     bind (lift (getitem value ''sessionId'')) (\<lambda>sid.
     andthen (modify (\<lambda>r. r\<lparr>rn_sessions := rn_sessions r @ [sid]\<rparr>))
    (bind (call E ''session/selectModel'' (request [(''sessionId'', sid), (''provider'', PStr PROVIDER),
        (''model'', PStr (en_model E)), (''reasoningEffort'', PStr (en_reasoning E))])) (\<lambda>_.
     bind (new_follow E sid PNone) (\<lambda>i. andthen (open_at E i) (ret i))))))"

definition enqueue :: "'w env \<Rightarrow> nat \<Rightarrow> string \<Rightarrow> ('w, unit) run" where
  "enqueue E i prompt_text =
     bind (gets (\<lambda>r. session_id (rn_follows r ! i))) (\<lambda>sid.
     bind (gets (\<lambda>r. en_uuid E (length (rn_calls r)))) (\<lambda>uuid.
     bind (call E ''session/prompt'' (request [(''requestId'', PStr uuid), (''sessionId'', sid),
        (''mode'', PStr ''queue''), (''clientTimeZone'', PStr ''Asia/Shanghai''),
        (''content'', PList [PDict [(''type'', PStr ''text''), (''text'', PStr prompt_text)]])])) (\<lambda>_. ret ())))"

definition await_turn :: "'w env \<Rightarrow> nat \<Rightarrow> nat \<Rightarrow> ('w, pyval) run" where
  "await_turn E i prior = on_follow i (wait_turn (en_lib E) (en_server E) (en_deadline E) prior)"

definition prompt :: "'w env \<Rightarrow> nat \<Rightarrow> string \<Rightarrow> ('w, pyval) run" where
  "prompt E i prompt_text =
     bind (gets (\<lambda>r. length (turn_ends (rn_follows r ! i)))) (\<lambda>prior.
     andthen (enqueue E i prompt_text) (await_turn E i prior))"

definition command :: "'w env \<Rightarrow> nat \<Rightarrow> string \<Rightarrow> ('w, pyval) run" where
  "command E i line =
     bind (gets (\<lambda>r. session_id (rn_follows r ! i))) (\<lambda>sid.
     bind (call E ''commands/execute'' (PDict [(''agentId'', sid), (''line'', PStr line),
        (''submittedAttachments'', PList [])])) (\<lambda>result.
     bind (lift (rand (Inr (is_dict result)) (rbind (pyget result ''result'' (PDict [])) (\<lambda>x.
        rbind (pyget x ''kind'' PNone) (\<lambda>k. Inr (k = PStr ''success'')))))) (\<lambda>ok.
     if ok then ret result else raise RuntimeError ''harness_command_failed'')))"

text \<open>Review subscription of follower \<^verbatim>\<open>i\<close>.\<close>

definition watch :: "'w env \<Rightarrow> nat \<Rightarrow> ('w \<Rightarrow> bool res) option \<Rightarrow> ('w, unit) run" where
  "watch E i guard = bind (gets (\<lambda>r. en_uuid E (length (rn_follows r) + length (rn_calls r)))) (\<lambda>uuid.
     on_follow i (subscribe_reviews (en_lib E) (en_server E) guard uuid (en_deadline E)))"

text \<open>\<^verbatim>\<open>f.fixture_question = {...}\<close>: the one question that will be answered.\<close>

definition announce_question :: "nat \<Rightarrow> string \<Rightarrow> ('w, unit) run" where
  "announce_question i qid = modify (\<lambda>r. r\<lparr>rn_follows := (rn_follows r)[i := (rn_follows r ! i)
     \<lparr>fixture_question := Some (qid, ''Which synthetic fixture color should be used?'')\<rparr>]\<rparr>)"

definition child_address :: "pyval \<Rightarrow> pyval \<times> pyval \<Rightarrow> pyval" where
  "child_address parent c = PDict [(''kind'', PStr ''subagent''), (''parentSessionId'', parent),
     (''childSessionId'', fst c), (''mode'', snd c)]"

fun open_children :: "'w env \<Rightarrow> pyval \<Rightarrow> (pyval \<times> pyval) list \<Rightarrow> ('w, nat list) run" where
  "open_children E parent [] = ret []"
| "open_children E parent (c # cs) =
     bind (new_follow E (fst c) (child_address parent c)) (\<lambda>i.
     andthen (open_at E i) (bind (open_children E parent cs) (\<lambda>is. ret (i # is))))"

definition inspect_children :: "'w env \<Rightarrow> nat \<Rightarrow> ('w, nat list) run" where
  "inspect_children E i =
     bind (gets (\<lambda>r. rn_follows r ! i)) (\<lambda>f. open_children E (session_id f) (children f))"

section \<open>Cleanup\<close>

text \<open>\<^verbatim>\<open>for x in xs: errors += body(x)\<close>.\<close>

fun collect :: "'x list \<Rightarrow> ('x \<Rightarrow> ('s, 'e list) act) \<Rightarrow> ('s, 'e list) act" where
  "collect [] body = ret []"
| "collect (x # xs) body = bind (body x) (\<lambda>es. bind (collect xs body) (\<lambda>fs. ret (es @ fs)))"

text \<open>\<^verbatim>\<open>try: m  except Exception as error: errors.append(entry(error))\<close>.\<close>

definition guarded :: "('s, unit) act \<Rightarrow> (exc \<Rightarrow> pydict) \<Rightarrow> ('s, pydict list) act" where
  "guarded m entry = catch is_exception (andthen m (ret [])) (\<lambda>e. ret [entry e])"

definition write_stop :: "'w env \<Rightarrow> string \<Rightarrow> ('w, unit) run" where
  "write_stop E path = bind (lift (en_write E path)) (\<lambda>_. modify (\<lambda>r. r\<lparr>rn_stopped := rn_stopped r @ [path]\<rparr>))"

definition cancel_session :: "'w env \<Rightarrow> pyval \<Rightarrow> ('w, unit) run" where
  "cancel_session E sid = bind (call E ''session/cancel'' (request [(''sessionId'', sid)])) (\<lambda>_. ret ())"

definition interrupt_child :: "'w env \<Rightarrow> pyval \<Rightarrow> pyval \<Rightarrow> ('w, unit) run" where
  "interrupt_child E sid child =
     bind (lift (rand (get_eq child ''kind'' ''child'') (get_eq child ''mode'' ''continuable''))) (\<lambda>b.
     if b then
       bind (lift (getitem child ''id'')) (\<lambda>cid.
       bind (call E ''subagents/interruptByParent'' (PDict [(''childSessionId'', cid),
          (''parentSessionId'', sid), (''mode'', PStr ''continuable'')])) (\<lambda>_. ret ()))
     else ret ())"

definition interrupt_children :: "'w env \<Rightarrow> pyval \<Rightarrow> ('w, unit) run" where
  "interrupt_children E sid =
     bind (call E ''subagents/list'' (PDict [(''parentSessionId'', sid)])) (\<lambda>catalog.
     bind (lift (rbind (pyget catalog ''entries'' (PList [])) iterate)) (\<lambda>entries.
     for_each entries (interrupt_child E sid)))"

definition clean_session :: "'w env \<Rightarrow> pyval \<Rightarrow> ('w, pydict list) run" where
  "clean_session E sid =
     bind (guarded (cancel_session E sid) (\<lambda>e. (''session_id'', sid) # safe_error (en_lib E) e)) (\<lambda>es.
     bind (gets rn_cleanup) (\<lambda>deep.
     bind (if deep then guarded (interrupt_children E sid)
             (\<lambda>e. [(''parent_session_id'', sid), (''child_cleanup'', PDict (safe_error (en_lib E) e))])
           else ret []) (\<lambda>fs. ret (es @ fs))))"

text \<open>A follower whose connection was made is cancelled and closed.\<close>

definition close_all :: "'w env \<Rightarrow> ('w, unit) run" where
  "close_all E = modify (\<lambda>r. r\<lparr>rn_follows := map (\<lambda>(i, f). case en_connect E i of
       Inr _ \<Rightarrow> close_follow f | Inl _ \<Rightarrow> f) (enumerate 0 (rn_follows r))\<rparr>)"

definition cleanup :: "'w env \<Rightarrow> ('w, pydict list) run" where
  "cleanup E =
     bind (gets rn_stop_files) (\<lambda>stops.
     bind (collect stops (\<lambda>path. guarded (write_stop E path)
       (\<lambda>e. [(''fixture_worker_stop'', PDict (safe_error (en_lib E) e))]))) (\<lambda>es.
     bind (gets rn_sessions) (\<lambda>sessions.
     bind (collect sessions (clean_session E)) (\<lambda>fs.
     andthen (close_all E) (ret (es @ fs))))))"

end
