(* ===== verification/Prompts.thy ===== *)
theory Prompts
  imports Follow
begin

text \<open>
  The prompts of \<^verbatim>\<open>scripts/harness-check.py\<close>: what each phase asks of the model, with the shell
  command and the question identifier of the run filled in.
\<close>

text \<open>\<^verbatim>\<open>"& '" + python.replace("'", "''") + "' "\<close>: the call operator of PowerShell.\<close>

definition ps_call :: "string \<Rightarrow> string" where
  "ps_call python = ''& '' @ [CHR 0x27]
     @ concat (map (\<lambda>c. if c = CHR 0x27 then [c, c] else [c]) python) @ [CHR 0x27] @ '' ''"

definition smoke_prompt :: string where
  "smoke_prompt =
     ''Reply with exactly UART2LLM_HARNESS_SMOKE_OK. Do not use tools, files, agents or '' @
     ''reasoning text.''"

definition parallel_prompt :: string where
  "parallel_prompt =
     ''Do not use tools. Print numbers 1 through 120 separated by spaces and finish with '' @
     ''HARNESS-PARALLEL-DONE.''"

definition cancel_prompt :: string where
  "cancel_prompt =
     ''Do not use tools. Print all integers from 1 to 10000, one on each line, without '' @
     ''abbreviations.''"

definition cancel_followup :: string where
  "cancel_followup =
     ''Cancellation test is finished. Do not continue counting or use tools. Reply exactly '' @
     ''UART2LLM_HARNESS_SMOKE_OK.''"

definition workflow_prompt :: "string \<Rightarrow> string" where
  "workflow_prompt command_line =
     ''This is an isolated synthetic acceptance task. First stay in the selected plan mode. Load '' @
     ''money-review with the skill tool, grep for total_cents, and read requirements.md, '' @
     ''verify.py and price.py. Use the subagent tool for exactly one synchronous read-only '' @
     ''audit: it must read ONLY requirements.md and price.py in this working directory, verify '' @
     ''edge cases, and finish with SUBAGENT-AUDIT-DONE. Inherit provider/model and never spawn '' @
     ''further agents. Before approval do not edit files or execute commands. Use exit_plan_mode '' @
     ''to submit a concise complete markdown plan headed with #. The plan must explicitly change '' @
     ''only price.py, preserve all other files, use integer arithmetic, and run verify.py. '' @
     ''Include MONEY-SKILL-LOADED after actually loading the skill. After the normal plan-review '' @
     ''approves, implement the plan in the same task: use write to replace ONLY price.py with '' @
     ''the correct implementation, then actually run this exact command with pwsh: '' @
     command_line @
     ''. Do not install dependencies, contact networks, read external files, or change protected '' @
     ''files. Finish briefly with the actual verification result and HARNESS-WORKFLOW-DONE.''"

definition advanced_prompt :: "string \<Rightarrow> string \<Rightarrow> string" where
  "advanced_prompt question python =
     ''Run this bounded advanced acceptance task only in the current synthetic workspace. I '' @
     ''explicitly authorize creating one goal to complete and verify deliverable.md; set '' @
     ''create_goal max_goal_rounds exactly 1. No subagents or network calls. Perform these '' @
     ''actual native tools, not simulated results:'' @
     newline @
     ''1. Call glob to locate *.md, read deliverable.md, and todo_write with a short task list.'' @
     newline @
     ''2. Call ask_user_question with exactly one question: id '' @
     question @
     '', header Color, question exactly \"Which synthetic fixture color should be used?\", options '' @
     ''in order Blue (description: Use blue in the synthetic file), Green (description: Use '' @
     ''green in the synthetic file). Single choice, no intent or additional questions. Wait for '' @
     ''the real answer.'' @
     newline @
     ''3. Call create_goal with the authorized objective and max_goal_rounds:1, then get_goal. '' @
     ''Use edit, not write or shell, to replace Color: UNSET with the selected Color: Blue and '' @
     ''Count: 0 with Count: 3 in deliverable.md, preserving every other byte.'' @
     newline @
     ''4. Start exactly one background pwsh with command '' @
     python @
     ''worker.py and run_in_background:true. Track the returned job ID; use job_list, job_output '' @
     ''for that exact ID to collect its READY marker, then job_kill for that exact ID. Finally '' @
     ''job_output with wait:true and timeout_ms:10000 to verify status killed. Never kill any '' @
     ''other job. Do not wait for its natural 180-second expiry.'' @
     newline @
     ''5. Actually run foreground pwsh command '' @
     python @
     ''verify_advanced.py. If verification succeeds, present deliverable.md, todo_write all '' @
     ''tasks completed, get_goal for the latest ID/revision, then update_goal action:complete '' @
     ''using that exact ID/revision. Call get_goal again to verify complete. Never complete a '' @
     ''failed or unfinished objective. Do not spawn background work other than this one worker. '' @
     ''Finish with a short factual result and HARNESS-ADVANCED-DONE.''"

definition coordination_first :: string where
  "coordination_first =
     ''Run a bounded read-only coordination acceptance in this synthetic workspace. You are '' @
     ''authorized to use native subagent, list_agents, send_message and interrupt_agent. Do not '' @
     ''use shell, edit files, network, goals, questions, or change any permissions. 1. Create '' @
     ''exactly one continuable child via subagent, run_in_background:true, description \"fixture '' @
     ''coordinator\". Its prompt: Read only facts.txt in this current directory, verify its sum, '' @
     ''do not delegate or contact networks, and finish briefly with HARNESS-CHILD-READY. Inherit '' @
     ''the local provider/model.'' @
     newline @
     ''2. Call list_agents to discover the exact ID of that child. Wait for its '' @
     ''HARNESS-CHILD-READY completion notice before assigning the counting task; you may '' @
     ''independently read facts.txt meanwhile. Use send_message to this child only: '' @
     ''\"Cancellation test: do not use tools or delegate. Print integers 1 through 2000 one per '' @
     ''line.\" Then in your next step immediately interrupt_agent targeting this same child, '' @
     ''stopping the counting.'' @
     newline @
     ''3. Use send_message to that same child to start recovery: \"The counting task is '' @
     ''cancelled. Read only facts.txt, confirm SUM=17 and SQUARES=87, then finish with '' @
     ''HARNESS-CHILD-RECOVERED. No further agents, shell, file writes or networking.\" Call '' @
     ''list_agents again. Do not repeatedly poll. Finish briefly; the next task will perform '' @
     ''independent work while recovery settles. Never message or interrupt an unrelated agent.''"

definition coordination_second :: string where
  "coordination_second =
     ''Continue the read-only synthetic test. Do not create any further continuable agents. I '' @
     ''explicitly request one subagent_fork, one JavaScript workflow and one Ralph loop.'' @
     newline @
     ''1. Call subagent_fork with run_in_background:false for this sole task: read only '' @
     ''facts.txt, verify SUM=17 and SQUARES=87, then finish HARNESS-FORK-VERIFIED. Do not '' @
     ''inherit the parent task as work to repeat: no delegation, workflow, Ralph, shell, '' @
     ''questions, changes or networking.'' @
     newline @
     ''2. Call workflow with meta {\"name\":\"fixture-arithmetic\",\"description\":\"Read-only pure '' @
     ''arithmetic\"}, and this EXACT plain JavaScript script, without changing whitespace or '' @
     ''adding code:'' @
     newline @
     COORDINATION_SCRIPT @
     newline @
     ''Verify the returned sum is 17 and squares 87.'' @
     newline @
     ''3. Call ralph with maxRounds exactly 1. Objective: Read ONLY facts.txt in the current '' @
     ''synthetic workspace and independently verify sum 17 and sum of squares 87. Do not write '' @
     ''files, run shell, access networks, ask questions or delegate further. Complete this one '' @
     ''read-only objective. The structured report must contain evidence with '' @
     ''HARNESS-RALPH-VERIFIED and verified arithmetic, status complete, no nextSteps and empty '' @
     ''blocker if successful.'' @
     newline @
     ''4. Call list_agents once to inspect the existing continuable child after its recovery. '' @
     ''Finish with short actual results and HARNESS-COORDINATION-DONE. Do not claim failed tools '' @
     ''succeeded.''"

definition reasoning_prompt :: "string \<Rightarrow> string" where
  "reasoning_prompt command_line =
     ''Validate this modular arithmetic computation with the provided program. Use pwsh to run '' @
     ''exactly '' @
     command_line @
     ''. Do not calculate the answer from memory or modify the program. After the tool '' @
     ''completes, return the exact verification line it printed, without extra prose.''"

definition image_prompt :: string where
  "image_prompt =
     ''Use read_image to inspect probe.png. Return a JSON object with keys shape, foreground, '' @
     ''background and digits. Shape means the single central geometric shape; foreground and '' @
     ''background are simple lowercase English color words, ignoring the white bottom text '' @
     ''strip. digits is the exact four-digit string printed in that strip. If you cannot see the '' @
     ''actual image, use unknown; do not guess. Do not use any other tool or change files.''"

end
