(* ===== verification/Phases.thy ===== *)
theory Phases
  imports Runner Prompts
begin

text \<open>
  The phases of \<^verbatim>\<open>scripts/harness-check.py\<close>: what each asks the runner to do, and the checks
  it records. The state is the runner and \<^verbatim>\<open>report['checks']\<close>. What a phase observes outside
  the runner (its directory, its own verification process) is the record \<^verbatim>\<open>scene\<close>.
\<close>

section \<open>What a phase reads from a follower\<close>

text \<open>\<^verbatim>\<open>t.get(k)\<close> of a record the follower built.\<close>

definition field :: "pydict \<Rightarrow> string \<Rightarrow> pyval" where
  "field t k = (case map_of t k of None \<Rightarrow> PNone | Some v \<Rightarrow> v)"

definition records :: "'w follow \<Rightarrow> pydict list" where
  "records f = map snd (tools f)"

definition successful_tools :: "'w follow \<Rightarrow> pyval list" where
  "successful_tools f = map (\<lambda>t. field t ''name'')
     (filter (\<lambda>t. flag t ''result_received'' \<and> \<not> flag t ''is_error'') (records f))"

definition completed_tool :: "string \<Rightarrow> 'w follow \<Rightarrow> bool" where
  "completed_tool n f \<longleftrightarrow> PStr n \<in> set (successful_tools f)"

definition named :: "string list \<Rightarrow> 'w follow \<Rightarrow> pydict list" where
  "named ns f = filter (\<lambda>t. has_name t ns) (records f)"

text \<open>\<^verbatim>\<open>'m' in t.get('markers', [])\<close>.\<close>

definition has_marker :: "string \<Rightarrow> pydict \<Rightarrow> bool" where
  "has_marker m t \<longleftrightarrow> (case field t ''markers'' of PList vs \<Rightarrow> PStr m \<in> set vs | _ \<Rightarrow> False)"

definition ended_with :: "string \<Rightarrow> 'w follow \<Rightarrow> bool" where
  "ended_with reason f \<longleftrightarrow> turn_ends f \<noteq> [] \<and> field (last (turn_ends f)) ''reason'' = PStr reason"

definition is_completed :: "pyval \<Rightarrow> bool" where
  "is_completed reason \<longleftrightarrow> reason = PStr ''completed''"

section \<open>State and scene\<close>

record 'w scene =
  sc_before :: digests
  sc_after :: digests
  sc_names :: "string list"
  sc_disk :: "'w \<Rightarrow> digests"
  sc_exit :: "int res"
  sc_polls :: nat
  sc_python :: string
  sc_question :: string
  sc_page :: pyval
  sc_drawn :: pydict

type_synonym ('w, 'a) phase = "('w runner \<times> checks, 'a) act"

definition using_runner :: "('w, 'a) run \<Rightarrow> ('w, 'a) phase" where
  "using_runner m s = (case m (fst s) of (x, r) \<Rightarrow> (x, (r, snd s)))"

definition record_checks :: "checks \<Rightarrow> ('w, unit) phase" where
  "record_checks new = modify (\<lambda>(r, cs). (r, add_checks new cs))"

definition the_follow :: "nat \<Rightarrow> ('w, 'w follow) phase" where
  "the_follow i = gets (\<lambda>(r, cs). rn_follows r ! i)"

section \<open>Smoke, parallel and cancel\<close>

definition smoke_checks :: "bool \<Rightarrow> pyval \<Rightarrow> 'w follow \<Rightarrow> checks" where
  "smoke_checks thinking reason f =
     [(''turn_completed'', is_completed reason),
      (''exact_test_marker_received'', ''UART2LLM_HARNESS_SMOKE_OK'' \<in> markers f),
      (''live_stream_observed'', 0 < count_of f ''live_assistant_chunks''),
      (''no_tools_requested'', tools f = [])]
     @ (if thinking then [(''reasoning_content_observed'', 0 < count_of f ''reasoning_blocks'')] else [])"

definition smoke :: "'w env \<Rightarrow> 'w scene \<Rightarrow> ('w, unit) phase" where
  "smoke E C =
     bind (using_runner (create E)) (\<lambda>i.
     bind (using_runner (prompt E i smoke_prompt)) (\<lambda>reason.
     bind (the_follow i) (\<lambda>f.
     record_checks (smoke_checks (en_reasoning E \<noteq> ''off'') reason f))))"

fun create_many :: "'w env \<Rightarrow> nat \<Rightarrow> ('w, nat list) run" where
  "create_many E 0 = ret []"
| "create_many E (Suc n) = bind (create E) (\<lambda>i. bind (create_many E n) (\<lambda>is. ret (i # is)))"

text \<open>
  \<^verbatim>\<open>pool.map\<close>: every prompt runs, on its own follower; the first exception, in the order of
  the followers, is raised afterwards. The order of the requests is one of those the pool allows.
\<close>

fun prompt_all :: "'w env \<Rightarrow> string \<Rightarrow> nat list \<Rightarrow> ('w, pyval res list) run" where
  "prompt_all E x [] r = (Inr [], r)"
| "prompt_all E x (i # is) r = (case prompt E i x r of (reason, t) \<Rightarrow>
     bind (prompt_all E x is) (\<lambda>rs. ret (reason # rs)) t)"

definition parallel_checks :: "pyval list \<Rightarrow> 'w follow list \<Rightarrow> checks" where
  "parallel_checks reasons fs =
     [(''four_completed'', list_all is_completed reasons),
      (''four_markers_received'', list_all (\<lambda>f. ''HARNESS-PARALLEL-DONE'' \<in> markers f) fs),
      (''four_streams_observed'', list_all (\<lambda>f. 0 < count_of f ''live_assistant_chunks'') fs),
      (''automatic_title_requests_preserved'', list_all (\<lambda>f. 0 < count_of f ''session/title-llm-request'') fs),
      (''all_stream_attempts_settled'', list_all all_ended fs)]"

definition parallel :: "'w env \<Rightarrow> 'w scene \<Rightarrow> ('w, unit) phase" where
  "parallel E C =
     bind (using_runner (create_many E 4)) (\<lambda>is.
     bind (using_runner (prompt_all E parallel_prompt is)) (\<lambda>outcomes.
     bind (lift (rmap (\<lambda>r. r) outcomes)) (\<lambda>reasons.
     bind (gets (\<lambda>(r, cs). map (\<lambda>i. rn_follows r ! i) is)) (\<lambda>fs.
     record_checks (parallel_checks reasons fs)))))"

definition cancel_checks :: "pyval \<Rightarrow> pyval \<Rightarrow> 'w follow \<Rightarrow> checks" where
  "cancel_checks reason resumed f =
     [(''cancelled_mid_stream'', 20 \<le> count_of f ''live_assistant_chunks''),
      (''cancel_end_observed'', reason = PStr ''aborted''),
      (''followup_completed'', is_completed resumed),
      (''followup_marker'', ''UART2LLM_HARNESS_SMOKE_OK'' \<in> markers f)]"

text \<open>Twenty live chunks, or the end of a turn, before the cancellation.\<close>

definition mid_stream :: "'w follow \<Rightarrow> bool" where
  "mid_stream f \<longleftrightarrow> 20 \<le> count_of f ''live_assistant_chunks'' \<or> turn_ends f \<noteq> []"

definition cancel :: "'w env \<Rightarrow> 'w scene \<Rightarrow> ('w, unit) phase" where
  "cancel E C =
     bind (using_runner (create E)) (\<lambda>i.
     bind (gets (\<lambda>(r, cs). length (turn_ends (rn_follows r ! i)))) (\<lambda>prior.
     andthen (using_runner (enqueue E i cancel_prompt))
    (andthen (using_runner (on_follow i (receive_until (en_lib E) (en_server E) (en_deadline E) mid_stream)))
    (bind (gets (\<lambda>(r, cs). session_id (rn_follows r ! i))) (\<lambda>sid.
     bind (using_runner (call E ''session/cancel'' (request [(''sessionId'', sid)]))) (\<lambda>_.
     bind (using_runner (await_turn E i prior)) (\<lambda>reason.
     bind (using_runner (prompt E i cancel_followup)) (\<lambda>resumed.
     bind (the_follow i) (\<lambda>f.
     record_checks (cancel_checks reason resumed f))))))))))"

section \<open>Workflow\<close>

text \<open>The fixture guard: the same files as at the start of the phase, with the same digests.\<close>

definition unchanged :: "'w scene \<Rightarrow> 'w \<Rightarrow> bool res" where
  "unchanged C w = Inr (same_names (sc_before C) (sc_disk C w) \<and> kept_files (\<lambda>_. True) (sc_before C) (sc_disk C w))"

definition plan_mode :: "bool \<Rightarrow> 'w follow \<Rightarrow> bool" where
  "plan_mode b f \<longleftrightarrow> list_ex (\<lambda>e. field e ''type'' = PStr ''plan/mode'' \<and> field e ''active'' = PBool b) (events f)"

definition plan_stage_checks :: "'w follow \<Rightarrow> checks" where
  "plan_stage_checks f =
     [(''plan_review_approved'', length (plan_reviews f) = 1 \<and> approved (hd (plan_reviews f))),
      (''plan_mode_event_observed'', plan_mode True f),
      (''plan_fixture_unchanged'', plan_reviews f \<noteq> [] \<and> list_all fixture_unchanged (plan_reviews f)),
      (''exit_plan_mode_tool_completed'', completed_tool ''exit_plan_mode'' f),
      (''skill_tool_completed'', completed_tool ''skill'' f),
      (''file_search_completed'', completed_tool ''grep'' f),
      (''file_read_completed'', completed_tool ''read'' f),
      (''skill_marker_received'', ''MONEY-SKILL-LOADED'' \<in> markers f),
      (''subagent_tool_completed'', completed_tool ''subagent'' f \<or> completed_tool ''subagent_fork'' f),
      (''subagent_result_marker'', ''SUBAGENT-AUDIT-DONE'' \<in> markers f)]"

definition subagent_evidence :: "'w follow list \<Rightarrow> bool" where
  "subagent_evidence cs \<longleftrightarrow> cs \<noteq> [] \<and> list_all (\<lambda>c. 0 < count_of c ''assistant/message''
     \<and> 0 < count_of c ''request/header'' \<and> completed_tool ''read'' c \<and> ended_with ''completed'' c) cs"

definition build_stage_checks :: "'w scene \<Rightarrow> pyval \<Rightarrow> int \<Rightarrow> 'w follow \<Rightarrow> checks" where
  "build_stage_checks C reason exit_code f =
     [(''build_turn_completed'', is_completed reason),
      (''build_model_marker'', ''HARNESS-WORKFLOW-DONE'' \<in> markers f),
      (''file_write_completed'', completed_tool ''write'' f),
      (''shell_tool_completed'', completed_tool ''pwsh'' f),
      (''client_executed_fixture_tests'', ''VERIFIED: 11'' \<in> markers f),
      (''independent_fixture_tests_pass'', exit_code = 0),
      (''protected_files_unchanged'', kept_files (\<lambda>n. n \<noteq> ''price.py'') (sc_before C) (sc_after C)),
      (''plan_mode_exited'', plan_mode False f)]"

text \<open>Planning up to the approved plan and its tools, and building up to the tests.\<close>

definition plan_stage :: "'w env \<Rightarrow> 'w scene \<Rightarrow> nat \<Rightarrow> ('w, pyval) phase" where
  "plan_stage E C i =
     andthen (using_runner (watch E i (Some (unchanged C))))
    (bind (using_runner (command E i ''/plan'')) (\<lambda>_.
     bind (using_runner (prompt E i (workflow_prompt (ps_call (sc_python C) @ ''verify.py'')))) (\<lambda>reason.
     bind (the_follow i) (\<lambda>f.
     andthen (record_checks (plan_stage_checks f)) (ret reason)))))"

definition build_stage :: "'w env \<Rightarrow> 'w scene \<Rightarrow> nat \<Rightarrow> pyval \<Rightarrow> ('w, unit) phase" where
  "build_stage E C i reason =
     bind (using_runner (inspect_children E i)) (\<lambda>is.
     bind (gets (\<lambda>(r, cs). map (\<lambda>j. rn_follows r ! j) is)) (\<lambda>cs.
     andthen (record_checks [(''subagent_real_model_evidence'', subagent_evidence cs)])
    (bind (lift (sc_exit C)) (\<lambda>exit_code.
     bind (the_follow i) (\<lambda>f.
     record_checks (build_stage_checks C reason exit_code f))))))"

definition workflow :: "'w env \<Rightarrow> 'w scene \<Rightarrow> ('w, unit) phase" where
  "workflow E C = bind (using_runner (create E)) (\<lambda>i. bind (plan_stage E C i) (build_stage E C i))"

section \<open>Advanced\<close>

text \<open>\<^verbatim>\<open>required <= completed\<close>.\<close>

definition completed_all :: "string list \<Rightarrow> 'w follow \<Rightarrow> bool" where
  "completed_all ns f \<longleftrightarrow> list_all (\<lambda>n. completed_tool n f) ns"

text \<open>Exactly one call of a tool, and its round cap is 1.\<close>

definition single_capped :: "string \<Rightarrow> string \<Rightarrow> 'w follow \<Rightarrow> bool" where
  "single_capped n cap f \<longleftrightarrow> length (named [n] f) = 1 \<and> list_all (\<lambda>t. eq_int (field t cap) 1) (named [n] f)"

definition advanced_tools :: "string list" where
  "advanced_tools = [''glob'', ''read'', ''edit'', ''todo_write'', ''present'', ''ask_user_question'',
     ''create_goal'', ''get_goal'', ''update_goal'', ''pwsh'', ''job_list'', ''job_output'', ''job_kill'']"

definition todo_complete :: "'w follow \<Rightarrow> bool" where
  "todo_complete f \<longleftrightarrow> todo_states f \<noteq> [] \<and> 0 < fst (last (todo_states f))
     \<and> set (snd (last (todo_states f))) = {PStr ''completed''}"

definition goal_complete :: "'w follow \<Rightarrow> bool" where
  "goal_complete f \<longleftrightarrow> goal_states f \<noteq> [] \<and> field (last (goal_states f)) ''phase'' = PStr ''complete''
     \<and> eq_int (field (last (goal_states f)) ''maxGoalRounds'') 1"

definition own_jobs_only :: "'w follow \<Rightarrow> bool" where
  "own_jobs_only f \<longleftrightarrow> named [''job_output'', ''job_kill''] f \<noteq> []
     \<and> list_all (\<lambda>t. flag t ''targets_own_job'') (named [''job_output'', ''job_kill''] f)"

definition advanced_checks :: "'w scene \<Rightarrow> pyval \<Rightarrow> int \<Rightarrow> 'w follow \<Rightarrow> checks" where
  "advanced_checks C reason exit_code f =
     [(''advanced_turn_completed'', is_completed reason),
      (''advanced_required_tools_completed'', completed_all advanced_tools f),
      (''advanced_marker_received'', ''HARNESS-ADVANCED-DONE'' \<in> markers f),
      (''exact_fixture_question_answered'', length (question_answers f) = 1),
      (''independent_fixture_verification'', exit_code = 0),
      (''model_executed_verification'', list_ex (\<lambda>t. \<not> flag t ''background''
         \<and> has_marker ''HARNESS-ADVANCED-VERIFIED'' t) (named [''pwsh''] f)),
      (''protected_files_unchanged'', kept_files (\<lambda>n. n \<noteq> ''deliverable.md'') (sc_before C) (sc_after C)),
      (''no_unexpected_files'', set (sc_names C) \<subseteq> set (map fst (sc_before C)) \<union> {''deliverable.md'', ''worker.ready''}),
      (''todo_final_complete'', todo_complete f),
      (''goal_created_with_one_round'', single_capped ''create_goal'' ''goal_round_cap'' f),
      (''goal_terminal_complete'', goal_complete f),
      (''single_background_job_started'', card (owned_jobs f) = 1
         \<and> length (filter (\<lambda>t. flag t ''background'') (records f)) = 1),
      (''only_own_jobs_targeted'', own_jobs_only f),
      (''worker_actually_started'', ''worker.ready'' \<in> set (sc_names C)),
      (''job_output_marker_observed'', list_ex (has_marker ''HARNESS-OWN-JOB-READY'') (named [''job_output''] f)),
      (''job_cancellation_requested'', list_ex (\<lambda>t. flag t ''cancellation_requested'') (named [''job_kill''] f)),
      (''job_killed_terminal_observed'', list_ex (\<lambda>t. flag t ''job_status_killed'') (named [''job_output''] f))]"

definition advanced :: "'w env \<Rightarrow> 'w scene \<Rightarrow> ('w, unit) phase" where
  "advanced E C =
     andthen (using_runner (modify (\<lambda>r. r\<lparr>rn_stop_files := rn_stop_files r @ [''worker.stop'']\<rparr>)))
    (bind (using_runner (create E)) (\<lambda>i.
     andthen (using_runner (announce_question i (sc_question C)))
    (andthen (using_runner (watch E i None))
    (bind (using_runner (prompt E i (advanced_prompt (sc_question C) (ps_call (sc_python C))))) (\<lambda>reason.
     bind (lift (sc_exit C)) (\<lambda>exit_code.
     bind (the_follow i) (\<lambda>f.
     record_checks (advanced_checks C reason exit_code f))))))))"

section \<open>Coordination\<close>

definition coordination_tools :: "string list" where
  "coordination_tools = [''subagent'', ''list_agents'', ''send_message'', ''interrupt_agent'',
     ''subagent_fork'', ''workflow'', ''ralph'']"

text \<open>The activity of a child in the catalog of subagents.\<close>

definition all_activity :: "(pyval \<Rightarrow> bool) \<Rightarrow> pyval \<Rightarrow> bool res" where
  "all_activity p catalog = rbind (rbind (pyget catalog ''entries'' (PList [])) iterate)
     (rall (\<lambda>c. rbind (pyget c ''activity'' PNone) (\<lambda>a. Inr (p a))))"

text \<open>The polls of the catalog before the children's own deadline.\<close>

fun poll_children :: "'w env \<Rightarrow> pyval \<Rightarrow> nat \<Rightarrow> pyval \<Rightarrow> ('w, pyval) run" where
  "poll_children E sid 0 catalog = ret catalog"
| "poll_children E sid (Suc n) catalog =
     bind (call E ''subagents/list'' (PDict [(''parentSessionId'', sid)])) (\<lambda>found.
     bind (lift (all_activity (\<lambda>a. a \<noteq> PStr ''running'') found)) (\<lambda>settled.
     if settled then ret found else poll_children E sid n found))"

definition with_mode :: "string \<Rightarrow> 'w follow list \<Rightarrow> 'w follow list res" where
  "with_mode mode fs = rbind (rmap (\<lambda>f. rbind (pyget (address f) ''mode'' PNone) (\<lambda>m. Inr (m = PStr mode))) fs)
     (\<lambda>bs. Inr (map fst (filter snd (zip fs bs))))"

definition forbidden_tools :: "string list" where
  "forbidden_tools = [''write'', ''edit'', ''pwsh'', ''web_search'', ''web_fetch'']"

definition uses_tool :: "string list \<Rightarrow> 'w follow \<Rightarrow> bool" where
  "uses_tool ns f \<longleftrightarrow> named ns f \<noteq> []"

text \<open>A child that made a real model request, read the file and reported the marker.\<close>

definition real_read :: "string \<Rightarrow> 'w follow \<Rightarrow> bool" where
  "real_read m c \<longleftrightarrow> m \<in> markers c \<and> completed_tool ''read'' c \<and> 0 < count_of c ''request/header''"

definition own_children_only :: "'w follow \<Rightarrow> bool" where
  "own_children_only f \<longleftrightarrow> named [''send_message'', ''interrupt_agent''] f \<noteq> []
     \<and> list_all (\<lambda>t. flag t ''targets_own_child'') (named [''send_message'', ''interrupt_agent''] f)"

definition coordination_checks :: "'w scene \<Rightarrow> pyval \<Rightarrow> pyval \<Rightarrow> bool \<Rightarrow> 'w follow \<Rightarrow> 'w follow list
    \<Rightarrow> 'w follow list \<Rightarrow> 'w follow list \<Rightarrow> checks" where
  "coordination_checks C first second settled f cs continued one_shots =
     [(''coordination_turns_completed'', first = second \<and> is_completed second),
      (''coordination_required_tools_completed'', completed_all coordination_tools f),
      (''coordination_marker_received'', ''HARNESS-COORDINATION-DONE'' \<in> markers f),
      (''only_own_child_controlled'', own_children_only f),
      (''one_continuable_child'', length continued = 1),
      (''exact_child_budget'', length cs = 3 \<and> length one_shots = 2),
      (''child_initial_real_read'', list_ex (\<lambda>c. ''HARNESS-CHILD-READY'' \<in> markers c \<and> completed_tool ''read'' c) continued),
      (''child_actual_interruption'', list_ex (\<lambda>c. list_ex (\<lambda>e. field e ''reason'' = PStr ''aborted''
         \<or> field e ''reason'' = PStr ''interrupted'') (turn_ends c)) continued),
      (''child_recovery_completed'', list_ex (\<lambda>c. ''HARNESS-CHILD-RECOVERED'' \<in> markers c \<and> ended_with ''completed'' c) continued),
      (''fork_real_model_read'', list_ex (real_read ''HARNESS-FORK-VERIFIED'') one_shots),
      (''workflow_exact_pure_script'', list_ex (\<lambda>t. flag t ''exact_pure_js_script'') (records f)),
      (''workflow_computation_verified'', list_ex (\<lambda>t. flag t ''pure_js_result_verified'') (records f)),
      (''workflow_durable_completion'', list_ex (\<lambda>e. field e ''type'' = PStr ''tool-workflow/run-end''
         \<and> field e ''stop_reason'' = PStr ''completed'') (events f)),
      (''single_ralph_one_round'', single_capped ''ralph'' ''ralph_round_cap'' f),
      (''ralph_structured_completion'', list_ex (\<lambda>t. flag t ''one_round_completion''
         \<and> flag t ''structured_report_verified'') (records f)),
      (''ralph_real_model_read'', list_ex (real_read ''HARNESS-RALPH-VERIFIED'') one_shots),
      (''all_children_settled'', settled),
      (''fixture_unchanged'', set (sc_names C) = set (map fst (sc_before C))
         \<and> kept_files (\<lambda>_. True) (sc_before C) (sc_after C)),
      (''no_mutating_or_network_tools'', \<not> list_ex (uses_tool forbidden_tools) (f # cs))]"

definition coordination :: "'w env \<Rightarrow> 'w scene \<Rightarrow> ('w, unit) phase" where
  "coordination E C =
     andthen (using_runner (modify (\<lambda>r. r\<lparr>rn_cleanup := True\<rparr>)))
    (bind (using_runner (create E)) (\<lambda>i.
     andthen (using_runner (watch E i None))
    (bind (using_runner (prompt E i coordination_first)) (\<lambda>first.
     bind (using_runner (prompt E i coordination_second)) (\<lambda>second.
     bind (gets (\<lambda>(r, cs). session_id (rn_follows r ! i))) (\<lambda>sid.
     bind (using_runner (poll_children E sid (sc_polls C) (PDict []))) (\<lambda>catalog.
     bind (using_runner (inspect_children E i)) (\<lambda>is.
     bind (gets (\<lambda>(r, cs). map (\<lambda>j. rn_follows r ! j) is)) (\<lambda>cs.
     bind (the_follow i) (\<lambda>f.
     bind (lift (with_mode ''continuable'' cs)) (\<lambda>continued.
     bind (lift (with_mode ''one-shot'' cs)) (\<lambda>one_shots.
     bind (lift (all_activity (\<lambda>a. a = PStr ''inactive'') catalog)) (\<lambda>settled.
     record_checks (coordination_checks C first second settled f cs continued one_shots))))))))))))))"

section \<open>Reasoning and image\<close>

definition reasoning_checks :: "'w env \<Rightarrow> 'w scene \<Rightarrow> pyval \<Rightarrow> 'w follow \<Rightarrow> checks" where
  "reasoning_checks E C reason f =
     [(''thinking_mode_selected'', en_reasoning E = ''high''),
      (''thinking_tool_turn_completed'', is_completed reason),
      (''real_shell_result'', list_ex (\<lambda>t. \<not> flag t ''is_error''
         \<and> has_marker ''HARNESS-REASONING-VERIFIED: 7321'' t) (named [''pwsh''] f)),
      (''verified_answer_returned'', ''HARNESS-REASONING-VERIFIED: 7321'' \<in> markers f),
      (''reasoning_fixture_unchanged'', map_of (sc_after C) ''solve.py'' = map_of (sc_before C) ''solve.py'')]"

definition reasoning_check :: "'w env \<Rightarrow> 'w scene \<Rightarrow> ('w, unit) phase" where
  "reasoning_check E C =
     bind (using_runner (create E)) (\<lambda>i.
     bind (using_runner (prompt E i (reasoning_prompt (ps_call (sc_python C) @ ''solve.py'')))) (\<lambda>reason.
     bind (the_follow i) (\<lambda>f.
     record_checks (reasoning_checks E C reason f))))"

fun contains_image :: "pyval \<Rightarrow> bool" where
  "contains_image (PDict d) = (map_of d ''type'' = Some (PStr ''image'') \<or> list_ex (\<lambda>(k, v). contains_image v) d)"
| "contains_image (PList vs) = list_ex contains_image vs"
| "contains_image _ = False"

definition fence :: string where
  "fence = replicate 3 (CHR 0x60)"

text \<open>The opening and the closing fence of a code block, with the white space around them.\<close>

definition strip_fence :: "string \<Rightarrow> string" where
  "strip_fence t =
     (if \<not> prefix fence t then t
      else let a = drop 3 t; b = lstrip (if prefix ''json'' a then drop 4 a else a)
           in if suffix fence b then rstrip (take (length b - 3) b) else b)"

text \<open>The answers the session's messages contain, and whether its tool results contain images.\<close>

definition read_record :: "pylib \<Rightarrow> pyval \<Rightarrow> (pyval list \<times> bool list, unit) act" where
  "read_record L rec =
     bind (lift (pyget rec ''event'' (PDict []))) (\<lambda>e.
     bind (lift (pyget e ''data'' (PDict []))) (\<lambda>data.
     bind (lift (pyget e ''type'' PNone)) (\<lambda>ty.
     andthen (if ty = PStr ''assistant/message'' then
        bind (lift (rbind (pyget data ''message'' (PDict [])) (\<lambda>m. pyget m ''content'' PNone))) (\<lambda>content.
        case loads L (strip_fence (strip (join newline (text_blocks content)))) of
          Inr (PDict d) \<Rightarrow> modify (\<lambda>(as, is). (as @ [PDict d], is))
        | _ \<Rightarrow> ret ()) else ret ())
     (when_do (ty = PStr ''tool/result'') (modify (\<lambda>(as, is). (as, is @ [contains_image data])))))))"

definition image_checks :: "'w scene \<Rightarrow> pyval \<Rightarrow> 'w follow \<Rightarrow> pyval list \<Rightarrow> bool list \<Rightarrow> checks" where
  "image_checks C reason f answers images =
     [(''image_turn_completed'', is_completed reason), (''read_image_completed'', completed_tool ''read_image'' f),
      (''actual_image_result'', list_ex (\<lambda>b. b) images),
      (''blind_visual_and_ocr_match'', py_eq (if answers = [] then PDict [] else last answers) (PDict (sc_drawn C))),
      (''image_file_unchanged'', map_of (sc_after C) ''probe.png'' = map_of (sc_before C) ''probe.png''),
      (''no_alternative_tool'', list_all (\<lambda>t. has_name t [''read_image'']) (records f))]"

definition image_check :: "'w env \<Rightarrow> 'w scene \<Rightarrow> ('w, unit) phase" where
  "image_check E C =
     bind (using_runner (create E)) (\<lambda>i.
     bind (using_runner (prompt E i image_prompt)) (\<lambda>reason.
     bind (the_follow i) (\<lambda>f.
     bind (using_runner (call E ''session/page'' (request [(''address'', address f), (''throughSeq'', PInt (cursor f)),
        (''maxMessages'', PInt 100)]))) (\<lambda>page.
     bind (lift (rbind (getitem page ''records'') iterate)) (\<lambda>rs.
     bind (\<lambda>s. (case for_each rs (read_record (en_lib E)) ([], []) of
             (Inl e, _) \<Rightarrow> (Inl e, s) | (Inr _, found) \<Rightarrow> (Inr found, s))) (\<lambda>(answers, images).
     record_checks (image_checks C reason f answers images)))))))"

end
