(* ===== verification/HarnessRun.thy ===== *)
theory HarnessRun
  imports Phases
begin

text \<open>
  The monitor of the gateway and \<^verbatim>\<open>main\<close> of \<^verbatim>\<open>scripts/harness-check.py\<close>: the phase runs, the
  monitor is stopped, the sessions are cleaned up, and the closing checks decide whether the
  report has passed.
\<close>

section \<open>The gateway monitor\<close>

record proxy_sample =
  sa_active :: pyval
  sa_ms :: rat
  sa_connected :: pyval
  sa_paired :: pyval
  sa_session :: pyval
  sa_link :: "pyval list"
  sa_free :: pyval

record monitor =
  mo_samples :: "proxy_sample list"
  mo_errors :: "pydict list"

text \<open>\<^verbatim>\<open>ProxyMonitor.get\<close>: the status and the decoded body of one management request.\<close>

definition manage_get :: "(int \<times> pyval res) res \<Rightarrow> pyval res" where
  "manage_get reply = rbind reply (\<lambda>(status, body).
     if status \<noteq> 200 then Inl (Exc RuntimeError ''local_management_failed'') else body)"

definition take_sample :: "rat \<Rightarrow> pyval \<Rightarrow> proxy_sample res" where
  "take_sample ms d =
     rbind (pyget d ''device'' (PDict [])) (\<lambda>dev.
     rbind (pyget dev ''link'' (PDict [])) (\<lambda>lk.
     rbind (rbind (getitem d ''host'') (\<lambda>h. getitem h ''active_requests'')) (\<lambda>active.
     rbind (pyget d ''connected'' PNone) (\<lambda>connected.
     rbind (pyget d ''paired'' PNone) (\<lambda>paired.
     rbind (pyget dev ''session'' PNone) (\<lambda>session.
     rbind (rmap (\<lambda>k. pyget lk k PNone) [''rx_bytes'', ''tx_bytes'', ''crc_errors'', ''retries'']) (\<lambda>traffic.
     rbind (rbind (pyget dev ''memory'' (PDict [])) (\<lambda>m. pyget m ''internal_free'' PNone)) (\<lambda>free.
     Inr \<lparr>sa_active = active, sa_ms = ms, sa_connected = connected, sa_paired = paired,
       sa_session = session, sa_link = traffic, sa_free = free\<rparr>))))))))"

definition MAX_SAMPLES :: nat where
  "MAX_SAMPLES = 7200"

definition monitor_step :: "pylib \<Rightarrow> rat \<times> (int \<times> pyval res) res \<Rightarrow> monitor \<Rightarrow> monitor" where
  "monitor_step L poll m = (case rbind (manage_get (snd poll)) (take_sample (fst poll)) of
     Inr s \<Rightarrow> m\<lparr>mo_samples := mo_samples m @ [s]\<rparr>
   | Inl e \<Rightarrow> m\<lparr>mo_errors := mo_errors m @ [safe_error L e]\<rparr>)"

text \<open>\<^verbatim>\<open>run\<close>: one poll after the other until \<^verbatim>\<open>stop\<close> is set (the list ends) or the samples are full.\<close>

fun monitor_run :: "pylib \<Rightarrow> (rat \<times> (int \<times> pyval res) res) list \<Rightarrow> monitor \<Rightarrow> monitor" where
  "monitor_run L [] m = m"
| "monitor_run L (p # ps) m =
     (if MAX_SAMPLES \<le> length (mo_samples m) then m else monitor_run L ps (monitor_step L p m))"

definition counter_names :: "string list" where
  "counter_names = [''requests'', ''completed'', ''succeeded'', ''failed'', ''cancelled'', ''rejected'',
     ''chat_requests'', ''prompt_tokens'', ''completion_tokens'', ''total_tokens'', ''request_bytes'',
     ''response_bytes'']"

record proxy_report =
  px_before :: pyval
  px_after :: pyval
  px_delta :: "(string \<times> int) list"
  px_samples :: "proxy_sample list"
  px_errors :: "pydict list"
  px_peak :: int
  px_ms :: rat

text \<open>The metrics are the gateway's counters, JSON integers.\<close>

definition metric :: "pyval \<Rightarrow> string \<Rightarrow> int res" where
  "metric v k = rbind (getitem v k) as_int"

definition delta :: "pyval \<Rightarrow> pyval \<Rightarrow> (string \<times> int) list res" where
  "delta prior after = rmap (\<lambda>k. rbind (metric after k) (\<lambda>a. rbind (metric prior k) (\<lambda>b. Inr (k, a - b)))) counter_names"

definition max_of :: "'n::linorder \<Rightarrow> 'n list \<Rightarrow> 'n" where
  "max_of d ns = (case ns of [] \<Rightarrow> d | n # ms \<Rightarrow> fold max ms n)"

text \<open>The wait for an idle gateway: polls of the metrics for at most 15 seconds.\<close>

fun await_idle :: "pyval res list \<Rightarrow> unit res" where
  "await_idle [] = Inr ()"
| "await_idle (r # rs) = rbind r (\<lambda>v. rbind (pyget v ''active'' PNone) (\<lambda>a.
     if eq_int a 0 then Inr () else await_idle rs))"

definition finish :: "monitor \<Rightarrow> pyval \<Rightarrow> pyval res list \<Rightarrow> pyval res \<Rightarrow> proxy_report res" where
  "finish m prior polls final =
     rbind (await_idle polls) (\<lambda>_.
     rbind final (\<lambda>after.
     rbind (delta prior after) (\<lambda>d.
     rbind (rmap (\<lambda>s. as_int (sa_active s)) (mo_samples m)) (\<lambda>actives.
     Inr \<lparr>px_before = prior, px_after = after, px_delta = d, px_samples = mo_samples m,
       px_errors = mo_errors m, px_peak = max_of 0 actives, px_ms = max_of 0 (map sa_ms (mo_samples m))\<rparr>))))"

section \<open>The closing checks\<close>

datatype phase_name = Smoke | Workflow | Parallel | Cancel | Search | Advanced | Coordination | Image | Reasoning

definition delta_of :: "proxy_report \<Rightarrow> string \<Rightarrow> int res" where
  "delta_of p k = (case map_of (px_delta p) k of Some n \<Rightarrow> Inr n | None \<Rightarrow> Inl (Exc KeyError k))"

text \<open>The checks on the gateway; what was recorded before an exception stays.\<close>

definition proxy_checks :: "phase_name \<Rightarrow> proxy_report \<Rightarrow> (checks, unit) act" where
  "proxy_checks ph p =
     andthen (modify (add_checks [(''proxy_capacity_held'', px_peak p \<le> 4), (''management_responsive'', px_errors p = [])]))
    (bind (lift (getitem (px_after p) ''active'')) (\<lambda>active.
     andthen (modify (add_checks [(''proxy_idle_after_run'', eq_int active 0)]))
    (bind (lift (delta_of p ''failed'')) (\<lambda>failed.
     if ph = Cancel \<or> ph = Coordination then
       bind (lift (delta_of p ''cancelled'')) (\<lambda>cancelled.
       bind (lift (delta_of p ''rejected'')) (\<lambda>rejected.
       modify (add_checks [(''only_expected_proxy_cancellation'',
         failed = cancelled \<and> cancelled \<le> 1 \<and> rejected = 0)])))
     else modify (add_checks [(''no_proxy_failures'', failed = 0)])))))"

definition close_proxy :: "phase_name \<Rightarrow> proxy_report res \<Rightarrow> checks \<Rightarrow> (bool \<times> checks) option" where
  "close_proxy ph fin cs = (case bind (lift fin) (proxy_checks ph) cs of
     (Inr _, ds) \<Rightarrow> Some (False, ds)
   | (Inl e, ds) \<Rightarrow> if is_exception (exc_kind e) then Some (True, ds) else None)"

text \<open>Every model route in the events of a follower is the local gateway and the chosen model.\<close>

definition local_route :: "string \<Rightarrow> pydict \<Rightarrow> bool" where
  "local_route model e \<longleftrightarrow> (case map_of e ''route'' of None \<Rightarrow> True
     | Some (PDict route) \<Rightarrow> field route ''provider'' = PStr PROVIDER \<and> field route ''model'' = PStr model
     | Some _ \<Rightarrow> False)"

definition closing_checks :: "'w env \<Rightarrow> 'w follow list \<Rightarrow> pydict list \<Rightarrow> checks" where
  "closing_checks E fs errs =
     [(''no_sequence_errors'', list_all (\<lambda>f. gaps f = []) fs),
      (''all_model_routes_local'', fs \<noteq> [] \<and> list_all (\<lambda>f. list_all (local_route (en_model E)) (events f)) fs),
      (''cleanup_completed'', errs = [])]"

section \<open>The whole run\<close>

definition run_phase :: "'w env \<Rightarrow> 'w scene \<Rightarrow> phase_name \<Rightarrow> ('w, unit) phase" where
  "run_phase E C ph = (case ph of Smoke \<Rightarrow> smoke E C | Workflow \<Rightarrow> workflow E C | Parallel \<Rightarrow> parallel E C
     | Cancel \<Rightarrow> cancel E C | Advanced \<Rightarrow> advanced E C | Coordination \<Rightarrow> coordination E C
     | Image \<Rightarrow> image_check E C | Reasoning \<Rightarrow> reasoning_check E C
     | Search \<Rightarrow> raise NotImplementedError ''phase_not_implemented_yet'')"

record outcome_report =
  or_checks :: checks
  or_error :: bool
  or_monitor_error :: bool
  or_follows :: "summary list"
  or_passed :: bool

text \<open>
  From the phase's fin to the report: \<^verbatim>\<open>error\<close> is set by \<^verbatim>\<open>except Exception\<close> only. None: the
  closing itself was interrupted and no report is written.
\<close>

definition conclude :: "'w env \<Rightarrow> phase_name \<Rightarrow> proxy_report res \<Rightarrow> unit res \<Rightarrow> 'w runner \<Rightarrow> checks
    \<Rightarrow> outcome_report option" where
  "conclude E ph fin result r cs =
     (case close_proxy ph fin cs of None \<Rightarrow> None | Some (monitor_error, cs1) \<Rightarrow>
      case cleanup E r of (Inl e, _) \<Rightarrow> None
      | (Inr errs, t) \<Rightarrow>
        (let cs2 = add_checks (closing_checks E (rn_follows t) errs) cs1;
             failed = (case result of Inl e \<Rightarrow> is_exception (exc_kind e) | Inr _ \<Rightarrow> False)
         in Some \<lparr>or_checks = cs2, or_error = failed, or_monitor_error = monitor_error,
              or_follows = map summary (rn_follows t),
              or_passed = checks_pass cs2 \<and> \<not> failed \<and> \<not> monitor_error\<rparr>))"

definition harness_run :: "'w env \<Rightarrow> 'w scene \<Rightarrow> phase_name \<Rightarrow> proxy_report res \<Rightarrow> outcome_report option" where
  "harness_run E C ph fin = (case run_phase E C ph (runner_init, []) of
     (result, (r, cs)) \<Rightarrow> conclude E ph fin result r cs)"

end
