(* ===== verification/RunnerProps.thy ===== *)
theory RunnerProps
  imports Runner
begin

text \<open>
  No session is leaked: the sessions the runner knows are exactly those the server created,
  and the cleanup asks the server to cancel every one of them, whatever fails on the way.
\<close>

section \<open>Sessions the server created\<close>

text \<open>The identifier in the server's answer to one call of the log.\<close>

definition new_session :: "'w env \<Rightarrow> (string \<times> pyval) list \<Rightarrow> string \<times> pyval \<Rightarrow> pyval list" where
  "new_session E earlier c = (if fst c = ''session/create'' then
     (case rbind (en_server E earlier (fst c) (snd c)) (\<lambda>v. getitem v ''sessionId'') of
        Inr sid \<Rightarrow> [sid] | Inl _ \<Rightarrow> []) else [])"

definition created :: "'w env \<Rightarrow> (string \<times> pyval) list \<Rightarrow> pyval list" where
  "created E cs = concat (map (\<lambda>j. new_session E (take j cs) (cs ! j)) [0..<length cs])"

lemma created_snoc: "created E (cs @ [c]) = created E cs @ new_session E cs c"
proof -
  have "map (\<lambda>j. new_session E (take j (cs @ [c])) ((cs @ [c]) ! j)) [0..<length cs]
      = map (\<lambda>j. new_session E (take j cs) (cs ! j)) [0..<length cs]"
    by (intro map_cong) (auto simp: nth_append)
  moreover have "take (length cs) (cs @ [c]) = cs" by simp
  ultimately show ?thesis unfolding created_def by (simp del: take_append map_eq_conv)
qed

definition tracked :: "'w env \<Rightarrow> 'w runner \<Rightarrow> bool" where
  "tracked E r \<longleftrightarrow> rn_sessions r = created E (rn_calls r)"

section \<open>Every operation keeps track\<close>

lemma call_keeps_tracked: "m \<noteq> ''session/create'' \<Longrightarrow> keeps (tracked E) (call E m args)"
  by (simp add: keeps_def call_def tracked_def created_snoc new_session_def)

lemma on_follow_frame:
  "rn_sessions (snd (on_follow i m r)) = rn_sessions r" "rn_calls (snd (on_follow i m r)) = rn_calls r"
  "length (rn_follows (snd (on_follow i m r))) = length (rn_follows r)"
  by (auto simp: on_follow_def split: prod.splits option.splits)

lemma on_follow_keeps: "keeps (tracked E) (on_follow i m)"
  by (simp add: keeps_def tracked_def on_follow_frame)

lemma new_follow_keeps: "keeps (tracked E) (new_follow E sid adr)"
  by (simp add: keeps_def tracked_def new_follow_def Let_def)

lemmas tracked_rules = keeps_intro call_keeps_tracked on_follow_keeps new_follow_keeps

lemma open_at_keeps: "keeps (tracked E) (open_at E i)"
  unfolding open_at_def by (intro tracked_rules)

lemma enqueue_keeps: "keeps (tracked E) (enqueue E i x)"
  unfolding enqueue_def by (intro tracked_rules) simp

lemma await_turn_keeps: "keeps (tracked E) (await_turn E i n)"
  unfolding await_turn_def by (intro tracked_rules)

lemma prompt_keeps: "keeps (tracked E) (prompt E i x)"
  unfolding prompt_def by (intro tracked_rules enqueue_keeps await_turn_keeps)

lemma command_keeps: "keeps (tracked E) (command E i x)"
  unfolding command_def by (intro tracked_rules) simp

lemma watch_keeps: "keeps (tracked E) (watch E i g)"
  unfolding watch_def by (intro tracked_rules)

lemma open_children_keeps: "keeps (tracked E) (open_children E parent cs)"
  by (induction cs) (auto intro!: tracked_rules open_at_keeps)

lemma inspect_children_keeps: "keeps (tracked E) (inspect_children E i)"
  unfolding inspect_children_def by (intro tracked_rules open_children_keeps)

lemma announce_keeps: "keeps (tracked E) (announce_question i q)"
  unfolding announce_question_def by (intro keeps_modify) (simp add: tracked_def)

lemma create_keeps: "keeps (tracked E) (create E)"
proof -
  let ?args = "request [(''cwd'', PStr (en_cwd E)), (''agentPreset'', PStr ''standard'')]"
  let ?rest = "\<lambda>sid. bind (call E ''session/selectModel'' (request [(''sessionId'', sid), (''provider'', PStr PROVIDER),
        (''model'', PStr (en_model E)), (''reasoningEffort'', PStr (en_reasoning E))])) (\<lambda>_.
     bind (new_follow E sid PNone) (\<lambda>i. andthen (open_at E i) (ret i)))"
  have rest: "keeps (tracked E) (?rest sid)" for sid
    by (intro tracked_rules open_at_keeps) simp
  show ?thesis unfolding keeps_def
  proof (intro allI impI)
    fix r assume r: "tracked E r"
    let ?r = "r\<lparr>rn_calls := rn_calls r @ [(''session/create'', ?args)]\<rparr>"
    show "tracked E (snd (create E r))"
    proof (cases "rbind (en_server E (rn_calls r) ''session/create'' ?args) (\<lambda>v. getitem v ''sessionId'')")
      case (Inl e)
      then have "snd (create E r) = ?r"
        by (auto simp: create_def bind_def lift_def call_def rbind_def split: sum.splits)
      with r Inl show ?thesis by (simp add: tracked_def created_snoc new_session_def)
    next
      case (Inr sid)
      then have run: "create E r = ?rest sid (?r\<lparr>rn_sessions := rn_sessions r @ [sid]\<rparr>)"
        by (auto simp: create_def bind_def andthen_def modify_def lift_def call_def rbind_def split: sum.splits)
      have "tracked E (?r\<lparr>rn_sessions := rn_sessions r @ [sid]\<rparr>)"
        using r Inr by (simp add: tracked_def created_snoc new_session_def)
      then show ?thesis unfolding run by (rule keepsD [OF rest])
    qed
  qed
qed

text \<open>One operation of a phase on the runner.\<close>

inductive run_step :: "'w env \<Rightarrow> 'w runner \<Rightarrow> 'w runner \<Rightarrow> bool" for E where
  step_create: "run_step E r (snd (create E r))"
| step_enqueue: "run_step E r (snd (enqueue E i x r))"
| step_await: "run_step E r (snd (await_turn E i n r))"
| step_prompt: "run_step E r (snd (prompt E i x r))"
| step_command: "run_step E r (snd (command E i x r))"
| step_watch: "run_step E r (snd (watch E i g r))"
| step_children: "run_step E r (snd (inspect_children E i r))"
| step_receive: "run_step E r (snd (on_follow i (receive_until (en_lib E) (en_server E) (en_deadline E) stop) r))"
| step_announce: "run_step E r (snd (announce_question i q r))"
| step_call: "m \<noteq> ''session/create'' \<Longrightarrow> run_step E r (snd (call E m args r))"
| step_stop_file: "run_step E r (r\<lparr>rn_stop_files := rn_stop_files r @ [p]\<rparr>)"
| step_deep: "run_step E r (r\<lparr>rn_cleanup := True\<rparr>)"

lemma run_step_tracked: "run_step E r t \<Longrightarrow> tracked E r \<Longrightarrow> tracked E t"
proof (induction rule: run_step.induct)
  case (step_stop_file r p)
  then show ?case by (simp add: tracked_def)
next
  case (step_deep r)
  then show ?case by (simp add: tracked_def)
next
  case (step_call m r args)
  then show ?case using keepsD [OF call_keeps_tracked] by blast
qed (simp_all add: keepsD [OF create_keeps] keepsD [OF enqueue_keeps] keepsD [OF await_turn_keeps]
       keepsD [OF prompt_keeps] keepsD [OF command_keeps] keepsD [OF watch_keeps] keepsD [OF inspect_children_keeps]
       keepsD [OF on_follow_keeps] keepsD [OF announce_keeps])

lemma reachable_tracked: "(run_step E)\<^sup>*\<^sup>* runner_init r \<Longrightarrow> tracked E r"
proof (induction rule: rtranclp_induct)
  case base
  show ?case by (simp add: tracked_def runner_init_def created_def)
next
  case (step s t)
  then show ?case using run_step_tracked by blast
qed

section \<open>Cleanup\<close>

text \<open>An action whose exceptions all derive from \<^verbatim>\<open>Exception\<close>.\<close>

definition regular :: "('s, 'a) act \<Rightarrow> bool" where
  "regular m \<longleftrightarrow> (\<forall>s e t. m s = (Inl e, t) \<longrightarrow> is_exception (exc_kind e))"

lemma regular_basic: "regular (ret x)" "regular (gets f)" "regular (modify u)"
  by (simp_all add: regular_def act_run)

lemma regular_bind: "regular m \<Longrightarrow> (\<And>x. regular (f x)) \<Longrightarrow> regular (bind m f)"
  by (auto simp: regular_def bind_def split: prod.splits sum.splits)

lemma regular_if: "regular m \<Longrightarrow> regular n \<Longrightarrow> regular (if b then m else n)"
  by simp

lemma regular_for_each: "(\<And>x. regular (body x)) \<Longrightarrow> regular (for_each xs body)"
  by (induction xs) (auto simp: andthen_def intro: regular_basic regular_bind)

definition benign :: "'a res \<Rightarrow> bool" where
  "benign v \<longleftrightarrow> (\<forall>e. v = Inl e \<longrightarrow> is_exception (exc_kind e))"

lemma regular_lift: "benign v \<Longrightarrow> regular (lift v)"
  by (simp add: regular_def benign_def act_run)

lemma benign_rbind: "benign m \<Longrightarrow> (\<And>x. benign (f x)) \<Longrightarrow> benign (rbind m f)"
  by (cases m) (auto simp: benign_def)

lemma benign_Inr: "benign (Inr v)"
  by (simp add: benign_def)

lemma benign_values:
  "benign (pyget v k d)" "benign (getitem v k)" "benign (iterate v)"
  by (cases v; simp add: benign_def is_exception_def split: option.split)+

lemma benign_tests: "benign p \<Longrightarrow> benign q \<Longrightarrow> benign (rand p q)" "benign (get_eq v k x)"
  by (auto simp: rand_def get_eq_def benign_Inr intro!: benign_rbind benign_values)

lemmas regular_rules = regular_basic regular_bind regular_if regular_for_each regular_lift
  benign_rbind benign_Inr benign_values benign_tests

text \<open>A server, and a disk, that fail with ordinary exceptions only.\<close>

definition fair :: "'w env \<Rightarrow> bool" where
  "fair E \<longleftrightarrow> (\<forall>h m a. benign (en_server E h m a)) \<and> (\<forall>p. benign (en_write E p))"

lemma fair_call: "fair E \<Longrightarrow> regular (call E m args)"
  by (auto simp: fair_def benign_def regular_def call_def)

lemma fair_parts:
  assumes "fair E"
  shows "regular (cancel_session E sid)" "regular (interrupt_children E sid)" "regular (write_stop E p)"
proof -
  note call = fair_call [OF assms]
  show "regular (cancel_session E sid)" unfolding cancel_session_def by (intro regular_rules call)
  have "regular (interrupt_child E sid c)" for c unfolding interrupt_child_def by (intro regular_rules call)
  then show "regular (interrupt_children E sid)" unfolding interrupt_children_def by (intro regular_rules call)
  show "regular (write_stop E p)" unfolding write_stop_def using assms by (intro regular_rules) (simp add: fair_def)
qed

lemma guarded_returns: "regular m \<Longrightarrow> \<exists>es. fst (guarded m entry s) = Inr es"
  by (auto simp: guarded_def catch_def andthen_def bind_def ret_def regular_def split: prod.splits sum.splits)

lemma bind_returns: "\<exists>x. fst (m s) = Inr x \<Longrightarrow> (\<And>x t. \<exists>y. fst (f x t) = Inr y) \<Longrightarrow> \<exists>y. fst (bind m f s) = Inr y"
  by (cases "m s") (auto simp: bind_def)

lemma collect_returns: "(\<And>x s. \<exists>es. fst (body x s) = Inr es) \<Longrightarrow> \<exists>es. fst (collect xs body s) = Inr es"
  by (induction xs arbitrary: s) (auto simp: ret_def intro!: bind_returns)

lemma clean_session_returns: "fair E \<Longrightarrow> \<exists>es. fst (clean_session E sid s) = Inr es"
  unfolding clean_session_def
  by (intro bind_returns guarded_returns fair_parts) (auto simp: gets_def ret_def intro: guarded_returns fair_parts)

text \<open>The log of calls only grows; sessions and followers stay.\<close>

definition later :: "'w runner \<Rightarrow> 'w runner \<Rightarrow> bool" where
  "later r t \<longleftrightarrow> prefix (rn_calls r) (rn_calls t) \<and> rn_sessions t = rn_sessions r \<and> rn_follows t = rn_follows r"

interpretation tidy: state_order later
  by unfold_locales (auto simp: later_def)

lemma call_grows: "tidy.grows (call E m args)"
  by (simp add: tidy.grows_def call_def later_def)

lemma guarded_grows: "tidy.grows m \<Longrightarrow> tidy.grows (guarded m entry)"
  unfolding guarded_def by (intro tidy.grows_rules)

lemma collect_grows: "(\<And>x. tidy.grows (body x)) \<Longrightarrow> tidy.grows (collect xs body)"
  by (induction xs) (auto intro!: tidy.grows_rules)

lemma parts_grow:
  "tidy.grows (cancel_session E sid)" "tidy.grows (interrupt_children E sid)" "tidy.grows (write_stop E p)"
  "tidy.grows (clean_session E sid)"
proof -
  show a: "tidy.grows (cancel_session E sid)" unfolding cancel_session_def by (intro tidy.grows_rules call_grows)
  have "tidy.grows (interrupt_child E sid c)" for c
    unfolding interrupt_child_def by (intro tidy.grows_rules call_grows)
  then show b: "tidy.grows (interrupt_children E sid)"
    unfolding interrupt_children_def by (intro tidy.grows_rules call_grows)
  show "tidy.grows (write_stop E p)"
    unfolding write_stop_def by (intro tidy.grows_rules) (simp add: later_def)
  show "tidy.grows (clean_session E sid)"
    unfolding clean_session_def by (intro tidy.grows_rules guarded_grows a b)
qed

text \<open>An action that makes a call, whatever its outcome.\<close>

definition logs :: "string \<times> pyval \<Rightarrow> ('w, 'a) run \<Rightarrow> bool" where
  "logs c m \<longleftrightarrow> (\<forall>r. c \<in> set (drop (length (rn_calls r)) (rn_calls (snd (m r)))))"

lemma new_items_mono:
  "prefix a b \<Longrightarrow> prefix b c \<Longrightarrow> set (drop (length a) b) \<subseteq> set (drop (length a) c)"
  "prefix a b \<Longrightarrow> prefix b c \<Longrightarrow> set (drop (length b) c) \<subseteq> set (drop (length a) c)"
  by (auto simp: prefix_def)

lemma logs_call: "logs (m, a) (call E m a)"
  by (simp add: logs_def call_def)

lemma logs_first:
  assumes m: "logs c m" and g: "tidy.grows m" and f: "\<And>x. tidy.grows (f x)"
  shows "logs c (bind m f)"
  unfolding logs_def
proof
  fix r
  obtain v t where run: "m r = (v, t)" by fastforce
  then have new: "c \<in> set (drop (length (rn_calls r)) (rn_calls t))" and "prefix (rn_calls r) (rn_calls t)"
    using m tidy.growsD [OF g, of r] by (auto simp: logs_def later_def dest: spec [of _ r])
  moreover have "prefix (rn_calls t) (rn_calls (snd (bind m f r)))"
    using tidy.growsD [OF f] by (auto simp: bind_def run later_def split: sum.split)
  ultimately show "c \<in> set (drop (length (rn_calls r)) (rn_calls (snd (bind m f r))))"
    using new_items_mono(1) by blast
qed

lemma logs_second:
  assumes g: "tidy.grows m" and ok: "\<And>r. \<exists>x. fst (m r) = Inr x" and f: "\<And>x. logs c (f x)"
  shows "logs c (bind m f)"
  unfolding logs_def
proof
  fix r
  obtain x t where run: "m r = (Inr x, t)" using ok [of r] by (cases "m r") auto
  have "prefix (rn_calls r) (rn_calls t)" using tidy.growsD [OF g, of r] by (simp add: run later_def)
  moreover have "c \<in> set (drop (length (rn_calls t)) (rn_calls (snd (f x t))))" using f by (simp add: logs_def)
  ultimately show "c \<in> set (drop (length (rn_calls r)) (rn_calls (snd (bind m f r))))"
    by (auto simp: bind_def run intro: subsetD [OF set_drop_subset_set_drop [OF prefix_length_le]])
qed

lemma guarded_state: "snd (guarded m entry s) = snd (m s)"
  by (auto simp: guarded_def catch_def andthen_def bind_def ret_def split: prod.splits sum.splits)

lemma logs_guarded: "logs c m \<Longrightarrow> logs c (guarded m entry)"
  by (simp add: logs_def guarded_state)

definition cancel_call :: "pyval \<Rightarrow> string \<times> pyval" where
  "cancel_call sid = (''session/cancel'', request [(''sessionId'', sid)])"

lemma clean_session_logs: "logs (cancel_call sid) (clean_session E sid)"
proof -
  have "logs (cancel_call sid) (cancel_session E sid)"
    unfolding cancel_session_def cancel_call_def by (intro logs_first logs_call call_grows tidy.grows_rules)
  then show ?thesis unfolding clean_session_def
    by (intro logs_first logs_guarded parts_grow guarded_grows tidy.grows_rules)
qed

lemma collect_logs:
  assumes "\<And>x. tidy.grows (body x)" and "\<And>x r. \<exists>es. fst (body x r) = Inr es" and "\<And>x. logs (c x) (body x)"
  shows "x \<in> set xs \<Longrightarrow> logs (c x) (collect xs body)"
proof (induction xs)
  case (Cons y ys)
  have rest: "tidy.grows (bind (collect ys body) (\<lambda>fs. ret (es @ fs)))" for es
    using assms(1) by (intro tidy.grows_rules collect_grows)
  show ?case
  proof (cases "x = y")
    case True
    then show ?thesis using logs_first [OF assms(3,1) rest] by simp
  next
    case False
    then have "logs (c x) (collect ys body)" using Cons by simp
    then have "logs (c x) (bind (collect ys body) (\<lambda>fs. ret (es @ fs)))" for es
      using assms(1) by (intro logs_first tidy.grows_rules collect_grows)
    from logs_second [OF assms(1,2) this] show ?thesis by simp
  qed
qed simp

lemma close_all_run: "close_all E r = (Inr (), r\<lparr>rn_follows := map (\<lambda>(i, f). case en_connect E i of
    Inr _ \<Rightarrow> close_follow f | Inl _ \<Rightarrow> f) (enumerate 0 (rn_follows r))\<rparr>)"
  by (simp add: close_all_def modify_def)

text \<open>
  After any operations of a phase, the cleanup returns and has asked the server to cancel
  every session the server ever created for this runner; each connected follower is closed.
\<close>

lemma cleanup_covers:
  assumes reach: "(run_step E)\<^sup>*\<^sup>* runner_init r" and fair: "fair E"
  shows "\<exists>errs t. cleanup E r = (Inr errs, t)
    \<and> (\<forall>sid \<in> set (created E (rn_calls r)). cancel_call sid \<in> set (drop (length (rn_calls r)) (rn_calls t)))
    \<and> rn_follows t = map (\<lambda>(i, f). case en_connect E i of Inr _ \<Rightarrow> close_follow f | Inl _ \<Rightarrow> f)
           (enumerate 0 (rn_follows r))"
proof -
  let ?stop = "\<lambda>path. guarded (write_stop E path) (\<lambda>e. [(''fixture_worker_stop'', PDict (safe_error (en_lib E) e))])"
  have stop_ok: "\<exists>es. fst (?stop p s) = Inr es" for p s by (rule guarded_returns [OF fair_parts(3) [OF fair]])
  have stop_grows: "tidy.grows (?stop p)" for p by (rule guarded_grows [OF parts_grow(3)])
  obtain es s1 where one: "collect (rn_stop_files r) ?stop r = (Inr es, s1)"
    using collect_returns [of ?stop "rn_stop_files r" r, OF stop_ok] by (metis prod.collapse)
  have "later r (snd (collect (rn_stop_files r) ?stop r))"
    by (rule tidy.growsD [OF collect_grows [OF stop_grows]])
  then have s1: "prefix (rn_calls r) (rn_calls s1)" "rn_sessions s1 = rn_sessions r" "rn_follows s1 = rn_follows r"
    by (simp_all add: later_def one)
  obtain fs s2 where two: "collect (rn_sessions s1) (clean_session E) s1 = (Inr fs, s2)"
    using collect_returns [of "clean_session E", OF clean_session_returns [OF fair]] by (metis prod.collapse)
  have "later s1 (snd (collect (rn_sessions s1) (clean_session E) s1))"
    by (rule tidy.growsD [OF collect_grows [OF parts_grow(4)]])
  then have s2: "rn_follows s2 = rn_follows r" unfolding two using s1 by (simp add: later_def)
  have "cancel_call sid \<in> set (drop (length (rn_calls s1)) (rn_calls s2))" if "sid \<in> set (rn_sessions s1)" for sid
  proof -
    have "logs (cancel_call sid) (collect (rn_sessions s1) (clean_session E))"
      by (rule collect_logs [of "clean_session E" cancel_call, OF parts_grow(4) clean_session_returns [OF fair]
            clean_session_logs that])
    then have "cancel_call sid \<in> set (drop (length (rn_calls s1))
        (rn_calls (snd (collect (rn_sessions s1) (clean_session E) s1))))" by (simp add: logs_def)
    then show ?thesis unfolding two by simp
  qed
  then have "cancel_call sid \<in> set (drop (length (rn_calls r)) (rn_calls s2))" if "sid \<in> set (rn_sessions r)" for sid
    using that s1 by (intro subsetD [OF set_drop_subset_set_drop [OF prefix_length_le [OF s1(1)]]]) simp
  moreover have "rn_sessions r = created E (rn_calls r)"
    using reachable_tracked [OF reach] by (simp add: tracked_def)
  moreover have "cleanup E r = (Inr (es @ fs), snd (close_all E s2))"
    by (simp add: cleanup_def bind_def andthen_def gets_def one two ret_def close_all_run)
  ultimately show ?thesis using s2 by (simp add: close_all_run)
qed


section \<open>A concrete environment\<close>

text \<open>A server that creates the session \<^verbatim>\<open>s1\<close>, and refuses everything else.\<close>

definition demo_env :: "unit env" where
  "demo_env = \<lparr>en_lib = \<lparr>json_loads = (\<lambda>_. None), dumps = (\<lambda>_. []), dumps_ascii = (\<lambda>_. []),
       sha256 = (\<lambda>_. []), repr_of = (\<lambda>_. [])\<rparr>,
     en_server = (\<lambda>_ m _. if m = ''session/create'' then Inr (PDict [(''sessionId'', PStr ''s1'')])
        else Inl (Exc RuntimeError ''refused'')),
     en_deadline = 9, en_connect = (\<lambda>_. Inr ()), en_feed = (\<lambda>_. []), en_uuid = (\<lambda>_. ''u''),
     en_write = (\<lambda>_. Inr ()), en_cwd = ''w'', en_model = ''m'', en_reasoning = ''off''\<rparr>"

lemma demo_env_fair: "fair demo_env"
  by (simp add: fair_def demo_env_def benign_def is_exception_def)

end
