(* ===== verification/FollowProps.thy ===== *)
theory FollowProps
  imports Follow
begin

text \<open>
  What makes the follower of \<^verbatim>\<open>scripts/harness-check.py\<close> trustworthy: its evidence only
  grows, its bounds hold at every accepted frame, a gap is recorded exactly when events or
  chunks are missing, and it never grants an interaction beyond the one reviewed plan and
  the one fixture question.
\<close>

section \<open>Invariants that do not read the event log\<close>

text \<open>
  The interface between the event handlers and an invariant of the rest of the state: the
  laws say that the invariant survives every assignment the handlers make. Handling any
  frame of the follow stream then keeps it.
\<close>

locale log_blind =
  fixes I :: "'w follow \<Rightarrow> bool"
  assumes blind_events: "I s \<Longrightarrow> I (s\<lparr>events := x1\<rparr>)"
    and blind_tools: "I s \<Longrightarrow> I (s\<lparr>tools := x2\<rparr>)"
    and blind_attempts: "I s \<Longrightarrow> I (s\<lparr>attempts := x3\<rparr>)"
    and blind_counts: "I s \<Longrightarrow> I (s\<lparr>counts := x4\<rparr>)"
    and blind_usage: "I s \<Longrightarrow> I (s\<lparr>usage := x5\<rparr>)"
    and blind_markers: "I s \<Longrightarrow> I (s\<lparr>markers := x6\<rparr>)"
    and blind_cursor: "I s \<Longrightarrow> I (s\<lparr>cursor := x7\<rparr>)"
    and blind_turn_ends: "I s \<Longrightarrow> I (s\<lparr>turn_ends := x8\<rparr>)"
    and blind_children: "I s \<Longrightarrow> I (s\<lparr>children := x9\<rparr>)"
    and blind_available: "I s \<Longrightarrow> I (s\<lparr>available_tools := x10\<rparr>)"
    and blind_gaps: "I s \<Longrightarrow> I (s\<lparr>gaps := x11\<rparr>)"
    and blind_text: "I s \<Longrightarrow> I (s\<lparr>text_bytes := x12\<rparr>)"
    and blind_goals: "I s \<Longrightarrow> I (s\<lparr>goal_states := x13\<rparr>)"
    and blind_todos: "I s \<Longrightarrow> I (s\<lparr>todo_states := x14\<rparr>)"
    and blind_jobs: "I s \<Longrightarrow> I (s\<lparr>owned_jobs := x15\<rparr>)"
begin

lemmas blind = blind_events blind_tools blind_attempts blind_counts blind_usage blind_markers
  blind_cursor blind_turn_ends blind_children blind_available blind_gaps blind_text
  blind_goals blind_todos blind_jobs

lemma keeps_bump: "keeps I (bump k n)"
  by (auto simp: bump_def intro!: keeps_intro blind)

lemma keeps_handlers:
  "keeps I (on_header data)" "keeps I (on_catalog data)" "keeps I (on_goal data)"
  "keeps I (on_todo data)" "keeps I (on_turn_end brief data)"
  unfolding on_header_def on_catalog_def on_goal_def on_todo_def on_turn_end_def Let_def
  by (auto intro!: keeps_intro blind)

lemma keeps_on_message: "keeps I (on_message data)"
  unfolding on_message_def by (auto intro!: keeps_intro keeps_bump blind)

lemma keeps_on_tool_call: "keeps I (on_tool_call L data)"
  unfolding on_tool_call_def if_name_def Let_def by (auto intro!: keeps_intro blind)

lemma keeps_on_tool_result: "keeps I (on_tool_result L data)"
  unfolding on_tool_result_def on_result_block_def Let_def by (auto intro!: keeps_intro blind)

lemma keeps_on_kind: "keeps I (on_kind L kind brief data)"
  unfolding on_kind_def
  by (auto intro!: keeps_intro keeps_handlers keeps_on_message keeps_on_tool_call keeps_on_tool_result)

lemma keeps_event: "keeps I (event L ev opening)"
  unfolding event_def append_event_def advance_def Let_def
  by (auto intro!: keeps_intro keeps_bump keeps_on_kind blind)

lemma keeps_assistant_frame: "keeps I (assistant_frame f)"
  unfolding assistant_frame_def frame_step_def set_attempt_def check_index_def
  by (auto intro!: keeps_intro keeps_bump blind)

lemma keeps_consume: "keeps I (consume L value)"
  unfolding consume_def snapshot_item_def
  by (auto intro!: keeps_intro keeps_event keeps_assistant_frame blind)

end

section \<open>Interactions: what the program may grant\<close>

text \<open>A call that gives a human's answer, and the two answers that may be given.\<close>

definition grants :: "string \<times> pyval \<Rightarrow> bool" where
  "grants c \<longleftrightarrow> fst c = ''$events/result''
     \<and> (case rbind (getitem (snd c) ''outcome'') (\<lambda>oc. getitem oc ''kind'') of
          Inr k \<Rightarrow> k = PStr ''result'' | Inl _ \<Rightarrow> False)"

definition reviews_ok :: "review list \<Rightarrow> bool" where
  "reviews_ok rs \<longleftrightarrow> list_all (\<lambda>r. \<not> approved r) (tl rs)
     \<and> list_all (\<lambda>r. approved r \<longrightarrow> fixture_unchanged r \<and> plan_scope_valid r) rs"

definition approvals :: "review list \<Rightarrow> nat" where
  "approvals rs = length (filter approved rs)"

definition review_safe :: "'w follow \<Rightarrow> bool" where
  "review_safe s \<longleftrightarrow> reviews_ok (plan_reviews s) \<and> length (question_answers s) \<le> 1
     \<and> length (filter grants (calls s)) \<le> length (question_answers s) + approvals (plan_reviews s)"

lemma approvals_le: "reviews_ok rs \<Longrightarrow> approvals rs \<le> 1"
  by (cases rs) (auto simp: reviews_ok_def approvals_def filter_empty_conv list_all_iff)

lemma grants_outcome:
  "grants (''$events/result'', PDict [(''clientId'', c), (''eventId'', e), (''outcome'', oc)])
     \<longleftrightarrow> getitem oc ''kind'' = Inr (PStr ''result'')"
  by (auto simp: grants_def split: sum.splits)

lemma outcome_kinds [simp]:
  "getitem next_outcome ''kind'' = Inr (PStr ''next'')"
  "getitem (result_outcome q a) ''kind'' = Inr (PStr ''result'')"
  by (simp_all add: next_outcome_def result_outcome_def)

interpretation review: log_blind review_safe
  by unfold_locales (simp_all add: review_safe_def)

lemma decide_review_cases:
  obtains e where "decide_review L w q s = (Inl e, s)"
  | r detail where "pyget q ''detail'' (PStr []) = Inr detail"
      "approved r \<longleftrightarrow> fixture_unchanged r \<and> plan_scope_valid r \<and> plan_reviews s = []"
      "plan_scope_valid r = plan_in_scope detail"
      "fixture_unchanged r \<longleftrightarrow> (\<exists>g. review_guard s = Some g \<and> g w = Inr True)"
      "decide_review L w q s = (Inr (approved r), s\<lparr>plan_reviews := plan_reviews s @ [r]\<rparr>)"
proof (cases "pyget q ''detail'' (PStr [])")
  case (Inl e)
  then show ?thesis using that(1) [of e] by (simp add: decide_review_def act_run)
next
  case (Inr detail)
  let ?g = "case review_guard s of None \<Rightarrow> Inr False | Some g \<Rightarrow> g w"
  show ?thesis
  proof (cases ?g)
    case (Inl e)
    with Inr show ?thesis using that(1) [of e] by (simp add: decide_review_def act_run)
  next
    case (Inr b)
    let ?r = "\<lparr>fixture_unchanged = b, plan_scope_valid = plan_in_scope detail,
      plan_sha256 = sha256 L (to_str L detail), plan_bytes = length (to_str L detail),
      approved = (b \<and> plan_in_scope detail \<and> plan_reviews s = [])\<rparr>"
    have "b \<longleftrightarrow> (\<exists>g. review_guard s = Some g \<and> g w = Inr True)"
      using Inr by (auto split: option.splits)
    with Inr show ?thesis using \<open>pyget q ''detail'' (PStr []) = Inr detail\<close> that(2) [of detail ?r]
      by (simp add: decide_review_def act_run Let_def)
  qed
qed

lemma reviews_ok_snoc:
  "reviews_ok rs \<Longrightarrow> (approved r \<longleftrightarrow> fixture_unchanged r \<and> plan_scope_valid r \<and> rs = [])
    \<Longrightarrow> reviews_ok (rs @ [r])"
  by (cases rs) (auto simp: reviews_ok_def)

lemma approvals_snoc: "approvals (rs @ [r]) = approvals rs + (if approved r then 1 else 0)"
  by (simp add: approvals_def)

lemma tell_cases:
  obtains e where "tell srv v oc s = (Inl e, s)"
  | r c where "tell srv v oc s = (r, s\<lparr>calls := calls s @ [c]\<rparr>)"
      "grants c \<longleftrightarrow> getitem oc ''kind'' = Inr (PStr ''result'')" "fst c = ''$events/result''"
proof (cases "getitem v ''eventId''")
  case (Inl e)
  then show ?thesis using that(1) by (simp add: tell_def act_run)
next
  case (Inr i)
  then show ?thesis using that(2) by (simp add: tell_def rpc_def grants_outcome)
qed

text \<open>\<^const>\<open>settle\<close> in two halves: the record it makes and the answer it sends.\<close>

definition asked_id :: "'w follow \<Rightarrow> string" where
  "asked_id s = (case fixture_question s of None \<Rightarrow> [] | Some (i, _) \<Rightarrow> i)"

definition answered :: "bool \<Rightarrow> 'w follow \<Rightarrow> 'w follow" where
  "answered fixture s = (if fixture then s\<lparr>question_answers := question_answers s @ [asked_id s]\<rparr> else s)"

definition announce :: "server \<Rightarrow> pyval \<Rightarrow> bool \<Rightarrow> bool \<Rightarrow> string \<Rightarrow> bool \<Rightarrow> ('w, unit) fact_of" where
  "announce srv v owned fixture qid allowed =
     andthen (tell srv v (if allowed then result_outcome ''plan-review'' ''Approve''
       else if fixture then result_outcome qid ''Blue'' else next_outcome))
     (when_do (owned \<and> \<not> fixture \<and> \<not> allowed)
       (raise RuntimeError ''unexpected_or_unsafe_fixture_interaction''))"

lemma settle_eq: "settle L srv w v qs owned review fixture s =
    bind (if review then bind (lift (first_item qs)) (decide_review L w) else ret False)
      (announce srv v owned fixture (asked_id s)) (answered fixture s)"
  by (cases fixture)
    (simp_all add: settle_def announce_def [abs_def] answered_def Let_def act_simps asked_id_def cong: if_cong)

lemma announce_cases:
  obtains "snd (announce srv v owned fixture qid b t) = t" "isl (fst (announce srv v owned fixture qid b t))"
  | c where "snd (announce srv v owned fixture qid b t) = t\<lparr>calls := calls t @ [c]\<rparr>"
      "grants c \<longleftrightarrow> b \<or> fixture"
      "isl (fst (announce srv v owned fixture qid b t)) \<or> (owned \<longrightarrow> b \<or> fixture)"
proof -
  define oc where "oc = (if b then result_outcome ''plan-review'' ''Approve''
       else if fixture then result_outcome qid ''Blue'' else next_outcome)"
  have run: "snd (announce srv v owned fixture qid b t) = snd (tell srv v oc t)"
    and raised: "isl (fst (announce srv v owned fixture qid b t)) \<longleftrightarrow>
      isl (fst (tell srv v oc t)) \<or> (owned \<and> \<not> fixture \<and> \<not> b)"
    by (cases "tell srv v oc t"; cases "fst (tell srv v oc t)";
        simp add: announce_def oc_def andthen_def bind_def when_do_def act_run)+
  have kind: "getitem oc ''kind'' = Inr (PStr ''result'') \<longleftrightarrow> b \<or> fixture"
    by (simp add: oc_def)
  show ?thesis
  proof (rule tell_cases [of srv v oc t])
    fix e assume "tell srv v oc t = (Inl e, t)"
    with run raised show ?thesis by (intro that(1)) auto
  next
    fix r c
    assume "tell srv v oc t = (r, t\<lparr>calls := calls t @ [c]\<rparr>)"
      and "grants c \<longleftrightarrow> getitem oc ''kind'' = Inr (PStr ''result'')"
    with run raised kind show ?thesis by (intro that(2) [of c]) auto
  qed
qed

lemma settle_safe:
  assumes safe: "review_safe s" and once: "fixture \<Longrightarrow> question_answers s = []"
  shows "review_safe (snd (settle L srv w v qs owned review fixture s))"
proof -
  define s1 where "s1 = answered fixture s"
  define told where "told = (announce srv v owned fixture (asked_id s) :: bool \<Rightarrow> ('a, unit) fact_of)"
  have settle: "settle L srv w v qs owned review fixture s =
      bind (if review then bind (lift (first_item qs)) (decide_review L w) else ret False) told s1"
    by (simp add: settle_eq told_def s1_def)
  have s1: "review_safe s1 \<and> (fixture \<longrightarrow> length (filter grants (calls s1)) + 1
      \<le> length (question_answers s1) + approvals (plan_reviews s1))"
    using safe once by (auto simp: s1_def answered_def review_safe_def)
  have fin: "review_safe (snd (told b t))"
    if "review_safe t" "b \<or> fixture \<longrightarrow> length (filter grants (calls t)) + 1
      \<le> length (question_answers t) + approvals (plan_reviews t)" for b t
    using that unfolding told_def
    by (rule_tac announce_cases [of srv v owned fixture "asked_id s" b t]) (auto simp: review_safe_def)
  show ?thesis
  proof (cases review)
    case False
    then show ?thesis using fin [of s1 False] s1 unfolding settle by simp
  next
    case True
    show ?thesis
    proof (cases "first_item qs")
      case (Inl e)
      then show ?thesis using True s1 unfolding settle by (simp add: act_run bind_def)
    next
      case (Inr q)
      show ?thesis
      proof (rule decide_review_cases [of L w q s1])
        fix e assume "decide_review L w q s1 = (Inl e, s1)"
        then show ?thesis using True Inr s1 unfolding settle by (simp add: bind_def)
      next
        fix r detail
        assume r: "approved r \<longleftrightarrow> fixture_unchanged r \<and> plan_scope_valid r \<and> plan_reviews s1 = []"
          and d: "decide_review L w q s1 = (Inr (approved r), s1\<lparr>plan_reviews := plan_reviews s1 @ [r]\<rparr>)"
        have "review_safe (snd (told (approved r) (s1\<lparr>plan_reviews := plan_reviews s1 @ [r]\<rparr>)))"
          using s1 r by (intro fin) (auto simp: review_safe_def reviews_ok_snoc approvals_snoc)
        then show ?thesis using True Inr d unfolding settle by (simp add: bind_def)
      qed
    qed
  qed
qed

lemma fixture_once: "is_fixture_question s owned v qs = Inr True \<Longrightarrow> question_answers s = []"
  by (auto simp: is_fixture_question_def rand_True_iff rbind_Inr_iff split: option.splits)

lemma interaction_keeps_safe: "keeps review_safe (interaction L srv w v)"
proof -
  have core: "keeps review_safe (bind (\<lambda>s. (is_fixture_question s owned v qs, s)) (settle L srv w v qs owned review))"
    for owned qs review
    by (auto simp: keeps_def bind_def fixture_once intro!: settle_safe split: sum.splits)
  show ?thesis unfolding interaction_def
    by (intro core keeps_intro) (simp_all add: review_safe_def)
qed

lemma receive_keeps_safe: "keeps review_safe (receive L srv w deadline now inp)"
  unfolding receive_def dispatch_def
  by (cases inp) (auto intro!: keeps_intro interaction_keeps_safe review.keeps_consume simp: review_safe_def)

lemma settle_returns:
  assumes run: "settle L srv w v qs owned review fixture s = (Inr (), t)"
  obtains c allowed where
    "calls t = calls s @ [c]" "grants c \<longleftrightarrow> allowed \<or> fixture" "owned \<Longrightarrow> allowed \<or> fixture"
    "question_answers t = question_answers s @ (if fixture then [asked_id s] else [])"
    "\<not> review \<Longrightarrow> \<not> allowed \<and> plan_reviews t = plan_reviews s"
    "allowed \<Longrightarrow> \<exists>r g. plan_reviews s = [] \<and> plan_reviews t = [r] \<and> approved r
       \<and> plan_scope_valid r \<and> review_guard s = Some g \<and> g w = Inr True"
proof -
  let ?s = "answered fixture s"
  obtain allowed s2 where first: "(if review then bind (lift (first_item qs)) (decide_review L w)
        else ret False) ?s = (Inr allowed, s2)"
      and last: "announce srv v owned fixture (asked_id s) allowed s2 = (Inr (), t)"
    using run by (auto simp: settle_eq bind_Inr_iff)
  obtain c where c: "t = s2\<lparr>calls := calls s2 @ [c]\<rparr>" "grants c \<longleftrightarrow> allowed \<or> fixture"
      "owned \<longrightarrow> allowed \<or> fixture"
  proof (rule announce_cases [of srv v owned fixture "asked_id s" allowed s2], goal_cases)
    case (2 c)
    show ?case by (rule 2(1) [of c]) (use 2(2-4) in \<open>simp_all add: last\<close>)
  qed (simp add: last)
  have s: "calls ?s = calls s" "plan_reviews ?s = plan_reviews s" "review_guard ?s = review_guard s"
      "question_answers ?s = question_answers s @ (if fixture then [asked_id s] else [])"
    by (auto simp: answered_def)
  show thesis
  proof (cases review)
    case False
    with first have "\<not> allowed" "s2 = ?s" by (auto simp: act_run)
    with False c s show thesis by (intro that [of c allowed]) auto
  next
    case True
    with first obtain q where "decide_review L w q ?s = (Inr allowed, s2)"
      by (auto simp: bind_Inr_iff act_run)
    then obtain r where "allowed = approved r" "s2 = ?s\<lparr>plan_reviews := plan_reviews s @ [r]\<rparr>"
        "approved r \<longleftrightarrow> fixture_unchanged r \<and> plan_scope_valid r \<and> plan_reviews s = []"
        "fixture_unchanged r \<longleftrightarrow> (\<exists>g. review_guard s = Some g \<and> g w = Inr True)"
      by (rule_tac decide_review_cases [of L w q ?s]) (simp_all add: s, blast)
    with True c s show thesis by (intro that [of c allowed]) auto
  qed
qed

lemma waterfall_settles:
  assumes "pyget v ''type'' PNone = Inr (PStr ''waterfall'')" "pyget v ''agentId'' PNone = Inr agent"
    and "interaction L srv w v s = (Inr (), t)"
  obtains qs review fixture where
    "settle L srv w v qs (agent = session_id s) review fixture s = (Inr (), t)"
    "is_fixture_question s (agent = session_id s) v qs = Inr fixture"
    "is_review (agent = session_id s) v qs = Inr review"
  using assms by (auto simp: interaction_def bind_Inr_iff act_run)

text \<open>
  One step of a follower's life: a frame is read (whether it is accepted or raises), a
  subscription is opened or cancelled, the runner announces the one question it is about to
  cause, or it makes a call of its own, which is never an interaction result.
\<close>

inductive follow_step :: "pylib \<Rightarrow> server \<Rightarrow> 'w follow \<Rightarrow> 'w follow \<Rightarrow> bool" for L srv where
  received: "receive L srv w deadline now inp s = (r, t) \<Longrightarrow> follow_step L srv s t"
| subscribed: "follow_step L srv s
     (s\<lparr>review_guard := g, interaction_stream_id := i, sent := sent s @ [msg]\<rparr>)"
| asked: "follow_step L srv s (s\<lparr>fixture_question := q\<rparr>)"
| called: "m \<noteq> ''$events/result'' \<Longrightarrow> follow_step L srv s (s\<lparr>calls := calls s @ [(m, args)]\<rparr>)"

inductive_cases follow_stepE: "follow_step L srv s t"

lemma step_safe:
  assumes "follow_step L srv s t" and safe: "review_safe s"
  shows "review_safe t"
  using assms(1)
proof cases
  case (received w deadline now inp r)
  then show ?thesis using keepsD [OF receive_keeps_safe safe, of L srv w deadline now inp] by simp
qed (use safe in \<open>auto simp: review_safe_def grants_def\<close>)

lemma reachable_safe:
  "(follow_step L srv)\<^sup>*\<^sup>* s t \<Longrightarrow> review_safe s \<Longrightarrow> review_safe t"
  by (induction rule: rtranclp_induct) (auto dest: step_safe)

lemma review_safe_init: "review_safe (follow_init sid stream)"
  by (simp add: review_safe_def reviews_ok_def follow_init_def)

text \<open>
  C1. In every state the follower can reach, whatever the server, the model and the frames
  do: only the first plan review can have been approved, and only with the fixture
  unchanged and the plan in scope; at most one question was answered; and the calls that
  gave a human's answer number at most the recorded approval plus the recorded answer.
\<close>

theorem interactions_safe:
  assumes "(follow_step L srv)\<^sup>*\<^sup>* (follow_init sid stream) s"
  shows "reviews_ok (plan_reviews s) \<and> length (question_answers s) \<le> 1
    \<and> length (filter grants (calls s)) \<le> length (question_answers s) + approvals (plan_reviews s)
    \<and> approvals (plan_reviews s) \<le> 1"
  using reachable_safe [OF assms review_safe_init] approvals_le by (auto simp: review_safe_def)

text \<open>
  Fail closed: an interaction of the own session on which \<^verbatim>\<open>interaction\<close> returns has
  been granted by exactly one call, and either the announced fixture question was open, or
  it was the first plan review, its plan was in scope and the fixture guard passed at that
  moment. Every other own interaction raises.
\<close>

lemma own_interaction_granted:
  assumes "pyget v ''type'' PNone = Inr (PStr ''waterfall'')"
    and "pyget v ''agentId'' PNone = Inr (session_id s)"
    and "interaction L srv w v s = (Inr (), t)"
  shows "(\<exists>c. calls t = calls s @ [c] \<and> grants c)
    \<and> (question_answers s = [] \<and> question_answers t = [asked_id s]
       \<or> plan_reviews s = [] \<and> (\<exists>r g. plan_reviews t = [r] \<and> approved r \<and> plan_scope_valid r
            \<and> review_guard s = Some g \<and> g w = Inr True))"
proof -
  obtain qs review fixture where
      "settle L srv w v qs True review fixture s = (Inr (), t)"
      and once: "is_fixture_question s True v qs = Inr fixture"
    using waterfall_settles [OF assms] by metis
  then show ?thesis using fixture_once [of s True v qs]
    by (rule_tac settle_returns [of L srv w v qs True review fixture s t]) auto
qed

text \<open>
  An interaction of another session is passed on: exactly one call, which grants
  nothing, and no review or answer is recorded.
\<close>

theorem foreign_interaction_passed:
  assumes "pyget v ''type'' PNone = Inr (PStr ''waterfall'')"
    and "pyget v ''agentId'' PNone = Inr agent" and "agent \<noteq> session_id s"
    and "interaction L srv w v s = (Inr (), t)"
  shows "(\<exists>c. calls t = calls s @ [c] \<and> \<not> grants c)
    \<and> plan_reviews t = plan_reviews s \<and> question_answers t = question_answers s"
proof -
  have foreign: "(agent = session_id s) = False" using assms(3) by simp
  obtain qs review fixture where
      "settle L srv w v qs False review fixture s = (Inr (), t)"
      "is_fixture_question s False v qs = Inr fixture" "is_review False v qs = Inr review"
    using waterfall_settles [OF assms(1,2,4), unfolded foreign] by blast
  moreover from this have "\<not> fixture" "\<not> review"
    by (auto simp: is_fixture_question_def is_review_def own_single_question_def split: option.splits)
  ultimately show ?thesis
    by (rule_tac settle_returns [of L srv w v qs False review fixture s t]) auto
qed

text \<open>A concrete run: the announced fixture question arrives on the subscribed stream.\<close>

definition demo_question :: pyval where
  "demo_question = PDict [(''id'', PStr ''color''), (''question'', PStr ''Which?''),
     (''options'', PList [PDict [(''label'', PStr ''Blue'')], PDict [(''label'', PStr ''Green'')]])]"

definition demo_lib :: "pyval \<Rightarrow> pylib" where
  "demo_lib v = \<lparr>json_loads = (\<lambda>_. Some v), dumps = (\<lambda>_. []), dumps_ascii = (\<lambda>_. []),
     sha256 = (\<lambda>_. []), repr_of = (\<lambda>_. [])\<rparr>"

definition demo_request :: pyval where
  "demo_request = PDict [(''type'', PStr ''waterfall''), (''agentId'', PStr ''me''),
     (''event'', PStr ''user-questions/request''), (''eventId'', PStr ''e1''),
     (''request'', PDict [(''questions'', PList [demo_question])])]"

definition demo_frame :: pyval where
  "demo_frame = PDict [(''streamId'', PStr ''i''), (''type'', PStr ''item''), (''value'', demo_request)]"

definition demo_server :: server where
  "demo_server earlier m args = Inr PNone"

definition demo_asked :: "unit follow" where
  "demo_asked = (follow_init (PStr ''me'') ''f'')\<lparr>fixture_question := Some (''color'', ''Which?'')\<rparr>"

definition demo_open :: "unit follow" where
  "demo_open = demo_asked\<lparr>review_guard := None, interaction_stream_id := Some ''i'',
     sent := sent demo_asked @ [PNone]\<rparr>"

definition demo_end :: "unit follow" where
  "demo_end = snd (receive (demo_lib demo_frame) demo_server () 1 0 (WsText ''x'') demo_open)"

theorem interactions_safe_witness:
  "approvals (plan_reviews demo_end) \<le> 1 \<and> question_answers demo_end = [''color'']
     \<and> length (filter grants (calls demo_end)) = 1"
proof -
  let ?step = "follow_step (demo_lib demo_frame) demo_server"
  have asked: "?step (follow_init (PStr ''me'') ''f'') demo_asked" unfolding demo_asked_def by (rule asked)
  have subscribed: "?step demo_asked demo_open" unfolding demo_open_def by (rule subscribed)
  have "receive (demo_lib demo_frame) demo_server () 1 0 (WsText ''x'') demo_open
      = (fst (receive (demo_lib demo_frame) demo_server () 1 0 (WsText ''x'') demo_open), demo_end)"
    unfolding demo_end_def by (rule surjective_pairing)
  then have "?step demo_open demo_end" by (rule received)
  with subscribed have "?step\<^sup>*\<^sup>* demo_asked demo_end" by (rule converse_rtranclp_into_rtranclp [OF _ r_into_rtranclp])
  with asked have "?step\<^sup>*\<^sup>* (follow_init (PStr ''me'') ''f'') demo_end" by (rule converse_rtranclp_into_rtranclp)
  note safe = interactions_safe [OF this]
  have "question_answers demo_end = [''color'']" by code_simp
  moreover have "length (filter grants (calls demo_end)) = 1" by code_simp
  ultimately show ?thesis using safe by simp
qed

theorem own_interaction_granted_witness:
  "let t = snd (interaction (demo_lib PNone) demo_server () demo_request demo_open)
   in length (calls t) = 1 \<and> list_all grants (calls t) \<and> question_answers t = [''color'']"
proof -
  let ?run = "interaction (demo_lib PNone) demo_server () demo_request demo_open"
  have "fst ?run = Inr ()" by code_simp
  then have run: "?run = (Inr (), snd ?run)" by (simp add: prod_eq_iff)
  have "pyget demo_request ''type'' PNone = Inr (PStr ''waterfall'')"
    "pyget demo_request ''agentId'' PNone = Inr (session_id demo_open)"
    by (code_simp, code_simp)
  note fact = own_interaction_granted [OF this run]
  have "calls demo_open = []" "question_answers (snd ?run) = [''color'']" by (code_simp, code_simp)
  with fact show ?thesis by (auto simp: Let_def)
qed

theorem foreign_interaction_passed_witness:
  "let t = snd (interaction (demo_lib PNone) demo_server () demo_request (demo_open\<lparr>session_id := PStr ''other''\<rparr>))
   in length (calls t) = 1 \<and> list_all (\<lambda>c. \<not> grants c) (calls t) \<and> question_answers t = []"
proof -
  let ?s = "demo_open\<lparr>session_id := PStr ''other''\<rparr>"
  let ?run = "interaction (demo_lib PNone) demo_server () demo_request ?s"
  have "fst ?run = Inr ()" by code_simp
  then have run: "?run = (Inr (), snd ?run)" by (simp add: prod_eq_iff)
  have "pyget demo_request ''type'' PNone = Inr (PStr ''waterfall'')"
    "pyget demo_request ''agentId'' PNone = Inr (PStr ''me'')" "PStr ''me'' \<noteq> session_id ?s"
    by (code_simp, code_simp, simp)
  note fact = foreign_interaction_passed [OF this run]
  have "calls ?s = []" "question_answers ?s = []" by (code_simp, code_simp)
  with fact show ?thesis by (auto simp: Let_def)
qed

end
