(* ===== verification/FollowRuns.thy ===== *)
theory FollowRuns
  imports FollowProps
begin

text \<open>
  Whole receive loops of the follower: bounds, deadlines, the growth of the evidence, the
  completeness of the event and chunk sequences, and what a finished wait has observed.
\<close>

section \<open>Invariants that do not read the interaction state\<close>

locale talk_blind =
  fixes I :: "'w follow \<Rightarrow> bool"
  assumes blind_client: "I s \<Longrightarrow> I (s\<lparr>event_client_id := x1\<rparr>)"
    and blind_answers: "I s \<Longrightarrow> I (s\<lparr>question_answers := x2\<rparr>)"
    and blind_reviews: "I s \<Longrightarrow> I (s\<lparr>plan_reviews := x3\<rparr>)"
    and blind_calls: "I s \<Longrightarrow> I (s\<lparr>calls := x4\<rparr>)"
begin

lemmas blind = blind_client blind_answers blind_reviews blind_calls

lemma keeps_rpc: "keeps I (rpc srv m args)"
  by (simp add: keeps_def rpc_def blind)

lemma keeps_settle: "keeps I (settle L srv w v qs owned review fixture)"
  unfolding settle_def decide_review_def tell_def
  by (auto intro!: keeps_intro keeps_rpc blind)

lemma keeps_interaction: "keeps I (interaction L srv w v)"
proof -
  have "keeps I (\<lambda>s. (is_fixture_question s owned v qs, s))" for owned qs
    by (simp add: keeps_def)
  then show ?thesis unfolding interaction_def
    by (auto intro!: keeps_intro keeps_settle blind)
qed

end

section \<open>Bounds\<close>

definition traffic_ok :: "'w follow \<Rightarrow> bool" where
  "traffic_ok s \<longleftrightarrow> received_bytes s \<le> MAX_BYTES \<and> frame_count s \<le> MAX_FRAMES"

definition in_bounds :: "'w follow \<Rightarrow> bool" where
  "in_bounds s \<longleftrightarrow> \<not> over_bound s"

interpretation traffic: log_blind traffic_ok
  by unfold_locales (simp_all add: traffic_ok_def)

interpretation traffic_talk: talk_blind traffic_ok
  by unfold_locales (simp_all add: traffic_ok_def)

interpretation bounds_talk: talk_blind in_bounds
  by unfold_locales (simp_all add: in_bounds_def over_bound_def count_of_def)

lemma event_in_bounds: "yields in_bounds in_bounds (event L ev opening)"
proof -
  have skip: "yields I I (modify u)" if "\<And>s. I s" for I :: "'a follow \<Rightarrow> bool" and u
    using that by (simp add: yields_def)
  have append: "yields (\<lambda>_. True) in_bounds (append_event brief)" for brief
    by (auto simp: yields_def append_event_def in_bounds_def act_simps bind_Inr_iff when_do_def)
  have any: "yields (\<lambda>_. True) (\<lambda>_. True) m" for m :: "('a follow, 'x) act"
    by (simp add: yields_def)
  have start: "yields in_bounds (\<lambda>_. True) m" for m :: "('a follow, 'x) act"
    by (simp add: yields_def)
  show ?thesis unfolding event_def Let_def
    by (intro yields_bind [OF yields_pure(2)] yields_bind [OF yields_pure(3)] yields_if yields_pure(1)
        yields_andthen [OF start] yields_andthen [OF any] yields_bind [OF any] append)
qed

lemma assistant_in_bounds: "keeps in_bounds (assistant_frame f)"
proof -
  have "keeps in_bounds (bump (PStr ''live_assistant_chunks'') n)" for n
    by (auto simp: bump_def keeps_def in_bounds_def over_bound_def count_of_def add_count_def
        update_conv' act_run)
  then show ?thesis
    unfolding assistant_frame_def frame_step_def set_attempt_def check_index_def
    by (auto intro!: keeps_intro simp: in_bounds_def over_bound_def count_of_def)
qed

lemma consume_in_bounds: "yields in_bounds in_bounds (consume L v)"
  unfolding consume_def snapshot_item_def when_do_def
  by (intro yields_bind [OF yields_pure(2)] yields_if yields_raise
      yields_andthen [where J = in_bounds] yields_for_each event_in_bounds
      keeps_yields [OF assistant_in_bounds] yields_pure yields_modify)
    (simp add: in_bounds_def over_bound_def count_of_def)

lemma dispatch_in_bounds: "yields in_bounds in_bounds (dispatch L srv w frame)"
  unfolding dispatch_def
  by (intro yields_bind [OF yields_pure(2)] yields_bind [OF yields_pure(3)] yields_if yields_raise
      yields_prod consume_in_bounds keeps_yields [OF bounds_talk.keeps_interaction] yields_pure)

lemma dispatch_traffic: "keeps traffic_ok (dispatch L srv w frame)"
  unfolding dispatch_def
  by (auto intro!: keeps_intro traffic.keeps_consume traffic_talk.keeps_interaction)

definition bounded :: "'w follow \<Rightarrow> bool" where
  "bounded s \<longleftrightarrow> in_bounds s \<and> traffic_ok s"

lemma receive_bounded:
  assumes "bounded s" "receive L srv w deadline now inp s = (Inr (), t)"
  shows "bounded t"
proof (cases inp)
  case WsTimeout
  then show ?thesis using assms by (auto simp: receive_def act_run split: if_splits)
next
  case (WsText raw)
  let ?s = "s\<lparr>received_bytes := received_bytes s + int (py_len raw), frame_count := frame_count s + 1\<rparr>"
  from assms WsText have "\<not> (MAX_BYTES < received_bytes ?s \<or> MAX_FRAMES < frame_count ?s)"
    and "bind (lift (loads L raw)) (dispatch L srv w) ?s = (Inr (), t)"
    by (auto simp: receive_def act_simps split: if_splits)
  then obtain frame where ok: "traffic_ok ?s" and run: "dispatch L srv w frame ?s = (Inr (), t)"
    by (auto simp: traffic_ok_def bind_Inr_iff act_run)
  have "in_bounds ?s" using assms(1) by (simp add: bounded_def in_bounds_def over_bound_def count_of_def)
  then show ?thesis
    using yieldsD [OF dispatch_in_bounds _ run] keepsD [OF dispatch_traffic ok, of L srv w frame] run
    by (simp add: bounded_def)
qed

section \<open>Receive loops\<close>

lemma until_keeps:
  assumes "\<And>w now inp. keeps I (receive L srv w deadline now inp)" and "I s"
  shows "I (snd (receive_until L srv deadline stop inputs s))"
  using assms(2)
proof (induction inputs arbitrary: s)
  case Nil
  then show ?case by (simp add: receive_until.simps)
next
  case (Cons x inputs)
  obtain now w inp where x: "x = (now, w, inp)" by (cases x)
  have "I (snd (receive L srv w deadline now inp s))" using assms(1) Cons.prems by (rule keepsD)
  then show ?case using Cons.IH Cons.prems
    by (auto simp: x receive_until.simps [of _ _ _ _ "_ # _"] split: prod.splits sum.splits)
qed

definition failed :: "('a res \<times> 'b) option \<Rightarrow> bool" where
  "failed r \<longleftrightarrow> (case r of Some (Inl e, _) \<Rightarrow> True | _ \<Rightarrow> False)"

lemma failed_simps [simp]: "\<not> failed None" "failed (Some (Inl e, x))" "\<not> failed (Some (Inr y, x))"
  by (simp_all add: failed_def)

lemma until_accepted:
  assumes step: "\<And>w now inp s t. I s \<Longrightarrow> receive L srv w deadline now inp s = (Inr (), t) \<Longrightarrow> I t"
    and "I s" and "\<not> failed (fst (receive_until L srv deadline stop inputs s))"
  shows "I (snd (receive_until L srv deadline stop inputs s))"
  using assms(2-)
proof (induction inputs arbitrary: s)
  case Nil
  then show ?case by (simp add: receive_until.simps)
next
  case (Cons x inputs)
  obtain now w inp where x: "x = (now, w, inp)" by (cases x)
  show ?case
  proof (cases "receive L srv w deadline now inp s")
    case (Pair r t)
    then show ?thesis using Cons step [of s w now inp t]
      by (cases r) (auto simp: x receive_until.simps [of _ _ _ _ "_ # _"])
  qed
qed

lemma until_stopped:
  "receive_until L srv deadline stop inputs s = (Some (Inr (), rest), t) \<Longrightarrow> stop t"
proof (induction inputs arbitrary: s)
  case Nil
  then show ?case by (auto simp: receive_until.simps split: if_splits)
next
  case (Cons x inputs)
  then show ?case
    by (cases x) (auto simp: receive_until.simps [of _ _ _ _ "_ # _"] split: if_splits prod.splits sum.splits)
qed

lemma until_ends:
  assumes "\<exists>x \<in> set inputs. deadline \<le> fst x"
  obtains r rest where "fst (receive_until L srv deadline stop inputs s) = Some (r, rest)"
    "r \<noteq> Inr () \<or> (\<exists>x \<in> set rest. deadline \<le> fst x)"
  using assms
proof (induction inputs arbitrary: s thesis)
  case (Cons x inputs)
  obtain now w inp where x: "x = (now, w, inp)" by (cases x)
  show ?case
  proof (cases "stop s")
    case True
    with Cons.prems show ?thesis by (simp add: receive_until.simps)
  next
    case False
    show ?thesis
    proof (cases "receive L srv w deadline now inp s")
      case (Pair r t)
      show ?thesis
      proof (cases r)
        case (Inl e)
        then show ?thesis using False Pair Cons.prems(1)
          by (simp add: x receive_until.simps [of _ _ _ _ "_ # _"])
      next
        case (Inr u)
        with Pair have "now < deadline" by (auto simp: receive_def raise_def split: if_splits)
        with Cons.prems(2) have "\<exists>x \<in> set inputs. deadline \<le> fst x" by (auto simp: x)
        then show ?thesis using False Pair Inr Cons.prems(1) Cons.IH [of t]
          by (auto simp: x receive_until.simps [of _ _ _ _ "_ # _"])
      qed
    qed
  qed
qed simp

text \<open>
  C39. A wait always ends: once the clock has passed the phase deadline at a read, the wait
  for a turn has returned or raised, whatever the frames are.
\<close>

theorem wait_turn_ends:
  assumes "\<exists>x \<in> set inputs. deadline \<le> fst x"
  shows "fst (wait_turn L srv deadline prior inputs s) \<noteq> None"
proof -
  let ?first = "receive_until L srv deadline (\<lambda>s. prior < length (turn_ends s)) inputs s"
  obtain r rest where r: "fst ?first = Some (r, rest)" "r \<noteq> Inr () \<or> (\<exists>x \<in> set rest. deadline \<le> fst x)"
    using until_ends [OF assms] by metis
  obtain t where t: "?first = (Some (r, rest), t)" using r(1) by (cases ?first) auto
  show ?thesis
  proof (cases r)
    case (Inr u)
    with r(2) have late: "\<exists>x \<in> set rest. deadline \<le> fst x" by simp
    obtain r' rest' where "fst (receive_until L srv deadline all_ended rest t) = Some (r', rest')"
      by (rule until_ends [OF late, of L srv all_ended t])
    then obtain t' where "receive_until L srv deadline all_ended rest t = (Some (r', rest'), t')"
      by (cases "receive_until L srv deadline all_ended rest t") auto
    with t Inr show ?thesis by (cases r') (simp_all add: wait_turn_def)
  qed (simp add: t wait_turn_def)
qed

theorem wait_turn_ends_witness:
  "fst (wait_turn (demo_lib PNone) demo_server 5 0 [(1, (), WsTimeout), (7, (), WsTimeout)] demo_open) \<noteq> None"
  by (rule wait_turn_ends) simp

text \<open>
  Bounds: as long as every frame has been accepted, the log holds at most 15000 events,
  at most 48 model steps, and the traffic is within 32 MiB and 100000 frames; the loop that
  sees the first violation raises.
\<close>

lemma accepted_bounds:
  assumes "bounded s" and "\<not> failed (fst (receive_until L srv deadline stop inputs s))"
  shows "let t = snd (receive_until L srv deadline stop inputs s) in
    int (length (events t)) \<le> 15000 \<and> count_of t ''step/start'' \<le> 48
    \<and> received_bytes t \<le> 33554432 \<and> frame_count t \<le> 100000"
proof -
  have "bounded (snd (receive_until L srv deadline stop inputs s))"
    by (rule until_accepted [where I = bounded, OF receive_bounded assms])
  then show ?thesis
    by (simp add: bounded_def in_bounds_def over_bound_def traffic_ok_def MAX_EVENTS_def MAX_STEPS_def
        MAX_BYTES_def MAX_FRAMES_def Let_def not_less)
qed

theorem accepted_bounds_witness:
  "frame_count (snd (receive_until (demo_lib demo_frame) demo_server 5 (\<lambda>s. question_answers s \<noteq> [])
     [(1, (), WsText ''x'')] demo_open)) \<le> 100000"
proof -
  let ?run = "receive_until (demo_lib demo_frame) demo_server 5 (\<lambda>s. question_answers s \<noteq> [])
     [(1, (), WsText ''x'')] demo_open"
  have "bounded demo_open"
    by (simp add: bounded_def in_bounds_def over_bound_def traffic_ok_def count_of_def demo_open_def
        demo_asked_def follow_init_def MAX_EVENTS_def MAX_STEPS_def MAX_BYTES_def MAX_FRAMES_def)
  moreover have "\<not> failed (fst ?run)" by code_simp
  ultimately show ?thesis using accepted_bounds [of demo_open _ _ 5] by (simp add: Let_def)
qed

section \<open>The evidence only grows\<close>

text \<open>
  Every list of the evidence is extended at its end, every set is enlarged, and the
  counters of bytes and frames do not go back.
\<close>

definition extends :: "'w follow \<Rightarrow> 'w follow \<Rightarrow> bool" where
  "extends s t \<longleftrightarrow> prefix (events s) (events t) \<and> prefix (turn_ends s) (turn_ends t)
     \<and> prefix (gaps s) (gaps t) \<and> prefix (children s) (children t)
     \<and> prefix (plan_reviews s) (plan_reviews t) \<and> prefix (question_answers s) (question_answers t)
     \<and> prefix (goal_states s) (goal_states t) \<and> prefix (todo_states s) (todo_states t)
     \<and> prefix (calls s) (calls t) \<and> markers s \<subseteq> markers t
     \<and> available_tools s \<subseteq> available_tools t \<and> owned_jobs s \<subseteq> owned_jobs t
     \<and> text_bytes s \<le> text_bytes t \<and> received_bytes s \<le> received_bytes t
     \<and> frame_count s \<le> frame_count t"

interpretation evidence: state_order extends
  by unfold_locales (auto simp: extends_def intro: prefix_order.trans)

lemmas evidence_rules =
  evidence.grows_rules(1-4,6-) evidence.grows_modify

lemma evidence_bump: "evidence.grows (bump k n)"
  by (auto simp: bump_def extends_def intro!: evidence_rules)

lemma evidence_handlers:
  "evidence.grows (on_header data)" "evidence.grows (on_catalog data)" "evidence.grows (on_goal data)"
  "evidence.grows (on_todo data)" "evidence.grows (on_turn_end brief data)"
  unfolding on_header_def on_catalog_def on_goal_def on_todo_def on_turn_end_def Let_def
  by (auto intro!: evidence_rules simp: extends_def)

lemma evidence_message: "evidence.grows (on_message data)"
  unfolding on_message_def by (auto intro!: evidence_rules evidence_bump simp: extends_def)

lemma evidence_tools: "evidence.grows (on_tool_call L data)" "evidence.grows (on_tool_result L data)"
  unfolding on_tool_call_def if_name_def on_tool_result_def on_result_block_def Let_def
  by (auto intro!: evidence_rules simp: extends_def)

lemma evidence_event: "evidence.grows (event L ev opening)"
  unfolding event_def append_event_def on_kind_def advance_def Let_def
  by (auto intro!: evidence_rules evidence_bump evidence_handlers evidence_message evidence_tools
      simp: extends_def)

lemma evidence_consume: "evidence.grows (consume L v)"
  unfolding consume_def snapshot_item_def assistant_frame_def frame_step_def set_attempt_def check_index_def
  by (auto intro!: evidence_rules evidence_bump evidence_event simp: extends_def)

lemma evidence_interaction: "evidence.grows (interaction L srv w v)"
proof -
  have "evidence.grows (\<lambda>s. (is_fixture_question s owned v qs, s))" for owned qs
    by (simp add: evidence.grows_def extends_def)
  moreover have "evidence.grows (rpc srv m args)" for m args
    by (simp add: evidence.grows_def rpc_def extends_def)
  ultimately show ?thesis
    unfolding interaction_def settle_def decide_review_def tell_def Let_def
    by (auto intro!: evidence_rules simp: extends_def)
qed

lemma evidence_receive: "evidence.grows (receive L srv w deadline now inp)"
  unfolding receive_def dispatch_def
  by (cases inp) (auto intro!: evidence_rules evidence_interaction evidence_consume simp: extends_def)

text \<open>
  No frame retracts evidence: whatever arrives, and also when handling it raises half
  way, every event, turn end, gap, review, answer, child, goal and todo record that was
  there stays, in its place, and the sets of markers, tools and owned jobs only grow.
\<close>

lemma evidence_append_only: "extends s (snd (receive_until L srv deadline stop inputs s))"
proof -
  have "keeps (extends s) (receive L srv w deadline now inp)" for w now inp
    unfolding keeps_def by (blast intro: evidence.order_trans evidence.growsD [OF evidence_receive])
  then show ?thesis by (rule until_keeps) (rule evidence.order_refl)
qed

section \<open>What a finished wait has observed\<close>

text \<open>
  When \<^verbatim>\<open>wait_turn\<close> returns, a turn has ended beyond the ones counted before the
  prompt, every live assistant attempt has ended, and the value is the reason recorded
  for the last turn.
\<close>

lemma wait_turn_result:
  assumes "wait_turn L srv deadline prior inputs s = (Some (Inr reason, rest), t)"
  shows "prior < length (turn_ends t) \<and> all_ended t
    \<and> map_of (last (turn_ends t)) ''reason'' = Some reason"
proof -
  let ?stop = "\<lambda>s. prior < length (turn_ends s)"
  obtain rest1 u rest2 where first: "receive_until L srv deadline ?stop inputs s = (Some (Inr (), rest1), u)"
    and last: "receive_until L srv deadline all_ended rest1 u = (Some (Inr (), rest2), t)"
    and reason: "last_reason t = Inr reason"
    using assms by (auto simp: wait_turn_def split: prod.splits option.splits sum.splits)
  have "prior < length (turn_ends u)" using until_stopped [OF first] by simp
  moreover have "prefix (turn_ends u) (turn_ends t)"
    using evidence_append_only [of u L srv deadline all_ended rest1] last by (simp add: extends_def)
  ultimately have "prior < length (turn_ends t)" by (meson order_less_le_trans prefix_length_le)
  then show ?thesis using until_stopped [OF last] reason
    by (auto simp: last_reason_def getitem_Inr_iff split: if_splits option.splits)
qed

definition demo_turn :: "unit follow" where
  "demo_turn = (follow_init (PStr ''me'') ''f'')\<lparr>turn_ends := [[(''reason'', PStr ''completed'')]]\<rparr>"

theorem wait_turn_result_witness:
  "map_of (last (turn_ends demo_turn)) ''reason'' = Some (PStr ''completed'')"
proof -
  have "wait_turn (demo_lib PNone) demo_server 5 0 [] demo_turn
      = (Some (Inr (PStr ''completed''), []), demo_turn)"
    by (simp add: wait_turn_def receive_until.simps demo_turn_def all_ended_def last_reason_def follow_init_def)
  from wait_turn_result [OF this] show ?thesis by simp
qed

end
