(* ===== verification/FollowSeq.thy ===== *)
theory FollowSeq
  imports FollowRuns
begin

text \<open>
  Completeness of what the follower observes: the durable events by their sequence numbers
  and the live assistant chunks by their indices. A clean gap list is shown to mean that
  nothing is missing.
\<close>

section \<open>One durable event\<close>

text \<open>The part of the state that only \<^const>\<open>event\<close> itself assigns.\<close>

definition log_of :: "'w follow \<Rightarrow> pydict list \<times> string list \<times> int" where
  "log_of s = (events s, gaps s, cursor s)"

lemma bump_log: "keeps (\<lambda>s. log_of s = x) (bump k n)"
  by (auto simp: bump_def log_of_def intro!: keeps_intro)

lemma handlers_log:
  "keeps (\<lambda>s. log_of s = x) (on_header data)" "keeps (\<lambda>s. log_of s = x) (on_catalog data)"
  "keeps (\<lambda>s. log_of s = x) (on_goal data)" "keeps (\<lambda>s. log_of s = x) (on_todo data)"
  "keeps (\<lambda>s. log_of s = x) (on_turn_end brief data)"
  unfolding on_header_def on_catalog_def on_goal_def on_todo_def on_turn_end_def Let_def
  by (auto intro!: keeps_intro simp: log_of_def)

lemma on_kind_log: "keeps (\<lambda>s. log_of s = x) (on_kind L kind brief data)"
proof -
  have "keeps (\<lambda>s. log_of s = x) (on_message data)"
    unfolding on_message_def
    by (auto intro!: keeps_intro bump_log) (simp_all add: log_of_def)
  moreover have "keeps (\<lambda>s. log_of s = x) (on_tool_call L data)"
    unfolding on_tool_call_def if_name_def Let_def
    by (auto intro!: keeps_intro) (simp_all add: log_of_def)
  moreover have "keeps (\<lambda>s. log_of s = x) (on_tool_result L data)"
    unfolding on_tool_result_def on_result_block_def Let_def
    by (auto intro!: keeps_intro) (simp_all add: log_of_def)
  ultimately show ?thesis
    unfolding on_kind_def by (auto intro!: keeps_intro handlers_log)
qed

definition seq_is :: "int \<Rightarrow> pyval \<Rightarrow> bool" where
  "seq_is n ev \<longleftrightarrow> getitem ev ''seq'' = Inr (PInt n)"

lemma event_skip: "seq_is n ev \<Longrightarrow> n \<le> cursor s \<Longrightarrow> event L ev opening s = (Inr (), t) \<Longrightarrow> t = s"
  by (auto simp: event_def seq_is_def bind_Inr_iff act_simps as_int_def)

lemma event_accept:
  assumes "seq_is n ev" and "cursor s < n" and "event L ev opening s = (Inr (), t)"
  obtains brief where "events t = events s @ [brief]" "map_of brief ''seq'' = Some (PInt n)"
    "cursor t = n" "gaps t = gaps s @ (if \<not> opening \<and> 0 \<le> cursor s \<and> n \<noteq> cursor s + 1
       then [''durable_event_sequence''] else [])"
proof -
  let ?s = "advance n opening s"
  from assms obtain kind data time u v extra where
      bump: "bump kind 1 ?s = (Inr (), u)"
      and on: "on_kind L kind [(''seq'', PInt n), (''type'', kind), (''time'', time)] data u = (Inr extra, v)"
      and app: "append_event ([(''seq'', PInt n), (''type'', kind), (''time'', time)] @ extra) v = (Inr (), t)"
    by (auto simp: event_def seq_is_def bind_Inr_iff act_simps as_int_def andthen_def Let_def not_le)
  have "log_of u = log_of ?s" using keepsD [OF bump_log refl, of kind 1 ?s] bump by simp
  moreover have "log_of v = log_of u"
    using keepsD [OF on_kind_log refl, of L kind _ data u] on by (metis snd_conv)
  moreover have "t = v\<lparr>events := events v @ [[(''seq'', PInt n), (''type'', kind), (''time'', time)] @ extra]\<rparr>"
    using app by (auto simp: append_event_def act_simps when_do_def split: if_splits)
  ultimately show thesis
    by (intro that [of "[(''seq'', PInt n), (''type'', kind), (''time'', time)] @ extra"])
      (auto simp: log_of_def advance_def)
qed

section \<open>The durable log\<close>

text \<open>
  The specification: of a list of sequence numbers, those above everything seen before, and
  how often two neighbours are not consecutive.
\<close>

fun fresh :: "int \<Rightarrow> int list \<Rightarrow> int list" where
  "fresh c [] = []"
| "fresh c (n # ns) = (if n \<le> c then fresh c ns else n # fresh n ns)"

fun jumps :: "int \<Rightarrow> int list \<Rightarrow> nat" where
  "jumps c [] = 0"
| "jumps c (n # ns) = (if n = c + 1 then 0 else 1) + jumps n ns"

lemma fresh_last_ge: "c \<le> last (c # fresh c ns)"
proof (induction ns arbitrary: c)
  case (Cons n ns)
  have "n \<le> last (n # fresh n ns)" "c \<le> last (c # fresh c ns)" by (rule Cons)+
  moreover have "last (c # fresh c (n # ns)) = (if n \<le> c then last (c # fresh c ns) else last (n # fresh n ns))"
    by simp
  ultimately show ?case by (metis linorder_linear order_trans)
qed simp

lemma no_jumps_iff: "jumps c (fresh c ns) = 0 \<longleftrightarrow> fresh c ns = [c + 1 .. last (c # fresh c ns)]"
proof (induction ns arbitrary: c)
  case Nil
  show ?case by simp
next
  case (Cons n ns)
  show ?case
  proof (cases "n \<le> c")
    case False
    let ?l = "last (n # fresh n ns)"
    have "n \<le> ?l" by (rule fresh_last_ge)
    then have "[c + 1 .. ?l] = (c + 1) # [c + 1 + 1 .. ?l]" using False by (subst upto_rec1) auto
    then show ?thesis using False Cons [of n] by (auto simp del: upto.simps)
  qed (use Cons in simp)
qed

lemma run_log:
  assumes "0 \<le> cursor s" and "list_all2 seq_is ns evs"
    and "for_each evs (\<lambda>e. event L e False) s = (Inr (), t)"
  shows "map (\<lambda>b. map_of b ''seq'') (events t)
        = map (\<lambda>b. map_of b ''seq'') (events s) @ map (Some \<circ> PInt) (fresh (cursor s) ns)
    \<and> gaps t = gaps s @ replicate (jumps (cursor s) (fresh (cursor s) ns)) ''durable_event_sequence''
    \<and> cursor t = last (cursor s # fresh (cursor s) ns)"
  using assms(2,1,3)
proof (induction arbitrary: s rule: list_all2_induct)
  case Nil
  then show ?case by (simp add: act_run)
next
  case (Cons n ns ev evs)
  from Cons.prems(2) obtain u where u: "event L ev False s = (Inr (), u)"
      "for_each evs (\<lambda>e. event L e False) u = (Inr (), t)"
    by (auto simp: andthen_def bind_Inr_iff)
  show ?case
  proof (cases "n \<le> cursor s")
    case True
    then have "u = s" using event_skip [OF Cons.hyps(1) _ u(1)] by simp
    then show ?thesis using Cons.IH [of s] Cons.prems u True by simp
  next
    case False
    with u(1) obtain brief where b: "events u = events s @ [brief]" "map_of brief ''seq'' = Some (PInt n)"
        "cursor u = n" "gaps u = gaps s @ (if n \<noteq> cursor s + 1 then [''durable_event_sequence''] else [])"
      using Cons.prems(1) by (auto elim!: event_accept [OF Cons.hyps(1)] simp: not_le)
    then show ?thesis using Cons.IH [of u] Cons.prems u False by auto
  qed
qed

text \<open>
  C18. The durable log: after any accepted sequence of live events, duplicates and stale
  ones included, the log is extended by exactly the fresh sequence numbers, the cursor is
  the last of them, and no gap was recorded if and only if they are consecutive from the
  cursor on.
\<close>

theorem durable_log:
  assumes "0 \<le> cursor s" and "list_all2 seq_is ns evs"
    and "for_each evs (\<lambda>e. event L e False) s = (Inr (), t)"
  shows "map (\<lambda>b. map_of b ''seq'') (events t)
        = map (\<lambda>b. map_of b ''seq'') (events s) @ map (Some \<circ> PInt) (fresh (cursor s) ns)
    \<and> cursor t = last (cursor s # fresh (cursor s) ns)
    \<and> (gaps t = gaps s \<longleftrightarrow> fresh (cursor s) ns = [cursor s + 1 .. cursor t])"
  using run_log [OF assms] no_jumps_iff [of "cursor s" ns] by auto

definition demo_event :: "int \<Rightarrow> pyval" where
  "demo_event n = PDict [(''seq'', PInt n), (''type'', PStr ''note''), (''time'', PNone)]"

theorem durable_log_witness:
  "let s = (follow_init (PStr ''me'') ''f'')\<lparr>cursor := 4\<rparr> :: unit follow;
       t = snd (for_each (map demo_event [5, 5, 3, 6]) (\<lambda>e. event (demo_lib PNone) e False) s)
   in cursor t = 6 \<and> gaps t = []"
proof -
  let ?s = "(follow_init (PStr ''me'') ''f'')\<lparr>cursor := 4\<rparr> :: unit follow"
  let ?run = "for_each (map demo_event [5, 5, 3, 6]) (\<lambda>e. event (demo_lib PNone) e False) ?s"
  have "fst ?run = Inr ()" by code_simp
  then have run: "?run = (Inr (), snd ?run)" by (simp add: prod_eq_iff)
  have "0 \<le> cursor ?s" "list_all2 seq_is [5, 5, 3, 6] (map demo_event [5, 5, 3, 6])"
    by (simp_all add: seq_is_def demo_event_def)
  note log = durable_log [OF this run]
  have "fresh (cursor ?s) [5, 5, 3, 6] = [5, 6]" "[5 .. 6] = [5, 6 :: int]" by code_simp+
  then show ?thesis using log by (simp add: follow_init_def Let_def)
qed

section \<open>Live assistant chunks\<close>

definition attempt_is :: "pyval \<Rightarrow> pyval \<Rightarrow> bool" where
  "attempt_is k f \<longleftrightarrow> getitem f ''attemptId'' = Inr k"

definition index_is :: "nat \<Rightarrow> pyval \<Rightarrow> bool" where
  "index_is n f \<longleftrightarrow> (case pyget f ''index'' PNone of Inr v \<Rightarrow> eq_int v (int n) | Inl _ \<Rightarrow> False)"

text \<open>
  The specification, for the frames of one attempt: chunks are numbered in order without
  omission and the end frame names their number.
\<close>

fun in_order :: "nat \<Rightarrow> pyval list \<Rightarrow> bool" where
  "in_order c [] = True"
| "in_order c (f # fs) =
     (if getitem f ''type'' = Inr (PStr ''chunk'') then index_is c f \<and> in_order (c + 1) fs
      else if getitem f ''type'' = Inr (PStr ''end'') then index_is c f \<and> in_order c fs
      else in_order c fs)"

lemma chunks_of_set [simp]:
  "chunks_of j (set_attempt k g s) = (if j = k then chunks (g (case map_of (attempts s) k of
      None \<Rightarrow> new_attempt | Some a \<Rightarrow> a)) else chunks_of j s)"
  by (simp add: chunks_of_def set_attempt_def update_conv')

lemma chunks_default [simp]: "chunks (case map_of (attempts s) k of None \<Rightarrow> new_attempt | Some a \<Rightarrow> a) = chunks_of k s"
  by (simp add: chunks_of_def new_attempt_def split: option.split)

lemma chunks_of_frame [simp]:
  "chunks_of j (s\<lparr>counts := x\<rparr>) = chunks_of j s" "chunks_of j (s\<lparr>gaps := y\<rparr>) = chunks_of j s"
  "gaps (set_attempt k g s) = gaps s"
  by (simp_all add: chunks_of_def set_attempt_def)

definition frame_gap :: "nat \<Rightarrow> pyval \<Rightarrow> string list" where
  "frame_gap n f =
     (if index_is n f then []
      else if getitem f ''type'' = Inr (PStr ''chunk'') then [''assistant_chunk_index'']
      else if getitem f ''type'' = Inr (PStr ''end'') then [''assistant_end_index''] else [])"

lemma check_index_run:
  "check_index k f msg s = (Inr (), t) \<Longrightarrow>
    t = (if index_is (chunks_of k s) f then s else s\<lparr>gaps := gaps s @ [msg]\<rparr>)"
  by (auto simp: check_index_def index_is_def act_run bind_Inr_iff)

lemma frame_effect:
  assumes run: "assistant_frame f s = (Inr (), t)" and k: "attempt_is k f"
  shows "gaps t = gaps s @ frame_gap (chunks_of k s) f
    \<and> chunks_of j t = chunks_of j s + (if j = k \<and> getitem f ''type'' = Inr (PStr ''chunk'') then 1 else 0)"
proof -
  let ?s = "set_attempt k (\<lambda>a. a) s"
  obtain ty where ty: "getitem f ''type'' = Inr ty" and step: "frame_step k f ty ?s = (Inr (), t)"
    using run k
    by (cases "getitem f ''type''") (auto simp: assistant_frame_def attempt_is_def act_simps split: if_splits)
  consider "ty = PStr ''start''" | "ty = PStr ''chunk''" | "ty = PStr ''end''"
    | "ty \<notin> {PStr ''start'', PStr ''chunk'', PStr ''end''}" by blast
  then show ?thesis
  proof cases
    case 2
    with step obtain u where u: "check_index k f ''assistant_chunk_index'' ?s = (Inr (), u)"
        and t: "t = (set_attempt k (\<lambda>a. a\<lparr>chunks := chunks a + 1\<rparr>) u)
          \<lparr>counts := add_count (PStr ''live_assistant_chunks'') 1
            (counts (set_attempt k (\<lambda>a. a\<lparr>chunks := chunks a + 1\<rparr>) u))\<rparr>"
      by (auto simp: frame_step_def andthen_def bind_Inr_iff act_run bump_def)
    have "gaps t = gaps u" "chunks_of j t = (if j = k then chunks_of k u + 1 else chunks_of j u)"
      by (simp_all add: t)
    with 2 ty check_index_run [OF u] show ?thesis by (cases "index_is (chunks_of k s) f") (simp_all add: frame_gap_def)
  next
    case 3
    with step obtain u where u: "check_index k f ''assistant_end_index'' ?s = (Inr (), u)"
        and t: "gaps t = gaps u" "chunks_of j t = chunks_of j u"
      by (auto simp: frame_step_def andthen_def bind_Inr_iff act_run)
    with 3 ty check_index_run [OF u] show ?thesis by (cases "index_is (chunks_of k s) f") (simp_all add: frame_gap_def)
  qed (use step ty in \<open>auto simp: frame_step_def act_simps frame_gap_def chunks_default\<close>)
qed

lemma frame_attempt: "assistant_frame f s = (Inr (), t) \<Longrightarrow> \<exists>k. attempt_is k f"
  by (auto simp: assistant_frame_def attempt_is_def bind_Inr_iff act_run)

text \<open>
  Live chunks, however the frames of several attempts interleave: no index gap was
  recorded if and only if, for every attempt, its chunks arrived numbered consecutively
  from the count before and each end frame named the number of chunks received.
\<close>

lemma chunks_complete:
  assumes "for_each fs assistant_frame s = (Inr (), t)"
  shows "gaps t = gaps s \<longleftrightarrow> (\<forall>k. in_order (chunks_of k s) (filter (attempt_is k) fs))"
proof -
  have prefix: "prefix (gaps s) (gaps t)" if "for_each fs assistant_frame s = (Inr (), t)" for fs s
  proof -
    have "evidence.grows (for_each fs assistant_frame :: ('a follow, unit) act)"
      unfolding assistant_frame_def frame_step_def set_attempt_def check_index_def
      by (auto intro!: evidence_rules evidence_bump simp: extends_def)
    from evidence.growsD [OF this, of s] that show ?thesis by (simp add: extends_def)
  qed
  show ?thesis using assms
  proof (induction fs arbitrary: s)
    case Nil
    then show ?case by (simp add: act_run)
  next
    case (Cons f fs)
    then obtain u where u: "assistant_frame f s = (Inr (), u)"
        and rest: "for_each fs assistant_frame u = (Inr (), t)"
      by (auto simp: andthen_def bind_Inr_iff)
    obtain k where k: "attempt_is k f" using frame_attempt [OF u] by auto
    note eff = frame_effect [OF u k]
    have only: "attempt_is j f \<longleftrightarrow> j = k" for j using k by (auto simp: attempt_is_def)
    have gaps: "gaps t = gaps s \<longleftrightarrow> frame_gap (chunks_of k s) f = [] \<and> gaps t = gaps u"
      using eff prefix [OF rest] by (auto simp: prefix_def)
    have "(\<forall>j. in_order (chunks_of j s) (filter (attempt_is j) (f # fs)))
        \<longleftrightarrow> frame_gap (chunks_of k s) f = [] \<and> (\<forall>j. in_order (chunks_of j u) (filter (attempt_is j) fs))"
      using eff by (auto simp: only frame_gap_def split: if_splits)
    with gaps Cons.IH [OF rest] show ?case by simp
  qed
qed

definition demo_chunk :: "string \<Rightarrow> string \<Rightarrow> int \<Rightarrow> pyval" where
  "demo_chunk a ty i = PDict [(''attemptId'', PStr a), (''type'', PStr ty), (''index'', PInt i)]"

theorem chunks_complete_witness:
  "let fs = [demo_chunk ''a'' ''chunk'' 0, demo_chunk ''b'' ''chunk'' 1];
       t = snd (for_each fs assistant_frame (follow_init (PStr ''me'') ''f'' :: unit follow))
   in gaps t = [''assistant_chunk_index'']
      \<and> \<not> in_order 0 (filter (attempt_is (PStr ''b'')) fs)"
proof -
  let ?s = "follow_init (PStr ''me'') ''f'' :: unit follow"
  let ?fs = "[demo_chunk ''a'' ''chunk'' 0, demo_chunk ''b'' ''chunk'' 1]"
  let ?run = "for_each ?fs assistant_frame ?s"
  have "fst ?run = Inr ()" by code_simp
  then have run: "?run = (Inr (), snd ?run)" by (simp add: prod_eq_iff)
  have g: "gaps (snd ?run) = [''assistant_chunk_index'']" by code_simp
  have s: "gaps ?s = []" "chunks_of k ?s = 0" for k by (simp_all add: follow_init_def chunks_of_def)
  obtain k where k: "\<not> in_order 0 (filter (attempt_is k) ?fs)"
    using chunks_complete [OF run] g s by auto
  have "filter (attempt_is j) ?fs = []" if "j \<noteq> PStr ''a''" "j \<noteq> PStr ''b''" for j
    using that by (simp add: attempt_is_def demo_chunk_def)
  then have "k = PStr ''a'' \<or> k = PStr ''b''" using k by (metis in_order.simps(1))
  moreover have "in_order 0 (filter (attempt_is (PStr ''a'')) ?fs)" by code_simp
  ultimately have "\<not> in_order 0 (filter (attempt_is (PStr ''b'')) ?fs)" using k by metis
  with g show ?thesis by (simp add: Let_def)
qed

end
