(* ===== verification/FollowTools.thy ===== *)
theory FollowTools
  imports FollowSeq
begin

text \<open>
  The tool records of the follower: which background jobs it may regard as its own, what
  an unparsable or unexpected argument does, and what public errors contain.
\<close>

section \<open>Own background jobs\<close>

text \<open>The recorded call \<^verbatim>\<open>cid\<close> is a background shell call.\<close>

definition background_call :: "'w follow \<Rightarrow> pyval \<Rightarrow> bool" where
  "background_call s cid \<longleftrightarrow> (case map_of (tools s) cid of
     None \<Rightarrow> False | Some t \<Rightarrow> has_name t [''pwsh''] \<and> flag t ''background'')"

text \<open>A result block that reports, without error, that such a call started job \<^verbatim>\<open>j\<close>.\<close>

definition starts_job :: "'w follow \<Rightarrow> string \<Rightarrow> pyval \<Rightarrow> bool" where
  "starts_job s j b \<longleftrightarrow> (\<exists>d cid. b = PDict d \<and> map_of d ''type'' = Some (PStr ''tool-result'')
     \<and> cid = (case map_of d ''toolCallId'' of None \<Rightarrow> PNone | Some c \<Rightarrow> c) \<and> background_call s cid
     \<and> (case map_of d ''isError'' of None \<Rightarrow> True | Some e \<Rightarrow> \<not> truthy e)
     \<and> (\<exists>c. map_of d ''content'' = Some c \<and> started_job (join newline (text_blocks c)) = Some j))"

definition result_blocks :: "pyval \<Rightarrow> pyval list" where
  "result_blocks ev = (case rbind (pyget ev ''data'' (PDict [])) (\<lambda>data.
       rbind (pyget data ''message'' (PDict [])) (\<lambda>m. rbind (pyget m ''content'' (PList [])) iterate)) of
     Inr bs \<Rightarrow> bs | Inl _ \<Rightarrow> [])"

lemma map_of_dict_update:
  "map_of (dict_update new d) k = (case map_of (rev new) k of None \<Rightarrow> map_of d k | Some v \<Rightarrow> Some v)"
  unfolding dict_update_def
  by (induction new arbitrary: d) (auto simp: update_conv' split: option.splits)

lemma result_fields_keys:
  "map_of (rev (result_fields L texts err t)) ''name'' = None"
  "map_of (rev (result_fields L texts err t)) ''background'' = None"
  by (auto simp: result_fields_def goal_phase_def map_of_eq_None_iff split: sum.splits)

lemma has_name_update [simp]: "has_name (dict_update (result_fields L x e t) d) ns = has_name d ns"
  "flag (dict_update (result_fields L x e t) d) ''background'' = flag d ''background''"
  by (simp_all add: has_name_def flag_def map_of_dict_update result_fields_keys)

lemma started_job_blank: "started_job [] = None"
  by code_simp

definition jobs_from :: "'w follow \<Rightarrow> pyval list \<Rightarrow> 'w follow \<Rightarrow> bool" where
  "jobs_from s bs t \<longleftrightarrow> background_call t = background_call s
     \<and> (\<forall>j \<in> owned_jobs t. j \<in> owned_jobs s \<or> list_ex (starts_job s j) bs)"

lemma jobs_from_block: "b \<in> set bs \<Longrightarrow> keeps (jobs_from s bs) (on_result_block L b)"
proof -
  assume b: "b \<in> set bs"
  have ok: "jobs_from s bs (t\<lparr>tools := AList.update cid (dict_update (result_fields L texts err u) u) (tools t),
            markers := m, owned_jobs := owned_jobs t \<union> result_job texts err u\<rparr>)"
    if prev: "jobs_from s bs t" and d: "b = PDict d" "map_of d ''type'' = Some (PStr ''tool-result'')"
      and cid: "cid = (case map_of d ''toolCallId'' of None \<Rightarrow> PNone | Some c \<Rightarrow> c)"
      and err: "err = truthy (case map_of d ''isError'' of None \<Rightarrow> PNone | Some e \<Rightarrow> e)"
      and texts: "texts = join newline (text_blocks (case map_of d ''content'' of None \<Rightarrow> PNone | Some c \<Rightarrow> c))"
      and u: "u = (case map_of (tools t) cid of None \<Rightarrow> [(''call_id'', cid)] | Some v \<Rightarrow> v)"
    for t cid texts err m u d
  proof -
    have bg: "has_name u [''pwsh''] \<and> flag u ''background'' \<longleftrightarrow> background_call t cid"
      by (simp add: u background_call_def has_name_def flag_def split: option.split)
    have same: "background_call s = background_call t" using prev by (simp add: jobs_from_def)
    have "starts_job s j b" if "j \<in> result_job texts err u" for j
      using that bg d unfolding starts_job_def same
      by (auto simp: result_job_def cid err texts started_job_blank split: if_splits option.splits)
    then have "\<forall>j \<in> result_job texts err u. list_ex (starts_job s j) bs"
      using b by (auto simp: list_ex_iff)
    moreover have "background_call (t\<lparr>tools := AList.update cid (dict_update (result_fields L texts err u) u) (tools t),
            markers := m, owned_jobs := o'\<rparr>) = background_call t" for o'
      using bg by (auto simp: background_call_def update_conv' fun_eq_iff split: option.splits)
    ultimately show ?thesis using prev by (auto simp: jobs_from_def)
  qed
  show ?thesis unfolding keeps_def
  proof (intro allI impI)
    fix t assume prev: "jobs_from s bs t"
    show "jobs_from s bs (snd (on_result_block L b t))"
    proof (cases "\<exists>d. b = PDict d \<and> map_of d ''type'' = Some (PStr ''tool-result'')")
      case False
      then have "snd (on_result_block L b t) = t"
        by (cases b) (auto simp: on_result_block_def act_simps split: option.splits)
      with prev show ?thesis by simp
    next
      case True
      then obtain d where d: "b = PDict d" "map_of d ''type'' = Some (PStr ''tool-result'')" by blast
      define cid where "cid = (case map_of d ''toolCallId'' of None \<Rightarrow> PNone | Some c \<Rightarrow> c)"
      define err where "err = truthy (case map_of d ''isError'' of None \<Rightarrow> PNone | Some e \<Rightarrow> e)"
      define texts where
        "texts = join newline (text_blocks (case map_of d ''content'' of None \<Rightarrow> PNone | Some c \<Rightarrow> c))"
      define u where "u = (case map_of (tools t) cid of None \<Rightarrow> [(''call_id'', cid)] | Some v \<Rightarrow> v)"
      have "snd (on_result_block L b t) = (if hashable cid then
          t\<lparr>tools := AList.update cid (dict_update (result_fields L texts err u) u) (tools t),
            markers := markers t \<union> set (markers_in texts),
            owned_jobs := owned_jobs t \<union> result_job texts err u\<rparr> else t)"
        using d by (simp add: on_result_block_def act_simps Let_def flip: cid_def err_def texts_def u_def)
      with prev ok [OF prev d cid_def err_def texts_def u_def] show ?thesis by simp
    qed
  qed
qed

lemma keeps_for_each_mem:
  "(\<And>x. x \<in> set xs \<Longrightarrow> keeps I (body x)) \<Longrightarrow> keeps I (for_each xs body)"
  by (induction xs) (auto intro: keeps_intro)

lemma other_events_jobs:
  "keeps (\<lambda>s. owned_jobs s = x) (on_header data)" "keeps (\<lambda>s. owned_jobs s = x) (on_catalog data)"
  "keeps (\<lambda>s. owned_jobs s = x) (on_goal data)" "keeps (\<lambda>s. owned_jobs s = x) (on_todo data)"
  "keeps (\<lambda>s. owned_jobs s = x) (on_turn_end brief data)"
  "keeps (\<lambda>s. owned_jobs s = x) (on_message data)" "keeps (\<lambda>s. owned_jobs s = x) (on_tool_call L data)"
  unfolding on_header_def on_catalog_def on_goal_def on_todo_def on_turn_end_def on_message_def
    on_tool_call_def if_name_def bump_def Let_def
  by (auto intro!: keeps_intro split: if_splits)

lemma on_tool_result_jobs:
  "keeps (jobs_from s (case rbind (pyget data ''message'' (PDict []))
      (\<lambda>m. rbind (pyget m ''content'' (PList [])) iterate) of Inr bs \<Rightarrow> bs | Inl _ \<Rightarrow> []))
    (on_tool_result L data)"
  by (cases "pyget data ''message'' (PDict [])"; simp add: on_tool_result_def keeps_basic)
    (auto simp: keeps_basic intro!: keeps_intro keeps_for_each_mem jobs_from_block
      split: sum.splits)

lemma jobs_from_frame:
  "jobs_from s bs (t\<lparr>counts := c\<rparr>) = jobs_from s bs t"
  "jobs_from s bs (t\<lparr>events := e\<rparr>) = jobs_from s bs t"
  "jobs_from s bs (advance n opening t) = jobs_from s bs t"
  by (simp_all add: jobs_from_def background_call_def [abs_def] advance_def)

lemma event_jobs:
  "owned_jobs (snd (event L ev opening s)) \<subseteq> owned_jobs s
     \<or> jobs_from s (result_blocks ev) (snd (event L ev opening s))"
proof -
  let ?t = "snd (event L ev opening s)"
  show ?thesis
  proof (cases "getitem ev ''seq''"; cases "getitem ev ''type''"; cases "pyget ev ''data'' (PDict [])")
    fix raw kind data
    assume ev: "getitem ev ''seq'' = Inr raw" "getitem ev ''type'' = Inr kind"
      "pyget ev ''data'' (PDict []) = Inr data"
    show ?thesis
    proof (cases "kind = PStr ''tool/result''")
      case True
      have "on_kind L kind brief data = (on_tool_result L data :: ('a, pydict) fact_of)" for brief
        by (simp add: on_kind_def True)
      moreover have "keeps (jobs_from s (result_blocks ev)) (on_tool_result L data)"
        using on_tool_result_jobs [of s data L] by (simp add: result_blocks_def ev)
      ultimately have "keeps (jobs_from s (result_blocks ev)) (event L ev opening)"
        unfolding event_def append_event_def bump_def Let_def ev
        by (auto intro!: keeps_intro simp: jobs_from_frame)
      from keepsD [OF this, of s] show ?thesis by (simp add: jobs_from_def)
    next
      case False
      have "keeps (\<lambda>t. owned_jobs t = owned_jobs s) (on_kind L kind brief data)" for brief
        using False unfolding on_kind_def by (auto intro!: keeps_intro other_events_jobs)
      then have "keeps (\<lambda>t. owned_jobs t = owned_jobs s) (event L ev opening)"
        unfolding event_def append_event_def bump_def advance_def Let_def ev
        by (auto intro!: keeps_intro)
      from keepsD [OF this, of s] show ?thesis by simp
    qed
  qed (simp_all add: event_def act_simps)
qed

text \<open>
  The program only regards a background job as its own when it started it: a job that
  one event adds to the owned jobs was announced, in exactly the expected form and without
  an error, by a result block of that event for a call recorded earlier as a background
  shell call.
\<close>

lemma owned_jobs_started:
  assumes "j \<in> owned_jobs (snd (event L ev opening s))" and "j \<notin> owned_jobs s"
  shows "list_ex (starts_job s j) (result_blocks ev)"
  using event_jobs [of L ev "opening" s] assms by (auto simp: jobs_from_def)

text \<open>A background shell call and its announcement.\<close>

definition demo_call :: pyval where
  "demo_call = PDict [(''seq'', PInt 1), (''type'', PStr ''tool/call''), (''data'', PDict
     [(''callId'', PStr ''c''), (''name'', PStr ''pwsh''), (''arguments'', PStr ''x'')])]"

definition demo_result :: pyval where
  "demo_result = PDict [(''seq'', PInt 2), (''type'', PStr ''tool/result''), (''data'', PDict
     [(''message'', PDict [(''content'', PList [PDict [(''type'', PStr ''tool-result''),
        (''toolCallId'', PStr ''c''), (''content'', PList [PDict [(''type'', PStr ''text''),
          (''text'', PStr ''started background job j-7'')]])]])])])]"

theorem owned_jobs_started_witness:
  "let L = demo_lib (PDict [(''run_in_background'', PBool True)]);
       s = snd (event L demo_call False (follow_init (PStr ''me'') ''f'' :: unit follow))
   in list_ex (starts_job s ''j-7'') (result_blocks demo_result)"
proof -
  let ?L = "demo_lib (PDict [(''run_in_background'', PBool True)])"
  let ?s = "snd (event ?L demo_call False (follow_init (PStr ''me'') ''f'' :: unit follow))"
  have "''j-7'' \<in> owned_jobs (snd (event ?L demo_result False ?s))" by code_simp
  moreover have "''j-7'' \<notin> owned_jobs ?s" by code_simp
  ultimately show ?thesis using owned_jobs_started [of "''j-7''" ?L demo_result False ?s] by (simp add: Let_def)
qed

section \<open>Arguments of tool calls\<close>

text \<open>
  A failed parse of the arguments is recorded and handled, but arguments that parse to
  a number, a boolean or null are not: the handler raises \<^verbatim>\<open>TypeError\<close> on the iteration over
  them, after the cursor has passed the event and before it is logged.
\<close>

lemma scalar_arguments_raise:
  assumes "map_of d ''arguments'' = Some (PStr a)" and "json_loads L a = Some v"
    and "v \<in> {PNone, PBool b, PInt n}" and "cursor s < q"
    and "ev = PDict [(''seq'', PInt q), (''type'', PStr ''tool/call''), (''data'', PDict d)]"
  shows "fst (event L ev False s) = Inl (Exc TypeError ''type'')
    \<and> events (snd (event L ev False s)) = events s \<and> cursor (snd (event L ev False s)) = q
    \<and> parse_arguments L (PStr a) = (v, False)"
proof -
  have "loads_val L (PStr a) = Inr v" using assms(2) by (simp add: loads_val_def loads_def)
  moreover have "iterate v = Inl (Exc TypeError ''type'')" "\<not> is_dict v" using assms(3) by auto
  ultimately show ?thesis using assms(1,4)
    by (auto simp: assms(5) event_def act_simps as_int_def bump_def on_kind_def on_tool_call_def
        parse_arguments_def Let_def advance_def split: option.split)
qed

theorem scalar_arguments_raise_witness:
  "fst (event (demo_lib (PInt 5)) demo_call False (follow_init (PStr ''me'') ''f'' :: unit follow))
     = Inl (Exc TypeError ''type'')"
  using scalar_arguments_raise [of _ "''x''" "demo_lib (PInt 5)" "PInt 5" False 5
      "follow_init (PStr ''me'') ''f'' :: unit follow" 1 demo_call]
  by (simp add: demo_call_def demo_lib_def follow_init_def)

section \<open>Frames without a stream\<close>

text \<open>
  Before \<^verbatim>\<open>subscribe_reviews\<close> the interaction stream is None, and so is the stream of a
  frame that names none: such an item is treated as an interaction, although the program
  has subscribed to no interactions.
\<close>

theorem unaddressed_frame_is_interaction:
  assumes "interaction_stream_id s = None" and "map_of d ''streamId'' = None"
    and "map_of d ''type'' = Some (PStr ''item'')" and "map_of d ''value'' = Some v"
  shows "dispatch L srv w (PDict d) s = interaction L srv w v s"
  using assms by (simp add: dispatch_def act_simps opt_str_def)

theorem unaddressed_frame_is_interaction_witness:
  "event_client_id (snd (dispatch (demo_lib PNone) demo_server () (PDict [(''type'', PStr ''item''),
     (''value'', PDict [(''type'', PStr ''ready''), (''clientId'', PStr ''x'')])]) demo_turn)) = PStr ''x''"
proof -
  let ?v = "PDict [(''type'', PStr ''ready''), (''clientId'', PStr ''x'')]"
  have "dispatch (demo_lib PNone) demo_server () (PDict [(''type'', PStr ''item''), (''value'', ?v)]) demo_turn
      = interaction (demo_lib PNone) demo_server () ?v demo_turn"
    by (rule unaddressed_frame_is_interaction) (simp_all add: demo_turn_def follow_init_def)
  then show ?thesis by (simp add: interaction_def act_simps)
qed

section \<open>What public errors contain\<close>

lemma class_name_code: "is_code (PStr (class_name c))"
  by (cases c; simp add: is_code_def fullmatch_class_def alnum_def upper_ascii_def lower_ascii_def digit_chars_def)

text \<open>
  Whatever the text of an exception, its public form has only the class name and, at
  most, a short machine code: every value is a code.
\<close>

theorem safe_error_codes:
  "list_all (\<lambda>(k, v). is_code v) (safe_error L e)
   \<and> (map fst (safe_error L e) = [''class''] \<or> map fst (safe_error L e) = [''class'', ''code''])"
  using class_name_code by (auto simp: safe_error_def Let_def split: sum.split pyval.split option.split)

end
