(* ===== verification/HarnessProps.thy ===== *)
theory HarnessProps
  imports HarnessRun RunnerProps FollowTools
begin

text \<open>
  What a report of \<^verbatim>\<open>harness-check.py\<close> that passed has established, from the follower's
  invariants through the runner and the phases to the verdict.
\<close>

section \<open>Invariants of every follower\<close>

text \<open>
  The interface of the lift: a property of one follower that holds when it is made, that each
  receive keeps, and that does not depend on what is sent or on the identifiers of the
  subscription; \<^verbatim>\<open>ok\<close> holds of the review guards it may be subscribed with.
\<close>

locale follow_invariant =
  fixes J :: "'w follow \<Rightarrow> bool" and ok :: "('w \<Rightarrow> bool res) option \<Rightarrow> bool"
  assumes made: "J (follow_at sid adr u)"
    and received: "keeps J (receive L srv w deadline now inp)"
    and subscribed: "J f \<Longrightarrow> ok g \<Longrightarrow> J (f\<lparr>review_guard := g, interaction_stream_id := i, sent := msgs\<rparr>)"
    and sends: "J f \<Longrightarrow> J (f\<lparr>sent := msgs\<rparr>)"
begin

definition all_hold :: "'w runner \<Rightarrow> bool" where
  "all_hold r \<longleftrightarrow> list_all J (rn_follows r)"

lemma until_holds: "J f \<Longrightarrow> J (snd (receive_until L srv deadline stop inputs f))"
  by (rule until_keeps) (rule received)

lemma wait_holds: "J f \<Longrightarrow> J (snd (wait_turn L srv deadline n inputs f))"
  using until_holds [of f L srv deadline "\<lambda>s. n < length (turn_ends s)" inputs]
  by (auto simp: wait_turn_def split: prod.splits option.splits sum.splits) (metis snd_conv until_holds)+

lemma open_holds: "J f \<Longrightarrow> J (snd (open_follow L srv deadline inputs f))"
  unfolding open_follow_def Let_def by (intro until_holds sends)

lemma subscribe_holds: "J f \<Longrightarrow> ok g \<Longrightarrow> J (snd (subscribe_reviews L srv g u deadline inputs f))"
  unfolding subscribe_reviews_def Let_def by (intro until_holds subscribed)

lemma on_follow_holds: "(\<And>inputs f. J f \<Longrightarrow> J (snd (m inputs f))) \<Longrightarrow> keeps all_hold (on_follow i m)"
proof -
  assume m: "\<And>inputs f. J f \<Longrightarrow> J (snd (m inputs f))"
  have "all_hold (snd (on_follow i m r))" if r: "all_hold r" for r
  proof (cases "i < length (rn_follows r)")
    case True
    then have "J (snd (m (rn_inputs r ! i) (rn_follows r ! i)))" using r m by (simp add: all_hold_def list_all_length)
    with r show ?thesis
      by (auto simp: on_follow_def all_hold_def list_all_iff dest!: set_update_subset_insert [THEN subsetD]
          split: prod.splits option.splits)
  next
    case False
    with r show ?thesis
      by (auto simp: on_follow_def all_hold_def list_update_beyond split: prod.splits option.splits)
  qed
  then show ?thesis by (simp add: keeps_def)
qed

lemma new_follow_holds: "keeps all_hold (new_follow E sid adr)"
  by (simp add: keeps_def new_follow_def all_hold_def Let_def made)

lemma call_holds: "keeps all_hold (call E m args)"
  by (simp add: keeps_def call_def all_hold_def)

lemmas hold_rules = keeps_intro on_follow_holds new_follow_holds call_holds open_holds wait_holds
  subscribe_holds until_holds

lemma open_at_holds: "keeps all_hold (open_at E i)"
  unfolding open_at_def by (intro hold_rules)

lemma create_holds: "keeps all_hold (create E)"
  unfolding create_def by (intro hold_rules open_at_holds) (simp add: all_hold_def)

lemma enqueue_holds: "keeps all_hold (enqueue E i x)"
  unfolding enqueue_def by (intro hold_rules)

lemma await_holds: "keeps all_hold (await_turn E i n)"
  unfolding await_turn_def by (intro hold_rules)

lemma prompt_holds: "keeps all_hold (prompt E i x)"
  unfolding prompt_def by (intro hold_rules enqueue_holds await_holds)

lemma command_holds: "keeps all_hold (command E i x)"
  unfolding command_def by (intro hold_rules)

lemma watch_holds: "ok g \<Longrightarrow> keeps all_hold (watch E i g)"
  unfolding watch_def by (intro hold_rules)

lemma open_children_holds: "keeps all_hold (open_children E p cs)"
  by (induction cs) (auto intro!: hold_rules open_at_holds)

lemma inspect_holds: "keeps all_hold (inspect_children E i)"
  unfolding inspect_children_def by (intro hold_rules open_children_holds)

lemmas step_holds = create_holds enqueue_holds await_holds prompt_holds command_holds watch_holds inspect_holds

end

text \<open>
  An invariant that also survives the announcement of the fixture question holds after the
  operations of any phase, in any order.
\<close>

locale phase_invariant = follow_invariant +
  assumes asked: "J f \<Longrightarrow> J (f\<lparr>fixture_question := q\<rparr>)"
begin

lemma announce_holds: "keeps all_hold (announce_question i q)"
proof -
  have "all_hold (snd (announce_question i q r))" if r: "all_hold r" for r
    using r asked by (cases "i < length (rn_follows r)")
      (auto simp: announce_question_def modify_def all_hold_def list_all_length nth_list_update list_update_beyond)
  then show ?thesis by (simp add: keeps_def)
qed

lemma run_step_holds: "run_step E r t \<Longrightarrow> (\<And>g. ok g) \<Longrightarrow> all_hold r \<Longrightarrow> all_hold t"
proof (induction rule: run_step.induct)
  case (step_stop_file r p)
  then show ?case by (simp add: all_hold_def)
next
  case (step_deep r)
  then show ?case by (simp add: all_hold_def)
next
  case (step_receive r i stop)
  then show ?case by (intro keepsD [OF on_follow_holds] until_holds)
qed (simp_all add: step_holds [THEN keepsD] announce_holds [THEN keepsD] call_holds [THEN keepsD])

lemma reachable_holds: "(run_step E)\<^sup>*\<^sup>* runner_init r \<Longrightarrow> (\<And>g. ok g) \<Longrightarrow> all_hold r"
proof (induction rule: rtranclp_induct)
  case base
  show ?case by (simp add: all_hold_def runner_init_def)
next
  case (step s t)
  then show ?case using run_step_holds by blast
qed

end

interpretation reviewed: phase_invariant review_safe "\<lambda>_. True"
proof unfold_locales
  show "review_safe (follow_at sid adr u)" for sid adr u
    by (simp add: follow_at_def review_safe_def reviews_ok_def follow_init_def)
qed (auto simp: review_safe_def intro: receive_keeps_safe)

text \<open>Without an announced question nothing is answered.\<close>

definition unasked :: "'w follow \<Rightarrow> bool" where
  "unasked f \<longleftrightarrow> fixture_question f = None \<and> question_answers f = []"

interpretation unasked: log_blind unasked
  by unfold_locales (simp_all add: unasked_def)

lemma unasked_decide: "keeps unasked (decide_review L w q)"
  unfolding decide_review_def Let_def by (intro keeps_intro) (simp add: unasked_def)

lemma unasked_tell: "keeps unasked (tell srv v oc)"
proof -
  have "keeps unasked (rpc srv m args)" for m args by (simp add: keeps_def rpc_def unasked_def)
  then show ?thesis unfolding tell_def by (intro keeps_intro)
qed

lemma unasked_settle: "keeps unasked (settle L srv w v qs owned review False)"
  unfolding settle_def Let_def when_simps by (intro keeps_intro unasked_decide unasked_tell)

lemma unasked_interaction: "keeps unasked (interaction L srv w v)"
proof -
  have core: "keeps unasked (bind (\<lambda>s. (is_fixture_question s owned v qs, s)) (settle L srv w v qs owned review))"
    for owned qs review
  proof -
    have "unasked (snd (bind (\<lambda>s. (is_fixture_question s owned v qs, s)) (settle L srv w v qs owned review) s))"
      if s: "unasked s" for s
    proof -
      have "is_fixture_question s owned v qs = Inr False" using s by (simp add: is_fixture_question_def unasked_def)
      then show ?thesis using keepsD [OF unasked_settle s] by (simp add: bind_def)
    qed
    then show ?thesis by (simp add: keeps_def)
  qed
  then show ?thesis unfolding interaction_def
    by (intro core keeps_intro) (simp_all add: unasked_def)
qed

interpretation unasked_run: follow_invariant unasked "\<lambda>_. True"
proof unfold_locales
  show "unasked (follow_at sid adr u)" for sid adr u
    by (simp add: follow_at_def unasked_def follow_init_def)
  show "keeps unasked (receive L srv w deadline now inp)" for L srv w deadline now inp
    unfolding receive_def dispatch_def
    by (cases inp) (auto intro!: keeps_intro unasked_interaction unasked.keeps_consume simp: unasked_def)
qed (auto simp: unasked_def)

text \<open>Without a fixture guard no review is approved.\<close>

definition unapproved :: "'w follow \<Rightarrow> bool" where
  "unapproved f \<longleftrightarrow> review_guard f = None \<and> list_all (\<lambda>v. \<not> approved v) (plan_reviews f)"

interpretation unapproved: log_blind unapproved
  by unfold_locales (simp_all add: unapproved_def)

lemma unapproved_decide: "keeps unapproved (decide_review L w q)"
proof -
  have "unapproved (snd (decide_review L w q s))" if s: "unapproved s" for s
    using s by (rule_tac decide_review_cases [of L w q s]) (auto simp: unapproved_def)
  then show ?thesis by (simp add: keeps_def)
qed

lemma unapproved_interaction: "keeps unapproved (interaction L srv w v)"
proof -
  have "keeps unapproved (rpc srv m args)" for m args by (simp add: keeps_def rpc_def unapproved_def)
  then have tell: "keeps unapproved (tell srv u oc)" for u oc unfolding tell_def by (intro keeps_intro)
  have "keeps unapproved (settle L srv w u qs owned review fixture)" for u qs owned review fixture
    unfolding settle_def Let_def when_simps
    by (intro keeps_intro unapproved_decide tell) (simp add: unapproved_def)
  moreover have "keeps unapproved (\<lambda>s. (is_fixture_question s owned v qs, s))" for owned qs
    by (simp add: keeps_def)
  ultimately show ?thesis unfolding interaction_def
    by (intro keeps_intro) (simp_all add: unapproved_def)
qed

interpretation unapproved_run: phase_invariant unapproved "\<lambda>g. g = None"
proof unfold_locales
  show "unapproved (follow_at sid adr u)" for sid adr u
    by (simp add: follow_at_def unapproved_def follow_init_def)
  show "keeps unapproved (receive L srv w deadline now inp)" for L srv w deadline now inp
    unfolding receive_def dispatch_def
    by (cases inp) (auto intro!: keeps_intro unapproved_interaction unapproved.keeps_consume simp: unapproved_def)
qed (auto simp: unapproved_def)

section \<open>A phase is a sequence of operations\<close>

interpretation ops: state_order "(run_step E)\<^sup>*\<^sup>*" for E
  by unfold_locales auto

interpretation ops_of_phase: state_order "\<lambda>s t. (run_step E)\<^sup>*\<^sup>* (fst s) (fst t)" for E
  by unfold_locales auto

lemma op_grows: "(\<And>r. run_step E r (snd (m r))) \<Longrightarrow> ops.grows E m"
  by (auto simp: ops.grows_def)

lemma ops_grow:
  "ops.grows E (create E)" "ops.grows E (enqueue E i x)" "ops.grows E (await_turn E i n)"
  "ops.grows E (prompt E i x)" "ops.grows E (command E i x)" "ops.grows E (watch E i g)"
  "ops.grows E (inspect_children E i)" "ops.grows E (announce_question i q)"
  "ops.grows E (on_follow i (receive_until (en_lib E) (en_server E) (en_deadline E) stop))"
  by (intro op_grows run_step.intros)+

lemma call_ops: "m \<noteq> ''session/create'' \<Longrightarrow> ops.grows E (call E m args)"
  by (intro op_grows step_call)

lemma create_many_ops: "ops.grows E (create_many E n)"
  by (induction n) (auto intro!: ops.grows_rules ops_grow)

lemma prompt_all_ops: "ops.grows E (prompt_all E x is)"
proof (induction "is")
  case (Cons i "is")
  have rest: "ops.grows E (bind (prompt_all E x is) (\<lambda>rs. ret (reason # rs)))" for reason
    by (intro ops.grows_rules Cons)
  show ?case unfolding ops.grows_def
  proof
    fix r
    obtain reason t where run: "prompt E i x r = (reason, t)" by fastforce
    have "(run_step E)\<^sup>*\<^sup>* r t" using ops.growsD [OF ops_grow(4), of E r i x] by (simp add: run)
    then show "(run_step E)\<^sup>*\<^sup>* r (snd (prompt_all E x (i # is) r))"
      using ops.growsD [OF rest, of t reason] by (simp add: run)
  qed
qed (simp add: ops.grows_def)

lemma poll_ops: "ops.grows E (poll_children E sid n catalog)"
  by (induction n arbitrary: catalog) (auto intro!: ops.grows_rules call_ops)

lemma using_runner_ops: "ops.grows E m \<Longrightarrow> ops_of_phase.grows E (using_runner m)"
  by (simp add: ops.grows_def ops_of_phase.grows_def using_runner_def split_beta)

lemma record_ops: "ops_of_phase.grows E (record_checks new)"
  by (simp add: ops_of_phase.grows_def record_checks_def modify_def split: prod.split)

lemma flags_ops:
  "ops.grows E (modify (\<lambda>r. r\<lparr>rn_stop_files := rn_stop_files r @ [p]\<rparr>))"
  "ops.grows E (modify (\<lambda>r. r\<lparr>rn_cleanup := True\<rparr>))"
  by (auto simp: ops.grows_def modify_def intro: run_step.intros)

lemmas phase_ops = ops_of_phase.grows_rules using_runner_ops record_ops ops_grow call_ops create_many_ops
  prompt_all_ops poll_ops flags_ops

lemma pure_ops: "(\<And>s. snd (m s) = s) \<Longrightarrow> ops_of_phase.grows E m"
  by (simp add: ops_of_phase.grows_def)

lemma run_phase_ops: "ops_of_phase.grows E (run_phase E C ph)"
proof (cases ph)
  case Smoke
  then show ?thesis unfolding run_phase_def by (simp add: smoke_def the_follow_def) (intro phase_ops)
next
  case Workflow
  then show ?thesis unfolding run_phase_def by (simp add: workflow_def plan_stage_def build_stage_def [abs_def] the_follow_def) (intro phase_ops)
next
  case Parallel
  then show ?thesis unfolding run_phase_def by (simp add: parallel_def) (intro phase_ops)
next
  case Cancel
  then show ?thesis unfolding run_phase_def by (simp add: cancel_def the_follow_def) (intro phase_ops; simp)
next
  case Search
  then show ?thesis unfolding run_phase_def by simp (intro phase_ops)
next
  case Advanced
  then show ?thesis unfolding run_phase_def by (simp add: advanced_def the_follow_def) (intro phase_ops)
next
  case Coordination
  then show ?thesis unfolding run_phase_def by (simp add: coordination_def the_follow_def) (intro phase_ops; simp)
next
  case Image
  then show ?thesis unfolding run_phase_def
    by (simp add: image_check_def the_follow_def) (intro phase_ops pure_ops; simp split: prod.split sum.split)
next
  case Reasoning
  then show ?thesis unfolding run_phase_def by (simp add: reasoning_check_def the_follow_def) (intro phase_ops)
qed

lemma phase_reaches: "run_phase E C ph (runner_init, []) = (result, (r, cs)) \<Longrightarrow> (run_step E)\<^sup>*\<^sup>* runner_init r"
  using ops_of_phase.growsD [OF run_phase_ops, of E "(runner_init, [])" C ph] by simp

section \<open>Followers keep their place\<close>

definition has_follow :: "nat \<Rightarrow> 'w runner \<Rightarrow> bool" where
  "has_follow i r \<longleftrightarrow> i < length (rn_follows r)"

lemma place_kept: "keeps (has_follow i) (on_follow j m)" "keeps (has_follow i) (call E x args)"
  by (simp_all add: keeps_def has_follow_def on_follow_frame call_def)

lemmas place_rules = keeps_intro place_kept

lemma open_at_place: "keeps (has_follow i) (open_at E j)"
  unfolding open_at_def by (intro place_rules)

lemma ops_place:
  "keeps (has_follow i) (watch E j g)" "keeps (has_follow i) (command E j x)" "keeps (has_follow i) (prompt E j x)"
  unfolding watch_def command_def prompt_def enqueue_def await_turn_def by (intro place_rules)+

lemma create_place:
  assumes "create E r = (Inr i, t)"
  shows "has_follow i t"
proof -
  obtain sid s u where "new_follow E sid PNone s = (Inr i, u)" and op: "open_at E i u = (Inr (), t)"
    using assms by (auto simp: create_def bind_Inr_iff andthen_def act_run)
  then have "has_follow i u" by (auto simp: new_follow_def has_follow_def Let_def)
  from keepsD [OF open_at_place this, of E i] op show ?thesis by simp
qed

text \<open>Opening children leaves the followers before them alone.\<close>

lemma children_beside:
  "has_follow i r \<Longrightarrow> rn_follows (snd (open_children E p cs r)) ! i = rn_follows r ! i"
proof (induction cs arbitrary: r)
  case (Cons c cs)
  obtain j s where new: "new_follow E (fst c) (child_address p c) r = (Inr j, s)"
    and j: "j = length (rn_follows r)" and s: "rn_follows s ! i = rn_follows r ! i" "has_follow i s"
    using Cons.prems by (auto simp: new_follow_def has_follow_def Let_def nth_append)
  obtain v t where op: "open_at E j s = (v, t)" by fastforce
  have t: "rn_follows t ! i = rn_follows r ! i"
    using op s j Cons.prems
    by (auto simp: open_at_def bind_def lift_def on_follow_def has_follow_def split: sum.splits prod.splits option.splits)
  have "has_follow i t" using keepsD [OF open_at_place s(2), of E j] op by simp
  with Cons.IH [of t] t new op show ?case
    by (cases v) (auto simp: bind_def andthen_def ret_def split: sum.splits prod.splits)
qed (simp add: ret_def)

lemma inspect_beside: "has_follow i r \<Longrightarrow> rn_follows (snd (inspect_children E j r)) ! i = rn_follows r ! i"
  by (simp add: inspect_children_def bind_def gets_def children_beside)

lemma open_children_place: "keeps (has_follow i) (open_children E p cs)"
proof (induction cs)
  case (Cons c cs)
  have "keeps (has_follow i) (new_follow E sid adr)" for sid adr
    by (simp add: keeps_def new_follow_def has_follow_def Let_def)
  then show ?case using Cons by (auto intro!: place_rules open_at_place)
qed (simp add: keeps_intro)

section \<open>The workflow phase\<close>

lemma runner_step:
  assumes "bind (using_runner m) k (r, cs) = (Inr y, s)"
  obtains x t where "m r = (Inr x, t)" and "k x (t, cs) = (Inr y, s)"
  using assms by (auto simp: bind_def using_runner_def split: prod.splits sum.splits)

lemma phase_run:
  "bind (the_follow i) k (r, cs) = k (rn_follows r ! i) (r, cs)"
  "bind (record_checks new) g (r, cs) = g () (r, add_checks new cs)"
  "record_checks new (r, cs) = (Inr (), (r, add_checks new cs))"
  by (simp_all add: the_follow_def record_checks_def modify_def bind_def gets_def)

lemma plan_stage_run:
  assumes run: "plan_stage E C i (r, cs) = (Inr reason, (t, ds))" and place: "has_follow i r"
  shows "has_follow i t \<and> ds = add_checks (plan_stage_checks (rn_follows t ! i)) cs"
proof -
  obtain r1 r2 r3 u where w: "watch E i (Some (unchanged C)) r = (Inr (), r1)"
    and c: "command E i ''/plan'' r1 = (Inr u, r2)"
    and p: "prompt E i (workflow_prompt (ps_call (sc_python C) @ ''verify.py'')) r2 = (Inr reason, t)"
    and ds: "ds = add_checks (plan_stage_checks (rn_follows t ! i)) cs"
    using run unfolding plan_stage_def andthen_def
    by (elim runner_step) (simp add: phase_run act_run)
  have "has_follow i r1" using keepsD [OF ops_place(1) place] w by (metis snd_conv)
  then have "has_follow i r2" using keepsD [OF ops_place(2)] c by (metis snd_conv)
  then have "has_follow i t" using keepsD [OF ops_place(3)] p by (metis snd_conv)
  with ds show ?thesis by simp
qed

lemma build_stage_run:
  assumes run: "build_stage E C i reason (r, cs) = (Inr u, (t, ds))" and place: "has_follow i r"
  shows "\<exists>x b. sc_exit C = Inr x \<and> has_follow i t \<and> rn_follows t ! i = rn_follows r ! i
    \<and> ds = add_checks (build_stage_checks C reason x (rn_follows t ! i))
        (add_checks [(''subagent_real_model_evidence'', b)] cs)"
proof -
  obtain "is" x where k: "inspect_children E i r = (Inr is, t)" and x: "sc_exit C = Inr x"
    and ds: "ds = add_checks (build_stage_checks C reason x (rn_follows t ! i))
        (add_checks [(''subagent_real_model_evidence'', subagent_evidence (map (\<lambda>j. rn_follows t ! j) is))] cs)"
    using run unfolding build_stage_def andthen_def
    by (elim runner_step) (cases "sc_exit C"; simp add: phase_run act_run)
  have "keeps (has_follow i) (inspect_children E i)"
    unfolding inspect_children_def by (intro place_rules open_children_place)
  from keepsD [OF this place] k have "has_follow i t" by simp
  moreover have "rn_follows t ! i = rn_follows r ! i" using inspect_beside [OF place, of E i] k by simp
  ultimately show ?thesis using x ds by blast
qed

lemma workflow_run:
  assumes "workflow E C (runner_init, []) = (Inr u, (r, cs))"
  shows "\<exists>i reason x b. has_follow i r \<and> sc_exit C = Inr x
    \<and> cs = add_checks (build_stage_checks C reason x (rn_follows r ! i))
        (add_checks [(''subagent_real_model_evidence'', b)] (add_checks (plan_stage_checks (rn_follows r ! i)) []))"
proof -
  obtain i r1 s reason where c: "create E runner_init = (Inr i, r1)"
    and p: "plan_stage E C i (r1, []) = (Inr reason, s)" and b: "build_stage E C i reason s = (Inr u, (r, cs))"
    using assms unfolding workflow_def by (elim runner_step) (auto simp: bind_Inr_iff)
  obtain t ds where s: "s = (t, ds)" by (cases s)
  have "has_follow i t \<and> ds = add_checks (plan_stage_checks (rn_follows t ! i)) []"
    using plan_stage_run p create_place [OF c] unfolding s by blast
  with build_stage_run [OF b [unfolded s]] show ?thesis by metis
qed

section \<open>Invariants of whole phases\<close>

lemma using_runner_keeps: "keeps I m \<Longrightarrow> keeps (\<lambda>s. I (fst s)) (using_runner m)"
  by (simp add: keeps_def using_runner_def split_beta)

lemma record_keeps: "keeps (\<lambda>s. I (fst s)) (record_checks new)"
  by (simp add: keeps_def record_checks_def modify_def split_beta)

lemma the_follow_keeps: "keeps I (the_follow i)"
  unfolding the_follow_def by (rule keeps_intro)

context follow_invariant begin

abbreviation holding :: "('w, 'a) phase \<Rightarrow> bool" where
  "holding m \<equiv> keeps (\<lambda>s. all_hold (fst s)) m"

lemma create_many_holds: "keeps all_hold (create_many E n)"
  by (induction n) (auto intro!: keeps_intro create_holds)

lemma prompt_all_holds: "keeps all_hold (prompt_all E x is)"
proof (induction "is")
  case (Cons i "is")
  have rest: "keeps all_hold (bind (prompt_all E x is) (\<lambda>rs. ret (reason # rs)))" for reason
    by (intro keeps_intro Cons)
  have "all_hold (snd (prompt_all E x (i # is) r))" if "all_hold r" for r
    using keepsD [OF rest keepsD [OF prompt_holds that]] by (simp add: split_beta)
  then show ?case by (simp add: keeps_def)
qed (simp add: keeps_def)

lemma poll_holds: "keeps all_hold (poll_children E sid n catalog)"
  by (induction n arbitrary: catalog) (auto intro!: keeps_intro call_holds)

lemma flags_hold:
  "keeps all_hold (modify (\<lambda>r. r\<lparr>rn_stop_files := fs r\<rparr>))" "keeps all_hold (modify (\<lambda>r. r\<lparr>rn_cleanup := b\<rparr>))"
  by (simp_all add: keeps_def modify_def all_hold_def)

lemma receive_holds: "keeps all_hold (on_follow i (receive_until L srv deadline stop))"
  by (intro on_follow_holds until_holds)

lemmas phase_holds = keeps_intro using_runner_keeps record_keeps the_follow_keeps step_holds call_holds
  create_many_holds prompt_all_holds poll_holds flags_hold receive_holds

lemma pure_holds: "(\<And>s. snd (m s) = s) \<Longrightarrow> holding m"
  by (simp add: keeps_def)

text \<open>Every phase but the one that announces a question; only the workflow passes a guard.\<close>

lemma other_phase_holds:
  assumes none: "ok None" and guard: "ph = Workflow \<Longrightarrow> ok (Some (unchanged C))" and ph: "ph \<noteq> Advanced"
  shows "holding (run_phase E C ph)"
proof (cases ph)
  case Workflow
  then have ok: "ok (Some (unchanged C))" by (rule guard)
  show ?thesis unfolding run_phase_def
    by (simp add: Workflow workflow_def plan_stage_def build_stage_def [abs_def]) (intro phase_holds ok)
next
  case Image
  then show ?thesis unfolding run_phase_def
    by (simp add: image_check_def) (intro phase_holds pure_holds; simp split: prod.split sum.split)
next
  case Coordination
  then show ?thesis unfolding run_phase_def by (simp add: coordination_def) (intro phase_holds none)
qed (simp add: ph | simp add: run_phase_def smoke_def parallel_def cancel_def reasoning_check_def, intro phase_holds)+

end

context phase_invariant begin

lemma advanced_holds: "ok None \<Longrightarrow> holding (advanced E C)"
  unfolding advanced_def by (intro phase_holds announce_holds)

lemma run_phase_holds:
  assumes "ok None" and "ph = Workflow \<Longrightarrow> ok (Some (unchanged C))"
  shows "holding (run_phase E C ph)"
  using other_phase_holds [of ph C E] advanced_holds [of E C] assms
  by (cases "ph = Advanced") (simp_all add: run_phase_def)

end

text \<open>Only the workflow approves a review, and only the advanced phase answers a question.\<close>

lemma phase_unapproved:
  assumes "run_phase E C ph (runner_init, []) = (result, (r, cs))" and "ph \<noteq> Workflow"
  shows "list_all unapproved (rn_follows r)"
  using keepsD [OF unapproved_run.run_phase_holds, of ph C "(runner_init, [])" E] assms
  by (simp add: unapproved_run.all_hold_def runner_init_def)

lemma phase_unasked:
  assumes "run_phase E C ph (runner_init, []) = (result, (r, cs))" and "ph \<noteq> Advanced"
  shows "list_all unasked (rn_follows r)"
  using keepsD [OF unasked_run.other_phase_holds, of ph "(runner_init, [])" E C] assms
  by (simp add: unasked_run.all_hold_def runner_init_def)

end
