(* ===== verification/HarnessVerdict.thy ===== *)
theory HarnessVerdict
  imports HarnessProps
begin

text \<open>
  The verdict of \<^verbatim>\<open>harness-check.py\<close>: what a report that passed has established, and when it can
  pass although its phase did not end. The concrete run at the start drives a whole workflow
  phase through the model, from the frames of the WebSocket to the checks.
\<close>

section \<open>A concrete run\<close>

definition wf_event :: "int \<Rightarrow> string \<Rightarrow> pydict \<Rightarrow> pyval" where
  "wf_event n ty data = PDict [(''seq'', PInt n), (''type'', PStr ty), (''data'', PDict data)]"

definition wf_item :: "string \<Rightarrow> pydict \<Rightarrow> pyval" where
  "wf_item stream v = PDict [(''streamId'', PStr stream), (''type'', PStr ''item''), (''value'', PDict v)]"

definition wf_snapshot :: "int \<Rightarrow> pyval list \<Rightarrow> pyval" where
  "wf_snapshot n es = wf_item ''f'' [(''type'', PStr ''snapshot''), (''cursor'', PInt n),
     (''records'', PList (map (\<lambda>e. PDict [(''type'', PStr ''event''), (''event'', e)]) es))]"

definition wf_said :: "int \<Rightarrow> string \<Rightarrow> pyval" where
  "wf_said n said = wf_event n ''assistant/message'' [(''message'', PDict [(''content'', PList
     [PDict [(''type'', PStr ''text''), (''text'', PStr said)]])])]"

definition wf_end :: "int \<Rightarrow> pyval" where
  "wf_end n = wf_event n ''turn/end'' [(''reason'', PDict [(''kind'', PStr ''completed'')])]"

definition wf_review :: pyval where
  "wf_review = wf_item ''r'' [(''type'', PStr ''waterfall''), (''agentId'', PStr ''s''),
     (''event'', PStr ''user-questions/request''), (''eventId'', PStr ''e''),
     (''request'', PDict [(''questions'', PList [PDict [(''id'', PStr ''plan-review''),
        (''intent'', PDict [(''kind'', PStr ''plan-review''), (''approve'', PStr ''Approve'')]),
        (''options'', PList [PDict [(''label'', PStr ''Approve'')]]),
        (''detail'', PStr ''# price.py verify.py'')]])])]"

definition wf_lib :: pylib where
  "wf_lib = \<lparr>json_loads = map_of [(''a'', wf_snapshot 0 []), (''b'', wf_item ''r'' [(''type'', PStr ''ready''), (''clientId'', PStr ''c'')]),
       (''c'', wf_review), (''d'', wf_item ''f'' [(''type'', PStr ''event''), (''event'', wf_end 1)]),
       (''{}'', PDict [])],
     dumps = (\<lambda>_. []), dumps_ascii = (\<lambda>_. []), sha256 = (\<lambda>_. []), repr_of = (\<lambda>_. [])\<rparr>"

definition wf_server :: server where
  "wf_server earlier m args = Inr (PDict (if m = ''session/create'' then [(''sessionId'', PStr ''s'')]
     else [(''result'', PDict [(''kind'', PStr ''success'')])]))"

definition wf_env :: "unit env" where
  "wf_env = \<lparr>en_lib = wf_lib, en_server = wf_server, en_deadline = 9, en_connect = (\<lambda>_. Inr ()),
     en_feed = (\<lambda>n. if n = 0 then [(1, (), WsText ''a''), (1, (), WsText ''b''), (1, (), WsText ''c''), (1, (), WsText ''d'')]
        else [(1, (), WsText ''e'')]),
     en_uuid = (\<lambda>n. if n = 3 then ''r'' else ''f''), en_write = (\<lambda>_. Inr ()), en_cwd = ''w'', en_model = ''m'',
     en_reasoning = ''off''\<rparr>"

definition wf_scene :: "unit scene" where
  "wf_scene = \<lparr>sc_before = [(''price.py'', ''1''), (''verify.py'', ''2'')], sc_after = [(''price.py'', ''3''), (''verify.py'', ''2'')],
     sc_names = [], sc_disk = (\<lambda>_. [(''price.py'', ''1''), (''verify.py'', ''2'')]), sc_exit = Inr 0, sc_polls = 0,
     sc_python = ''python'', sc_question = [], sc_page = PNone, sc_drawn = []\<rparr>"

lemma wf_run:
  "case run_phase wf_env wf_scene Workflow (runner_init, []) of
     (result, (r, cs)) \<Rightarrow> result = Inr () \<and> recorded ''plan_review_approved'' True cs"
  by code_simp

section \<open>Reviews\<close>

text \<open>
  When the workflow phase records the plan review as approved, its session had exactly one
  review: approved, with the fixture unchanged at that moment and a plan in scope; and at most
  one call of the follower granted anything.
\<close>

lemma workflow_approved_once:
  assumes run: "run_phase E C Workflow (runner_init, []) = (Inr (), (r, cs))"
    and approved: "recorded ''plan_review_approved'' True cs"
  shows "\<exists>f \<in> set (rn_follows r). length (filter grants (calls f)) \<le> 1
    \<and> (\<exists>v. plan_reviews f = [v] \<and> approved v \<and> fixture_unchanged v \<and> plan_scope_valid v)"
proof -
  have wf: "workflow E C (runner_init, []) = (Inr (), (r, cs))" using run by (simp add: run_phase_def)
  obtain i reason x b where i: "has_follow i r"
    and cs: "cs = add_checks (build_stage_checks C reason x (rn_follows r ! i))
        (add_checks [(''subagent_real_model_evidence'', b)] (add_checks (plan_stage_checks (rn_follows r ! i)) []))"
    using workflow_run [OF wf] by blast
  let ?f = "rn_follows r ! i"
  have f: "?f \<in> set (rn_follows r)" using i by (simp add: has_follow_def)
  have "recorded ''plan_review_approved'' (length (plan_reviews ?f) = 1 \<and> approved (hd (plan_reviews ?f))) cs"
    unfolding cs by (simp add: added_other build_stage_checks_def added_recorded plan_stage_checks_def)
  then obtain v where v: "plan_reviews ?f = [v]" "approved v" using approved
    by (cases "plan_reviews ?f") auto
  have safe: "review_safe ?f" using reviewed.reachable_holds [OF phase_reaches [OF run]] f
    by (simp add: reviewed.all_hold_def list_all_iff)
  moreover have "question_answers ?f = []"
    using phase_unasked [OF run] f by (simp add: list_all_iff unasked_def)
  ultimately have "length (filter grants (calls ?f)) \<le> 1" "fixture_unchanged v" "plan_scope_valid v"
    using v by (auto simp: review_safe_def reviews_ok_def approvals_def)
  then show ?thesis using f v by blast
qed

theorem workflow_approved_once_witness:
  "\<exists>r :: unit runner. \<exists>f \<in> set (rn_follows r). \<exists>v. plan_reviews f = [v] \<and> approved v"
proof -
  obtain result r cs where run: "run_phase wf_env wf_scene Workflow (runner_init, []) = (result, (r, cs))"
    by (metis prod.exhaust)
  with wf_run have "run_phase wf_env wf_scene Workflow (runner_init, []) = (Inr (), (r, cs))"
    and "recorded ''plan_review_approved'' True cs" by auto
  from workflow_approved_once [OF this] show ?thesis by blast
qed

text \<open>
  C19. What each phase may grant. In every phase, whether it ended or raised, a session has at
  most one approved review, which is its first one, and it was approved with the fixture
  unchanged and a plan in scope; at most one question is answered, and no call grants more than
  these. A review is approved in the workflow phase only, a question answered in the advanced
  phase only: in all the other phases no call of any follower grants anything.
\<close>

theorem phase_reviews_safe:
  assumes "run_phase E C ph (runner_init, []) = (result, (r, cs))"
  shows "list_all (\<lambda>f. list_all (\<lambda>v. \<not> approved v) (tl (plan_reviews f))
      \<and> list_all (\<lambda>v. \<not> approved v \<or> ph = Workflow \<and> fixture_unchanged v \<and> plan_scope_valid v) (plan_reviews f)
      \<and> length (question_answers f) \<le> (if ph = Advanced then 1 else 0)
      \<and> length (filter grants (calls f)) \<le> length (question_answers f) + length (filter approved (plan_reviews f))
      \<and> (ph = Workflow \<or> ph = Advanced \<or> filter grants (calls f) = [])) (rn_follows r)"
proof -
  have safe: "review_safe f" if "f \<in> set (rn_follows r)" for f
    using reviewed.reachable_holds [OF phase_reaches [OF assms]] that
    by (simp add: reviewed.all_hold_def list_all_iff)
  have none: "list_all (\<lambda>v. \<not> approved v) (plan_reviews f)" if "f \<in> set (rn_follows r)" "ph \<noteq> Workflow" for f
    using phase_unapproved [OF assms that(2)] that(1) by (simp add: list_all_iff unapproved_def)
  have asked: "question_answers f = []" if "f \<in> set (rn_follows r)" "ph \<noteq> Advanced" for f
    using phase_unasked [OF assms that(2)] that(1) by (simp add: list_all_iff unasked_def)
  show ?thesis unfolding list_all_iff [of _ "rn_follows r"]
  proof (rule ballI, goal_cases)
    case (1 f)
    then have few: "length (filter grants (calls f)) \<le> length (question_answers f) + approvals (plan_reviews f)"
      using safe by (simp add: review_safe_def)
    have "ph \<noteq> Workflow \<Longrightarrow> approvals (plan_reviews f) = 0"
      using none [OF 1] by (simp add: approvals_def list_all_iff)
    with few asked [OF 1] have "ph = Workflow \<or> ph = Advanced \<or> filter grants (calls f) = []" by fastforce
    with 1 few safe [of f] none [of f] asked [of f] show ?case
      by (auto simp: review_safe_def reviews_ok_def approvals_def list_all_iff)
  qed
qed

theorem phase_reviews_safe_witness:
  "\<exists>result r cs f v. run_phase wf_env wf_scene Workflow (runner_init, []) = (result, (r, cs))
     \<and> f \<in> set (rn_follows r) \<and> plan_reviews f = [v] \<and> approved v \<and> fixture_unchanged v
     \<and> question_answers f = [] \<and> length (filter grants (calls f)) = 1"
proof -
  obtain result r cs where run: "run_phase wf_env wf_scene Workflow (runner_init, []) = (result, (r, cs))"
    by (metis prod.exhaust)
  have "case rn_follows (fst (snd (run_phase wf_env wf_scene Workflow (runner_init, [])))) of
      [] \<Rightarrow> False | f # fs \<Rightarrow> map approved (plan_reviews f) = [True] \<and> length (filter grants (calls f)) = 1"
    by code_simp
  then obtain f fs where r: "rn_follows r = f # fs" and f: "map approved (plan_reviews f) = [True]"
    "length (filter grants (calls f)) = 1" by (auto simp: run split: list.splits)
  obtain v where v: "plan_reviews f = [v]" "approved v" using f(1) by (cases "plan_reviews f") auto
  have "fixture_unchanged v" "question_answers f = []"
    using phase_reviews_safe [OF run] v by (simp_all add: r)
  then show ?thesis using run r f(2) v by (metis list.set_intros(1))
qed

section \<open>Cleanup\<close>

text \<open>
  C4. No session is leaked: after any phase, whether it ended or raised, the cleanup returns and
  has asked the server to cancel every session the server created for this run, even when
  earlier requests of the cleanup fail.
\<close>

theorem phase_leaks_no_session:
  assumes "run_phase E C ph (runner_init, []) = (result, (r, cs))" and "fair E"
  shows "\<exists>errs t. cleanup E r = (Inr errs, t)
    \<and> (\<forall>sid \<in> set (created E (rn_calls r)). cancel_call sid \<in> set (drop (length (rn_calls r)) (rn_calls t)))"
  using cleanup_covers [OF phase_reaches [OF assms(1)] assms(2)] by blast

theorem phase_leaks_no_session_witness:
  "\<exists>r errs t. PStr ''s1'' \<in> set (created demo_env (rn_calls r)) \<and> cleanup demo_env r = (Inr errs, t)
     \<and> cancel_call (PStr ''s1'') \<in> set (rn_calls t)"
proof -
  obtain result r cs where run: "run_phase demo_env wf_scene Smoke (runner_init, []) = (result, (r, cs))"
    by (metis prod.exhaust)
  have "created demo_env (rn_calls (fst (snd (run_phase demo_env wf_scene Smoke (runner_init, []))))) = [PStr ''s1'']"
    by code_simp
  then have "PStr ''s1'' \<in> set (created demo_env (rn_calls r))" by (simp add: run)
  with phase_leaks_no_session [OF run demo_env_fair] show ?thesis using in_set_dropD by fastforce
qed

section \<open>The report\<close>

lemma closing_distinct: "distinct (map fst (closing_checks E fs errs))"
  by (simp add: closing_checks_def)

lemma conclude_cases:
  assumes "conclude E ph fin result r cs = Some rep"
  obtains monitor_error cs1 errs t where "close_proxy ph fin cs = Some (monitor_error, cs1)"
    and "cleanup E r = (Inr errs, t)"
    and "or_checks rep = add_checks (closing_checks E (rn_follows t) errs) cs1"
    and "or_follows rep = map summary (rn_follows t)" and "or_monitor_error rep = monitor_error"
    and "or_error rep = (case result of Inl e \<Rightarrow> is_exception (exc_kind e) | Inr _ \<Rightarrow> False)"
    and "or_passed rep = (checks_pass (or_checks rep) \<and> \<not> or_error rep \<and> \<not> monitor_error)"
  using assms unfolding conclude_def Let_def
  by (auto split: option.splits prod.splits sum.splits)

text \<open>What the gateway's counters showed when all proxy checks hold.\<close>

definition gateway_sound :: "phase_name \<Rightarrow> proxy_report \<Rightarrow> bool" where
  "gateway_sound ph p \<longleftrightarrow> px_peak p \<le> 4 \<and> px_errors p = []
     \<and> (\<exists>a. getitem (px_after p) ''active'' = Inr a \<and> eq_int a 0)
     \<and> (\<exists>n. delta_of p ''failed'' = Inr n \<and> (if ph = Cancel \<or> ph = Coordination
          then delta_of p ''cancelled'' = Inr n \<and> n \<le> 1 \<and> delta_of p ''rejected'' = Inr 0 else n = 0))"

lemma proxy_checks_run:
  assumes "proxy_checks ph p cs = (Inr u, ds)"
  shows "(\<exists>a. getitem (px_after p) ''active'' = Inr a) \<and> (\<exists>failed. delta_of p ''failed'' = Inr failed \<and>
    (let cs1 = add_checks [(''proxy_idle_after_run'', eq_int (projr (getitem (px_after p) ''active'')) 0)] (add_checks
         [(''proxy_capacity_held'', px_peak p \<le> 4), (''management_responsive'', px_errors p = [])] cs) in
     if ph = Cancel \<or> ph = Coordination then \<exists>cancelled rejected.
       delta_of p ''cancelled'' = Inr cancelled \<and> delta_of p ''rejected'' = Inr rejected
       \<and> ds = add_checks [(''only_expected_proxy_cancellation'', failed = cancelled \<and> cancelled \<le> 1 \<and> rejected = 0)] cs1
     else ds = add_checks [(''no_proxy_failures'', failed = 0)] cs1))"
  using assms unfolding proxy_checks_def andthen_def bind_Inr_iff Let_def
  by (auto simp: act_run bind_Inr_iff split: if_splits)

lemma proxy_sound:
  assumes close: "close_proxy ph fin cs = Some (False, ds)"
    and pass: "\<And>k b. recorded k b ds \<Longrightarrow> k \<notin> {''no_sequence_errors'', ''all_model_routes_local'', ''cleanup_completed''} \<Longrightarrow> b"
  shows "\<exists>p. fin = Inr p \<and> gateway_sound ph p"
proof -
  obtain p where fin: "fin = Inr p" and run: "proxy_checks ph p cs = (Inr (), ds)"
    using close by (cases fin) (auto simp: close_proxy_def act_run split: prod.splits sum.splits if_splits)
  obtain failed cs1 a where failed: "delta_of p ''failed'' = Inr failed"
    and active: "getitem (px_after p) ''active'' = Inr a"
    and cs1: "cs1 = add_checks [(''proxy_idle_after_run'', eq_int (projr (getitem (px_after p) ''active'')) 0)] (add_checks
         [(''proxy_capacity_held'', px_peak p \<le> 4), (''management_responsive'', px_errors p = [])] cs)"
    and rest: "if ph = Cancel \<or> ph = Coordination then \<exists>cancelled rejected.
       delta_of p ''cancelled'' = Inr cancelled \<and> delta_of p ''rejected'' = Inr rejected
       \<and> ds = add_checks [(''only_expected_proxy_cancellation'', failed = cancelled \<and> cancelled \<le> 1 \<and> rejected = 0)] cs1
     else ds = add_checks [(''no_proxy_failures'', failed = 0)] cs1"
    using proxy_checks_run [OF run] by (fastforce simp: Let_def)
  have first: "recorded ''proxy_capacity_held'' (px_peak p \<le> 4) ds" "recorded ''management_responsive'' (px_errors p = []) ds"
    "recorded ''proxy_idle_after_run'' (eq_int a 0) ds"
    using rest active by (auto simp: cs1 added_other added_recorded split: if_splits)
  have last: "if ph = Cancel \<or> ph = Coordination
    then delta_of p ''cancelled'' = Inr failed \<and> failed \<le> 1 \<and> delta_of p ''rejected'' = Inr 0 else failed = 0"
  proof (cases "ph = Cancel \<or> ph = Coordination")
    case True
    with rest obtain c d where c: "delta_of p ''cancelled'' = Inr c" "delta_of p ''rejected'' = Inr d"
      and ds: "ds = add_checks [(''only_expected_proxy_cancellation'', failed = c \<and> c \<le> 1 \<and> d = 0)] cs1" by auto
    have "recorded ''only_expected_proxy_cancellation'' (failed = c \<and> c \<le> 1 \<and> d = 0) ds"
      unfolding ds by (rule added_recorded) simp_all
    from pass [OF this] True c show ?thesis by simp
  next
    case False
    then have ds: "ds = add_checks [(''no_proxy_failures'', failed = 0)] cs1" using rest by simp
    have "recorded ''no_proxy_failures'' (failed = 0) ds" unfolding ds by (rule added_recorded) simp_all
    from pass [OF this] False show ?thesis by simp
  qed
  show ?thesis using fin failed active last pass [OF first(1)] pass [OF first(2)] pass [OF first(3)]
    by (auto simp: gateway_sound_def)
qed

text \<open>
  The smoke phase interrupted while its prompt is sent, with an idle gateway: nothing was
  asked of the model, and the report passes.
\<close>

definition int_env :: "unit env" where
  "int_env = wf_env\<lparr>en_server := (\<lambda>earlier m args. if m = ''session/prompt'' then Inl (Exc KeyboardInterrupt [])
     else wf_server earlier m args)\<rparr>"

definition idle_proxy :: proxy_report where
  "idle_proxy = \<lparr>px_before = PNone, px_after = PDict [(''active'', PInt 0)], px_delta = [(''failed'', 0)],
     px_samples = [], px_errors = [], px_peak = 0, px_ms = 0\<rparr>"

lemma int_run: "fst (run_phase int_env wf_scene Smoke (runner_init, [])) = Inl (Exc KeyboardInterrupt [])"
  by code_simp

lemma int_state:
  "snd (snd (run_phase int_env wf_scene Smoke (runner_init, []))) = []
   \<and> list_all (\<lambda>f. turn_ends f = []) (rn_follows (fst (snd (run_phase int_env wf_scene Smoke (runner_init, [])))))"
  by code_simp

lemma int_passes: "case snd (run_phase int_env wf_scene Smoke (runner_init, [])) of
    (r, cs) \<Rightarrow> \<exists>rep. conclude int_env Smoke (Inr idle_proxy) (Inr ()) r cs = Some rep \<and> or_passed rep"
proof -
  have "case snd (run_phase int_env wf_scene Smoke (runner_init, [])) of
    (r, cs) \<Rightarrow> map_option or_passed (conclude int_env Smoke (Inr idle_proxy) (Inr ()) r cs) = Some True"
    by code_simp
  then show ?thesis by (auto split: prod.splits)
qed

text \<open>A smoke phase that ends: one chunk, the reply with its marker, the end of the turn.\<close>

definition smoke_lib :: pylib where
  "smoke_lib = wf_lib\<lparr>json_loads := map_of [(''a'', wf_snapshot 0 []),
     (''b'', wf_item ''f'' [(''type'', PStr ''assistant-stream''), (''frame'', PDict [(''attemptId'', PStr ''t''),
        (''type'', PStr ''chunk''), (''index'', PInt 0)])]),
     (''c'', wf_item ''f'' [(''type'', PStr ''assistant-stream''), (''frame'', PDict [(''attemptId'', PStr ''t''),
        (''type'', PStr ''end''), (''index'', PInt 1)])]),
     (''d'', wf_item ''f'' [(''type'', PStr ''event''), (''event'', wf_said 1 ''UART2LLM_HARNESS_SMOKE_OK'')]),
     (''e'', wf_item ''f'' [(''type'', PStr ''event''), (''event'', wf_end 2)])]\<rparr>"

definition smoke_env :: "unit env" where
  "smoke_env = wf_env\<lparr>en_lib := smoke_lib, en_feed := (\<lambda>_. map (\<lambda>x. (1, (), WsText x)) [''a'', ''b'', ''c'', ''d'', ''e''])\<rparr>"

lemma smoke_passes: "\<exists>rep. harness_run smoke_env wf_scene Smoke (Inr idle_proxy) = Some rep \<and> or_passed rep"
proof -
  have "map_option or_passed (harness_run smoke_env wf_scene Smoke (Inr idle_proxy)) = Some True" by code_simp
  then show ?thesis by auto
qed

text \<open>
  C3. A report that passed: the gateway never held more than four requests, answered every
  poll and was idle in the end. No request failed; in the phases Cancel and Coordination at
  most one did, and it was the cancelled one. At least one session was followed, none of them
  missed an event, and every model route an event carries is the local gateway with the chosen
  model. No exception was recorded, and the cleanup of the phase's own final state returned
  without a single error; the sessions it left are those of the report.
\<close>

theorem passed_report_sound:
  assumes run: "harness_run E C ph fin = Some rep" and passed: "or_passed rep"
  shows "(\<exists>p. fin = Inr p \<and> gateway_sound ph p) \<and> or_follows rep \<noteq> []
    \<and> list_all (\<lambda>f. sum_gaps f = [] \<and> list_all (local_route (en_model E)) (sum_events f)) (or_follows rep)
    \<and> \<not> or_error rep
    \<and> (\<exists>result r cs t. run_phase E C ph (runner_init, []) = (result, (r, cs))
         \<and> cleanup E r = (Inr [], t) \<and> or_follows rep = map summary (rn_follows t))"
proof -
  obtain result r cs where phase: "run_phase E C ph (runner_init, []) = (result, (r, cs))"
    and "conclude E ph fin result r cs = Some rep"
    using run by (auto simp: harness_run_def split: prod.splits)
  then obtain monitor_error cs1 errs t where close: "close_proxy ph fin cs = Some (monitor_error, cs1)"
    and clean: "cleanup E r = (Inr errs, t)"
    and checks: "or_checks rep = add_checks (closing_checks E (rn_follows t) errs) cs1"
    and follows: "or_follows rep = map summary (rn_follows t)"
    and pass: "or_passed rep = (checks_pass (or_checks rep) \<and> \<not> or_error rep \<and> \<not> monitor_error)"
    by (elim conclude_cases)
  have all: "checks_pass (or_checks rep)" and err: "\<not> or_error rep" "\<not> monitor_error" using passed pass by auto
  have low: "b" if "recorded k b cs1" "k \<notin> {''no_sequence_errors'', ''all_model_routes_local'', ''cleanup_completed''}" for k b
    using that pass_recorded [OF all] added_other [of k "closing_checks E (rn_follows t) errs" cs1]
    by (simp add: checks closing_checks_def)
  have "close_proxy ph fin cs = Some (False, cs1)" using close err(2) by simp
  then have "\<exists>p. fin = Inr p \<and> gateway_sound ph p" by (rule proxy_sound) (rule low)
  moreover note f = pass_added [OF all [unfolded checks] closing_distinct]
  have "list_all (\<lambda>f. gaps f = []) (rn_follows t)"
    by (rule f [of "''no_sequence_errors''"]) (simp add: closing_checks_def)
  moreover have "rn_follows t \<noteq> [] \<and> list_all (\<lambda>f. list_all (local_route (en_model E)) (events f)) (rn_follows t)"
    by (rule f [of "''all_model_routes_local''"]) (simp add: closing_checks_def)
  moreover have "errs = []" by (rule f [of "''cleanup_completed''"]) (simp add: closing_checks_def)
  ultimately show ?thesis using err(1) phase clean by (simp add: follows summary_def list_all_iff)
qed

theorem passed_report_sound_witness:
  "gateway_sound Smoke idle_proxy
   \<and> (\<exists>result r cs t. run_phase smoke_env wf_scene Smoke (runner_init, []) = (result, (r, cs))
        \<and> cleanup smoke_env r = (Inr [], t) \<and> rn_follows t \<noteq> [])"
proof -
  obtain rep where "harness_run smoke_env wf_scene Smoke (Inr idle_proxy) = Some rep" "or_passed rep"
    using smoke_passes by blast
  from passed_report_sound [OF this] show ?thesis by fastforce
qed

lemma interrupted_phase_concluded:
  assumes "\<not> is_exception (exc_kind e)"
  shows "conclude E ph fin (Inl e) r cs = conclude E ph fin (Inr ()) r cs"
  using assms by (auto simp: conclude_def Let_def split: option.split prod.split sum.split)

text \<open>
  An interrupted run can pass: \<^verbatim>\<open>except Exception\<close> does not see a \<^verbatim>\<open>KeyboardInterrupt\<close>, and the
  closing clause computes the verdict from the checks there are. Here the smoke phase is
  interrupted while its prompt is sent; no check of the phase is recorded, the model has
  answered nothing, and yet the report says passed.
\<close>

lemma interrupted_phase_passes:
  "\<exists>r rep. run_phase int_env wf_scene Smoke (runner_init, []) = (Inl (Exc KeyboardInterrupt []), (r, []))
    \<and> harness_run int_env wf_scene Smoke (Inr idle_proxy) = Some rep \<and> or_passed rep
    \<and> list_all (\<lambda>f. turn_ends f = []) (rn_follows r)"
proof -
  obtain r cs where run: "run_phase int_env wf_scene Smoke (runner_init, []) = (Inl (Exc KeyboardInterrupt []), (r, cs))"
    using int_run by (metis prod.exhaust fst_conv)
  have empty: "cs = []" "list_all (\<lambda>f. turn_ends f = []) (rn_follows r)" using int_state by (simp_all add: run)
  obtain rep where rep: "conclude int_env Smoke (Inr idle_proxy) (Inr ()) r cs = Some rep" "or_passed rep"
    using int_passes run by auto
  have "conclude int_env Smoke (Inr idle_proxy) (Inl (Exc KeyboardInterrupt [])) r cs = Some rep"
    using rep(1) interrupted_phase_concluded [of "Exc KeyboardInterrupt []" int_env Smoke "Inr idle_proxy" r cs]
    by (simp add: is_exception_def)
  then show ?thesis using run empty rep(2) by (auto simp: harness_run_def)
qed

end
