(* ===== verification/Observer.thy ===== *)
theory Observer
  imports PyText
begin

text \<open>
  The observation server of \<^verbatim>\<open>scripts/opencode-check.py\<close>: admission of a request under
  the lock, the exchange with the gateway, and the completion that frees the slot. The
  gateway's answer arrives as data: a status, headers and a list of arrivals, each a chunk
  whose onward write may fail, or a failing read. The clock read for the \<^verbatim>\<open>n\<close>-th event of
  an exchange is \<^verbatim>\<open>clock n\<close>.
\<close>

section \<open>State\<close>

record tool_acc =
  acc_id :: string
  acc_name :: string
  acc_arguments :: "string option"
  acc_fragments :: nat
  acc_digest :: "(nat \<times> string \<times> bool) option"

record item =
  it_id :: nat
  it_phase :: string
  it_started :: rat
  it_request_bytes :: int
  it_request_sha :: string
  it_stream :: pyval
  it_cap :: int
  it_roles :: "pyval list"
  it_offered :: "pyval list"
  it_result_ids :: "pyval list"
  it_events :: nat
  it_response_bytes :: int
  it_done :: bool
  it_calls :: "(string \<times> tool_acc) list"
  it_reasoning :: nat
  it_status :: "nat option"
  it_retry_after :: "int option"
  it_header_seconds :: "rat option"
  it_first_event :: "rat option"
  it_usage :: "pyval option"
  it_finish :: "pyval option"
  it_error_codes :: pydict
  it_error :: "string option"
  it_response_sha :: "string option"
  it_seconds :: "rat option"

record rejection =
  rej_phase :: string
  rej_status :: nat
  rej_reason :: string

record observer =
  ob_token :: string
  ob_client_token :: string
  ob_limit :: nat
  ob_cap :: int
  ob_requests :: "item list"
  ob_rejected :: "rejection list"
  ob_active :: int
  ob_peak :: int
  ob_phase :: string
  ob_deadline :: rat

definition observer_init :: "string \<Rightarrow> string \<Rightarrow> nat \<Rightarrow> int \<Rightarrow> rat \<Rightarrow> observer" where
  "observer_init token client_token limit output_cap now = \<lparr>ob_token = token,
     ob_client_token = client_token, ob_limit = limit, ob_cap = output_cap, ob_requests = [],
     ob_rejected = [], ob_active = 0, ob_peak = 0, ob_phase = ''prepare'', ob_deadline = now + 1200\<rparr>"

definition MODEL :: string where
  "MODEL = ''deepseek-flash''"

section \<open>Admission\<close>

record post =
  post_path :: string
  post_auth :: "string option"
  post_length :: "string option"
  post_encoding :: "string option"
  post_raw :: string

datatype admission = Rejected nat string | Admitted item

definition reject :: "nat \<Rightarrow> string \<Rightarrow> (observer, admission) act" where
  "reject c reason = andthen
     (modify (\<lambda>o'. o'\<lparr>ob_rejected := ob_rejected o' @
        [\<lparr>rej_phase = ob_phase o', rej_status = c, rej_reason = reason\<rparr>]\<rparr>))
     (ret (Rejected c reason))"

text \<open>
  The cap and the model test. \<^verbatim>\<open>None\<close> stands for the \<^verbatim>\<open>except (ValueError, TypeError)\<close>
  branch; any other exception leaves the handler.
\<close>

definition read_payload :: "pylib \<Rightarrow> int \<Rightarrow> string \<Rightarrow> (pyval \<times> int) option option res" where
  "read_payload L cap_limit raw =
     (case rbind (loads L raw) (\<lambda>payload.
        rbind (pyget payload ''max_completion_tokens'' (PInt 0)) (\<lambda>fallback.
        rbind (pyget payload ''max_tokens'' fallback) (\<lambda>cap.
        rbind (pyget payload ''model'' PNone) (\<lambda>model.
        Inr (case int_of cap of
            Some n \<Rightarrow> if model \<noteq> PStr MODEL \<or> \<not> (0 < n \<and> n \<le> cap_limit) then None else Some (payload, n)
          | None \<Rightarrow> None))))) of
        Inr v \<Rightarrow> Inr (Some v)
      | Inl e \<Rightarrow> if is_value_error (exc_kind e) \<or> exc_kind e = TypeError then Inr None else Inl e)"

definition role_of :: "pyval \<Rightarrow> pyval res" where
  "role_of m = pyget m ''role'' PNone"

definition tool_name_of :: "pyval \<Rightarrow> pyval res" where
  "tool_name_of t = rbind (pyget t ''function'' (PDict [])) (\<lambda>f. pyget f ''name'' PNone)"

fun result_ids :: "pyval list \<Rightarrow> pyval list res" where
  "result_ids [] = Inr []"
| "result_ids (m # ms) = rbind (role_of m) (\<lambda>r.
     rbind (if r = PStr ''tool'' then rbind (pyget m ''tool_call_id'' PNone) (\<lambda>i. Inr [i]) else Inr []) (\<lambda>xs.
     rbind (result_ids ms) (\<lambda>ys. Inr (xs @ ys))))"

definition make_item :: "pylib \<Rightarrow> observer \<Rightarrow> rat \<Rightarrow> int \<Rightarrow> string \<Rightarrow> pyval \<Rightarrow> int \<Rightarrow> item res" where
  "make_item L o' now len raw payload cap =
     rbind (pyget payload ''stream'' (PBool False)) (\<lambda>stream.
     rbind (rbind (pyget payload ''messages'' (PList [])) iterate) (\<lambda>messages.
     rbind (rmap role_of messages) (\<lambda>roles.
     rbind (rbind (pyget payload ''tools'' (PList [])) iterate) (\<lambda>offered.
     rbind (rmap tool_name_of offered) (\<lambda>names.
     rbind (result_ids messages) (\<lambda>ids.
     Inr \<lparr>it_id = length (ob_requests o') + 1, it_phase = ob_phase o', it_started = now,
       it_request_bytes = len, it_request_sha = sha256 L raw, it_stream = stream, it_cap = cap,
       it_roles = roles, it_offered = names, it_result_ids = ids, it_events = 0,
       it_response_bytes = 0, it_done = False, it_calls = [], it_reasoning = 0, it_status = None,
       it_retry_after = None, it_header_seconds = None, it_first_event = None, it_usage = None,
       it_finish = None, it_error_codes = [], it_error = None, it_response_sha = None,
       it_seconds = None\<rparr>))))))"

definition admit :: "pylib \<Rightarrow> rat \<Rightarrow> post \<Rightarrow> (observer, admission) act" where
  "admit L now p =
     bind (gets (\<lambda>o'. o')) (\<lambda>o'.
     if post_path p \<noteq> ''/v1/chat/completions'' then reject 404 ''only Chat Completions accepted''
     else if post_auth p \<noteq> Some (''Bearer '' @ ob_client_token o') then
       reject 401 ''observer authentication required''
     else
     bind (lift (case post_length p of None \<Rightarrow> Inr 0
       | Some t \<Rightarrow> (case py_int t of None \<Rightarrow> Inl (Exc ValueError ''value'') | Some n \<Rightarrow> Inr n))) (\<lambda>len.
     if (case post_encoding p of None \<Rightarrow> False | Some t \<Rightarrow> t \<noteq> []) \<or> \<not> (0 < len \<and> len \<le> 1024 * 1024) then
       reject 413 ''bounded Content-Length required''
     else
     bind (lift (read_payload L (ob_cap o') (post_raw p))) (\<lambda>checked.
     case checked of
       None \<Rightarrow> reject 400 ''invalid JSON or output cap''
     | Some None \<Rightarrow> reject 400 ''expected configured model and bounded integer output cap''
     | Some (Some (payload, cap)) \<Rightarrow>
         if ob_limit o' \<le> length (ob_requests o') \<or> ob_deadline o' \<le> now then
           reject 429 ''run request/time budget exhausted''
         else
         bind (lift (make_item L o' now len (post_raw p) payload cap)) (\<lambda>item.
         andthen (modify (\<lambda>o'. o'\<lparr>ob_requests := ob_requests o' @ [item],
            ob_active := ob_active o' + 1, ob_peak := max (ob_peak o') (ob_active o' + 1)\<rparr>))
         (ret (Admitted item))))))"

section \<open>One event line\<close>

text \<open>\<^verbatim>\<open>v or ''\<close> added to a string.\<close>

definition text_of :: "pyval \<Rightarrow> string res" where
  "text_of v = (if truthy v then (case v of PStr s \<Rightarrow> Inr s | _ \<Rightarrow> Inl (Exc TypeError ''type'')) else Inr [])"

definition new_acc :: tool_acc where
  "new_acc = \<lparr>acc_id = [], acc_name = [], acc_arguments = Some [], acc_fragments = 0, acc_digest = None\<rparr>"

definition update_acc :: "string \<Rightarrow> (tool_acc \<Rightarrow> tool_acc) \<Rightarrow> item \<Rightarrow> item" where
  "update_acc k f i = i\<lparr>it_calls := AList.update k
     (f (case map_of (it_calls i) k of None \<Rightarrow> new_acc | Some a \<Rightarrow> a)) (it_calls i)\<rparr>"

definition add_arguments :: "string \<Rightarrow> tool_acc \<Rightarrow> tool_acc" where
  "add_arguments t a = a\<lparr>acc_arguments := map_option (\<lambda>u. u @ t) (acc_arguments a)\<rparr>"

definition on_fragment :: "pylib \<Rightarrow> pyval \<Rightarrow> (item, unit) act" where
  "on_fragment L tool =
     bind (lift (getitem tool ''index'')) (\<lambda>index.
     let k = to_str L index in
     andthen (modify (update_acc k (\<lambda>a. a)))
    (bind (lift (rbind (pyget tool ''id'' PNone) text_of)) (\<lambda>i.
     andthen (modify (update_acc k (\<lambda>a. a\<lparr>acc_id := acc_id a @ i\<rparr>)))
    (bind (lift (rbind (pyget tool ''function'' (PDict [])) (\<lambda>f. rbind (pyget f ''name'' PNone) text_of))) (\<lambda>n.
     andthen (modify (update_acc k (\<lambda>a. a\<lparr>acc_name := acc_name a @ n\<rparr>)))
    (bind (lift (rbind (pyget tool ''function'' (PDict [])) (\<lambda>f. rbind (pyget f ''arguments'' PNone) text_of))) (\<lambda>t.
     modify (update_acc k (\<lambda>a. (add_arguments t a)\<lparr>acc_fragments := acc_fragments a + 1\<rparr>)))))))))"

definition on_choice :: "pylib \<Rightarrow> pyval \<Rightarrow> (item, unit) act" where
  "on_choice L choice =
     bind (lift (pyget choice ''finish_reason'' PNone)) (\<lambda>finish.
     andthen (when_do (truthy finish) (modify (\<lambda>i. i\<lparr>it_finish := Some finish\<rparr>)))
    (bind (lift (pyget choice ''delta'' (PDict []))) (\<lambda>delta.
     bind (lift (rbind (pyget delta ''reasoning_content'' PNone) (\<lambda>r.
       case py_or r (PStr []) of PStr t \<Rightarrow> Inr t | _ \<Rightarrow> Inl (Exc AttributeError ''encode'')))) (\<lambda>reasoning.
     andthen (modify (\<lambda>i. i\<lparr>it_reasoning := it_reasoning i + length reasoning\<rparr>))
    (bind (lift (rbind (pyget delta ''tool_calls'' (PList [])) iterate)) (\<lambda>fragments.
     for_each fragments (on_fragment L)))))))"

definition on_event :: "pylib \<Rightarrow> pyval \<Rightarrow> (item, unit) act" where
  "on_event L event =
     bind (lift (pyget event ''usage'' PNone)) (\<lambda>usage.
     andthen (when_do (truthy usage) (modify (\<lambda>i. i\<lparr>it_usage := Some usage\<rparr>)))
    (bind (lift (rbind (pyget event ''choices'' (PList [])) iterate)) (\<lambda>choices.
     for_each choices (on_choice L))))"

definition on_line :: "pylib \<Rightarrow> (nat \<Rightarrow> rat) \<Rightarrow> string \<Rightarrow> (item, unit) act" where
  "on_line L clock line =
     (if \<not> prefix ''data:'' line then ret ()
      else let value = bstrip (drop 5 line) in
      if value = ''[DONE]'' then modify (\<lambda>i. i\<lparr>it_done := True\<rparr>)
      else
      bind (lift (loads L value)) (\<lambda>event.
      andthen (modify (\<lambda>i. i\<lparr>it_events := it_events i + 1,
        it_first_event := (case it_first_event i of None \<Rightarrow> Some (clock (it_events i) - it_started i)
          | Some t \<Rightarrow> Some t)\<rparr>))
      (on_event L event)))"

section \<open>The exchange\<close>

datatype arrival = Chunk string "exc option" | Broken exc

datatype upstream =
    Unreachable exc
  | Response nat "string option" "(string \<times> string) list" "arrival list"

record exchange =
  ex_item :: item
  ex_bytes :: int
  ex_head :: "(nat \<times> (string \<times> string) list) option"
  ex_wire :: string
  ex_seen :: string
  ex_errors :: string
  ex_buffer :: string

definition on_item :: "(item, 'a) act \<Rightarrow> (exchange, 'a) act" where
  "on_item m x = (case m (ex_item x) of (r, i) \<Rightarrow> (r, x\<lparr>ex_item := i\<rparr>))"

definition crlf2 :: string where
  "crlf2 = [CHR 0x0D, CHR 0x0A]"

definition frame_of :: "string \<Rightarrow> string" where
  "frame_of chunk = hex_of (length chunk) @ crlf2 @ chunk @ crlf2"

definition last_frame :: string where
  "last_frame = ''0'' @ crlf2 @ crlf2"

definition MAX_RESPONSE :: int where
  "MAX_RESPONSE = 4 * 1024 * 1024"

definition take_chunk :: "pylib \<Rightarrow> (nat \<Rightarrow> rat) \<Rightarrow> nat \<Rightarrow> string \<Rightarrow> exc option \<Rightarrow> (exchange, unit) act" where
  "take_chunk L clock status chunk fault =
     andthen (modify (\<lambda>x. x\<lparr>ex_bytes := ex_bytes x + int (length chunk)\<rparr>))
    (bind (gets (\<lambda>x. MAX_RESPONSE < ex_bytes x)) (\<lambda>over.
     if over then raise RuntimeError ''response observation bound exceeded''
     else
     andthen (modify (\<lambda>x. x\<lparr>ex_seen := ex_seen x @ chunk, ex_errors :=
       (if status \<noteq> 200 \<and> int (length (ex_errors x)) < 65536
        then ex_errors x @ take (nat (65536 - int (length (ex_errors x)))) chunk else ex_errors x)\<rparr>))
    (andthen (lift (case fault of None \<Rightarrow> Inr () | Some e \<Rightarrow> Inl e))
    (andthen (modify (\<lambda>x. x\<lparr>ex_wire := ex_wire x @ frame_of chunk\<rparr>))
    (bind (gets ex_buffer) (\<lambda>buf.
     bind (on_item (absorb (on_line L clock) buf chunk)) (\<lambda>t.
     modify (\<lambda>x. x\<lparr>ex_buffer := t\<rparr>))))))))"

definition take_arrival :: "pylib \<Rightarrow> (nat \<Rightarrow> rat) \<Rightarrow> nat \<Rightarrow> arrival \<Rightarrow> (exchange, unit) act" where
  "take_arrival L clock status a = (case a of
     Chunk c fault \<Rightarrow> take_chunk L clock status c fault | Broken e \<Rightarrow> lift (Inl e))"

text \<open>\<^verbatim>\<open>error_metadata\<close>: machine codes only.\<close>

definition error_code_ok :: "pyval \<Rightarrow> bool" where
  "error_code_ok v \<longleftrightarrow> (case v of PStr s \<Rightarrow> fullmatch_class (alnum @ ''_.-'') 1 64 s | _ \<Rightarrow> False)"

definition error_metadata :: "pylib \<Rightarrow> string \<Rightarrow> pydict" where
  "error_metadata L raw =
     (case rbind (loads L raw) (\<lambda>v. pyget v ''error'' (PDict [])) of
        Inr (PDict d) \<Rightarrow> concat (map (\<lambda>k. case map_of d k of
            None \<Rightarrow> []
          | Some v \<Rightarrow> if error_code_ok v then [(''response_error_'' @ k, v)] else []) [''code'', ''type''])
      | _ \<Rightarrow> [])"

definition digest_acc :: "pylib \<Rightarrow> tool_acc \<Rightarrow> tool_acc" where
  "digest_acc L a = (case acc_arguments a of None \<Rightarrow> a
     | Some t \<Rightarrow> a\<lparr>acc_arguments := None,
         acc_digest := Some (length t, sha256 L t, json_loads L t \<noteq> None)\<rparr>)"

definition onward_headers :: "(string \<times> string) list \<Rightarrow> (string \<times> string) list" where
  "onward_headers hs =
     filter (\<lambda>(k, v). py_lower k \<notin> {''content-length'', ''transfer-encoding'', ''connection''}) hs
     @ [(''Transfer-Encoding'', ''chunked''), (''Connection'', ''close'')]"

definition retry_seconds :: "string option \<Rightarrow> int option res" where
  "retry_seconds h = (case h of None \<Rightarrow> Inr None
     | Some t \<Rightarrow> if py_isdigit t then
         (case py_int t of None \<Rightarrow> Inl (Exc ValueError ''value'') | Some n \<Rightarrow> Inr (Some n)) else Inr None)"

definition forward :: "pylib \<Rightarrow> (nat \<Rightarrow> rat) \<Rightarrow> rat \<Rightarrow> upstream \<Rightarrow> (exchange, unit) act" where
  "forward L clock header_time up = (case up of
     Unreachable e \<Rightarrow> lift (Inl e)
   | Response status retry hs arrivals \<Rightarrow>
       andthen (on_item (modify (\<lambda>i. i\<lparr>it_status := Some status\<rparr>)))
      (bind (lift (retry_seconds retry)) (\<lambda>seconds.
       andthen (on_item (modify (\<lambda>i. i\<lparr>it_retry_after := seconds, it_header_seconds := Some (header_time - it_started i)\<rparr>)))
      (andthen (modify (\<lambda>x. x\<lparr>ex_head := Some (status, onward_headers hs)\<rparr>))
      (andthen (for_each arrivals (take_arrival L clock status))
      (andthen (modify (\<lambda>x. x\<lparr>ex_wire := ex_wire x @ last_frame\<rparr>))
      (andthen (bind (gets ex_errors) (\<lambda>raw. on_item (when_do (status \<noteq> 200)
         (modify (\<lambda>i. i\<lparr>it_error_codes := error_metadata L raw\<rparr>)))))
      (on_item (modify (\<lambda>i. i\<lparr>it_calls := map (\<lambda>(k, a). (k, digest_acc L a)) (it_calls i)\<rparr>))))))))))"

definition exchange_init :: "item \<Rightarrow> exchange" where
  "exchange_init i = \<lparr>ex_item = i, ex_bytes = 0, ex_head = None, ex_wire = [], ex_seen = [], ex_errors = [], ex_buffer = []\<rparr>"

text \<open>
  The \<^verbatim>\<open>except\<close> and \<^verbatim>\<open>finally\<close> clauses: the finished item, and whether a 502 was sent.
\<close>

definition drop_arguments :: "tool_acc \<Rightarrow> tool_acc" where
  "drop_arguments a = a\<lparr>acc_arguments := None\<rparr>"

definition finish_item :: "pylib \<Rightarrow> rat \<Rightarrow> exchange \<Rightarrow> item" where
  "finish_item L end_time x = (ex_item x)\<lparr>it_response_bytes := ex_bytes x, it_response_sha := Some (sha256 L (ex_seen x)),
     it_seconds := Some (end_time - it_started (ex_item x)),
     it_calls := map (\<lambda>(k, a). (k, drop_arguments a)) (it_calls (ex_item x))\<rparr>"

definition run_exchange :: "pylib \<Rightarrow> (nat \<Rightarrow> rat) \<Rightarrow> rat \<Rightarrow> rat \<Rightarrow> upstream \<Rightarrow> item \<Rightarrow> exchange \<times> bool" where
  "run_exchange L clock header_time end_time up i =
     (case forward L clock header_time up (exchange_init i) of
        (Inr _, x) \<Rightarrow> (x\<lparr>ex_item := finish_item L end_time x\<rparr>, False)
      | (Inl e, x) \<Rightarrow>
          if is_exception (exc_kind e) then
            let x = x\<lparr>ex_item := (ex_item x)\<lparr>it_error := Some (class_name (exc_kind e))\<rparr>\<rparr>
            in (x\<lparr>ex_item := finish_item L end_time x\<rparr>, ex_head x = None)
          else (x\<lparr>ex_item := finish_item L end_time x\<rparr>, False))"

definition complete :: "pylib \<Rightarrow> (nat \<Rightarrow> rat) \<Rightarrow> rat \<Rightarrow> rat \<Rightarrow> upstream \<Rightarrow> nat \<Rightarrow> observer \<Rightarrow> observer" where
  "complete L clock header_time end_time up k o' =
     (let (x, refused) = run_exchange L clock header_time end_time up (ob_requests o' ! k);
          o' = (if refused then snd (reject 502 ''observation forwarding failed'' o') else o')
      in o'\<lparr>ob_requests := (ob_requests o')[k := ex_item x], ob_active := ob_active o' - 1\<rparr>)"

section \<open>Diagnostics\<close>

definition has_status :: "nat \<Rightarrow> item \<Rightarrow> bool" where
  "has_status n i \<longleftrightarrow> it_status i = Some n"

definition finish_in :: "string list \<Rightarrow> item \<Rightarrow> bool" where
  "finish_in rs i \<longleftrightarrow> (case it_finish i of Some (PStr r) \<Rightarrow> r \<in> set rs | _ \<Rightarrow> False)"

definition ids_where :: "(item \<Rightarrow> bool) \<Rightarrow> item list \<Rightarrow> nat list" where
  "ids_where p rs = map it_id (filter p rs)"

definition status_key :: "item \<Rightarrow> nat option" where
  "status_key i = it_status i"

record diagnostics =
  dg_counts :: "(nat option \<times> nat) list"
  dg_capacity :: "nat list"
  dg_length :: "nat list"
  dg_incomplete :: "nat list"
  dg_errors :: "nat list"
  dg_missing :: "nat list"

definition count_keys :: "'k list \<Rightarrow> ('k \<times> nat) list" where
  "count_keys ks = fold (\<lambda>k c. AList.update k (Suc (case map_of c k of None \<Rightarrow> 0 | Some n \<Rightarrow> n)) c) ks []"

definition request_diagnostics :: "item list \<Rightarrow> diagnostics" where
  "request_diagnostics rs = \<lparr>
     dg_counts = count_keys (map status_key rs),
     dg_capacity = ids_where (\<lambda>i. has_status 503 i
       \<and> map_of (it_error_codes i) ''response_error_code'' = Some (PStr ''capacity_exceeded'')) rs,
     dg_length = ids_where (finish_in [''length'']) rs,
     dg_incomplete = ids_where (\<lambda>i. has_status 200 i \<and> truthy (it_stream i) \<and> \<not> it_done i) rs,
     dg_errors = ids_where (\<lambda>i. it_error i \<noteq> None) rs,
     dg_missing = ids_where (\<lambda>i. has_status 200 i
       \<and> \<not> finish_in [''stop'', ''tool_calls'', ''length''] i) rs\<rparr>"

end
