(* ===== verification/ObserverProps.thy ===== *)
theory ObserverProps
  imports Observer
begin

text \<open>
  The observation server admits within its budget under every interleaving, counts what is
  in flight, passes the gateway's answer on unchanged, and reads it the same however the
  network cuts it into chunks.
\<close>

section \<open>Admission\<close>

text \<open>What a request must satisfy to reach the gateway.\<close>

definition admissible :: "pylib \<Rightarrow> rat \<Rightarrow> post \<Rightarrow> observer \<Rightarrow> item \<Rightarrow> bool" where
  "admissible L now p o' i \<longleftrightarrow>
     post_path p = ''/v1/chat/completions'' \<and> post_auth p = Some (''Bearer '' @ ob_client_token o')
     \<and> (\<exists>t. post_length p = Some t \<and> py_int t = Some (it_request_bytes i))
     \<and> 0 < it_request_bytes i \<and> it_request_bytes i \<le> 1048576
     \<and> (\<exists>d. json_loads L (post_raw p) = Some (PDict d) \<and> map_of d ''model'' = Some (PStr MODEL))
     \<and> 0 < it_cap i \<and> it_cap i \<le> ob_cap o'
     \<and> length (ob_requests o') < ob_limit o' \<and> now < ob_deadline o'
     \<and> it_id i = length (ob_requests o') + 1 \<and> it_phase i = ob_phase o'
     \<and> it_request_sha i = sha256 L (post_raw p) \<and> it_started i = now \<and> it_seconds i = None"

lemma make_item_fields:
  "make_item L o' now len raw payload cap = Inr i \<Longrightarrow>
     it_id i = length (ob_requests o') + 1 \<and> it_phase i = ob_phase o' \<and> it_started i = now
     \<and> it_request_bytes i = len \<and> it_request_sha i = sha256 L raw \<and> it_cap i = cap
     \<and> it_seconds i = None \<and> it_calls i = []"
  by (auto simp: make_item_def rbind_Inr_iff)

lemma read_payload_Some:
  "read_payload L most raw = Inr (Some (Some (payload, cap))) \<Longrightarrow>
     (\<exists>d. payload = PDict d \<and> json_loads L raw = Some (PDict d) \<and> map_of d ''model'' = Some (PStr MODEL))
     \<and> 0 < cap \<and> cap \<le> most"
proof (cases "json_loads L raw")
  case (Some v)
  moreover assume "read_payload L most raw = Inr (Some (Some (payload, cap)))"
  ultimately show ?thesis
    by (cases v) (auto simp: read_payload_def loads_def split: option.splits if_splits)
qed (simp add: read_payload_def loads_def is_value_error_def)

text \<open>
  Admission, on every branch: an admitted request satisfies every guard and is appended
  with its slot taken; a rejected one is recorded with one of the five reasons and nothing
  else changes; an exception changes nothing.
\<close>

lemma admit_exact:
  "case admit L now p o' of
     (Inr (Admitted i), o2) \<Rightarrow> admissible L now p o' i
       \<and> o2 = o'\<lparr>ob_requests := ob_requests o' @ [i], ob_active := ob_active o' + 1,
               ob_peak := max (ob_peak o') (ob_active o' + 1)\<rparr>
   | (Inr (Rejected c reason), o2) \<Rightarrow> c \<in> {400, 401, 404, 413, 429}
       \<and> o2 = o'\<lparr>ob_rejected := ob_rejected o' @ [\<lparr>rej_phase = ob_phase o', rej_status = c, rej_reason = reason\<rparr>]\<rparr>
   | (Inl e, o2) \<Rightarrow> o2 = o'"
proof -
  have rej: "reject c reason s = (Inr (Rejected c reason), s\<lparr>ob_rejected := ob_rejected s @
      [\<lparr>rej_phase = ob_phase s, rej_status = c, rej_reason = reason\<rparr>]\<rparr>)" for c reason s
    by (simp add: reject_def act_simps)
  define len where "len = (case post_length p of None \<Rightarrow> Inr 0
       | Some t \<Rightarrow> (case py_int t of None \<Rightarrow> Inl (Exc ValueError ''value'') | Some n \<Rightarrow> Inr n))"
  show ?thesis
  proof (cases "post_path p = ''/v1/chat/completions'' \<and> post_auth p = Some (''Bearer '' @ ob_client_token o')")
    case False
    then show ?thesis by (auto simp: admit_def act_run rej)
  next
    case ok: True
    show ?thesis
    proof (cases len)
      case (Inl e)
      with ok show ?thesis by (simp add: admit_def act_run len_def)
    next
      case len: (Inr n)
      show ?thesis
      proof (cases "(case post_encoding p of None \<Rightarrow> False | Some t \<Rightarrow> t \<noteq> []) \<or> \<not> (0 < n \<and> n \<le> 1024 * 1024)")
        case True
        with ok len show ?thesis by (simp add: admit_def act_run rej len_def)
      next
        case bounds: False
        have given: "\<exists>t. post_length p = Some t \<and> py_int t = Some n"
          using len bounds by (auto simp: len_def split: option.splits)
        note run = ok len [unfolded len_def] bounds
        consider e where "read_payload L (ob_cap o') (post_raw p) = Inl e"
          | "read_payload L (ob_cap o') (post_raw p) = Inr None"
          | "read_payload L (ob_cap o') (post_raw p) = Inr (Some None)"
          | payload cap where "read_payload L (ob_cap o') (post_raw p) = Inr (Some (Some (payload, cap)))"
          by (metis option.exhaust sum.exhaust prod.exhaust)
        then show ?thesis
        proof cases
          case (4 payload cap)
          note pay = read_payload_Some [OF 4]
          show ?thesis
          proof (cases "ob_limit o' \<le> length (ob_requests o') \<or> ob_deadline o' \<le> now")
            case True
            with run 4 show ?thesis by (auto simp: admit_def act_run rej)
          next
            case room: False
            show ?thesis
            proof (cases "make_item L o' now n (post_raw p) payload cap")
              case (Inl e)
              with run 4 room show ?thesis by (simp add: admit_def act_run)
            next
              case (Inr i)
              note fields = make_item_fields [OF Inr]
              have "admit L now p o' = (Inr (Admitted i), o'\<lparr>ob_requests := ob_requests o' @ [i],
                  ob_active := ob_active o' + 1, ob_peak := max (ob_peak o') (ob_active o' + 1)\<rparr>)"
                using run 4 room Inr by (simp add: admit_def act_simps)
              moreover have "admissible L now p o' i"
                using ok bounds given pay room fields by (auto simp: admissible_def)
              ultimately show ?thesis by simp
            qed
          qed
        qed (use run in \<open>simp_all add: admit_def act_run rej\<close>)
      qed
    qed
  qed
qed

text \<open>
  A body that is valid JSON but not an object is not answered: \<^verbatim>\<open>payload.get\<close> raises
  \<^verbatim>\<open>AttributeError\<close>, which the handler's \<^verbatim>\<open>except (ValueError, TypeError)\<close> does not catch, so
  the client gets no response at all and nothing is recorded.
\<close>

lemma non_object_body_unanswered:
  assumes "post_path p = ''/v1/chat/completions''" and "post_auth p = Some (''Bearer '' @ ob_client_token o')"
    and "post_length p = Some t" and "py_int t = Some n" and "0 < n" and "n \<le> 1048576"
    and "post_encoding p = None" and "json_loads L (post_raw p) = Some v" and "\<not> is_dict v"
  shows "admit L now p o' = (Inl (Exc AttributeError ''get''), o')"
proof -
  have "pyget v k d = Inl (Exc AttributeError ''get'')" for k d using assms(9) by (cases v) auto
  then have "read_payload L (ob_cap o') (post_raw p) = Inl (Exc AttributeError ''get'')"
    using assms(8) by (simp add: read_payload_def loads_def is_value_error_def)
  then show ?thesis using assms(1-7) by (simp add: admit_def act_run)
qed

definition demo_observer :: observer where
  "demo_observer = observer_init ''t'' ''c'' 2 100 0"

definition demo_post :: post where
  "demo_post = \<lparr>post_path = ''/v1/chat/completions'', post_auth = Some ''Bearer c'',
     post_length = Some ''2'', post_encoding = None, post_raw = ''[]''\<rparr>"

definition demo_json :: "pyval \<Rightarrow> pylib" where
  "demo_json v = \<lparr>json_loads = (\<lambda>_. Some v), dumps = (\<lambda>_. []), dumps_ascii = (\<lambda>_. []),
     sha256 = (\<lambda>s. s), repr_of = (\<lambda>_. [])\<rparr>"

theorem non_object_body_unanswered_witness:
  "admit (demo_json (PList [])) 1 demo_post demo_observer = (Inl (Exc AttributeError ''get''), demo_observer)"
proof -
  have "py_int ''2'' = Some 2" by code_simp
  then show ?thesis
    by (rule_tac non_object_body_unanswered [where t = "''2''" and n = 2 and v = "PList []"])
      (simp_all add: demo_post_def demo_observer_def observer_init_def demo_json_def)
qed

section \<open>The observer as a state machine\<close>

text \<open>
  Handler threads interleave: a request is admitted, rejected or crashes under the lock, a
  request in flight is completed whenever its exchange ends, and the runner changes phase.
\<close>

inductive obs_step :: "observer \<Rightarrow> observer \<Rightarrow> bool" where
  posted: "admit L now p s = (r, t) \<Longrightarrow> obs_step s t"
| completed: "k < length (ob_requests s) \<Longrightarrow> it_seconds (ob_requests s ! k) = None
    \<Longrightarrow> obs_step s (complete L clock header_time end_time up k s)"
| phased: "obs_step s (s\<lparr>ob_phase := ph\<rparr>)"

definition in_flight :: "observer \<Rightarrow> nat" where
  "in_flight s = length (filter (\<lambda>i. it_seconds i = None) (ob_requests s))"

definition observer_ok :: "observer \<Rightarrow> bool" where
  "observer_ok s \<longleftrightarrow> length (ob_requests s) \<le> ob_limit s
     \<and> map it_id (ob_requests s) = [1 ..< length (ob_requests s) + 1]
     \<and> ob_active s = int (in_flight s) \<and> ob_active s \<le> ob_peak s
     \<and> ob_peak s \<le> int (length (ob_requests s))"

lemma on_item_keeps: "keeps P m \<Longrightarrow> keeps (\<lambda>x. P (ex_item x)) (on_item m)"
  by (auto simp: keeps_def on_item_def split: prod.splits)

lemma absorb_keeps: "(\<And>l. keeps I (step l)) \<Longrightarrow> keeps I (absorb step buf chunk)"
  by (auto simp: absorb_def intro!: keeps_intro split: prod.split)

lemma on_choice_id: "keeps (\<lambda>i. it_id i = n) (on_choice L choice)"
proof -
  have "keeps (\<lambda>i. it_id i = n) (on_fragment L f)" for f
    unfolding on_fragment_def Let_def by (intro keeps_intro) (simp_all add: update_acc_def)
  then show ?thesis unfolding on_choice_def
    by (intro keeps_intro) simp_all
qed

lemma on_line_id: "keeps (\<lambda>i. it_id i = n) (on_line L clock l)"
  unfolding on_line_def on_event_def Let_def
  by (intro keeps_intro on_choice_id) simp_all

lemma take_arrival_id: "keeps (\<lambda>x. it_id (ex_item x) = n) (take_arrival L clock status a)"
  unfolding take_arrival_def take_chunk_def
  by (cases a) (auto intro!: keeps_intro on_item_keeps absorb_keeps on_line_id)

lemma forward_id: "keeps (\<lambda>x. it_id (ex_item x) = n) (forward L clock header_time up)"
  unfolding forward_def
  by (cases up) (auto intro!: keeps_intro on_item_keeps [of "\<lambda>i. it_id i = n"] take_arrival_id)

lemma run_exchange_item:
  "it_id (ex_item (fst (run_exchange L clock ht et up i))) = it_id i"
  "it_seconds (ex_item (fst (run_exchange L clock ht et up i))) \<noteq> None"
proof -
  obtain r x where f: "forward L clock ht up (exchange_init i) = (r, x)" by fastforce
  have "it_id (ex_item (snd (forward L clock ht up (exchange_init i)))) = it_id i"
    by (rule keepsD [OF forward_id]) (simp add: exchange_init_def)
  with f show "it_id (ex_item (fst (run_exchange L clock ht et up i))) = it_id i"
    by (cases r) (simp_all add: run_exchange_def finish_item_def Let_def)
  from f show "it_seconds (ex_item (fst (run_exchange L clock ht et up i))) \<noteq> None"
    by (cases r) (simp_all add: run_exchange_def finish_item_def Let_def)
qed

lemma filter_update_length:
  "k < length xs \<Longrightarrow> P (xs ! k) \<Longrightarrow> \<not> P y \<Longrightarrow>
    length (filter P xs) = Suc (length (filter P (xs[k := y])))"
  by (induction xs arbitrary: k) (auto simp: nth_Cons split: nat.splits)

lemma complete_ok:
  assumes ok: "observer_ok s" and k: "k < length (ob_requests s)" "it_seconds (ob_requests s ! k) = None"
  shows "observer_ok (complete L clock ht et up k s)"
proof -
  define x where "x = ex_item (fst (run_exchange L clock ht et up (ob_requests s ! k)))"
  let ?t = "complete L clock ht et up k s"
  have t: "ob_requests ?t = (ob_requests s)[k := x]" "ob_active ?t = ob_active s - 1"
    "ob_peak ?t = ob_peak s" "ob_limit ?t = ob_limit s"
    by (auto simp: complete_def x_def reject_def act_simps split: prod.split)
  have x: "it_id x = it_id (ob_requests s ! k)" "it_seconds x \<noteq> None"
    unfolding x_def by (rule run_exchange_item)+
  have "map it_id ((ob_requests s)[k := x]) = map it_id (ob_requests s)"
    using x(1) k by (simp add: map_update list_update_same_conv)
  moreover have "in_flight s = Suc (in_flight ?t)"
    unfolding in_flight_def t using filter_update_length [of k "ob_requests s" "\<lambda>i. it_seconds i = None" x] k x(2)
    by simp
  ultimately show ?thesis using ok by (simp add: observer_ok_def t)
qed

lemma admit_ok: "observer_ok s \<Longrightarrow> admit L now p s = (r, t) \<Longrightarrow> observer_ok t"
  using admit_exact [where L = L and now = now and p = p and o' = s]
  by (auto simp: observer_ok_def in_flight_def admissible_def split: sum.splits admission.splits)

lemma obs_step_ok: "obs_step s t \<Longrightarrow> observer_ok s \<Longrightarrow> observer_ok t"
  by (induction rule: obs_step.induct)
    (auto simp: complete_ok admit_ok, simp add: observer_ok_def in_flight_def)

inductive_cases obs_stepE: "obs_step s t"

lemma obs_step_limit: "obs_step s t \<Longrightarrow> ob_limit t = ob_limit s"
proof (elim obs_stepE)
  fix L now p r assume "admit L now p s = (r, t)"
  then show ?thesis using admit_exact [where L = L and now = now and p = p and o' = s] by (auto split: sum.splits admission.splits)
next
  fix L clock ht et up k assume "t = complete L clock ht et up k s"
  then show ?thesis by (simp add: complete_def reject_def act_simps split: prod.split)
qed simp

text \<open>
  C5. Under every interleaving of handler threads: never more requests are admitted than the
  limit, their ids are 1, 2, ... in order, the active count is exactly the number of
  requests in flight, and the reported peak is at least that and at most the limit.
\<close>

theorem observer_budget:
  assumes "obs_step\<^sup>*\<^sup>* (observer_init token client_token limit cap now) s"
  shows "length (ob_requests s) \<le> limit
    \<and> map it_id (ob_requests s) = [1 ..< length (ob_requests s) + 1]
    \<and> ob_active s = int (in_flight s) \<and> ob_active s \<le> ob_peak s \<and> ob_peak s \<le> int limit"
proof -
  have "observer_ok s \<and> ob_limit s = limit" using assms
  proof (induction rule: rtranclp_induct)
    case base
    show ?case by (simp add: observer_ok_def observer_init_def in_flight_def)
  next
    case (step y z)
    then show ?case using obs_step_ok obs_step_limit by simp
  qed
  then show ?thesis by (auto simp: observer_ok_def)
qed

definition demo_body :: pyval where
  "demo_body = PDict [(''model'', PStr ''deepseek-flash''), (''max_tokens'', PInt 50)]"

theorem observer_budget_witness:
  "let s = snd (admit (demo_json demo_body) 1 demo_post demo_observer)
   in ob_active s = 1 \<and> in_flight s = 1 \<and> ob_peak s \<le> 2"
proof -
  let ?s = "snd (admit (demo_json demo_body) 1 demo_post demo_observer)"
  have "admit (demo_json demo_body) 1 demo_post demo_observer
      = (fst (admit (demo_json demo_body) 1 demo_post demo_observer), ?s)" by (rule surjective_pairing)
  then have "obs_step demo_observer ?s" by (rule posted)
  then have "obs_step\<^sup>*\<^sup>* (observer_init ''t'' ''c'' 2 100 0) ?s" by (simp add: demo_observer_def)
  note budget = observer_budget [OF this]
  have "ob_active ?s = 1" by code_simp
  then show ?thesis using budget by (simp add: Let_def)
qed

end
