(* ===== verification/ObserverStream.thy ===== *)
theory ObserverStream
  imports ObserverProps
begin

text \<open>
  One exchange of the observation server: what the client receives, what the event stream
  is read as, and what is kept of it.
\<close>

section \<open>Chunked transfer\<close>

text \<open>The client's reading of a chunked body.\<close>

function dechunk :: "string \<Rightarrow> string option" where
  "dechunk s =
     (let h = takeWhile (\<lambda>c. c \<in> set hex_chars) s; r = dropWhile (\<lambda>c. c \<in> set hex_chars) s; b = drop 2 r in
      case read_hex 0 h of None \<Rightarrow> None
      | Some n \<Rightarrow>
          if h = [] \<or> take 2 r \<noteq> crlf2 then None
          else if n = 0 then (if b = crlf2 then Some [] else None)
          else if length b < n + 2 \<or> take 2 (drop n b) \<noteq> crlf2 then None
          else map_option (\<lambda>rest. take n b @ rest) (dechunk (drop (n + 2) b)))"
  by pat_completeness auto
termination
proof (relation "measure length", simp_all add: Let_def, goal_cases)
  case (1 s n)
  have "length (dropWhile (\<lambda>c. c \<in> set hex_chars) s) \<le> length s" by (rule length_dropWhile_le)
  with 1 show ?case by linarith
qed

declare dechunk.simps [simp del]

lemma cr_not_hex: "CHR 0x0D \<notin> set hex_chars"
  by code_simp

lemma hex_prefix:
  "takeWhile (\<lambda>c. c \<in> set hex_chars) (hex_of n @ crlf2 @ t) = hex_of n"
  "dropWhile (\<lambda>c. c \<in> set hex_chars) (hex_of n @ crlf2 @ t) = crlf2 @ t"
  using hex_of_chars(1) [of n] cr_not_hex
  by (auto simp: crlf2_def takeWhile_append2 dropWhile_append2 subset_eq)

lemma crlf2_step: "take 2 (crlf2 @ t) = crlf2" "drop 2 (crlf2 @ t) = t"
  by (simp_all add: crlf2_def)

lemma dechunk_step: "dechunk (hex_of n @ crlf2 @ b) =
    (if n = 0 then (if b = crlf2 then Some [] else None)
     else if length b < n + 2 \<or> take 2 (drop n b) \<noteq> crlf2 then None
     else map_option (\<lambda>rest. take n b @ rest) (dechunk (drop (n + 2) b)))"
  using hex_of_chars(2) [of n]
  by (subst dechunk.simps)
    (simp add: hex_prefix read_hex_of crlf2_step Let_def del: take_append drop_append)

lemma dechunk_frame:
  assumes "c \<noteq> []"
  shows "dechunk (frame_of c @ t) = map_option (\<lambda>rest. c @ rest) (dechunk t)"
proof -
  have frame: "frame_of c @ t = hex_of (length c) @ crlf2 @ (c @ crlf2 @ t)" by (simp add: frame_of_def)
  show ?thesis using assms unfolding frame dechunk_step by (simp add: crlf2_def)
qed

lemma dechunk_last: "dechunk last_frame = Some []"
proof -
  have last: "last_frame = hex_of 0 @ crlf2 @ crlf2"
    by (simp add: last_frame_def hex_of.simps hex_chars_def)
  show ?thesis unfolding last dechunk_step by simp
qed

text \<open>
  The chunked encoding the server writes decodes to exactly the bytes it was given,
  for any sequence of nonempty chunks.
\<close>

lemma chunked_roundtrip:
  assumes "\<forall>c \<in> set cs. c \<noteq> []"
  shows "dechunk (concat (map frame_of cs) @ last_frame) = Some (concat cs)"
  using assms by (induction cs) (simp_all add: dechunk_last dechunk_frame)

theorem chunked_roundtrip_witness:
  "dechunk (frame_of ''data: x'' @ frame_of ''y'' @ last_frame) = Some ''data: xy''"
  using chunked_roundtrip [of "[''data: x'', ''y'']"] by simp

section \<open>Reading the stream\<close>

interpretation sse: line_machine "on_line L clock" "''data:''" for L clock
  by unfold_locales (simp add: on_line_def ret_def)

text \<open>One chunk whose onward write succeeds.\<close>

lemma take_arrival_ok:
  "take_arrival L clock status (Chunk c None) x = (Inr (), y) \<longleftrightarrow>
     ex_bytes x + int (length c) \<le> MAX_RESPONSE
     \<and> (\<exists>t i. absorb (on_line L clock) (ex_buffer x) c (ex_item x) = (Inr t, i)
       \<and> y = x\<lparr>ex_item := i, ex_bytes := ex_bytes x + int (length c), ex_wire := ex_wire x @ frame_of c,
          ex_seen := ex_seen x @ c, ex_buffer := t, ex_errors :=
           (if status \<noteq> 200 \<and> int (length (ex_errors x)) < 65536
            then ex_errors x @ take (nat (65536 - int (length (ex_errors x)))) c else ex_errors x)\<rparr>)"
  by (auto simp: take_arrival_def take_chunk_def act_simps bind_Inr_iff on_item_def andthen_def
      split: prod.splits)

definition after_chunks :: "nat \<Rightarrow> string list \<Rightarrow> item \<Rightarrow> string \<Rightarrow> exchange \<Rightarrow> exchange" where
  "after_chunks status cs i t x = x\<lparr>ex_item := i, ex_bytes := ex_bytes x + int (length (concat cs)),
     ex_wire := ex_wire x @ concat (map frame_of cs), ex_seen := ex_seen x @ concat cs,
     ex_errors := (if status \<noteq> 200 then take 65536 (ex_errors x @ concat cs) else ex_errors x),
     ex_buffer := t\<rparr>"

lemma error_body_step:
  "length e \<le> 65536 \<Longrightarrow> (if int (length e) < 65536 then e @ take (nat (65536 - int (length e))) c else e)
     = take 65536 (e @ c)"
  by (auto simp: nat_diff_distrib')

lemma take_arrivals_iff:
  assumes "length (ex_errors x) \<le> 65536" and "ex_bytes x \<le> MAX_RESPONSE"
  shows "for_each (map (\<lambda>c. Chunk c None) cs) (take_arrival L clock status) x = (Inr (), y) \<longleftrightarrow>
     ex_bytes x + int (length (concat cs)) \<le> MAX_RESPONSE
     \<and> (\<exists>t i. absorb_all (on_line L clock) (ex_buffer x) cs (ex_item x) = (Inr t, i)
          \<and> y = after_chunks status cs i t x)"
  using assms
proof (induction cs arbitrary: x)
  case Nil
  then show ?case by (cases x) (auto simp: act_run after_chunks_def)
next
  case (Cons c cs)
  let ?rest = "for_each (map (\<lambda>c. Chunk c None) cs) (take_arrival L clock status)"
  define z where "z = (\<lambda>t i. after_chunks status [c] i t x)"
  have z: "take_arrival L clock status (Chunk c None) x = (Inr (), y') \<longleftrightarrow>
      ex_bytes x + int (length c) \<le> MAX_RESPONSE
      \<and> (\<exists>t i. absorb (on_line L clock) (ex_buffer x) c (ex_item x) = (Inr t, i) \<and> y' = z t i)" for y'
    using error_body_step [OF Cons.prems(1), of c]
    by (auto simp: take_arrival_ok after_chunks_def z_def split: if_splits)
  have zs: "ex_bytes (z t i) = ex_bytes x + int (length c)" "ex_buffer (z t i) = t" "ex_item (z t i) = i"
      "length (ex_errors (z t i)) \<le> 65536" "after_chunks status cs j u (z t i) = after_chunks status (c # cs) j u x"
    for t i j u
    using Cons.prems(1) by (auto simp: z_def after_chunks_def min_def)
  have "for_each (map (\<lambda>c. Chunk c None) (c # cs)) (take_arrival L clock status) x = (Inr (), y) \<longleftrightarrow>
     (\<exists>t i. ex_bytes x + int (length c) \<le> MAX_RESPONSE
        \<and> absorb (on_line L clock) (ex_buffer x) c (ex_item x) = (Inr t, i) \<and> ?rest (z t i) = (Inr (), y))"
    by (auto simp: andthen_def bind_Inr_iff z)
  also have "\<dots> \<longleftrightarrow> (\<exists>t i. ex_bytes x + int (length (concat (c # cs))) \<le> MAX_RESPONSE
        \<and> absorb (on_line L clock) (ex_buffer x) c (ex_item x) = (Inr t, i)
        \<and> (\<exists>u j. absorb_all (on_line L clock) t cs i = (Inr u, j) \<and> y = after_chunks status (c # cs) j u x))"
    using Cons.IH [of "z _ _"] by (intro ex_cong1) (auto simp: zs)
  finally show ?case by (auto simp: bind_Inr_iff)
qed

section \<open>The client's view\<close>

definition closing :: "pylib \<Rightarrow> nat \<Rightarrow> exchange \<Rightarrow> exchange" where
  "closing L status y = y\<lparr>ex_wire := ex_wire y @ last_frame, ex_item :=
     (if status \<noteq> 200 then (ex_item y)\<lparr>it_error_codes := error_metadata L (ex_errors y)\<rparr> else ex_item y)
     \<lparr>it_calls := map (\<lambda>(k, a). (k, digest_acc L a)) (it_calls (ex_item y))\<rparr>\<rparr>"

definition answered_item :: "nat \<Rightarrow> int option \<Rightarrow> rat \<Rightarrow> item \<Rightarrow> item" where
  "answered_item status seconds ht i = i\<lparr>it_status := Some status, it_retry_after := seconds,
      it_header_seconds := Some (ht - it_started i)\<rparr>"

lemma forward_run:
  "retry_seconds retry = Inr seconds \<Longrightarrow> forward L clock ht (Response status retry hs as) (exchange_init i) =
     (case for_each as (take_arrival L clock status)
         ((exchange_init (answered_item status seconds ht i))\<lparr>ex_head := Some (status, onward_headers hs)\<rparr>) of
        (Inl e, y) \<Rightarrow> (Inl e, y) | (Inr _, y) \<Rightarrow> (Inr (), closing L status y))"
  by (cases "status = 200")
    (auto simp: forward_def on_item_def act_simps exchange_init_def answered_item_def closing_def bind_def
      andthen_def when_do_def split: prod.splits sum.splits)

lemma forward_retry: "retry_seconds retry = Inl e \<Longrightarrow> isl (fst (forward L clock ht (Response status retry hs as) x))"
  by (simp add: forward_def on_item_def act_simps andthen_def bind_def)

lemma forward_ok:
  assumes "forward L clock ht (Response status retry hs (map (\<lambda>c. Chunk c None) cs)) (exchange_init i) = (Inr (), x)"
  obtains seconds t j where "retry_seconds retry = Inr seconds" "int (length (concat cs)) \<le> MAX_RESPONSE"
    "absorb_all (on_line L clock) [] cs
       (answered_item status seconds ht i) = (Inr t, j)"
    "ex_wire x = concat (map frame_of cs) @ last_frame" "ex_seen x = concat cs"
    "ex_bytes x = int (length (concat cs))" "ex_head x = Some (status, onward_headers hs)"
    "ex_item x = (if status \<noteq> 200 then j\<lparr>it_error_codes := error_metadata L (take 65536 (concat cs))\<rparr> else j)
       \<lparr>it_calls := map (\<lambda>(k, a). (k, digest_acc L a)) (it_calls j)\<rparr>"
proof -
  obtain seconds where s: "retry_seconds retry = Inr seconds"
    using assms forward_retry [of retry _ L clock ht status hs "map (\<lambda>c. Chunk c None) cs" "exchange_init i"]
    by (cases "retry_seconds retry") auto
  let ?x = "(exchange_init (answered_item status seconds ht i))\<lparr>ex_head := Some (status, onward_headers hs)\<rparr>"
  obtain y where y: "for_each (map (\<lambda>c. Chunk c None) cs) (take_arrival L clock status) ?x = (Inr (), y)"
      and x: "x = closing L status y"
    using assms by (auto simp: forward_run [OF s] split: prod.splits sum.splits)
  from y obtain t j where "int (length (concat cs)) \<le> MAX_RESPONSE"
      "absorb_all (on_line L clock) [] cs (ex_item ?x) = (Inr t, j)" "y = after_chunks status cs j t ?x"
    by (subst (asm) take_arrivals_iff) (auto simp: exchange_init_def MAX_RESPONSE_def)
  then show thesis
    by (intro that [of seconds t j])
      (auto simp: s x closing_def after_chunks_def exchange_init_def answered_item_def)
qed

abbreviation plain_response where
  "plain_response status retry hs cs \<equiv> Response status retry hs (map (\<lambda>c. Chunk c None) cs)"

text \<open>An exchange without an error is one in which nothing raised.\<close>

definition exchange_clean :: "pylib \<Rightarrow> (nat \<Rightarrow> rat) \<Rightarrow> rat \<Rightarrow> rat \<Rightarrow> upstream \<Rightarrow> item \<Rightarrow> bool" where
  "exchange_clean L clock ht et up i \<longleftrightarrow> (\<exists>x. forward L clock ht up (exchange_init i) = (Inr (), x))"

lemma run_exchange_clean:
  assumes "exchange_clean L clock ht et up i"
  obtains x where "forward L clock ht up (exchange_init i) = (Inr (), x)"
    "run_exchange L clock ht et up i = (x\<lparr>ex_item := finish_item L et x\<rparr>, False)"
  using assms by (auto simp: exchange_clean_def run_exchange_def)

text \<open>
  C21. What the client and the report see of a clean exchange: the status and headers of
  the gateway, a body that decodes to exactly the gateway's bytes, at most 4 MiB of them,
  and a recorded size and hash of those same bytes.
\<close>

theorem client_receives:
  assumes "exchange_clean L clock ht et (plain_response status retry hs cs) i" and "\<forall>c \<in> set cs. c \<noteq> []"
  shows "let x = fst (run_exchange L clock ht et (plain_response status retry hs cs) i) in
    ex_head x = Some (status, onward_headers hs) \<and> dechunk (ex_wire x) = Some (concat cs)
    \<and> it_response_sha (ex_item x) = Some (sha256 L (concat cs))
    \<and> it_response_bytes (ex_item x) = int (length (concat cs)) \<and> length (concat cs) \<le> 4194304"
proof -
  obtain y where y: "forward L clock ht (plain_response status retry hs cs) (exchange_init i) = (Inr (), y)"
      and run: "run_exchange L clock ht et (plain_response status retry hs cs) i = (y\<lparr>ex_item := finish_item L et y\<rparr>, False)"
    using run_exchange_clean [OF assms(1)] .
  show ?thesis
    by (rule forward_ok [OF y])
      (use chunked_roundtrip [OF assms(2)] in \<open>auto simp: run finish_item_def Let_def MAX_RESPONSE_def\<close>)
qed

text \<open>
  How the network cuts the answer into chunks is irrelevant: of two ways to deliver the
  same bytes, if one exchange is clean then so is the other, and the two finished items
  (events, usage, tool calls, hash, timing) are equal.
\<close>

lemma cut_irrelevant:
  assumes "concat cs = concat ds"
    and "exchange_clean L clock ht et (plain_response status retry hs cs) i"
  shows "exchange_clean L clock ht et (plain_response status retry hs ds) i
    \<and> ex_item (fst (run_exchange L clock ht et (plain_response status retry hs ds) i))
      = ex_item (fst (run_exchange L clock ht et (plain_response status retry hs cs) i))"
proof -
  obtain y where y: "forward L clock ht (plain_response status retry hs cs) (exchange_init i) = (Inr (), y)"
      and run: "run_exchange L clock ht et (plain_response status retry hs cs) i = (y\<lparr>ex_item := finish_item L et y\<rparr>, False)"
    using run_exchange_clean [OF assms(2)] .
  obtain seconds t j where s: "retry_seconds retry = Inr seconds" "int (length (concat cs)) \<le> MAX_RESPONSE"
    and all: "absorb_all (on_line L clock) [] cs
       (answered_item status seconds ht i) = (Inr t, j)"
    and x: "ex_seen y = concat cs" "ex_bytes y = int (length (concat cs))"
      "ex_item y = (if status \<noteq> 200 then j\<lparr>it_error_codes := error_metadata L (take 65536 (concat cs))\<rparr> else j)
       \<lparr>it_calls := map (\<lambda>(k, a). (k, digest_acc L a)) (it_calls j)\<rparr>"
    by (rule forward_ok [OF y])
  let ?x = "(exchange_init (answered_item status seconds ht i))\<lparr>ex_head := Some (status, onward_headers hs)\<rparr>"
  have "absorb_all (on_line L clock) [] ds (ex_item ?x) = (Inr t, j)"
    using all by (simp add: exchange_init_def sse.chunks_irrelevant assms(1))
  then have ds: "for_each (map (\<lambda>c. Chunk c None) ds) (take_arrival L clock status) ?x
      = (Inr (), after_chunks status ds j t ?x)"
    using s(2) assms(1) by (subst take_arrivals_iff) (auto simp: exchange_init_def MAX_RESPONSE_def)
  obtain z where z: "forward L clock ht (plain_response status retry hs ds) (exchange_init i) = (Inr (), z)"
    by (simp add: forward_run [OF s(1)] ds)
  obtain seconds' t' j' where s': "retry_seconds retry = Inr seconds'"
    and all': "absorb_all (on_line L clock) [] ds
       (answered_item status seconds' ht i) = (Inr t', j')"
    and x': "ex_seen z = concat ds" "ex_bytes z = int (length (concat ds))"
      "ex_item z = (if status \<noteq> 200 then j'\<lparr>it_error_codes := error_metadata L (take 65536 (concat ds))\<rparr> else j')
       \<lparr>it_calls := map (\<lambda>(k, a). (k, digest_acc L a)) (it_calls j')\<rparr>"
    by (rule forward_ok [OF z])
  have "j' = j" using all all' s(1) s' by (simp add: sse.chunks_irrelevant assms(1))
  then have "ex_item z = ex_item y" "ex_seen z = ex_seen y" "ex_bytes z = ex_bytes y"
    using x x' assms(1) by simp_all
  moreover have "exchange_clean L clock ht et (plain_response status retry hs ds) i"
    using z by (auto simp: exchange_clean_def)
  ultimately show ?thesis
    by (simp add: run_exchange_def y z finish_item_def)
qed

definition demo_item :: item where
  "demo_item = (case make_item (demo_json PNone) demo_observer 1 2 ''[]'' demo_body 50 of Inr i \<Rightarrow> i)"

definition demo_chunks :: "string list" where
  "demo_chunks = [''data: [DO'', ''NE]'' @ [CHR 0x0A]]"

lemma demo_clean: "exchange_clean (demo_json PNone) (\<lambda>n. 2) 2 3 (plain_response 200 None [] demo_chunks) demo_item"
proof -
  let ?f = "forward (demo_json PNone) (\<lambda>n. 2) 2 (plain_response 200 None [] demo_chunks) (exchange_init demo_item)"
  have "fst ?f = Inr ()" by code_simp
  then have "?f = (Inr (), snd ?f)" by (simp add: prod_eq_iff)
  then show ?thesis unfolding exchange_clean_def by blast
qed

theorem client_receives_witness:
  "dechunk (ex_wire (fst (run_exchange (demo_json PNone) (\<lambda>n. 2) 2 3 (plain_response 200 None [] demo_chunks) demo_item)))
     = Some (concat demo_chunks)"
proof -
  have "\<forall>c \<in> set demo_chunks. c \<noteq> []" by (simp add: demo_chunks_def)
  from client_receives [OF demo_clean this] show ?thesis by (simp add: Let_def)
qed

theorem cut_irrelevant_witness:
  "exchange_clean (demo_json PNone) (\<lambda>n. 2) 2 3 (plain_response 200 None [] [concat demo_chunks]) demo_item"
  using cut_irrelevant [OF _ demo_clean, of "[concat demo_chunks]"] by simp

section \<open>Tool calls are assembled from their fragments\<close>

text \<open>
  The specification: the fragments of an event line in stream order, each with the key of
  its call, and the call they make up.
\<close>

type_synonym piece = "string \<times> string \<times> string \<times> string"

definition piece_of :: "pylib \<Rightarrow> pyval \<Rightarrow> piece res" where
  "piece_of L tool = rbind (getitem tool ''index'') (\<lambda>k.
     rbind (rbind (pyget tool ''id'' PNone) text_of) (\<lambda>i.
     rbind (rbind (pyget tool ''function'' (PDict [])) (\<lambda>f. rbind (pyget f ''name'' PNone) text_of)) (\<lambda>n.
     rbind (rbind (pyget tool ''function'' (PDict [])) (\<lambda>f. rbind (pyget f ''arguments'' PNone) text_of)) (\<lambda>t.
     Inr (to_str L k, i, n, t)))))"

definition choice_pieces :: "pylib \<Rightarrow> pyval \<Rightarrow> piece list res" where
  "choice_pieces L choice = rbind (pyget choice ''delta'' (PDict [])) (\<lambda>d.
     rbind (rbind (pyget d ''tool_calls'' (PList [])) iterate) (rmap (piece_of L)))"

definition event_pieces :: "pylib \<Rightarrow> pyval \<Rightarrow> piece list res" where
  "event_pieces L ev = rbind (rbind (pyget ev ''choices'' (PList [])) iterate) (\<lambda>cs.
     rbind (rmap (choice_pieces L) cs) (\<lambda>pss. Inr (concat pss)))"

definition line_pieces :: "pylib \<Rightarrow> string \<Rightarrow> piece list res" where
  "line_pieces L line = (if \<not> prefix ''data:'' line \<or> bstrip (drop 5 line) = ''[DONE]'' then Inr []
     else rbind (loads L (bstrip (drop 5 line))) (event_pieces L))"

definition body_pieces :: "pylib \<Rightarrow> string \<Rightarrow> piece list res" where
  "body_pieces L body = rbind (rmap (line_pieces L) (fst (split_lines body))) (\<lambda>pss. Inr (concat pss))"

definition assembled :: "pylib \<Rightarrow> piece list \<Rightarrow> tool_acc option" where
  "assembled L ps = (if ps = [] then None else
     let t = concat (map (\<lambda>(k, i, n, t). t) ps) in
     Some \<lparr>acc_id = concat (map (\<lambda>(k, i, n, t). i) ps), acc_name = concat (map (\<lambda>(k, i, n, t). n) ps),
       acc_arguments = None, acc_fragments = length ps,
       acc_digest = Some (length t, sha256 L t, json_loads L t \<noteq> None)\<rparr>)"

text \<open>The call of one key while it is being built.\<close>

definition building :: "piece list \<Rightarrow> tool_acc option" where
  "building ps = (if ps = [] then None else
     Some \<lparr>acc_id = concat (map (\<lambda>(k, i, n, t). i) ps), acc_name = concat (map (\<lambda>(k, i, n, t). n) ps),
       acc_arguments = Some (concat (map (\<lambda>(k, i, n, t). t) ps)), acc_fragments = length ps,
       acc_digest = None\<rparr>)"

definition built :: "piece list \<Rightarrow> item \<Rightarrow> bool" where
  "built ps i \<longleftrightarrow> (\<forall>k. map_of (it_calls i) k = building (filter (\<lambda>p. fst p = k) ps))"

lemma building_snoc: "building (ps @ [(k, i, n, t)]) = Some ((add_arguments t
    (case building ps of None \<Rightarrow> new_acc | Some a \<Rightarrow> a))\<lparr>
      acc_id := acc_id (case building ps of None \<Rightarrow> new_acc | Some a \<Rightarrow> a) @ i,
      acc_name := acc_name (case building ps of None \<Rightarrow> new_acc | Some a \<Rightarrow> a) @ n,
      acc_fragments := Suc (length ps)\<rparr>)"
  by (simp add: building_def add_arguments_def new_acc_def)

lemma fragment_built:
  assumes "on_fragment L f i = (Inr (), j)" and "built ps i"
  obtains p where "piece_of L f = Inr p" "built (ps @ [p]) j"
proof -
  obtain k i' n t where p: "piece_of L f = Inr (k, i', n, t)"
    and j: "j = update_acc k (\<lambda>a. (add_arguments t a)\<lparr>acc_fragments := acc_fragments a + 1\<rparr>)
      (update_acc k (\<lambda>a. a\<lparr>acc_name := acc_name a @ n\<rparr>)
      (update_acc k (\<lambda>a. a\<lparr>acc_id := acc_id a @ i'\<rparr>) (update_acc k (\<lambda>a. a) i)))"
    using assms(1) by (auto simp: on_fragment_def piece_of_def act_simps bind_Inr_iff rbind_Inr_iff Let_def)
  let ?q = "filter (\<lambda>p. fst p = k) ps"
  have frag: "acc_fragments (case building ?q of None \<Rightarrow> new_acc | Some a \<Rightarrow> a) = length ?q"
    by (simp add: building_def new_acc_def)
  have "map_of (it_calls i) k = building ?q" using assms(2) by (simp add: built_def)
  then have "built (ps @ [(k, i', n, t)]) j"
    using assms(2) frag unfolding built_def
    by (auto simp: j update_acc_def update_conv' building_snoc add_arguments_def)
  with p show thesis by (rule that)
qed

lemma for_each_built:
  assumes step: "\<And>x i j ps. step x i = (Inr (), j) \<Longrightarrow> built ps i \<Longrightarrow> \<exists>qs. pieces x = Inr qs \<and> built (ps @ qs) j"
    and "for_each xs step i = (Inr (), j)" and "built ps i"
  shows "\<exists>qss. rmap pieces xs = Inr qss \<and> built (ps @ concat qss) j"
  using assms(2,3)
proof (induction xs arbitrary: i ps)
  case (Cons x xs)
  then obtain k where k: "step x i = (Inr (), k)" "for_each xs step k = (Inr (), j)"
    by (auto simp: andthen_def bind_Inr_iff)
  obtain qs where qs: "pieces x = Inr qs" "built (ps @ qs) k" using step [OF k(1) Cons.prems(2)] by blast
  obtain qss where "rmap pieces xs = Inr qss" "built ((ps @ qs) @ concat qss) j"
    using Cons.IH [OF k(2) qs(2)] by blast
  with qs show ?case by simp
qed (simp add: act_run)

lemma built_frame [simp]:
  "built ps (i\<lparr>it_finish := a\<rparr>) = built ps i" "built ps (i\<lparr>it_reasoning := b\<rparr>) = built ps i"
  "built ps (i\<lparr>it_usage := c\<rparr>) = built ps i" "built ps (i\<lparr>it_events := d\<rparr>) = built ps i"
  "built ps (i\<lparr>it_first_event := e\<rparr>) = built ps i" "built ps (i\<lparr>it_done := f\<rparr>) = built ps i"
  by (simp_all add: built_def)

lemma fragments_built:
  assumes "for_each fs (on_fragment L) i = (Inr (), j)" and "built ps i"
  shows "\<exists>qs. rmap (piece_of L) fs = Inr qs \<and> built (ps @ qs) j"
proof -
  have "\<exists>qss. rmap (\<lambda>f. rbind (piece_of L f) (\<lambda>p. Inr [p])) fs = Inr qss \<and> built (ps @ concat qss) j"
    by (rule for_each_built [OF _ assms]) (use fragment_built in fastforce)
  moreover have "rmap (\<lambda>f. rbind (piece_of L f) (\<lambda>p. Inr [p])) fs = Inr qss \<Longrightarrow> rmap (piece_of L) fs = Inr (concat qss)"
    for qss by (induction fs arbitrary: qss) (auto simp: rbind_Inr_iff)
  ultimately show ?thesis by blast
qed

lemma choice_built:
  assumes "on_choice L c i = (Inr (), j)" and "built ps i"
  shows "\<exists>qs. choice_pieces L c = Inr qs \<and> built (ps @ qs) j"
proof -
  obtain d fs i' where d: "pyget c ''delta'' (PDict []) = Inr d"
      "rbind (pyget d ''tool_calls'' (PList [])) iterate = Inr fs"
    and run: "for_each fs (on_fragment L) i' = (Inr (), j)" and i': "built ps i'"
    using assms by (auto simp: on_choice_def when_do_def act_simps bind_Inr_iff split: if_splits)
  from fragments_built [OF run i'] d show ?thesis by (simp add: choice_pieces_def)
qed

lemma event_built:
  assumes "on_event L e i = (Inr (), j)" and "built ps i"
  shows "\<exists>qs. event_pieces L e = Inr qs \<and> built (ps @ qs) j"
proof -
  obtain cs i' where cs: "rbind (pyget e ''choices'' (PList [])) iterate = Inr cs"
    and run: "for_each cs (on_choice L) i' = (Inr (), j)" and i': "built ps i'"
    using assms by (auto simp: on_event_def when_do_def act_simps bind_Inr_iff split: if_splits)
  have "\<exists>qss. rmap (choice_pieces L) cs = Inr qss \<and> built (ps @ concat qss) j"
    by (rule for_each_built [OF choice_built run i'])
  with cs show ?thesis by (auto simp: event_pieces_def)
qed

lemma line_built:
  assumes "on_line L clock l i = (Inr (), j)" and "built ps i"
  shows "\<exists>qs. line_pieces L l = Inr qs \<and> built (ps @ qs) j"
proof (cases "\<not> prefix ''data:'' l \<or> bstrip (drop 5 l) = ''[DONE]''")
  case True
  with assms show ?thesis
    by (auto simp: on_line_def line_pieces_def act_simps Let_def split: if_splits)
next
  case False
  with assms(1) obtain e where "loads L (bstrip (drop 5 l)) = Inr e"
    and run: "on_event L e (i\<lparr>it_events := it_events i + 1, it_first_event :=
        (case it_first_event i of None \<Rightarrow> Some (clock (it_events i) - it_started i) | Some t \<Rightarrow> Some t)\<rparr>) = (Inr (), j)"
    by (auto simp: on_line_def act_simps bind_Inr_iff Let_def)
  moreover from event_built [OF run] assms(2) obtain qs where "event_pieces L e = Inr qs" "built (ps @ qs) j"
    by auto
  ultimately show ?thesis using False by (simp add: line_pieces_def)
qed

text \<open>
  C23. Of a clean exchange the report keeps, per tool call, exactly what its fragments make up
  in stream order (id, name, number of fragments, and of the arguments only their length,
  hash and whether they are JSON), and nothing of the raw arguments.
\<close>

theorem tool_calls_assembled:
  assumes "exchange_clean L clock ht et (plain_response status retry hs cs) i" and "it_calls i = []"
  shows "\<exists>ps. body_pieces L (concat cs) = Inr ps
    \<and> (\<forall>k. map_of (it_calls (ex_item (fst (run_exchange L clock ht et (plain_response status retry hs cs) i)))) k
         = assembled L (filter (\<lambda>p. fst p = k) ps))"
proof -
  obtain y where y: "forward L clock ht (plain_response status retry hs cs) (exchange_init i) = (Inr (), y)"
      and run: "run_exchange L clock ht et (plain_response status retry hs cs) i = (y\<lparr>ex_item := finish_item L et y\<rparr>, False)"
    using run_exchange_clean [OF assms(1)] .
  obtain seconds t j where
    all: "absorb_all (on_line L clock) [] cs (answered_item status seconds ht i) = (Inr t, j)"
    and x: "it_calls (ex_item y) = map (\<lambda>(k, a). (k, digest_acc L a)) (it_calls j)"
    by (rule forward_ok [OF y]) auto
  obtain ls u where ls: "split_lines (concat cs) = (ls, u)" by fastforce
  have lines: "for_each ls (on_line L clock) (answered_item status seconds ht i) = (Inr (), j)"
    using all by (auto simp: sse.chunks_irrelevant ls sse.for_each_relevant andthen_def bind_Inr_iff act_run)
  have start: "built [] (answered_item status seconds ht i)"
    using assms(2) by (simp add: built_def building_def answered_item_def)
  have "\<exists>pss. rmap (line_pieces L) ls = Inr pss \<and> built ([] @ concat pss) j"
    by (rule for_each_built [OF line_built lines start])
  then obtain pss where ps: "rmap (line_pieces L) ls = Inr pss" "built (concat pss) j" by auto
  have lookup: "map_of (map (\<lambda>(k, a). (k, f a)) xs) = (\<lambda>k. map_option f (map_of xs k))"
    for f :: "tool_acc \<Rightarrow> tool_acc" and xs :: "(string \<times> tool_acc) list" by (induction xs) auto
  then have "map_of (it_calls (finish_item L et y)) k = assembled L (filter (\<lambda>p. fst p = k) (concat pss))" for k
  proof -
    have "map_of (it_calls (finish_item L et y)) k
        = map_option drop_arguments (map_option (digest_acc L) (map_of (it_calls j) k))"
      by (simp add: finish_item_def x lookup del: map_map)
    then show ?thesis using ps(2)
      by (simp add: built_def building_def assembled_def digest_acc_def drop_arguments_def Let_def)
  qed
  then show ?thesis using ps(1) by (simp add: run body_pieces_def ls)
qed

theorem tool_calls_assembled_witness:
  "map_of (it_calls (ex_item (fst (run_exchange (demo_json PNone) (\<lambda>n. 2) 2 3
     (plain_response 200 None [] demo_chunks) demo_item)))) ''0'' = None"
proof -
  have "it_calls demo_item = []" by code_simp
  from tool_calls_assembled [OF demo_clean this] obtain ps where
    "body_pieces (demo_json PNone) (concat demo_chunks) = Inr ps" and ps:
    "map_of (it_calls (ex_item (fst (run_exchange (demo_json PNone) (\<lambda>n. 2) 2 3
      (plain_response 200 None [] demo_chunks) demo_item)))) ''0''
      = assembled (demo_json PNone) (filter (\<lambda>p. fst p = ''0'') ps)" by blast
  moreover have "body_pieces (demo_json PNone) (concat demo_chunks) = Inr []" by code_simp
  ultimately show ?thesis by (simp add: assembled_def)
qed

end
