(* ===== verification/OpenCode.thy ===== *)
theory OpenCode
  imports Observer Checks
begin

text \<open>
  The acceptance run of \<^verbatim>\<open>scripts/opencode-check.py\<close> around the observer: the client's
  configuration, the summary of its event log, the evidence of child sessions, and the
  checks from which the verdict is computed. Files, processes and the management endpoint
  are inputs; every check is computed from them as the code computes it.
\<close>

section \<open>Client configuration\<close>

definition allow :: pyval where "allow = PStr ''allow''"
definition deny :: pyval where "deny = PStr ''deny''"

definition verify_command :: "string \<Rightarrow> string" where
  "verify_command python_path =
     (if contains '' '' python_path then CHR 0x22 # python_path @ [CHR 0x22] else python_path) @ '' verify.py''"

definition base_permissions :: pyval where
  "base_permissions = PDict [(''*'', deny), (''read'', allow), (''grep'', allow), (''glob'', allow),
     (''skill'', PDict [(''*'', deny), (''money-review'', allow)]),
     (''task'', PDict [(''*'', deny), (''explore'', allow)]), (''external_directory'', deny)]"

definition agent_options :: pyval where
  "agent_options = PDict [(''thinking'', PDict [(''type'', PStr ''disabled'')])]"

definition agent_config :: "string \<Rightarrow> pyval" where
  "agent_config command = PDict [
     (''plan'', PDict [(''steps'', PInt 10), (''options'', agent_options), (''permission'',
        PDict [(''edit'', deny), (''bash'', deny), (''plan_exit'', deny)])]),
     (''build'', PDict [(''steps'', PInt 10), (''options'', agent_options), (''permission'',
        PDict [(''edit'', PDict [(''*'', deny), (''price.py'', allow), (''**/price.py'', allow)]),
               (''bash'', PDict [(''*'', deny), (command, allow)])])]),
     (''explore'', PDict [(''steps'', PInt 8), (''model'', PStr (''uart2llm/'' @ MODEL)),
        (''options'', agent_options), (''permission'', PDict [(''task'', deny), (''edit'', deny), (''bash'', deny)])]),
     (''research'', PDict [(''mode'', PStr ''primary''), (''steps'', PInt 4), (''options'', agent_options),
        (''permission'', PDict [(''websearch'', allow), (''task'', deny), (''edit'', deny), (''bash'', deny)])])]"

definition opencode_config :: "pylib \<Rightarrow> int \<Rightarrow> int \<Rightarrow> string \<Rightarrow> pyval" where
  "opencode_config L port output_cap command = PDict [
     (''$schema'', PStr ''https://opencode.ai/config.json''), (''autoupdate'', PBool False),
     (''share'', PStr ''disabled''), (''snapshot'', PBool False),
     (''enabled_providers'', PList [PStr ''uart2llm'']),
     (''model'', PStr (''uart2llm/'' @ MODEL)), (''small_model'', PStr (''uart2llm/'' @ MODEL)),
     (''provider'', PDict [(''uart2llm'', PDict [(''npm'', PStr ''@ai-sdk/openai-compatible''),
        (''name'', PStr ''ESP32 acceptance''), (''options'', PDict [
           (''baseURL'', PStr (''http://127.0.0.1:'' @ repr_of L (PInt port) @ ''/v1'')),
           (''apiKey'', PStr ''{env:UART2LLM_OBSERVER_TOKEN}'')]),
        (''models'', PDict [(MODEL, PDict [(''name'', PStr MODEL), (''tool_call'', PBool True),
           (''limit'', PDict [(''context'', PInt 65536), (''output'', PInt output_cap)]),
           (''options'', agent_options)])])])]),
     (''permission'', base_permissions), (''lsp'', PBool False), (''formatter'', PBool False),
     (''agent'', agent_config command)]"

section \<open>The client's event log\<close>

record tool_event =
  te_tool :: pyval
  te_call :: pyval
  te_status :: pyval
  te_input :: pyval
  te_output :: string
  te_error :: pyval
  te_metadata :: pyval

record step_event =
  se_reason :: pyval
  se_cost :: pyval
  se_usage :: pyval

record client_log =
  cl_tools :: "tool_event list"
  cl_texts :: "pyval list"
  cl_sessions :: "pyval list"
  cl_errors :: "pyval list"
  cl_steps :: "step_event list"

definition log_init :: client_log where
  "log_init = \<lparr>cl_tools = [], cl_texts = [], cl_sessions = [], cl_errors = [], cl_steps = []\<rparr>"

definition limit_text :: nat where
  "limit_text = 6000"

text \<open>\<^verbatim>\<open>v[:6000]\<close>.\<close>

definition first_6000 :: "pyval \<Rightarrow> pyval res" where
  "first_6000 v = (case v of PStr s \<Rightarrow> Inr (PStr (py_take limit_text s))
     | PList vs \<Rightarrow> Inr (PList (take limit_text vs)) | _ \<Rightarrow> Inl (Exc TypeError ''type''))"

definition read_tool_use :: "pylib \<Rightarrow> pyval \<Rightarrow> tool_event res" where
  "read_tool_use L part =
     rbind (pyget part ''state'' (PDict [])) (\<lambda>state.
     rbind (pyget part ''tool'' PNone) (\<lambda>tool.
     rbind (pyget part ''callID'' PNone) (\<lambda>call.
     rbind (pyget state ''status'' PNone) (\<lambda>status.
     rbind (pyget state ''input'' PNone) (\<lambda>input.
     rbind (pyget state ''output'' (PStr [])) (\<lambda>output.
     rbind (pyget state ''error'' PNone) (\<lambda>err.
     rbind (pyget state ''metadata'' PNone) (\<lambda>metadata.
     Inr \<lparr>te_tool = tool, te_call = call, te_status = status, te_input = input,
       te_output = py_take limit_text (to_str L output), te_error = err, te_metadata = metadata\<rparr>))))))))"

definition summarize_event :: "pylib \<Rightarrow> pyval \<Rightarrow> (client_log, unit) act" where
  "summarize_event L event =
     bind (lift (pyget event ''part'' (PDict []))) (\<lambda>part.
     bind (lift (pyget event ''sessionID'' PNone)) (\<lambda>sid.
     andthen (modify (\<lambda>r. if truthy sid \<and> \<not> list_ex (py_eq sid) (cl_sessions r)
       then r\<lparr>cl_sessions := cl_sessions r @ [sid]\<rparr> else r))
    (bind (lift (pyget event ''type'' PNone)) (\<lambda>ty.
     if ty = PStr ''tool_use'' then
       bind (lift (read_tool_use L part)) (\<lambda>t. modify (\<lambda>r. r\<lparr>cl_tools := cl_tools r @ [t]\<rparr>))
     else if ty = PStr ''text'' then
       bind (lift (rbind (pyget part ''text'' (PStr [])) first_6000)) (\<lambda>t.
         modify (\<lambda>r. r\<lparr>cl_texts := cl_texts r @ [t]\<rparr>))
     else if ty = PStr ''error'' then
       bind (lift (pyget event ''error'' (PDict []))) (\<lambda>e. modify (\<lambda>r. r\<lparr>cl_errors := cl_errors r @ [e]\<rparr>))
     else if ty = PStr ''step_finish'' then
       bind (lift (rbind (pyget part ''reason'' PNone) (\<lambda>a. rbind (pyget part ''cost'' PNone) (\<lambda>b.
         rbind (pyget part ''tokens'' PNone) (\<lambda>c. Inr \<lparr>se_reason = a, se_cost = b, se_usage = c\<rparr>))))) (\<lambda>e.
         modify (\<lambda>r. r\<lparr>cl_steps := cl_steps r @ [e]\<rparr>))
     else ret ()))))"

definition summarize_line :: "pylib \<Rightarrow> string \<Rightarrow> (client_log, unit) act" where
  "summarize_line L line = (case loads L line of Inl e \<Rightarrow> ret () | Inr event \<Rightarrow> summarize_event L event)"

definition summarize_events :: "pylib \<Rightarrow> string \<Rightarrow> client_log res" where
  "summarize_events L raw = (case for_each (py_splitlines [] raw) (summarize_line L) log_init of
     (Inl e, _) \<Rightarrow> Inl e | (Inr _, r) \<Rightarrow> Inr r)"

section \<open>Cases\<close>

datatype process = Finished int string string | TimedOut

record case_item =
  ci_name :: string
  ci_agent :: string
  ci_exit :: "int option"
  ci_log :: client_log
  ci_error :: "string option"
  ci_stderr :: "string option"

text \<open>\<^verbatim>\<open>execute\<close>: the case of one client process; its log is empty when the client timed out.\<close>

definition execute_case :: "pylib \<Rightarrow> string \<Rightarrow> string \<Rightarrow> process \<Rightarrow> case_item res" where
  "execute_case L name agent p = (case p of
     Finished code out err \<Rightarrow> rbind (summarize_events L out) (\<lambda>log.
       Inr \<lparr>ci_name = name, ci_agent = agent, ci_exit = Some code, ci_log = log, ci_error = None,
         ci_stderr = (if code \<noteq> 0 then Some (py_take 2000 err) else None)\<rparr>)
   | TimedOut \<Rightarrow> Inr \<lparr>ci_name = name, ci_agent = agent, ci_exit = None, ci_log = log_init,
         ci_error = Some ''client timeout (360s)'', ci_stderr = None\<rparr>)"

section \<open>Child sessions\<close>

record child_session =
  ch_session :: pyval
  ch_parent :: "pyval option"
  ch_messages :: "pydict list option"
  ch_tools :: "(pyval \<times> pyval) list option"
  ch_error :: "string option"

definition info_keys :: "string list" where
  "info_keys = [''id'', ''agent'', ''modelID'', ''providerID'', ''finish'', ''tokens'']"

definition read_message :: "pyval \<Rightarrow> (child_session, unit) act" where
  "read_message message =
     bind (lift (pyget message ''info'' (PDict []))) (\<lambda>info.
     bind (lift (pyget info ''role'' PNone)) (\<lambda>role.
     andthen (when_do (role = PStr ''assistant'')
       (bind (lift (rmap (\<lambda>k. rbind (pyget info k PNone) (\<lambda>v. Inr (k, v))) info_keys)) (\<lambda>m.
        modify (\<lambda>c. c\<lparr>ch_messages := map_option (\<lambda>ms. ms @ [m]) (ch_messages c)\<rparr>))))
    (bind (lift (rbind (pyget message ''parts'' (PList [])) iterate)) (\<lambda>parts.
     for_each parts (\<lambda>part.
       bind (lift (pyget part ''type'' PNone)) (\<lambda>ty.
       when_do (ty = PStr ''tool'')
        (bind (lift (pyget part ''tool'' PNone)) (\<lambda>tool.
         bind (lift (rbind (pyget part ''state'' (PDict [])) (\<lambda>st. pyget st ''status'' PNone))) (\<lambda>status.
         modify (\<lambda>c. c\<lparr>ch_tools := map_option (\<lambda>ts. ts @ [(tool, status)]) (ch_tools c)\<rparr>))))))))))"

definition read_export :: "pylib \<Rightarrow> string res \<Rightarrow> (child_session, unit) act" where
  "read_export L out =
     bind (lift (rbind out (loads L))) (\<lambda>exported.
     bind (lift (rbind (pyget exported ''info'' (PDict [])) (\<lambda>i. pyget i ''parentID'' PNone))) (\<lambda>parent.
     andthen (modify (\<lambda>c. c\<lparr>ch_parent := Some parent, ch_messages := Some [], ch_tools := Some []\<rparr>))
    (bind (lift (rbind (pyget exported ''messages'' (PList [])) iterate)) (\<lambda>messages.
     for_each messages read_message))))"

definition child_of :: "pylib \<Rightarrow> (pyval \<Rightarrow> string res) \<Rightarrow> pyval \<Rightarrow> child_session" where
  "child_of L export sid = snd (catch is_exception (read_export L (export sid))
     (\<lambda>e. modify (\<lambda>c. c\<lparr>ch_error := Some (class_name (exc_kind e))\<rparr>))
     \<lparr>ch_session = sid, ch_parent = None, ch_messages = None, ch_tools = None, ch_error = None\<rparr>)"

text \<open>The session a tool event delegated to.\<close>

definition delegated :: "tool_event \<Rightarrow> pyval res" where
  "delegated t = (if te_tool t = PStr ''task'' then pyget (py_or (te_metadata t) (PDict [])) ''sessionId'' PNone
     else Inr PNone)"

fun child_evidence :: "pylib \<Rightarrow> (pyval \<Rightarrow> string res) \<Rightarrow> tool_event list \<Rightarrow> child_session list
    \<Rightarrow> child_session list res" where
  "child_evidence L export [] children = Inr children"
| "child_evidence L export (t # ts) children = rbind (delegated t) (\<lambda>sid.
     if \<not> truthy sid \<or> list_ex (\<lambda>c. py_eq (ch_session c) sid) children
     then child_evidence L export ts children
     else child_evidence L export ts (children @ [child_of L export sid]))"

section \<open>Checks of the plan and build phases\<close>

definition check :: "string \<Rightarrow> bool \<Rightarrow> (checks, unit) act" where
  "check name b = modify (AList.update name b)"

definition tool_done :: "string \<Rightarrow> string \<Rightarrow> tool_event \<Rightarrow> bool" where
  "tool_done tool needle t \<longleftrightarrow> te_tool t = PStr tool \<and> te_status t = PStr ''completed'' \<and> contains needle (te_output t)"

definition subagent_done :: "tool_event \<Rightarrow> bool res" where
  "subagent_done t = (if te_tool t = PStr ''task'' \<and> te_status t = PStr ''completed'' then
       rbind (pyget (py_or (te_metadata t) (PDict [])) ''sessionId'' PNone) (\<lambda>sid.
       Inr (truthy sid \<and> contains ''SUBAGENT-AUDIT-DONE'' (te_output t) \<and> \<not> contains ''Maximum steps'' (te_output t)))
     else Inr False)"

text \<open>\<^verbatim>\<open>(v.get(a) or {})\<close>.\<close>

definition sub_dict :: "pyval \<Rightarrow> string \<Rightarrow> pyval res" where
  "sub_dict v a = rbind (pyget v a PNone) (\<lambda>x. Inr (py_or x (PDict [])))"

definition initial_gate :: "pyval \<Rightarrow> (checks, unit) act" where
  "initial_gate initial =
     bind (lift (rbind (sub_dict initial ''device'') (\<lambda>d. rbind (pyget d ''network'' (PDict [])) (\<lambda>n.
       pyget n ''connected'' PNone)))) (\<lambda>connected.
     if \<not> truthy connected then raise RuntimeError ''configured physical ESP32 Wi-Fi is not connected''
     else
     bind (lift (rbind (sub_dict initial ''llm'') (\<lambda>l. rbind (sub_dict initial ''host'') (\<lambda>h.
       rbind (pyget h ''active_requests'' (PInt 0)) (\<lambda>dflt. pyget l ''active'' dflt))))) (\<lambda>active.
     when_do (truthy active) (raise RuntimeError
       ''gateway already has active requests; run acceptance with exclusive model capacity'')))"

record run_inputs =
  in_initial :: "pyval res"
  in_before :: digests
  in_plan :: "case_item res"
  in_after_plan :: digests
  in_build :: "case_item res"
  in_verify_exit :: "int res"
  in_after_build :: digests
  in_search :: "case_item res option"
  in_parallel :: "case_item res list option"

definition plan_checks :: "digests \<Rightarrow> digests \<Rightarrow> case_item \<Rightarrow> (checks, unit) act" where
  "plan_checks prior after plan =
     (let tools = cl_tools (ci_log plan) in
     andthen (check ''plan_fixture_unchanged'' (prior = after))
    (andthen (check ''plan_skill_loaded'' (list_ex (tool_done ''skill'' ''MONEY-SKILL-LOADED'') tools))
    (andthen (check ''plan_code_search'' (list_ex (tool_done ''grep'' ''total_cents'') tools))
    (bind (lift (rany subagent_done tools)) (\<lambda>b.
     andthen (check ''subagent_completed'' b)
     (when_do (cl_errors (ci_log plan) \<noteq> [] \<or> cl_texts (ci_log plan) = [])
       (raise RuntimeError ''OpenCode plan failed; inspect recorded client errors'')))))))"

definition build_checks :: "digests \<Rightarrow> digests \<Rightarrow> case_item \<Rightarrow> int \<Rightarrow> (checks, unit) act" where
  "build_checks prior after build exit_code =
     andthen (check ''build_fixture_tests_pass'' (exit_code = 0))
    (andthen (check ''protected_fixture_unchanged''
       (kept_files (\<lambda>n. n \<noteq> ''price.py'') prior after))
    (check ''client_executed_tests'' (list_ex (tool_done ''bash'' ''VERIFIED: 11'') (cl_tools (ci_log build)))))"

definition run_complete :: "case_item \<Rightarrow> bool" where
  "run_complete c \<longleftrightarrow> ci_exit c = Some 0 \<and> cl_texts (ci_log c) \<noteq> [] \<and> cl_errors (ci_log c) = []"

definition optional_checks :: "run_inputs \<Rightarrow> (checks, unit) act" where
  "optional_checks I =
     andthen (case in_search I of None \<Rightarrow> ret ()
       | Some r \<Rightarrow> bind (lift r) (\<lambda>search. check ''actual_web_search''
           (list_ex (tool_done ''websearch'' ''https://docs.python.org'') (cl_tools (ci_log search)))))
     (case in_parallel I of None \<Rightarrow> ret ()
       | Some rs \<Rightarrow> bind (lift (rmap (\<lambda>r. r) rs)) (\<lambda>runs.
           check ''four_agent_runs_complete'' (list_all run_complete runs)))"

definition run_body :: "run_inputs \<Rightarrow> (checks, unit) act" where
  "run_body I =
     bind (lift (in_initial I)) (\<lambda>initial.
     andthen (initial_gate initial)
    (bind (lift (in_plan I)) (\<lambda>plan.
     andthen (plan_checks (in_before I) (in_after_plan I) plan)
    (bind (lift (in_build I)) (\<lambda>build.
     bind (lift (in_verify_exit I)) (\<lambda>exit_code.
     andthen (build_checks (in_before I) (in_after_build I) build exit_code)
     (optional_checks I)))))))"

section \<open>The verdict\<close>

definition child_ok :: "child_session \<Rightarrow> bool" where
  "child_ok c \<longleftrightarrow> (case ch_parent c of Some p \<Rightarrow> truthy p | None \<Rightarrow> False)
     \<and> (case ch_messages c of Some ms \<Rightarrow> ms \<noteq> [] | None \<Rightarrow> False)
     \<and> (case ch_tools c of Some ts \<Rightarrow> ts \<noteq> [] | None \<Rightarrow> False) \<and> ch_error c = None
     \<and> list_all (\<lambda>m. map_of m ''providerID'' = Some (PStr ''uart2llm'') \<and> map_of m ''modelID'' = Some (PStr MODEL))
         (case ch_messages c of Some ms \<Rightarrow> ms | None \<Rightarrow> [])"

record sample_row =
  sr_error :: bool
  sr_session :: pyval
  sr_connected :: pyval
  sr_host :: pyval

text \<open>\<^verbatim>\<open>sample\<close>: one poll of the management state.\<close>

definition sample_state :: "pyval res \<Rightarrow> sample_row" where
  "sample_state r = (case rbind r (\<lambda>state. rbind (sub_dict state ''device'') (\<lambda>d.
       rbind (pyget state ''host'' PNone) (\<lambda>h. rbind (pyget d ''session'' PNone) (\<lambda>s.
       rbind (pyget d ''network'' (PDict [])) (\<lambda>n. rbind (pyget n ''connected'' PNone) (\<lambda>c.
       Inr \<lparr>sr_error = False, sr_session = s, sr_connected = c, sr_host = h\<rparr>)))))) of
     Inr row \<Rightarrow> row
   | Inl e \<Rightarrow> \<lparr>sr_error = True, sr_session = PNone, sr_connected = PNone, sr_host = PNone\<rparr>)"

definition stream_complete :: "item \<Rightarrow> bool" where
  "stream_complete r \<longleftrightarrow> has_status 200 r \<and> (truthy (it_stream r) \<longrightarrow> it_done r) \<and> it_error r = None"

definition calls_of :: "item list \<Rightarrow> tool_acc list" where
  "calls_of rs = concat (map (\<lambda>r. map snd (it_calls r)) rs)"

definition valid_call :: "tool_acc \<Rightarrow> bool" where
  "valid_call t \<longleftrightarrow> (case acc_digest t of Some (_, _, v) \<Rightarrow> v | None \<Rightarrow> False)"

fun distinct_sessions :: "pyval list \<Rightarrow> pyval list" where
  "distinct_sessions [] = []"
| "distinct_sessions (v # vs) = (if list_ex (py_eq v) vs then distinct_sessions vs else v # distinct_sessions vs)"

text \<open>The final state of the management endpoint: whether the gateway became idle.\<close>

definition idle_check :: "pyval res \<Rightarrow> bool" where
  "idle_check final = (case rbind final (\<lambda>f. rbind (sub_dict f ''llm'') (\<lambda>l. rbind (pyget l ''active'' (PInt 0)) (\<lambda>active.
       rbind (sub_dict f ''host'') (\<lambda>h. rbind (pyget h ''requests'' PNone) (\<lambda>_. Inr active))))) of
     Inr active \<Rightarrow> eq_int active 0 | Inl _ \<Rightarrow> False)"

text \<open>
  The checks of the \<^verbatim>\<open>finally\<close> clause. Tool call ids are JSON strings or null, so that they
  can be collected in a set.
\<close>

definition final_checks :: "item list \<Rightarrow> sample_row list \<Rightarrow> child_session list \<Rightarrow> pyval res \<Rightarrow> bool \<Rightarrow> checks" where
  "final_checks rs samples children final four =
     (let calls = calls_of rs; returned = concat (map it_result_ids rs) in
     [(''subagent_model_evidence'', children \<noteq> [] \<and> list_all child_ok children),
      (''gateway_idle_after_run'', idle_check final),
      (''all_streams_complete'', rs \<noteq> [] \<and> list_all stream_complete rs),
      (''no_output_truncation'', rs \<noteq> [] \<and> list_all (finish_in [''stop'', ''tool_calls'']) rs),
      (''streamed_tool_arguments_valid'', calls \<noteq> [] \<and> list_all valid_call calls),
      (''tool_results_round_trip'', calls \<noteq> [] \<and> list_all (\<lambda>t. PStr (acc_id t) \<in> set returned) calls),
      (''telemetry_available_under_load'', samples \<noteq> [] \<and> list_all (\<lambda>s. \<not> sr_error s \<and> truthy (sr_connected s)) samples),
      (''physical_session_stable'', length (distinct_sessions (filter (\<lambda>v. v \<noteq> PNone) (map sr_session samples))) = 1)]
     @ (if four then [(''four_actual_requests_observed'', list_ex (\<lambda>s.
          case pyget (py_or (sr_host s) (PDict [])) ''active_requests'' PNone of
            Inr v \<Rightarrow> eq_int v 4 | Inl _ \<Rightarrow> False) samples)] else []))"

definition usage_totals :: "item list \<Rightarrow> (string \<times> int) list" where
  "usage_totals rs = fold (\<lambda>(k, v) t. case int_of v of None \<Rightarrow> t
       | Some n \<Rightarrow> AList.update k ((case map_of t k of None \<Rightarrow> 0 | Some m \<Rightarrow> m) + n) t)
     (concat (map (\<lambda>r. case it_usage r of Some (PDict d) \<Rightarrow> d | _ \<Rightarrow> []) rs)) []"

definition all_checks :: "run_inputs \<Rightarrow> item list \<Rightarrow> sample_row list \<Rightarrow> child_session list \<Rightarrow> pyval res \<Rightarrow> checks" where
  "all_checks I rs samples children final =
     add_checks (final_checks rs samples children final (in_parallel I \<noteq> None)) (snd (run_body I []))"

text \<open>
  What \<^verbatim>\<open>except Exception as exc: report['error'] = str(exc)\<close> leaves for \<^verbatim>\<open>not report.get('error')\<close>:
  an interrupt is not caught, and an empty message is falsy.
\<close>

definition unreported :: "exc \<Rightarrow> bool" where
  "unreported e \<longleftrightarrow> \<not> is_exception (exc_kind e) \<or> exc_msg e = []"

definition verdict :: "run_inputs \<Rightarrow> item list \<Rightarrow> rejection list \<Rightarrow> sample_row list \<Rightarrow> child_session list
    \<Rightarrow> pyval res \<Rightarrow> bool" where
  "verdict I rs rejected samples children final \<longleftrightarrow>
     (let cs = all_checks I rs samples children final in
      checks_pass cs \<and> (case fst (run_body I []) of Inl e \<Rightarrow> unreported e | Inr _ \<Rightarrow> True) \<and> rejected = [])"

section \<open>Publication\<close>

text \<open>\<^verbatim>\<open>s.replace(old, new)\<close>.\<close>

function replace_all :: "string \<Rightarrow> string \<Rightarrow> string \<Rightarrow> string" where
  "replace_all old new s =
     (if old = [] then concat (map (\<lambda>c. new @ c) (code_points s)) @ new
      else if s = [] then []
      else if prefix old s then new @ replace_all old new (drop (length old) s)
      else hd s # replace_all old new (tl s))"
  by pat_completeness auto
termination
  by (relation "measure (\<lambda>(_, _, s). length s)") auto

declare replace_all.simps [simp del]

definition public_text :: "string list \<Rightarrow> string \<Rightarrow> string" where
  "public_text secrets text = fold (\<lambda>secret t. replace_all secret ''[redacted]'' t) secrets text"

end
