(* ===== verification/OpenCodeProps.thy ===== *)
theory OpenCodeProps
  imports OpenCode
begin

text \<open>
  What a passed OpenCode run has established, what its public report cannot contain, and
  the privileges its client configuration gives.
\<close>

section \<open>Secrets\<close>

definition redaction :: string where
  "redaction = ''[redacted]''"

text \<open>A secret that the redaction mark cannot imitate: tokens of letters and digits are.\<close>

definition plain_secret :: "string \<Rightarrow> bool" where
  "plain_secret q \<longleftrightarrow> q \<noteq> [] \<and> CHR ''['' \<notin> set q \<and> CHR '']'' \<notin> set q \<and> \<not> contains q ''redacted''"

lemma contains_prefix: "prefix q t \<Longrightarrow> contains q t"
  by (auto simp: contains_iff prefix_def)

lemma contains_append: "contains q t \<Longrightarrow> contains q (s @ t)"
  by (auto simp: contains_iff) (metis append.assoc)

lemma contains_drop: "contains q (drop n t) \<Longrightarrow> contains q t"
  by (metis append_take_drop_id contains_append)

text \<open>Without brackets, an occurrence that meets a mark lies inside it.\<close>

lemma prefix_before_bracket:
  "CHR '']'' \<notin> set q \<Longrightarrow> prefix q (u @ CHR '']'' # t) \<Longrightarrow> prefix q u"
  by (induction u arbitrary: q) (auto simp: prefix_Cons)

lemma contains_before_bracket:
  "CHR '']'' \<notin> set q \<Longrightarrow> q \<noteq> [] \<Longrightarrow> contains q (u @ CHR '']'' # t) \<Longrightarrow> contains q u \<or> contains q t"
proof (induction u)
  case Nil
  then show ?case by (auto simp: prefix_Cons)
next
  case (Cons c u)
  then show ?case using prefix_before_bracket [of q "c # u" t] by auto
qed

lemma contains_mark: "plain_secret q \<Longrightarrow> contains q (redaction @ t) \<Longrightarrow> contains q t"
proof -
  assume q: "plain_secret q" and c: "contains q (redaction @ t)"
  have "redaction @ t = CHR ''['' # (''redacted'' @ CHR '']'' # t)" by (simp add: redaction_def)
  moreover have "\<not> prefix q (CHR ''['' # u)" for u
    using q by (cases q) (auto simp: plain_secret_def)
  ultimately have "contains q (''redacted'' @ CHR '']'' # t)" using c by (metis contains.simps(2))
  then show "contains q t" using q contains_before_bracket [of q "''redacted''" t]
    by (auto simp: plain_secret_def)
qed

lemma replaced_prefix:
  "old \<noteq> [] \<Longrightarrow> CHR ''['' \<notin> set q \<Longrightarrow> prefix q (replace_all old redaction s) \<Longrightarrow> prefix q s"
proof (induction old redaction s arbitrary: q rule: replace_all.induct)
  case (1 old s)
  show ?case
  proof (cases "s = []")
    case True
    with 1 show ?thesis by (simp add: replace_all.simps)
  next
    case False
    show ?thesis
    proof (cases "prefix old s")
      case True
      with 1(3-) False have "q = []"
        by (cases q) (auto simp: replace_all.simps [of old _ s] redaction_def)
      then show ?thesis by simp
    next
      case nomatch: False
      with False 1(4,5) have "prefix q (hd s # replace_all old redaction (tl s))"
        using 1(3) by (simp add: replace_all.simps [of old _ s])
      then show ?thesis using 1(2) [OF 1(3) False nomatch 1(3), of "tl q"] 1(4) False
        by (cases q; cases s) auto
    qed
  qed
qed

lemma replaced_contains:
  "plain_secret q \<Longrightarrow> old \<noteq> [] \<Longrightarrow> contains q (replace_all old redaction s) \<Longrightarrow> contains q s"
proof (induction old redaction s rule: replace_all.induct)
  case (1 old s)
  show ?case
  proof (cases "s = []")
    case True
    with 1 show ?thesis by (simp add: replace_all.simps)
  next
    case False
    show ?thesis
    proof (cases "prefix old s")
      case True
      with 1(5) False 1(4) have "contains q (redaction @ replace_all old redaction (drop (length old) s))"
        by (simp add: replace_all.simps [of old _ s])
      then have "contains q (drop (length old) s)"
        using contains_mark 1(1) [OF 1(4) False True 1(3,4)] 1(3) by blast
      then show ?thesis by (rule contains_drop)
    next
      case nomatch: False
      have run: "replace_all old redaction s = hd s # replace_all old redaction (tl s)"
        using 1(4) False nomatch by (simp add: replace_all.simps [of old _ s])
      have "CHR ''['' \<notin> set q" using 1(3) by (simp add: plain_secret_def)
      with 1(4) have "prefix q (replace_all old redaction s) \<Longrightarrow> prefix q s" by (rule replaced_prefix)
      moreover have "contains q (replace_all old redaction (tl s)) \<Longrightarrow> contains q (tl s)"
        using 1(2) [OF 1(4) False nomatch 1(3,4)] .
      ultimately show ?thesis using 1(5) False run contains_prefix
        by (cases s) auto
    qed
  qed
qed

lemma replaced_gone: "plain_secret q \<Longrightarrow> \<not> contains q (replace_all q redaction s)"
proof (induction q redaction s rule: replace_all.induct)
  case (1 q s)
  have q: "q \<noteq> []" "CHR ''['' \<notin> set q" using 1(3) by (auto simp: plain_secret_def)
  show ?case
  proof (cases "s = []")
    case True
    with q show ?thesis by (simp add: replace_all.simps)
  next
    case False
    show ?thesis
    proof (cases "prefix q s")
      case True
      with q False 1(1) [OF q(1) False True 1(3)] contains_mark [OF 1(3)] show ?thesis
        by (auto simp: replace_all.simps [of q _ s])
    next
      case nomatch: False
      have run: "replace_all q redaction s = hd s # replace_all q redaction (tl s)"
        using q False nomatch by (simp add: replace_all.simps [of q _ s])
      have "\<not> prefix q (replace_all q redaction s)" using replaced_prefix [OF q] nomatch by blast
      with run 1(2) [OF q(1) False nomatch 1(3)] show ?thesis by simp
    qed
  qed
qed

text \<open>
  C7. None of the run's secrets occurs in the published text, whatever the report contains
  and in whatever order they are replaced.
\<close>

theorem public_text_hides:
  assumes "list_all plain_secret secrets" and "q \<in> set secrets"
  shows "\<not> contains q (public_text secrets s0)"
  using assms
proof (induction secrets arbitrary: s0)
  case (Cons s secrets)
  have keeps: "\<not> contains q (fold (\<lambda>secret t. replace_all secret ''[redacted]'' t) ss t)"
    if "plain_secret q" "list_all plain_secret ss" "\<not> contains q t" for ss t
    using that
  proof (induction ss arbitrary: t)
    case (Cons a ss)
    then have "\<not> contains q (replace_all a redaction t)"
      using replaced_contains [of q a t] by (auto simp: plain_secret_def)
    with Cons show ?case by (simp add: redaction_def)
  qed simp
  show ?case
  proof (cases "q = s")
    case True
    with Cons.prems replaced_gone [of s s0] keeps show ?thesis
      by (simp add: public_text_def redaction_def)
  next
    case False
    with Cons show ?thesis by (simp add: public_text_def)
  qed
qed simp

theorem public_text_hides_witness:
  "\<not> contains ''k1'' (public_text [''k1'', ''k2''] ''a k1 b k2k1'')"
  by (rule public_text_hides) (simp_all add: plain_secret_def)

section \<open>Privileges\<close>

text \<open>
  The client configuration allows exactly: reading and searching, one skill, one
  subagent, edits of \<^verbatim>\<open>price.py\<close>, the one verification command, and web search; every other
  permission in it is denied.
\<close>

lemma config_least_privilege:
  "map fst (filter (\<lambda>(k, v). v = allow) (entries (opencode_config L port output_cap command)))
   = [''read'', ''grep'', ''glob'', ''money-review'', ''explore'', ''price.py'', ''**/price.py'', command, ''websearch'']"
  by (simp add: opencode_config_def base_permissions_def agent_config_def agent_options_def allow_def deny_def
      MODEL_def)

section \<open>The verdict\<close>

lemma final_keys_distinct: "distinct (map fst (final_checks rs samples children final four))"
  by (simp add: final_checks_def Let_def)

lemma verdict_final:
  assumes "verdict I rs rejected samples children final"
    and "(k, b) \<in> set (final_checks rs samples children final (in_parallel I \<noteq> None))"
  shows b
  using assms pass_added [OF _ final_keys_distinct] by (auto simp: verdict_def all_checks_def Let_def)

lemma verdict_body:
  assumes "verdict I rs rejected samples children final"
    and "recorded k b (snd (run_body I []))"
    and "k \<notin> fst ` set (final_checks rs samples children final (in_parallel I \<noteq> None))"
  shows b
proof -
  have "recorded k b (all_checks I rs samples children final)"
    using assms(2) added_other [OF assms(3)] by (simp add: all_checks_def)
  then show b using assms(1) pass_recorded by (auto simp: verdict_def Let_def)
qed

lemma check_records: "yields J (recorded k b) (check k b)"
  by (auto simp: check_def update_conv' intro!: yields_modify)

lemma check_keeps: "k \<noteq> j \<Longrightarrow> keeps (recorded j b) (check k c)"
  by (auto simp: check_def update_conv' intro!: keeps_modify)

lemma plan_checks_record:
  "yields J (recorded ''plan_fixture_unchanged'' (prior = after)) (plan_checks prior after plan)"
  unfolding plan_checks_def Let_def
  by (rule yields_andthen [OF check_records keeps_yields])
     (intro keeps_intro check_keeps; simp)

lemma checks_kept:
  "build_checks prior after build c cs = (r, ds) \<Longrightarrow> r = Inr () \<and>
   map_of ds ''plan_fixture_unchanged'' = map_of cs ''plan_fixture_unchanged''
   \<and> map_of ds ''build_fixture_tests_pass'' = Some (c = 0)
   \<and> map_of ds ''protected_fixture_unchanged''
       = Some (kept_files (\<lambda>n. n \<noteq> ''price.py'') prior after)"
  by (auto simp: build_checks_def check_def act_simps update_conv')


lemma optional_keeps:
  "k \<noteq> ''actual_web_search'' \<Longrightarrow> k \<noteq> ''four_agent_runs_complete'' \<Longrightarrow> keeps (recorded k d) (optional_checks I)"
  unfolding optional_checks_def
  by (intro keeps_intro) (auto split: option.split intro!: keeps_intro check_keeps)

lemma initial_gate_state: "snd (initial_gate v cs) = cs"
proof -
  have "keeps ((=) cs) (initial_gate v)" unfolding initial_gate_def by (intro keeps_intro)
  then show ?thesis by (auto simp: keeps_def)
qed

text \<open>What a body that returns has established about the fixture and its own verification.\<close>

lemma body_facts:
  assumes run: "run_body I [] = (Inr u, cs)"
  shows "\<exists>c. in_verify_exit I = Inr c
    \<and> recorded ''plan_fixture_unchanged'' (in_before I = in_after_plan I) cs
    \<and> recorded ''build_fixture_tests_pass'' (c = 0) cs
    \<and> recorded ''protected_fixture_unchanged''
         (kept_files (\<lambda>n. n \<noteq> ''price.py'') (in_before I) (in_after_build I)) cs"
proof -
  obtain plan build c s1 s2 s3 where c: "in_verify_exit I = Inr c"
    and p: "plan_checks (in_before I) (in_after_plan I) plan s1 = (Inr (), s2)"
    and b: "build_checks (in_before I) (in_after_build I) build c s2 = (Inr (), s3)"
    and r: "optional_checks I s3 = (Inr u, cs)"
    using run unfolding run_body_def andthen_def bind_Inr_iff by (auto simp: act_run)
  have "recorded ''plan_fixture_unchanged'' (in_before I = in_after_plan I) s2"
    using plan_checks_record p by (auto simp: yields_def)
  moreover have "recorded k d cs" if "k \<noteq> ''actual_web_search''" "k \<noteq> ''four_agent_runs_complete''" "recorded k d s3" for k d
    using keepsD [OF optional_keeps [OF that(1,2)], OF that(3)] r by (metis snd_conv)
  ultimately show ?thesis using checks_kept [OF b] c by auto
qed

subsection \<open>A small passed run\<close>

definition demo_item :: item where
  "demo_item = \<lparr>it_id = 1, it_phase = ''plan'', it_started = 0, it_request_bytes = 10, it_request_sha = [],
     it_stream = PBool True, it_cap = 9, it_roles = [], it_offered = [], it_result_ids = [PStr ''c1''],
     it_events = 3, it_response_bytes = 80, it_done = True,
     it_calls = [(''0'', \<lparr>acc_id = ''c1'', acc_name = ''grep'', acc_arguments = None, acc_fragments = 1,
        acc_digest = Some (2, [], True)\<rparr>)],
     it_reasoning = 0, it_status = Some 200, it_retry_after = None, it_header_seconds = None,
     it_first_event = None, it_usage = None, it_finish = Some (PStr ''stop''), it_error_codes = [],
     it_error = None, it_response_sha = None, it_seconds = None\<rparr>"

definition demo_child :: child_session where
  "demo_child = \<lparr>ch_session = PStr ''s2'', ch_parent = Some (PStr ''s1''),
     ch_messages = Some [[(''providerID'', PStr ''uart2llm''), (''modelID'', PStr MODEL)]],
     ch_tools = Some [(PStr ''read'', PStr ''completed'')], ch_error = None\<rparr>"

definition demo_samples :: "sample_row list" where
  "demo_samples = [\<lparr>sr_error = False, sr_session = PStr ''d'', sr_connected = PBool True, sr_host = PNone\<rparr>]"

definition demo_tool :: "string \<Rightarrow> pyval \<Rightarrow> string \<Rightarrow> tool_event" where
  "demo_tool name metadata output = \<lparr>te_tool = PStr name, te_call = PNone, te_status = PStr ''completed'',
     te_input = PNone, te_output = output, te_error = PNone, te_metadata = metadata\<rparr>"

definition demo_case :: "tool_event list \<Rightarrow> case_item" where
  "demo_case ts = \<lparr>ci_name = ''plan'', ci_agent = ''plan'', ci_exit = Some 0,
     ci_log = log_init\<lparr>cl_tools := ts, cl_texts := [PStr ''ok'']\<rparr>, ci_error = None, ci_stderr = None\<rparr>"

definition demo_inputs :: run_inputs where
  "demo_inputs = \<lparr>in_initial = Inr (PDict [(''device'', PDict [(''network'', PDict [(''connected'', PBool True)])])]),
     in_before = [(''price.py'', ''a''), (''verify.py'', ''b'')],
     in_plan = Inr (demo_case [demo_tool ''skill'' PNone ''MONEY-SKILL-LOADED'', demo_tool ''grep'' PNone ''total_cents'',
        demo_tool ''task'' (PDict [(''sessionId'', PStr ''s2'')]) ''SUBAGENT-AUDIT-DONE'']),
     in_after_plan = [(''price.py'', ''a''), (''verify.py'', ''b'')],
     in_build = Inr (demo_case [demo_tool ''bash'' PNone ''VERIFIED: 11'']), in_verify_exit = Inr 0,
     in_after_build = [(''price.py'', ''c''), (''verify.py'', ''b'')], in_search = None, in_parallel = None\<rparr>"

definition demo_final :: "pyval res" where
  "demo_final = Inr (PDict [(''llm'', PDict [(''active'', PInt 0)])])"

lemma demo_gate:
  "initial_gate (PDict [(''device'', PDict [(''network'', PDict [(''connected'', PBool True)])])]) [] = (Inr (), [])"
  by code_simp

lemma demo_final_checks:
  "list_all snd (final_checks [demo_item] demo_samples [demo_child] demo_final False)"
  by code_simp

lemma demo_verdict: "verdict demo_inputs [demo_item] [] demo_samples [demo_child] demo_final"
  by code_simp

subsection \<open>What it shows\<close>

text \<open>
  C6. A passed run served at least one request; every request was answered with status 200,
  without an error, with an orderly finish reason, and its stream to the end; every tool call
  had valid arguments and its result came back; nothing was refused and the gateway is idle.
  When the body returned, planning left the fixture alone, only \<^verbatim>\<open>price.py\<close> changed,
  and the fixture's tests passed.
\<close>

theorem verdict_sound:
  assumes v: "verdict I rs rejected samples children final"
  shows "rejected = [] \<and> idle_check final \<and> rs \<noteq> []
    \<and> list_all (\<lambda>r. has_status 200 r \<and> it_error r = None \<and> finish_in [''stop'', ''tool_calls''] r
         \<and> (it_done r \<or> \<not> truthy (it_stream r))) rs
    \<and> calls_of rs \<noteq> []
    \<and> list_all (\<lambda>t. valid_call t \<and> PStr (acc_id t) \<in> set (concat (map it_result_ids rs))) (calls_of rs)
    \<and> (fst (run_body I []) = Inr () \<longrightarrow> in_after_plan I = in_before I \<and> in_verify_exit I = Inr 0
         \<and> kept_files (\<lambda>n. n \<noteq> ''price.py'') (in_before I) (in_after_build I))"
proof -
  note f = verdict_final [OF v, unfolded final_checks_def Let_def]
  note streams = f [of "''all_streams_complete''"] and finish = f [of "''no_output_truncation''"]
  have "rs \<noteq> []" "list_all stream_complete rs" "list_all (finish_in [''stop'', ''tool_calls'']) rs"
    using streams finish by auto
  moreover have "rejected = []" using v by (simp add: verdict_def Let_def)
  moreover have "idle_check final" using f [of "''gateway_idle_after_run''"] by auto
  moreover have "calls_of rs \<noteq> []" "list_all valid_call (calls_of rs)"
    using f [of "''streamed_tool_arguments_valid''"] by auto
  moreover have "list_all (\<lambda>t. PStr (acc_id t) \<in> set (concat (map it_result_ids rs))) (calls_of rs)"
    using f [of "''tool_results_round_trip''"] by auto
  moreover have "in_after_plan I = in_before I \<and> in_verify_exit I = Inr 0
         \<and> kept_files (\<lambda>n. n \<noteq> ''price.py'') (in_before I) (in_after_build I)"
    if run: "fst (run_body I []) = Inr ()"
  proof -
    have "run_body I [] = (Inr (), snd (run_body I []))" using run by (metis prod.collapse)
    from body_facts [OF this] obtain c where "in_verify_exit I = Inr c"
      and "recorded ''plan_fixture_unchanged'' (in_before I = in_after_plan I) (snd (run_body I []))"
      and "recorded ''build_fixture_tests_pass'' (c = 0) (snd (run_body I []))"
      and "recorded ''protected_fixture_unchanged''
         (kept_files (\<lambda>n. n \<noteq> ''price.py'') (in_before I) (in_after_build I)) (snd (run_body I []))"
      by blast
    with verdict_body [OF v] show ?thesis by (fastforce simp: final_checks_def Let_def)
  qed
  ultimately show ?thesis by (auto simp: list_all_iff stream_complete_def)
qed

theorem verdict_sound_witness:
  "demo_item \<in> set [demo_item] \<and> has_status 200 demo_item \<and> calls_of [demo_item] \<noteq> []"
  using verdict_sound [OF demo_verdict] by simp

text \<open>
  An interrupt, or an exception without a message, counts as no error: the verdict of a
  run that ended while planning is that of its closing checks alone, although nothing was
  planned, built or verified.
\<close>

lemma interrupted_run_passes:
  assumes "in_initial I = Inr v" and "fst (initial_gate v []) = Inr ()"
    and "in_plan I = Inl e" and "unreported e"
  shows "verdict I rs rejected samples children final \<longleftrightarrow> rejected = []
    \<and> list_all snd (final_checks rs samples children final (in_parallel I \<noteq> None))"
proof -
  have gate: "initial_gate v [] = (Inr (), [])" using assms(2) initial_gate_state [of v "[]"] by (metis prod.collapse)
  have "run_body I [] = (Inl e, [])"
    by (simp add: run_body_def andthen_def bind_def act_run assms gate)
  moreover have "add_checks (final_checks rs samples children final f) [] = final_checks rs samples children final f" for f
    by (simp add: add_checks_def final_checks_def Let_def)
  moreover have "final_checks rs samples children final f \<noteq> []" for f by (simp add: final_checks_def Let_def)
  ultimately show ?thesis by (auto simp: verdict_def Let_def all_checks_def checks_pass_def assms(4))
qed

theorem interrupted_run_passes_witness:
  "verdict (demo_inputs\<lparr>in_plan := Inl (Exc KeyboardInterrupt [])\<rparr>) [demo_item] [] demo_samples [demo_child] demo_final"
proof -
  have "in_initial (demo_inputs\<lparr>in_plan := Inl (Exc KeyboardInterrupt [])\<rparr>)
      = Inr (PDict [(''device'', PDict [(''network'', PDict [(''connected'', PBool True)])])])"
    by (simp add: demo_inputs_def)
  from interrupted_run_passes [OF this] demo_gate demo_final_checks show ?thesis
    by (simp add: unreported_def is_exception_def demo_inputs_def)
qed

end
