(* ===== verification/Release.thy ===== *)
theory Release
  imports PyText
begin

text \<open>
  What goes into a release: \<^verbatim>\<open>source_manifest.py\<close> and \<^verbatim>\<open>source-archive.py\<close> (the public sources),
  \<^verbatim>\<open>package-firmware.py\<close> (one transport's firmware) and \<^verbatim>\<open>package-offline.py\<close> (the Windows
  distribution). A directory is a tree of names, an archive a list of members, and the result is
  the list of members the program writes.
\<close>

section \<open>Paths\<close>

text \<open>\<^verbatim>\<open>PurePosixPath\<close> of a relative name: its parts, its text and its last part.\<close>

definition path_parts :: "string \<Rightarrow> string list" where
  "path_parts s = filter (\<lambda>x. x \<noteq> [] \<and> x \<noteq> ''.'') (split_on (CHR ''/'') s)"

definition as_posix :: "string \<Rightarrow> string" where
  "as_posix s = (if path_parts s = [] then ''.'' else join ''/'' (path_parts s))"

definition base_name :: "string \<Rightarrow> string" where
  "base_name s = (if path_parts s = [] then [] else last (path_parts s))"

definition line_feed :: string where
  "line_feed = [CHR 0x0A]"

text \<open>Pairs of a name and the bytes of the file.\<close>

type_synonym files = "(string \<times> string) list"

text \<open>The named files with their contents; the first that cannot be read raises.\<close>

definition read_all :: "(string \<Rightarrow> string res) \<Rightarrow> string list \<Rightarrow> files res" where
  "read_all get ns = rmap (\<lambda>n. rbind (get n) (\<lambda>d. Inr (n, d))) ns"

text \<open>The lines of a checksum file.\<close>

definition sum_line :: "pylib \<Rightarrow> string \<times> string \<Rightarrow> string" where
  "sum_line L f = sha256 L (snd f) @ ''  '' @ fst f"

section \<open>The offline distribution\<close>

record member =
  mb_name :: string
  mb_data :: "string res"

definition is_folder :: "member \<Rightarrow> bool" where
  "is_folder m \<longleftrightarrow> suffix ''/'' (mb_name m)"

definition root_files :: "string list" where
  "root_files = [''uart2llm-agent-windows-x64.exe'', ''LICENSES.txt'', ''README.md'']"

definition ARCHIVES :: "(string \<times> string) list" where
  "ARCHIVES = [(''uart2llm-device-tools-windows-x64.zip'', ''device-tools''),
     (''uart2llm-firmware-uart.zip'', ''firmware/uart''),
     (''uart2llm-firmware-usb-validation.zip'', ''firmware/usb-validation'')]"

definition transports :: "string list" where
  "transports = [''uart'', ''usb-validation'']"

definition firmware_prefix :: "string \<Rightarrow> string" where
  "firmware_prefix t = ''firmware/'' @ t @ ''/''"

definition REQUIRED :: "string list" where
  "REQUIRED = [''device-tools/tools/esptool.exe'', ''device-tools/tools/provision-device.exe'',
     ''device-tools/source/packaging/sources/esptool-5.4.0.tar.gz'']
   @ concat (map (\<lambda>t. map (\<lambda>n. firmware_prefix t @ n)
       [''uart2llm.bin'', ''bootloader/bootloader.bin'', ''partition_table/partition-table.bin'',
        ''ota_data_initial.bin'', ''flasher_args.json'', ''SHA256SUMS'']) transports)"

definition unsafe_name :: "string \<Rightarrow> bool" where
  "unsafe_name n \<longleftrightarrow> prefix ''/'' n \<or> ''..'' \<in> set (path_parts n) \<or> CHR 0x5C \<in> set n \<or> CHR '':'' \<in> set n"

definition private_name :: "string \<Rightarrow> bool" where
  "private_name n \<longleftrightarrow> list_ex (\<lambda>p. prefix p (py_lower n)) [''pairing.'', ''.env'', ''credentials'']"

text \<open>
  One member of an archive. \<^verbatim>\<open>casefold\<close> is \<^verbatim>\<open>str.casefold\<close>, the Unicode table; reading a member also
  verifies its CRC and may raise.
\<close>

definition add_member :: "(string \<Rightarrow> string) \<Rightarrow> string \<Rightarrow> member \<Rightarrow> files \<Rightarrow> files res" where
  "add_member casefold pre m fs =
     (if unsafe_name (mb_name m) then Inl (Exc ValueError (''Unsafe archive member: '' @ mb_name m))
      else if private_name (base_name (mb_name m)) then
        Inl (Exc ValueError (''Private material in archive: '' @ mb_name m))
      else if is_folder m then Inr fs
      else let name = pre @ ''/'' @ as_posix (mb_name m) in
        if casefold name \<in> set (map (casefold \<circ> fst) fs) then Inl (Exc ValueError (''Duplicate archive member: '' @ name))
        else rbind (mb_data m) (\<lambda>data. Inr (AList.update name data fs)))"

fun add_members :: "(string \<Rightarrow> string) \<Rightarrow> string \<Rightarrow> member list \<Rightarrow> files \<Rightarrow> files res" where
  "add_members casefold pre [] fs = Inr fs"
| "add_members casefold pre (m # ms) fs = rbind (add_member casefold pre m fs) (add_members casefold pre ms)"

fun add_archives :: "(string \<Rightarrow> string) \<Rightarrow> (string \<Rightarrow> member list res) \<Rightarrow> (string \<times> string) list \<Rightarrow> files \<Rightarrow> files res" where
  "add_archives casefold archive [] fs = Inr fs"
| "add_archives casefold archive ((a, pre) # as) fs =
     rbind (archive a) (\<lambda>ms. rbind (add_members casefold pre ms fs) (add_archives casefold archive as))"

text \<open>\<^verbatim>\<open>bytes.decode()\<close>: the well-formed byte sequences of UTF-8.\<close>

definition lead_byte :: "nat \<Rightarrow> (nat \<times> nat \<times> nat) option" where
  "lead_byte b = (if b < 0x80 then Some (0, 0x80, 0xBF) else if b < 0xC2 then None
     else if b \<le> 0xDF then Some (1, 0x80, 0xBF) else if b = 0xE0 then Some (2, 0xA0, 0xBF)
     else if b = 0xED then Some (2, 0x80, 0x9F) else if b \<le> 0xEF then Some (2, 0x80, 0xBF)
     else if b = 0xF0 then Some (3, 0x90, 0xBF) else if b \<le> 0xF3 then Some (3, 0x80, 0xBF)
     else if b = 0xF4 then Some (3, 0x80, 0x8F) else None)"

function utf8_ok :: "string \<Rightarrow> bool" where
  "utf8_ok [] = True"
| "utf8_ok (c # cs) = (case lead_byte (of_char c) of None \<Rightarrow> False
     | Some (n, lo, hi) \<Rightarrow> n \<le> length cs
         \<and> (n = 0 \<or> lo \<le> (of_char (hd cs) :: nat) \<and> (of_char (hd cs) :: nat) \<le> hi)
         \<and> list_all is_cont (take n cs) \<and> utf8_ok (drop n cs))"
  by pat_completeness auto
termination
  by (relation "measure length") auto

definition decode :: "string \<Rightarrow> string res" where
  "decode s = (if utf8_ok s then Inr s else Inl (Exc UnicodeDecodeError ''utf-8''))"

text \<open>\<^verbatim>\<open>digest, name = line.split('  ', 1)\<close>.\<close>

fun cut_pair :: "string \<Rightarrow> (string \<times> string) option" where
  "cut_pair [] = None"
| "cut_pair (c # cs) = (if prefix ''  '' (c # cs) then Some ([], drop 2 (c # cs))
     else map_option (\<lambda>(a, b). (c # a, b)) (cut_pair cs))"

definition split_pair :: "string \<Rightarrow> (string \<times> string) res" where
  "split_pair s = (case cut_pair s of None \<Rightarrow> Inl (Exc ValueError ''not enough values to unpack'') | Some p \<Rightarrow> Inr p)"

definition file_at :: "files \<Rightarrow> string \<Rightarrow> string res" where
  "file_at fs n = (case map_of fs n of None \<Rightarrow> Inl (Exc KeyError n) | Some d \<Rightarrow> Inr d)"

definition check_sum :: "pylib \<Rightarrow> files \<Rightarrow> string \<Rightarrow> string \<Rightarrow> unit res" where
  "check_sum L fs pre line = rbind (split_pair line) (\<lambda>(digest, name). rbind (file_at fs (pre @ name)) (\<lambda>data.
     if sha256 L data \<noteq> digest then Inl (Exc ValueError (''Firmware checksum mismatch: '' @ pre @ name)) else Inr ()))"

definition check_transport :: "pylib \<Rightarrow> files \<Rightarrow> string \<Rightarrow> unit res" where
  "check_transport L fs t = (let pre = firmware_prefix t in
     rbind (file_at fs (pre @ ''SHA256SUMS'')) (\<lambda>raw. rbind (decode raw) (\<lambda>content.
     rbind (rmap (check_sum L fs pre) (py_splitlines [] content)) (\<lambda>_. Inr ()))))"

definition sorted_files :: "files \<Rightarrow> files" where
  "sorted_files fs = sort_key fst fs"

definition all_sums :: "pylib \<Rightarrow> files \<Rightarrow> string" where
  "all_sums L fs = concat (map (\<lambda>f. sum_line L f @ line_feed) (sorted_files fs))"

definition check_present :: "files \<Rightarrow> unit res" where
  "check_present fs = (if \<not> set REQUIRED \<subseteq> set (map fst fs) \<or> list_ex (\<lambda>(n, d). d = []) fs
     then Inl (Exc ValueError ''Missing or empty release inputs'') else Inr ())"

text \<open>
  \<^verbatim>\<open>package\<close>: the assets and archives may be missing, the output may exist already, and the
  bundle read back may fail its CRC test.
\<close>

definition package :: "pylib \<Rightarrow> (string \<Rightarrow> string) \<Rightarrow> (string \<Rightarrow> string res) \<Rightarrow> (string \<Rightarrow> member list res)
    \<Rightarrow> bool \<Rightarrow> bool \<Rightarrow> files res" where
  "package L casefold asset archive output_exists crc_ok =
     rbind (read_all asset root_files) (\<lambda>roots.
     rbind (add_archives casefold archive ARCHIVES roots) (\<lambda>fs.
     rbind (check_present fs) (\<lambda>_.
     rbind (rmap (check_transport L fs) transports) (\<lambda>_.
     if output_exists then Inl (Exc FileExistsError ''exists'')
     else if \<not> crc_ok then Inl (Exc ValueError ''Offline bundle CRC verification failed'')
     else Inr (map (\<lambda>(n, d). (''uart2llm/'' @ n, d))
       (sorted_files (AList.update ''SHA256SUMS'' (all_sums L fs) fs)))))))"

section \<open>One transport's firmware\<close>

definition firmware_files :: "string list" where
  "firmware_files = [''uart2llm.bin'', ''bootloader/bootloader.bin'', ''partition_table/partition-table.bin'',
     ''ota_data_initial.bin'', ''flasher_args.json'']"

definition firmware_sums :: "pylib \<Rightarrow> files \<Rightarrow> string" where
  "firmware_sums L fs = join line_feed (map (sum_line L) fs) @ line_feed"

text \<open>\<^verbatim>\<open>build\<close> gives the content of a regular file of the build directory, None if there is none.\<close>

definition package_firmware :: "pylib \<Rightarrow> string \<Rightarrow> string \<Rightarrow> (string \<Rightarrow> string option) \<Rightarrow> string \<Rightarrow> string
    \<Rightarrow> files \<Rightarrow> bool \<Rightarrow> files res" where
  "package_firmware L transport config build readme license notices output_exists =
     (if contains ''CONFIG_U2_USB_VALIDATION=y'' config \<noteq> (transport = ''usb-validation'') then
        Inl (Exc SystemExit ''Transport mismatch; refusing to label the wrong firmware'')
      else rbind (read_all (\<lambda>n. case build n of Some d \<Rightarrow> Inr d
          | None \<Rightarrow> Inl (Exc SystemExit (''Missing firmware build input: '' @ n))) firmware_files) (\<lambda>fs.
        if output_exists then Inl (Exc FileExistsError ''exists'')
        else Inr (fs @ [(''SHA256SUMS'', firmware_sums L fs), (''README.md'', readme), (''LICENSE'', license)]
          @ map (\<lambda>(n, d). (''licenses/'' @ n, d)) notices)))"

section \<open>The public sources\<close>

text \<open>A directory tree; the flag says whether the entry is a symbolic link.\<close>

datatype node = File string bool | Folder string bool "node list"

definition ROOT_FILES :: "string list" where
  "ROOT_FILES = [''README.md'', ''LICENSE'', ''THIRD_PARTY.md'', ''CHANGELOG.md'', ''CONTRIBUTING.md'',
     ''SECURITY.md'', ''go.mod'', ''go.sum'', ''.gitignore'', ''.gitattributes'']"

definition GROUPS :: "string list" where
  "GROUPS = [''cmd'', ''internal'', ''firmware'', ''web'', ''native'', ''integrations'', ''scripts'', ''packaging'',
     ''docs'', ''.github'']"

definition SUFFIXES :: "string list" where
  "SUFFIXES = [''.go'', ''.py'', ''.ps1'', ''.mjs'', ''.json'', ''.ts'', ''.tsx'', ''.css'', ''.html'', ''.h'', ''.cpp'',
     ''.c'', ''.cmake'', ''.yml'', ''.yaml'', ''.md'', ''.txt'', ''.nsi'', ''.csv'', ''.lock'', ''.svg'']"

definition NAMES :: "string list" where
  "NAMES = [''CMakeLists.txt'', ''Kconfig.projbuild'', ''sdkconfig.defaults'', ''sdkconfig.usb-validation'', ''.clang-format'']"

definition EXCLUDE_DIRS :: "string list" where
  "EXCLUDE_DIRS = [''node_modules'', ''dist'', ''build'', ''build-usb'', ''managed_components'', ''evidence'',
     ''__pycache__'', ''.pytest_cache'', ''.local'', ''.tools'', ''.git'', ''test-reports'']"

text \<open>\<^verbatim>\<open>PurePath.suffix\<close>: from the last dot, unless it starts or ends the name.\<close>

definition suffix_of :: "string \<Rightarrow> string" where
  "suffix_of n = (let tail = takeWhile (\<lambda>c. c \<noteq> CHR ''.'') (rev n);
       i = length n - length tail in
     if 1 < i \<and> tail \<noteq> [] then CHR ''.'' # rev tail else [])"

definition pruned :: "string list \<Rightarrow> string \<Rightarrow> bool" where
  "pruned rel name \<longleftrightarrow> name \<in> set EXCLUDE_DIRS \<or> prefix ''build-'' name \<or> (rel = [] \<and> name \<notin> set GROUPS)"

definition private_source :: "string \<Rightarrow> bool" where
  "private_source name \<longleftrightarrow> list_ex (\<lambda>p. prefix p name) [''.env'', ''pairing.'', ''cookies.'']
     \<or> suffix_of name \<in> {''.pem'', ''.key''}"

text \<open>Whether a file, with the directories above it, is exported; private material raises.\<close>

definition exported :: "string list \<Rightarrow> string \<Rightarrow> bool res" where
  "exported rel name =
     (if rel = [] then Inr (name \<in> set ROOT_FILES)
      else if private_source name then Inl (Exc ValueError ''Private material must be outside source directories'')
      else let path = rel @ [name] in
        if take 3 path = [''internal'', ''ui'', ''assets''] then
          Inr (path = [''internal'', ''ui'', ''assets'', ''index.html''])
        else Inr (path = [''packaging'', ''sources'', ''esptool-5.4.0.tar.gz''] \<or> ''licenses'' \<in> set path
          \<or> suffix_of name \<in> set SUFFIXES \<or> name \<in> set NAMES))"

fun file_entry :: "node \<Rightarrow> (string \<times> bool) list" where
  "file_entry (File n l) = [(n, l)]"
| "file_entry (Folder n l cs) = []"

fun linked_folder :: "node \<Rightarrow> bool" where
  "linked_folder (Folder n l cs) = l"
| "linked_folder (File n l) = False"

definition export_file :: "string list \<Rightarrow> string \<times> bool \<Rightarrow> string list list res" where
  "export_file rel f = (if snd f then Inl (Exc ValueError ''File links are not allowed in source exports'')
     else rbind (exported rel (fst f)) (\<lambda>b. Inr (if b then [rel @ [fst f]] else [])))"

text \<open>One directory: its links, then its files in the order of their names.\<close>

definition export_here :: "string list \<Rightarrow> node list \<Rightarrow> string list list res" where
  "export_here rel ns =
     (if list_ex linked_folder ns then Inl (Exc ValueError ''Directory links are not allowed in source exports'')
      else rbind (rmap (export_file rel) (sort_key fst (concat (map file_entry ns)))) (\<lambda>pss. Inr (concat pss)))"

text \<open>\<^verbatim>\<open>os.walk\<close>, top down, over the directories that are not pruned.\<close>

fun export_below :: "string list \<Rightarrow> node list \<Rightarrow> string list list res" where
  "export_below rel [] = Inr []"
| "export_below rel (File n l # ns) = export_below rel ns"
| "export_below rel (Folder n l cs # ns) =
     (if pruned rel n then export_below rel ns
      else rbind (export_here (rel @ [n]) cs) (\<lambda>here.
        rbind (export_below (rel @ [n]) cs) (\<lambda>deep.
        rbind (export_below rel ns) (\<lambda>rest. Inr (here @ deep @ rest)))))"

definition source_files :: "node list \<Rightarrow> string list list res" where
  "source_files tree = rbind (export_here [] tree) (\<lambda>here. rbind (export_below [] tree) (\<lambda>deep. Inr (here @ deep)))"

text \<open>
  \<^verbatim>\<open>source-archive.py\<close>: the members of the archive; \<^verbatim>\<open>content\<close> reads a file. The built page of
  the web interface is replaced by a placeholder, and the checks of \<^verbatim>\<open>check-source.py\<close> come first.
\<close>

definition placeholder :: string where
  "placeholder = ''<!doctype html><meta charset='' @ [CHR 0x22] @ ''utf-8'' @ [CHR 0x22]
     @ ''><title>uart2llm</title><p>Build Web assets with scripts/build-ui.ps1 before building the daemon.</p>'' @ line_feed"

definition archived :: "(string \<Rightarrow> string res) \<Rightarrow> string list \<Rightarrow> (string \<times> string) res" where
  "archived content path = (let rel = join ''/'' path in
     rbind (if rel = ''internal/ui/assets/index.html'' then Inr placeholder else content rel) (\<lambda>d. Inr (rel, d)))"

definition source_archive :: "pylib \<Rightarrow> bool \<Rightarrow> bool \<Rightarrow> bool \<Rightarrow> node list \<Rightarrow> (string \<Rightarrow> string res) \<Rightarrow> files res" where
  "source_archive L output_exists inside_root checks_passed tree content =
     (if output_exists \<or> inside_root then Inl (Exc SystemExit ''usage'')
      else if \<not> checks_passed then Inl (Exc SystemExit ''1'')
      else rbind (source_files tree) (\<lambda>paths.
        rbind (rmap (archived content) (sort paths)) (\<lambda>fs.
        Inr (map (\<lambda>(n, d). (''uart2llm/'' @ n, d)) fs
          @ [(''uart2llm/SOURCE_CHECKSUMS.sha256'', firmware_sums L fs)]))))"

end
