(* ===== verification/ReleaseProps.thy ===== *)
theory ReleaseProps
  imports Release "HOL-Library.Multiset"
begin

text \<open>
  A release is what it says: the offline distribution has no member outside its directory and no
  private file, its checksum file lists exactly its members, the firmware archives pass the
  distribution's own verification, and the public sources are those on the allow list.
\<close>

section \<open>Words and paths\<close>

lemma split_on_not_Nil: "split_on c s \<noteq> []"
  by (induction s) (auto split: list.split)

lemma split_on_append: "split_on c (a @ c # b) = split_on c a @ split_on c b"
  by (induction a) (auto simp: split_on_not_Nil split: list.splits)

lemma split_on_word: "c \<notin> set s \<Longrightarrow> split_on c s = [s]"
  by (induction s) auto

lemma split_on_chars: "w \<in> set (split_on c s) \<Longrightarrow> set w \<subseteq> set s - {c}"
  by (induction s arbitrary: w) (fastforce split: list.splits if_splits)+

lemma split_on_join:
  "ws \<noteq> [] \<Longrightarrow> list_all (\<lambda>w. c \<notin> set w) ws \<Longrightarrow> split_on c (join [c] ws) = ws"
  by (induction "[c]" ws rule: join.induct) (simp_all add: split_on_word split_on_append [simplified])

lemma join_chars: "set (join sep ws) \<subseteq> \<Union> (set ` set ws) \<union> set sep"
  by (induction sep ws rule: join.induct) auto

lemma path_part_chars: "w \<in> set (path_parts s) \<Longrightarrow> set w \<subseteq> set s - {CHR ''/''}"
  using split_on_chars by (auto simp: path_parts_def)

text \<open>The words of a normalised path are its parts.\<close>

lemma as_posix_words:
  "split_on (CHR ''/'') (as_posix s) = (if path_parts s = [] then [''.''] else path_parts s)"
proof (cases "path_parts s = []")
  case False
  moreover have "list_all (\<lambda>w. CHR ''/'' \<notin> set w) (path_parts s)"
    using path_part_chars by (fastforce simp: list_all_iff)
  ultimately show ?thesis using split_on_join [of "path_parts s" "CHR ''/''"] by (simp add: as_posix_def)
qed (simp add: as_posix_def)

lemma as_posix_chars: "set (as_posix s) \<subseteq> set s \<union> {CHR ''/'', CHR ''.''}"
proof -
  have "set (join ''/'' (path_parts s)) \<subseteq> set s \<union> {CHR ''/''}"
    using join_chars [of "''/''" "path_parts s"] path_part_chars by fastforce
  then show ?thesis by (auto simp: as_posix_def)
qed

section \<open>The offline distribution\<close>

text \<open>A name that stays below its directory and is not a private file.\<close>

definition clean_name :: "string \<Rightarrow> bool" where
  "clean_name n \<longleftrightarrow> ''..'' \<notin> set (split_on (CHR ''/'') n) \<and> CHR 0x5C \<notin> set n \<and> CHR '':'' \<notin> set n
     \<and> \<not> private_name (last (split_on (CHR ''/'') n))"

lemma clean_below:
  assumes "''..'' \<notin> set (split_on (CHR ''/'') pre)" and "CHR 0x5C \<notin> set pre" and "CHR '':'' \<notin> set pre"
    and "clean_name n"
  shows "clean_name (pre @ ''/'' @ n)"
  using assms by (simp add: clean_name_def split_on_append split_on_not_Nil)

lemma clean_posix: "\<not> unsafe_name s \<Longrightarrow> \<not> private_name (base_name s) \<Longrightarrow> clean_name (as_posix s)"
  using as_posix_chars [of s]
  by (auto simp: clean_name_def unsafe_name_def as_posix_words base_name_def private_name_def lower_char_def
      upper_ascii_def lower_ascii_def split: if_splits)

text \<open>Files with different names, all with a property; those packed so far do not include the checksums.\<close>

definition clean_files :: "(string \<Rightarrow> bool) \<Rightarrow> files \<Rightarrow> bool" where
  "clean_files P fs \<longleftrightarrow> list_all P (map fst fs) \<and> distinct (map fst fs)"

definition packed_name :: "string \<Rightarrow> bool" where
  "packed_name n \<longleftrightarrow> clean_name n \<and> n \<noteq> ''SHA256SUMS''"

lemma packed_below: "clean_name (pre @ ''/'' @ n) \<Longrightarrow> packed_name (pre @ ''/'' @ n)"
proof -
  have "CHR ''/'' \<in> set (pre @ ''/'' @ n)" by simp
  moreover have "CHR ''/'' \<notin> set ''SHA256SUMS''" by simp
  ultimately show "clean_name (pre @ ''/'' @ n) \<Longrightarrow> ?thesis" unfolding packed_name_def by metis
qed

lemma packed_clean: "clean_files packed_name fs \<Longrightarrow> clean_files clean_name fs"
  by (auto simp: clean_files_def packed_name_def list_all_iff)

lemma clean_update: "clean_files P fs \<Longrightarrow> P n \<Longrightarrow> clean_files P (AList.update n d fs)"
  by (auto simp: clean_files_def update_keys)

lemma archive_prefixes:
  "(a, pre) \<in> set ARCHIVES \<Longrightarrow> ''..'' \<notin> set (split_on (CHR ''/'') pre) \<and> CHR 0x5C \<notin> set pre \<and> CHR '':'' \<notin> set pre"
  by (auto simp: ARCHIVES_def)

lemma add_member_clean:
  assumes pre: "(a, pre) \<in> set ARCHIVES" and "clean_files packed_name fs" and add: "add_member cf pre m fs = Inr gs"
  shows "clean_files packed_name gs"
proof -
  have name: "packed_name (pre @ ''/'' @ as_posix (mb_name m))"
    if "\<not> unsafe_name (mb_name m)" "\<not> private_name (base_name (mb_name m))"
    using packed_below [OF clean_below [OF _ _ _ clean_posix [OF that]]] archive_prefixes [OF pre] by blast
  show ?thesis using add assms(2) name clean_update
    by (auto simp: add_member_def Let_def rbind_Inr_iff split: if_splits)
qed

lemma add_members_clean:
  "(a, pre) \<in> set ARCHIVES \<Longrightarrow> clean_files packed_name fs \<Longrightarrow> add_members cf pre ms fs = Inr gs \<Longrightarrow> clean_files packed_name gs"
  by (induction ms arbitrary: fs) (auto simp: rbind_Inr_iff dest: add_member_clean)

lemma add_archives_clean:
  "set as \<subseteq> set ARCHIVES \<Longrightarrow> clean_files packed_name fs \<Longrightarrow> add_archives cf archive as fs = Inr gs \<Longrightarrow> clean_files packed_name gs"
proof (induction as arbitrary: fs)
  case (Cons x as)
  then show ?case by (cases x) (auto simp: rbind_Inr_iff dest: add_members_clean)
qed simp

text \<open>What a package that was written consists of.\<close>

lemma package_cases:
  assumes "package L cf asset archive exists crc = Inr out"
  obtains roots fs where "read_all asset root_files = Inr roots"
    and "add_archives cf archive ARCHIVES roots = Inr fs" and "check_present fs = Inr ()"
    and "list_all (\<lambda>t. check_transport L fs t = Inr ()) transports"
    and "out = map (\<lambda>(n, d). (''uart2llm/'' @ n, d)) (sorted_files (AList.update ''SHA256SUMS'' (all_sums L fs) fs))"
  using assms
  by (auto simp: package_def rbind_Inr_iff rmap_Inr_iff transports_def list_all2_Cons1 split: if_splits)

lemma sorted_files_mset: "mset (sorted_files fs) = mset fs"
  by (simp add: sorted_files_def)

lemma sorted_files_set: "set (sorted_files fs) = set fs"
  by (simp add: sorted_files_def)

lemma sorted_files_clean: "clean_files P (sorted_files fs) = clean_files P fs"
proof -
  have "mset (map fst (sorted_files fs)) = mset (map fst fs)" by (simp add: sorted_files_mset)
  then have "distinct (map fst (sorted_files fs)) = distinct (map fst fs)" by (rule mset_eq_imp_distinct_iff)
  then show ?thesis by (simp add: clean_files_def list_all_iff sorted_files_set del: map_map)
qed

lemma read_all_names: "read_all get ns = Inr fs \<Longrightarrow> map fst fs = ns"
  unfolding read_all_def by (induction ns arbitrary: fs) (auto simp: rbind_Inr_iff)

lemma roots_clean:
  assumes "read_all asset root_files = Inr roots"
  shows "clean_files packed_name roots"
proof -
  have "list_all packed_name root_files" by code_simp
  moreover have "distinct root_files" by code_simp
  ultimately show "clean_files packed_name roots" by (simp add: clean_files_def read_all_names [OF assms])
qed

lemma sums_name_clean: "clean_name ''SHA256SUMS''"
  by code_simp

lemma below_release:
  "clean_files clean_name fs \<Longrightarrow>
     list_all (\<lambda>n. \<exists>m. n = ''uart2llm/'' @ m \<and> clean_name m) (map fst (map (\<lambda>(n, d). (''uart2llm/'' @ n, d)) fs))
     \<and> distinct (map fst (map (\<lambda>(n, d). (''uart2llm/'' @ n, d)) fs))"
  by (induction fs) (auto simp: clean_files_def image_iff)

lemma REQUIRED_sums: "''SHA256SUMS'' \<notin> set REQUIRED"
  by code_simp

lemma update_new: "k \<notin> set (map fst fs) \<Longrightarrow> AList.update k v fs = fs @ [(k, v)]"
  by (induction fs) auto

lemma update_other: "distinct (map fst fs) \<Longrightarrow> (n, d) \<in> set fs \<Longrightarrow> n \<noteq> k \<Longrightarrow> (n, d) \<in> set (AList.update k v fs)"
  by (induction fs) auto

lemma present_file: "check_present fs = Inr () \<Longrightarrow> n \<in> set REQUIRED \<Longrightarrow> \<exists>d. (n, d) \<in> set fs \<and> d \<noteq> []"
  by (force simp: check_present_def list_ex_iff split: if_splits)

lemma packed_files:
  assumes "read_all asset root_files = Inr roots" and "add_archives cf archive ARCHIVES roots = Inr fs"
  shows "clean_files packed_name fs"
  by (rule add_archives_clean [OF _ roots_clean [OF assms(1)] assms(2)]) simp

lemma package_clean:
  assumes "package L cf asset archive exists crc = Inr out"
  shows "list_all (\<lambda>n. \<exists>m. n = ''uart2llm/'' @ m \<and> clean_name m) (map fst out) \<and> distinct (map fst out)"
proof -
  obtain roots fs where fs: "read_all asset root_files = Inr roots" "add_archives cf archive ARCHIVES roots = Inr fs"
    and out: "out = map (\<lambda>(n, d). (''uart2llm/'' @ n, d)) (sorted_files (AList.update ''SHA256SUMS'' (all_sums L fs) fs))"
    using assms by (rule package_cases)
  have "clean_files clean_name fs" using packed_files [OF fs] by (rule packed_clean)
  then have "clean_files clean_name (sorted_files (AList.update ''SHA256SUMS'' (all_sums L fs) fs))"
    by (simp add: sorted_files_clean clean_update sums_name_clean)
  from below_release [OF this] show ?thesis unfolding out .
qed

lemma package_required:
  assumes "package L cf asset archive exists crc = Inr out" and n: "n \<in> set REQUIRED"
  shows "\<exists>d. d \<noteq> [] \<and> (''uart2llm/'' @ n, d) \<in> set out"
proof -
  obtain roots fs where fs: "read_all asset root_files = Inr roots" "add_archives cf archive ARCHIVES roots = Inr fs"
    and present: "check_present fs = Inr ()"
    and out: "out = map (\<lambda>(n, d). (''uart2llm/'' @ n, d)) (sorted_files (AList.update ''SHA256SUMS'' (all_sums L fs) fs))"
    using assms(1) by (rule package_cases)
  obtain d where d: "(n, d) \<in> set fs" "d \<noteq> []" using present_file [OF present n] by blast
  have "n \<noteq> ''SHA256SUMS''" using n REQUIRED_sums by blast
  with d(1) packed_files [OF fs] have "(n, d) \<in> set (AList.update ''SHA256SUMS'' (all_sums L fs) fs)"
    by (intro update_other) (simp_all add: clean_files_def)
  then have "(''uart2llm/'' @ n, d) \<in> set out" unfolding out sorted_files_set set_map by force
  with d(2) show ?thesis by blast
qed

text \<open>
  C22. The distribution is safe to unpack and publish: every member lies below \<^verbatim>\<open>uart2llm/\<close> (no
  parent directory, no drive, no backslash), none is a pairing or credential file, names are
  distinct, and every required file is there with content.
\<close>

theorem package_contents_safe:
  assumes "package L cf asset archive exists crc = Inr out"
  shows "list_all (\<lambda>n. \<exists>m. n = ''uart2llm/'' @ m \<and> clean_name m) (map fst out) \<and> distinct (map fst out)
    \<and> (\<forall>n \<in> set REQUIRED. \<exists>d. d \<noteq> [] \<and> (''uart2llm/'' @ n, d) \<in> set out)"
  using package_clean [OF assms] package_required [OF assms] by blast

section \<open>Checksum files\<close>

text \<open>Printable ASCII, as in hexadecimal digests and in the names of the project's files.\<close>

definition plain :: "string \<Rightarrow> bool" where
  "plain s \<longleftrightarrow> list_all (\<lambda>c. 0x20 \<le> (of_char c :: nat) \<and> (of_char c :: nat) < 0x7F) s"

lemma plain_simps [simp]: "plain []" "plain (a @ b) \<longleftrightarrow> plain a \<and> plain b"
  by (simp_all add: plain_def)

lemma plain_char: "plain [c] \<Longrightarrow> c \<notin> set [CHR 0x0A, CHR 0x0B, CHR 0x0C, CHR 0x0D, CHR 0x1C, CHR 0x1D, CHR 0x1E, CHR 0xC2, CHR 0xE2]"
proof
  assume "plain [c]" and "c \<in> set [CHR 0x0A, CHR 0x0B, CHR 0x0C, CHR 0x0D, CHR 0x1C, CHR 0x1D, CHR 0x1E, CHR 0xC2, CHR 0xE2]"
  moreover have "list_all (\<lambda>c. \<not> plain [c]) [CHR 0x0A, CHR 0x0B, CHR 0x0C, CHR 0x0D, CHR 0x1C, CHR 0x1D, CHR 0x1E, CHR 0xC2, CHR 0xE2]"
    by code_simp
  ultimately show False unfolding list_all_iff by blast
qed

lemma break_len_plain: "plain [c] \<Longrightarrow> break_len (c # s) = 0"
  using plain_char [of c] by (auto simp: break_len_def)

lemma splitlines_line: "plain s \<Longrightarrow> py_splitlines acc (s @ line_feed @ r) = (acc @ s) # py_splitlines [] r"
proof (induction s arbitrary: acc)
  case Nil
  have "break_len (line_feed @ r) = 1" by (simp add: break_len_def line_feed_def)
  then show ?case by (subst py_splitlines.simps) (simp add: line_feed_def)
next
  case (Cons c s)
  then have "break_len (c # s @ line_feed @ r) = 0" by (intro break_len_plain) (simp add: plain_def)
  then have "py_splitlines acc ((c # s) @ line_feed @ r) = py_splitlines (acc @ [c]) (s @ line_feed @ r)"
    by (subst py_splitlines.simps) simp
  moreover have "plain s" using Cons.prems by (simp add: plain_def)
  ultimately show ?case using Cons.IH [of "acc @ [c]"] by simp
qed

lemma splitlines_lines: "list_all plain ls \<Longrightarrow> py_splitlines [] (concat (map (\<lambda>l. l @ line_feed) ls)) = ls"
proof (induction ls)
  case Nil
  show ?case by (subst py_splitlines.simps) simp
qed (simp add: splitlines_line)

lemma join_lines: "ls \<noteq> [] \<Longrightarrow> join line_feed ls @ line_feed = concat (map (\<lambda>l. l @ line_feed) ls)"
  by (induction line_feed ls rule: join.induct) simp_all

text \<open>\<^verbatim>\<open>hexdigest()\<close> returns hexadecimal digits.\<close>

definition hex_digests :: "pylib \<Rightarrow> bool" where
  "hex_digests L \<longleftrightarrow> (\<forall>s. set (sha256 L s) \<subseteq> set hex_chars)"

lemma hex_plain: "hex_digests L \<Longrightarrow> plain (sha256 L s) \<and> CHR '' '' \<notin> set (sha256 L s)"
proof -
  assume "hex_digests L"
  then have "set (sha256 L s) \<subseteq> set hex_chars" by (simp add: hex_digests_def)
  moreover have "\<forall>c \<in> set hex_chars. 0x20 < (of_char c :: nat) \<and> (of_char c :: nat) < 0x7F"
    by (simp add: hex_chars_def)
  ultimately show ?thesis by (fastforce simp: plain_def list_all_iff)
qed

lemma cut_pair_words: "CHR '' '' \<notin> set h \<Longrightarrow> cut_pair (h @ ''  '' @ n) = Some (h, n)"
  by (induction h) auto

lemma sum_line_read: "hex_digests L \<Longrightarrow> split_pair (sum_line L f) = Inr (sha256 L (snd f), fst f)"
  unfolding split_pair_def sum_line_def by (subst cut_pair_words) (simp_all add: hex_plain)

lemma sum_lines_plain:
  assumes hex: "hex_digests L" and names: "list_all plain (map fst fs)"
  shows "list_all plain (map (sum_line L) fs)"
proof -
  have "plain '' ''" by (simp add: plain_def)
  then show ?thesis using names hex_plain [OF hex] by (auto simp: list_all_iff sum_line_def plain_def)
qed

lemma sum_lines_read:
  assumes hex: "hex_digests L" and names: "list_all plain (map fst fs)"
  shows "py_splitlines [] (concat (map (\<lambda>f. sum_line L f @ line_feed) fs)) = map (sum_line L) fs"
proof -
  from splitlines_lines [OF sum_lines_plain [OF assms]] show ?thesis by (simp add: comp_def)
qed

text \<open>
  C30. The distribution verifies itself: for a bundle whose member names are printable ASCII (which
  the program does not check, and which a name with a line break violates), reading its own
  \<^verbatim>\<open>SHA256SUMS\<close> the way the packaging program reads such files gives exactly the other members with
  the digests of their bytes.
\<close>

theorem bundle_sums_verify:
  assumes pack: "package L cf asset archive exists crc = Inr out" and hex: "hex_digests L"
    and names: "list_all plain (map fst out)"
  shows "\<exists>listing pairs. map_of out ''uart2llm/SHA256SUMS'' = Some listing
    \<and> rmap split_pair (py_splitlines [] listing) = Inr pairs
    \<and> set pairs = {(sha256 L d, n) | n d. (''uart2llm/'' @ n, d) \<in> set out \<and> n \<noteq> ''SHA256SUMS''}"
proof -
  obtain roots fs where roots: "read_all asset root_files = Inr roots"
    and fs: "add_archives cf archive ARCHIVES roots = Inr fs"
    and out: "out = map (\<lambda>(n, d). (''uart2llm/'' @ n, d)) (sorted_files (AList.update ''SHA256SUMS'' (all_sums L fs) fs))"
    using pack by (rule package_cases)
  let ?fs = "sorted_files fs" and ?all = "AList.update ''SHA256SUMS'' (all_sums L fs) fs"
  have packed: "clean_files packed_name fs" by (rule packed_files [OF roots fs])
  then have new: "''SHA256SUMS'' \<notin> set (map fst fs)" by (auto simp: clean_files_def packed_name_def list_all_iff)
  then have all: "?all = fs @ [(''SHA256SUMS'', all_sums L fs)]" by (simp add: update_new)
  have members: "set out = (\<lambda>(n, d). (''uart2llm/'' @ n, d)) ` set ?all" by (simp add: out sorted_files_set)
  have "(''uart2llm/SHA256SUMS'', all_sums L fs) \<in> set out" unfolding members all by force
  moreover have "distinct (map fst out)" using package_clean [OF pack] by blast
  ultimately have listing: "map_of out ''uart2llm/SHA256SUMS'' = Some (all_sums L fs)" by simp
  have "list_all plain (map fst ?fs)"
    using names unfolding list_all_iff set_map members all by (fastforce simp: sorted_files_set plain_def)
  then have "rmap split_pair (py_splitlines [] (all_sums L fs)) = Inr (map (\<lambda>f. (sha256 L (snd f), fst f)) ?fs)"
    using hex unfolding all_sums_def by (subst sum_lines_read) (simp_all add: rmap_Inr_iff list_all2_map1 list_all2_map2 sum_line_read list_all2_refl)
  moreover have "set (map (\<lambda>f. (sha256 L (snd f), fst f)) ?fs)
      = {(sha256 L d, n) | n d. (''uart2llm/'' @ n, d) \<in> set out \<and> n \<noteq> ''SHA256SUMS''}"
    using new unfolding members all by (auto simp: sorted_files_set image_iff) force+
  ultimately show ?thesis using listing by blast
qed

section \<open>Firmware archives\<close>

lemma utf8_ascii: "list_all (\<lambda>c. (of_char c :: nat) < 0x80) s \<Longrightarrow> utf8_ok s"
  by (induction s) (simp_all add: lead_byte_def)

lemma utf8_plain: "plain s \<Longrightarrow> list_all (\<lambda>c. (of_char c :: nat) < 0x80) s"
  by (auto simp: plain_def list_all_iff)

lemma firmware_names_plain: "list_all plain firmware_files" "firmware_files \<noteq> []"
  by code_simp+

lemma lines_utf8: "list_all plain ls \<Longrightarrow> utf8_ok (concat (map (\<lambda>l. l @ line_feed) ls))"
  by (rule utf8_ascii) (use utf8_plain in \<open>fastforce simp: list_all_iff line_feed_def\<close>)

lemma package_firmware_cases:
  assumes "package_firmware L t config build readme license notices exists = Inr ms"
  obtains fw where "map fst fw = firmware_files"
    and "ms = fw @ [(''SHA256SUMS'', firmware_sums L fw), (''README.md'', readme), (''LICENSE'', license)]
          @ map (\<lambda>(n, d). (''licenses/'' @ n, d)) notices"
  using assms read_all_names by (auto simp: package_firmware_def rbind_Inr_iff split: if_splits)

text \<open>
  C31. The two packaging programs fit together: a firmware archive that \<^verbatim>\<open>package-firmware.py\<close>
  wrote, unpacked under its directory, passes the checksum verification of
  \<^verbatim>\<open>package-offline.py\<close>.
\<close>

theorem firmware_accepted:
  assumes pack: "package_firmware L t config build readme license notices exists = Inr ms"
    and hex: "hex_digests L"
    and unpacked: "\<forall>(n, d) \<in> set ms. map_of fs (firmware_prefix u @ n) = Some d"
  shows "check_transport L fs u = Inr ()"
proof -
  obtain fw where names: "map fst fw = firmware_files"
    and ms: "ms = fw @ [(''SHA256SUMS'', firmware_sums L fw), (''README.md'', readme), (''LICENSE'', license)]
          @ map (\<lambda>(n, d). (''licenses/'' @ n, d)) notices"
    using pack by (rule package_firmware_cases)
  have plain: "list_all plain (map fst fw)" "fw \<noteq> []" using firmware_names_plain names by auto
  have sums: "firmware_sums L fw = concat (map (\<lambda>f. sum_line L f @ line_feed) fw)"
    unfolding firmware_sums_def by (subst join_lines) (simp_all add: plain comp_def)
  have lines: "py_splitlines [] (firmware_sums L fw) = map (sum_line L) fw"
    unfolding sums by (rule sum_lines_read [OF hex plain(1)])
  have "list_all plain (map (sum_line L) fw)" by (rule sum_lines_plain [OF hex plain(1)])
  from lines_utf8 [OF this] have dec: "decode (firmware_sums L fw) = Inr (firmware_sums L fw)"
    by (simp add: decode_def sums comp_def)
  have "check_sum L fs (firmware_prefix u) (sum_line L f) = Inr ()" if "f \<in> set fw" for f
  proof -
    have "map_of fs (firmware_prefix u @ fst f) = Some (snd f)" using unpacked that by (cases f) (auto simp: ms)
    then show ?thesis by (simp add: check_sum_def sum_line_read [OF hex] file_at_def)
  qed
  then have "rmap (check_sum L fs (firmware_prefix u)) (map (sum_line L) fw) = Inr (map (\<lambda>_. ()) fw)"
    by (induction fw) auto
  moreover have "map_of fs (firmware_prefix u @ ''SHA256SUMS'') = Some (firmware_sums L fw)"
    using unpacked by (simp add: ms)
  ultimately show ?thesis by (simp add: check_transport_def file_at_def dec lines)
qed

section \<open>Public sources\<close>

text \<open>The files below the directories that are not pruned.\<close>

inductive visited :: "string list \<Rightarrow> node list \<Rightarrow> string list \<Rightarrow> bool" where
  here: "File n l \<in> set ns \<Longrightarrow> visited rel ns (rel @ [n])"
| below: "Folder n l cs \<in> set ns \<Longrightarrow> \<not> pruned rel n \<Longrightarrow> visited (rel @ [n]) cs p \<Longrightarrow> visited rel ns p"

definition publishable :: "string list \<Rightarrow> bool" where
  "publishable p \<longleftrightarrow> (if length p = 1 then hd p \<in> set ROOT_FILES
     else 1 < length p \<and> hd p \<in> set GROUPS \<and> \<not> private_source (last p)
       \<and> list_all (\<lambda>d. d \<notin> set EXCLUDE_DIRS \<and> \<not> prefix ''build-'' d) (butlast p))"

text \<open>The directories down to here were not pruned.\<close>

definition open_dir :: "string list \<Rightarrow> bool" where
  "open_dir rel \<longleftrightarrow> (rel = [] \<or> hd rel \<in> set GROUPS)
     \<and> list_all (\<lambda>d. d \<notin> set EXCLUDE_DIRS \<and> \<not> prefix ''build-'' d) rel"

lemma open_dir_below: "open_dir rel \<Longrightarrow> \<not> pruned rel n \<Longrightarrow> open_dir (rel @ [n])"
  by (cases rel) (auto simp: open_dir_def pruned_def)

lemma exported_publishable: "exported rel n = Inr True \<Longrightarrow> open_dir rel \<Longrightarrow> publishable (rel @ [n])"
  by (cases rel) (auto simp: exported_def publishable_def open_dir_def split: if_splits)

lemma file_entries: "f \<in> set (concat (map file_entry ns)) \<longleftrightarrow> File (fst f) (snd f) \<in> set ns"
proof (induction ns)
  case (Cons n ns)
  then show ?case by (cases n; cases f) auto
qed simp

lemma export_here_files:
  assumes "export_here rel ns = Inr ps" and "open_dir rel"
  shows "(\<forall>p \<in> set ps. visited rel ns p \<and> publishable p)
    \<and> (\<forall>n l. File n l \<in> set ns \<longrightarrow> rel = [] \<or> \<not> private_source n)"
proof -
  obtain pss where pss: "rmap (export_file rel) (sort_key fst (concat (map file_entry ns))) = Inr pss" "ps = concat pss"
    using assms(1) by (auto simp: export_here_def rbind_Inr_iff split: if_splits)
  have each: "\<exists>qs \<in> set pss. export_file rel f = Inr qs" if "File (fst f) (snd f) \<in> set ns" for f
    using rmap_mem [OF pss(1)] that unfolding set_sort file_entries by blast
  have source: "\<exists>f. File (fst f) (snd f) \<in> set ns \<and> export_file rel f = Inr qs" if "qs \<in> set pss" for qs
    using rmap_source [OF pss(1) that] unfolding set_sort Bex_def file_entries .
  have "visited rel ns p \<and> publishable p" if "p \<in> set ps" for p
  proof -
    from that obtain qs where "qs \<in> set pss" "p \<in> set qs" unfolding pss(2) by auto
    then obtain f where f: "File (fst f) (snd f) \<in> set ns" "export_file rel f = Inr qs"
      using source by blast
    with \<open>p \<in> set qs\<close> have "p = rel @ [fst f]" "exported rel (fst f) = Inr True"
      by (auto simp: export_file_def rbind_Inr_iff split: if_splits)
    with f(1) assms(2) show ?thesis by (simp add: visited.here exported_publishable)
  qed
  moreover have "rel = [] \<or> \<not> private_source n" if "File n l \<in> set ns" for n l
    using each [of "(n, l)"] that by (auto simp: export_file_def exported_def rbind_Inr_iff split: if_splits)
  ultimately show ?thesis by blast
qed

inductive_simps visited_iff: "visited rel ns p"

lemma visited_File: "visited rel (File n l # ns) p \<longleftrightarrow> p = rel @ [n] \<or> visited rel ns p"
  unfolding visited_iff [of rel "File n l # ns"] visited_iff [of rel ns] by auto

lemma visited_Folder:
  "visited rel (Folder n l cs # ns) p \<longleftrightarrow> visited rel ns p \<or> (\<not> pruned rel n \<and> visited (rel @ [n]) cs p)"
  unfolding visited_iff [of rel "Folder n l cs # ns"] visited_iff [of rel ns] list.set insert_iff node.inject
    node.distinct simp_thms by blast

text \<open>A visited file is one of this directory or of a directory below it.\<close>

lemma export_below_files:
  "export_below rel ns = Inr ps \<Longrightarrow> open_dir rel \<Longrightarrow>
     (\<forall>p \<in> set ps. visited rel ns p \<and> publishable p)
     \<and> (\<forall>p. visited rel ns p \<longrightarrow> (\<exists>n l. p = rel @ [n] \<and> File n l \<in> set ns) \<or> \<not> private_source (last p))"
proof (induction rel ns arbitrary: ps rule: export_below.induct)
  case (1 rel)
  then show ?case by (auto elim: visited.cases)
next
  case (2 rel n l ns)
  then show ?case by (auto simp: visited_File)
next
  case (3 rel n l cs ns)
  show ?case
  proof (cases "pruned rel n")
    case True
    with 3 show ?thesis by (auto simp: visited_Folder)
  next
    case False
    then have dir: "open_dir (rel @ [n])" using 3(5) open_dir_below by blast
    obtain xs ys zs where parts: "export_here (rel @ [n]) cs = Inr xs" "export_below (rel @ [n]) cs = Inr ys"
      "export_below rel ns = Inr zs" and ps: "ps = xs @ ys @ zs"
      using 3(4) False by (auto simp: rbind_Inr_iff)
    note h = export_here_files [OF parts(1) dir]
    note d = 3(2) [OF False parts(1) parts(2) dir] and r = 3(3) [OF False parts(1) parts(2) parts(3) 3(5)]
    have "\<forall>p \<in> set ps. visited rel (Folder n l cs # ns) p \<and> publishable p"
      using h d r False unfolding ps by (auto simp: visited_Folder)
    moreover have "(\<exists>m k. p = rel @ [m] \<and> File m k \<in> set (Folder n l cs # ns)) \<or> \<not> private_source (last p)"
      if "visited rel (Folder n l cs # ns) p" for p
      using that h d r unfolding visited_Folder by (metis append_is_Nil_conv last_snoc list.set_intros(2) not_Cons_self2)
    ultimately show ?thesis by blast
  qed
qed

text \<open>
  C28. Only public sources are exported: every exported file was visited, is on the allow list of
  the top directory or lies in a source group and in no build, tool or evidence directory, and
  is no key, pairing or environment file; and no visited file below the top directory is one, since
  that refuses the export as a whole. (At the top itself such a file is skipped, not refused.)
\<close>

theorem source_export_clean:
  assumes "source_files tree = Inr ps"
  shows "(\<forall>p \<in> set ps. visited [] tree p \<and> publishable p)
    \<and> (\<forall>p. visited [] tree p \<and> 1 < length p \<longrightarrow> \<not> private_source (last p))"
proof -
  obtain xs ys where parts: "export_here [] tree = Inr xs" "export_below [] tree = Inr ys" and ps: "ps = xs @ ys"
    using assms by (auto simp: source_files_def rbind_Inr_iff)
  have "open_dir []" by (simp add: open_dir_def)
  from export_here_files [OF parts(1) this] export_below_files [OF parts(2) this] show ?thesis
    unfolding ps by fastforce
qed

section \<open>A concrete release\<close>

lemma plain_below: "plain p \<Longrightarrow> list_all plain (map fst fs) \<Longrightarrow> list_all plain (map fst (map (\<lambda>(n, d). (p @ n, d)) fs))"
  by (induction fs) auto

definition demo_hash :: pylib where
  "demo_hash = \<lparr>json_loads = (\<lambda>_. None), dumps = (\<lambda>_. []), dumps_ascii = (\<lambda>_. []), sha256 = (\<lambda>s. ''0''), repr_of = (\<lambda>_. [])\<rparr>"

lemma demo_hash_hex: "hex_digests demo_hash"
  by (simp add: hex_digests_def demo_hash_def hex_chars_def)

definition demo_firmware :: "string \<Rightarrow> files res" where
  "demo_firmware t = package_firmware demo_hash t (if t = ''uart'' then [] else ''CONFIG_U2_USB_VALIDATION=y'')
     (\<lambda>n. Some ''b'') ''r'' ''l'' [] False"

definition demo_archive :: "string \<Rightarrow> member list res" where
  "demo_archive a = rbind (if a = ''uart2llm-firmware-uart.zip'' then demo_firmware ''uart''
      else if a = ''uart2llm-firmware-usb-validation.zip'' then demo_firmware ''usb-validation''
      else Inr [(''tools/esptool.exe'', ''e''), (''tools/provision-device.exe'', ''p''),
                (''source/packaging/sources/esptool-5.4.0.tar.gz'', ''s'')])
     (\<lambda>fs. Inr (map (\<lambda>(n, d). \<lparr>mb_name = n, mb_data = Inr d\<rparr>) fs))"

definition demo_roots :: files where
  "demo_roots = map (\<lambda>n. (n, ''x'')) root_files"

definition demo_files :: files where
  "demo_files = projr (add_archives (\<lambda>n. n) demo_archive ARCHIVES demo_roots)"

lemma demo_read: "read_all (\<lambda>n. Inr ''x'') root_files = Inr demo_roots"
  by code_simp

lemma demo_added: "add_archives (\<lambda>n. n) demo_archive ARCHIVES demo_roots = Inr demo_files"
proof -
  have "\<not> isl (add_archives (\<lambda>n. n) demo_archive ARCHIVES demo_roots)" by code_simp
  then show ?thesis by (simp add: demo_files_def)
qed

lemma demo_present: "check_present demo_files = Inr ()"
  by code_simp

lemma demo_sums: "check_transport demo_hash demo_files ''uart'' = Inr ()"
    "check_transport demo_hash demo_files ''usb-validation'' = Inr ()"
  by code_simp+

lemma demo_plain: "list_all plain (map fst demo_files)"
  by code_simp

definition demo_out :: files where
  "demo_out = map (\<lambda>(n, d). (''uart2llm/'' @ n, d))
     (sorted_files (AList.update ''SHA256SUMS'' (all_sums demo_hash demo_files) demo_files))"

lemma demo_package: "package demo_hash (\<lambda>n. n) (\<lambda>n. Inr ''x'') demo_archive False True = Inr demo_out"
  by (simp add: package_def demo_read demo_added demo_present demo_sums transports_def demo_out_def)

theorem package_contents_safe_witness:
  "\<exists>d. d \<noteq> [] \<and> (''uart2llm/device-tools/tools/esptool.exe'', d) \<in> set demo_out"
  using package_contents_safe [OF demo_package] by (force simp: REQUIRED_def)

theorem bundle_sums_verify_witness:
  "\<exists>listing pairs. map_of demo_out ''uart2llm/SHA256SUMS'' = Some listing
    \<and> rmap split_pair (py_splitlines [] listing) = Inr pairs"
proof -
  have "plain ''uart2llm/''" "plain ''SHA256SUMS''" by code_simp+
  moreover have "list_all plain (map fst (AList.update ''SHA256SUMS'' v demo_files))" for v
    unfolding update_keys using demo_plain calculation(2) by simp
  then have "list_all plain (map fst (sorted_files (AList.update ''SHA256SUMS'' v demo_files)))" for v
    unfolding list_all_iff set_map sorted_files_set .
  ultimately have "list_all plain (map fst demo_out)"
    unfolding demo_out_def by (intro plain_below)
  from bundle_sums_verify [OF demo_package demo_hash_hex this] show ?thesis by blast
qed

lemma demo_firmware_ok: "demo_firmware ''uart'' = Inr (projr (demo_firmware ''uart''))"
proof -
  have "\<not> isl (demo_firmware ''uart'')" by code_simp
  then show ?thesis by simp
qed

theorem firmware_accepted_witness:
  "check_transport demo_hash (map (\<lambda>(n, d). (firmware_prefix ''uart'' @ n, d)) (projr (demo_firmware ''uart''))) ''uart'' = Inr ()"
proof (rule firmware_accepted [OF demo_firmware_ok [unfolded demo_firmware_def] demo_hash_hex])
  show "\<forall>(n, d) \<in> set (projr (package_firmware demo_hash ''uart'' (if ''uart'' = ''uart'' then [] else ''CONFIG_U2_USB_VALIDATION=y'')
     (\<lambda>n. Some ''b'') ''r'' ''l'' [] False)).
     map_of (map (\<lambda>(n, d). (firmware_prefix ''uart'' @ n, d)) (projr (demo_firmware ''uart''))) (firmware_prefix ''uart'' @ n) = Some d"
    by code_simp
qed

definition demo_tree :: "node list" where
  "demo_tree = [File ''README.md'' False, File ''.env'' False,
     Folder ''scripts'' False [File ''a.py'' False, Folder ''__pycache__'' False [File ''a.pyc'' False]],
     Folder ''.local'' False [File ''pairing.json'' False]]"

theorem source_export_clean_witness:
  "publishable [''scripts'', ''a.py''] \<and> \<not> visited [] demo_tree [''.local'', ''pairing.json'']"
proof -
  have files: "source_files demo_tree = Inr [[''README.md''], [''scripts'', ''a.py'']]" by code_simp
  have "private_source ''pairing.json''" by code_simp
  then show ?thesis using source_export_clean [OF files] by fastforce
qed

end
