(* ===== verification/Sanitize.thy ===== *)
theory Sanitize
  imports PyValue
begin

text \<open>
  Redaction of hardware evidence: \<^verbatim>\<open>sanitize\<close> of
  \<^verbatim>\<open>scripts/hardware_check_support.py\<close> and the stricter function of the same name in
  \<^verbatim>\<open>scripts/hardware-check.py\<close>. The lemmas say what a sanitized value can still show:
  it determines exactly the public part of the input.
\<close>

definition sensitive_words :: "string list" where
  "sensitive_words =
     [''password'', ''token'', ''ssid'', ''bssid'', ''username'', ''upstream_key'']"

definition counters :: "string list" where
  "counters = [''prompt_tokens'', ''completion_tokens'', ''total_tokens'', ''cached_tokens'',
     ''reasoning_tokens'', ''prompt_cache_hit_tokens'', ''prompt_cache_miss_tokens'']"

definition redacted :: pyval where
  "redacted = PStr ''[redacted]''"

text \<open>\<^verbatim>\<open>any(s in k.lower() for s in (...))\<close>.\<close>

definition sensitive :: "string \<Rightarrow> bool" where
  "sensitive k \<longleftrightarrow> list_ex (\<lambda>s. contains s (py_lower k)) sensitive_words"

text \<open>\<^verbatim>\<open>k in counters and type(v) is int and v >= 0\<close>.\<close>

definition is_counter :: "string \<Rightarrow> pyval \<Rightarrow> bool" where
  "is_counter k v \<longleftrightarrow> k \<in> set counters \<and> (case v of PInt n \<Rightarrow> 0 \<le> n | _ \<Rightarrow> False)"

fun sanitize :: "pyval \<Rightarrow> pyval" where
  "sanitize (PDict d) = PDict (map (\<lambda>(k, v).
     (k, if is_counter k v then v else if sensitive k then redacted else sanitize v)) d)"
| "sanitize (PList vs) = PList (map sanitize vs)"
| "sanitize v = v"

fun hw_sanitize :: "pyval \<Rightarrow> pyval" where
  "hw_sanitize (PDict d) =
     PDict (map (\<lambda>(k, v). (k, if sensitive k then redacted else hw_sanitize v)) d)"
| "hw_sanitize (PList vs) = PList (map hw_sanitize vs)"
| "hw_sanitize v = v"

text \<open>
  Two values agree on their public part: they differ at most in what stands
  under sensitive keys and is not a usage counter.
\<close>

fun same_public :: "pyval \<Rightarrow> pyval \<Rightarrow> bool" where
  "same_public (PDict d) (PDict e) = list_all2 (\<lambda>(k, v) (l, w). k = l \<and>
     (if is_counter k v \<or> is_counter k w then v = w else sensitive k \<or> same_public v w)) d e"
| "same_public (PList vs) (PList ws) = list_all2 same_public vs ws"
| "same_public v w = (v = w)"

section \<open>What a sanitized value shows\<close>

lemma all_counters_sensitive: "list_all sensitive counters"
  by code_simp

lemma counters_sensitive: "k \<in> set counters \<Longrightarrow> sensitive k"
  using all_counters_sensitive by (simp add: list_all_iff)

lemma is_counter_PInt: "is_counter k v \<Longrightarrow> \<exists>n\<ge>0. v = PInt n"
  by (auto simp: is_counter_def split: pyval.splits)

lemma redacted_not_counter: "\<not> is_counter k redacted"
  by (simp add: is_counter_def redacted_def)

lemma entry_cases:
  "(k, w) \<in> set (entries (sanitize v)) \<Longrightarrow> sensitive k \<Longrightarrow> w = redacted \<or> is_counter k w"
proof (induction v rule: pyval_induct)
  case (Dict d)
  then show ?case
    by (force simp: redacted_def dest: is_counter_PInt split: if_splits)
qed auto

text \<open>
  C2. Under a key that names a password, token, SSID, BSSID, user name or upstream key,
  at any depth of a sanitized value, stands either the redaction mark or a nonnegative
  integer in one of the seven named usage counters.
\<close>

theorem sanitize_safe:
  "list_all (\<lambda>(k, w). if sensitive k
       then w = PStr ''[redacted]'' \<or> (k \<in> set counters \<and> (\<exists>n. 0 \<le> n \<and> w = PInt n)) else True)
     (entries (sanitize v))"
  using entry_cases [of _ _ v] is_counter_PInt
  by (fastforce simp: list_all_iff redacted_def is_counter_def)

text \<open>The redaction mark and counters are fixed points, so sanitizing is a projection.\<close>

lemma is_counter_entry: "is_counter k (if is_counter k v then v else if sensitive k then redacted else w)
    \<longleftrightarrow> is_counter k v"
  using counters_sensitive [of k] redacted_not_counter [of k] by (auto simp: is_counter_def)

text \<open>
  Sanitizing is idempotent: a sanitized value passes through unchanged, so applying
  it to evidence, to a case and again to the whole report loses nothing more.
\<close>

theorem sanitize_idem: "sanitize (sanitize v) = sanitize v"
proof (induction v rule: pyval_induct)
  case (Dict d)
  have "sanitize redacted = redacted" by (simp add: redacted_def)
  with Dict show ?case by (auto simp: redacted_not_counter)
qed auto

lemma map_eq_iff_rel: "map f xs = map g ys \<longleftrightarrow> list_all2 (\<lambda>x y. f x = g y) xs ys"
  by (simp add: list_all2_map1 list_all2_map2 flip: list.rel_eq)

lemma entry_eq_iff:
  assumes "sanitize v = sanitize w \<longleftrightarrow> same_public v w"
  shows "(if is_counter k v then v else if sensitive k then redacted else sanitize v)
       = (if is_counter k w then w else if sensitive k then redacted else sanitize w)
    \<longleftrightarrow> (if is_counter k v \<or> is_counter k w then v = w else sensitive k \<or> same_public v w)"
  using assms counters_sensitive [of k] redacted_not_counter [of k]
  by (auto simp: is_counter_def)

abbreviation san_entry :: "string \<times> pyval \<Rightarrow> string \<times> pyval" where
  "san_entry \<equiv> \<lambda>(k, v). (k, if is_counter k v then v else if sensitive k then redacted else sanitize v)"

abbreviation pub_entry :: "string \<times> pyval \<Rightarrow> string \<times> pyval \<Rightarrow> bool" where
  "pub_entry \<equiv> \<lambda>(k, v) (l, w). k = l \<and>
     (if is_counter k v \<or> is_counter k w then v = w else sensitive k \<or> same_public v w)"

lemma sanitize_eq_dict:
  assumes "\<And>k v w. (k, v) \<in> set d \<Longrightarrow> sanitize v = sanitize w \<longleftrightarrow> same_public v w"
  shows "sanitize (PDict d) = sanitize (PDict e) \<longleftrightarrow> same_public (PDict d) (PDict e)"
proof -
  have "list_all2 (\<lambda>x y. san_entry x = san_entry y) d e
    \<longleftrightarrow> list_all2 pub_entry d e"
  proof (rule list.rel_cong [OF refl refl])
    fix x y :: "string \<times> pyval" assume x: "x \<in> set d"
    obtain k v l w where xy: "x = (k, v)" "y = (l, w)" by fastforce
    from x xy have "(k, v) \<in> set d" by simp
    then have iff: "sanitize v = sanitize w \<longleftrightarrow> same_public v w" by (rule assms)
    show "san_entry x = san_entry y \<longleftrightarrow> pub_entry x y"
      unfolding xy prod.case prod.inject using entry_eq_iff [OF iff, of k] by blast
  qed
  then show ?thesis by (simp only: sanitize.simps same_public.simps map_eq_iff_rel pyval.inject)
qed

text \<open>
  C37. Noninterference, exactly: two reports sanitize to the same text if and only if
  they agree on their public part. Nothing that stands under a hidden entry has any
  influence on the sanitized value, and everything else is preserved.
\<close>

theorem sanitize_eq_iff: "sanitize v = sanitize w \<longleftrightarrow> same_public v w"
proof (induction v arbitrary: w rule: pyval_induct)
  case (List vs)
  then have "list_all2 (\<lambda>x y. sanitize x = sanitize y) vs ws \<longleftrightarrow> list_all2 same_public vs ws" for ws
    by (intro list.rel_cong) auto
  then show ?case by (cases w) (auto simp: map_eq_iff_rel)
next
  case (Dict d)
  show ?case
  proof (cases w)
    case (PDict e)
    then show ?thesis using sanitize_eq_dict [of d e] Dict by blast
  qed auto
qed (case_tac w; simp)+

text \<open>
  The two functions of the repository: the runner's own \<^verbatim>\<open>hardware-check.sanitize\<close>
  redacts everything the shared one redacts, so it gives the same result before and after it.
\<close>

lemma hw_sanitize_absorbs: "hw_sanitize (sanitize v) = hw_sanitize v"
proof (induction v rule: pyval_induct)
  case (Dict d)
  have "hw_sanitize redacted = redacted" by (simp add: redacted_def)
  with Dict show ?case using counters_sensitive by (auto simp: is_counter_def)
qed auto

section \<open>The form of a sanitized value\<close>

text \<open>A JSON object has distinct keys, at any depth.\<close>

fun well_formed :: "pyval \<Rightarrow> bool" where
  "well_formed (PDict d) \<longleftrightarrow> distinct (map fst d) \<and> list_all (\<lambda>(k, v). well_formed v) d"
| "well_formed (PList vs) = list_all well_formed vs"
| "well_formed v = True"

text \<open>
  The same constructors: objects with the same keys in the same order, lists of the same length, equal
  leaves; only under a sensitive key anything may have become the mark.
\<close>

fun keeps_form :: "pyval \<Rightarrow> pyval \<Rightarrow> bool" where
  "keeps_form (PDict d) (PDict e) = list_all2 (\<lambda>(k, v) (l, w). k = l \<and> (sensitive k \<and> w = redacted \<or> keeps_form v w)) d e"
| "keeps_form (PList vs) (PList ws) = list_all2 keeps_form vs ws"
| "keeps_form v w = (v = w)"

lemma keeps_form_refl: "keeps_form v v"
  by (induction v rule: pyval_induct) (auto simp: list_all2_same)

text \<open>
  C33. Sanitizing keeps the type of a value: a well-formed JSON value becomes a well-formed one
  with the same keys in the same order, lists of the same length and the same leaves, except that
  the value of a sensitive key may have become the redaction mark.
\<close>

theorem sanitize_typed:
  assumes "well_formed v"
  shows "well_formed (sanitize v) \<and> keeps_form v (sanitize v)"
  using assms
proof (induction v rule: pyval_induct)
  case (List vs)
  then show ?case
    by (auto simp: list_all_iff list_all2_conv_all_nth)
next
  case (Dict d)
  have entry: "well_formed (snd (san_entry (k, v))) \<and> (sensitive k \<and> snd (san_entry (k, v)) = redacted \<or> keeps_form v (snd (san_entry (k, v))))"
    if "(k, v) \<in> set d" for k v
  proof -
    have "well_formed v"
      using Dict.prems that by (auto simp: list_all_iff)
    then show ?thesis
      using Dict.IH [OF that] by (auto simp: keeps_form_refl redacted_def)
  qed
  have "map fst (map san_entry d) = map fst d"
    by (simp add: case_prod_unfold comp_def)
  moreover have "list_all (\<lambda>(k, v). well_formed v) (map san_entry d)"
    using entry by (fastforce simp: list_all_iff)
  moreover have "list_all2 (\<lambda>(k, v) (l, w). k = l \<and> (sensitive k \<and> w = redacted \<or> keeps_form v w)) d (map san_entry d)"
    using entry by (fastforce simp: list_all2_conv_all_nth case_prod_unfold)
  ultimately show ?case
    using Dict.prems by (simp only: sanitize.simps well_formed.simps keeps_form.simps)
qed simp_all

lemma sanitize_typed_witness:
  "well_formed (sanitize (PDict [(''token'', PStr ''x''), (''ids'', PList [PInt 1])]))
   \<and> keeps_form (PDict [(''token'', PStr ''x''), (''ids'', PList [PInt 1])]) (sanitize (PDict [(''token'', PStr ''x''), (''ids'', PList [PInt 1])]))"
  by (rule sanitize_typed) simp

end
