(* ===== verification/Manage.thy ===== *)
theory Manage
  imports Sanitize
begin

text \<open>
  What the device checks share: requests to the gateway's interfaces, and the list of
  named cases with their evidence. The gateway is an arbitrary function of the requests made so
  far; a reply is its status, its headers and its bytes. Each script adds its own fields to the
  state.
\<close>

section \<open>Requests\<close>

datatype payload = Empty | Json pyval | Bytes string | Partial string

record mcall =
  mc_method :: string
  mc_url :: string
  mc_token :: "string option"
  mc_body :: payload

record mreply =
  mr_status :: int
  mr_headers :: "(string \<times> string) list"
  mr_body :: string

type_synonym mserver = "mcall list \<Rightarrow> mcall \<Rightarrow> mreply res"

record case_row =
  cr_name :: string
  cr_status :: "bool option"
  cr_evidence :: pyval
  cr_error :: string

record manage =
  mg_calls :: "mcall list"
  mg_cases :: "case_row list"

definition send :: "mserver \<Rightarrow> mcall \<Rightarrow> ('z manage_scheme, mreply) act" where
  "send up c s = (up (mg_calls s) c, s\<lparr>mg_calls := mg_calls s @ [c]\<rparr>)"

text \<open>\<^verbatim>\<open>response.read(n)\<close>.\<close>

fun read_bytes :: "int \<Rightarrow> string \<Rightarrow> string" where
  "read_bytes n [] = []"
| "read_bytes n (c # cs) = (if n \<le> 0 then [] else c # read_bytes (n - 1) cs)"

text \<open>\<^verbatim>\<open>assert b, msg\<close>.\<close>

definition assert_that :: "bool \<Rightarrow> string \<Rightarrow> ('s, unit) act" where
  "assert_that b msg = (if b then ret () else raise AssertionError msg)"

definition assert_res :: "bool res \<Rightarrow> string \<Rightarrow> ('s, unit) act" where
  "assert_res r msg = bind (lift r) (\<lambda>b. assert_that b msg)"

lemma assert_run [simp, act_simps]:
  "assert_that True msg = ret ()" "assert_that False msg = raise AssertionError msg"
  "assert_res (Inr b) msg = assert_that b msg" "assert_res (Inl e) msg = lift (Inl e)"
  by (simp_all add: assert_that_def assert_res_def)

lemma assert_Inr_iff: "assert_res r msg s = (Inr x, t) \<longleftrightarrow> r = Inr True \<and> t = s"
  by (cases r) (auto simp: act_run assert_res_def assert_that_def)

text \<open>Chains of subscriptions, and the conditions the scripts build on them.\<close>

fun path_at :: "pyval \<Rightarrow> string list \<Rightarrow> pyval res" where
  "path_at v [] = Inr v"
| "path_at v (k # ks) = rbind (getitem v k) (\<lambda>w. path_at w ks)"

definition flag_at :: "pyval \<Rightarrow> string list \<Rightarrow> bool res" where
  "flag_at v ks = rbind (path_at v ks) (\<lambda>w. Inr (truthy w))"

definition unset_at :: "pyval \<Rightarrow> string list \<Rightarrow> bool res" where
  "unset_at v ks = rbind (path_at v ks) (\<lambda>w. Inr (\<not> truthy w))"

definition same_at :: "pyval \<Rightarrow> string list \<Rightarrow> pyval \<Rightarrow> bool res" where
  "same_at v ks x = rbind (path_at v ks) (\<lambda>w. Inr (py_eq w x))"

text \<open>\<^verbatim>\<open>v >= n\<close> for an integer literal: a type error unless \<^verbatim>\<open>v\<close> is a number.\<close>

definition at_least :: "pyval \<Rightarrow> int \<Rightarrow> bool res" where
  "at_least v n = (case num_of v of
     Some r \<Rightarrow> Inr (of_int n \<le> r)
   | None \<Rightarrow> (case v of PFloat f \<Rightarrow> Inr (f = PosInf) | _ \<Rightarrow> Inl (Exc TypeError ''type'')))"

definition enough_at :: "pyval \<Rightarrow> string list \<Rightarrow> int \<Rightarrow> bool res" where
  "enough_at v ks n = rbind (path_at v ks) (\<lambda>w. at_least w n)"

text \<open>\<^verbatim>\<open>round(x, k)\<close>: to k decimals, ties to even.\<close>

definition round_even :: "rat \<Rightarrow> int" where
  "round_even x = (let f = \<lfloor>x\<rfloor>; d = x - of_int f in
     if d < 1 / 2 then f else if 1 / 2 < d then f + 1 else if even f then f else f + 1)"

definition py_round :: "nat \<Rightarrow> rat \<Rightarrow> pyval" where
  "py_round k x = PFloat (Finite (of_int (round_even (10 ^ k * x)) / 10 ^ k))"

text \<open>\<^verbatim>\<open>v.get(k) or {}\<close>.\<close>

definition get_or_empty :: "pyval \<Rightarrow> string \<Rightarrow> pyval res" where
  "get_or_empty v k = rbind (pyget v k PNone) (\<lambda>w. Inr (py_or w (PDict [])))"

text \<open>\<^verbatim>\<open>len(set(vs)) == len(vs)\<close>.\<close>

fun pairwise_different :: "pyval list \<Rightarrow> bool" where
  "pairwise_different [] = True"
| "pairwise_different (v # vs) = (\<not> list_ex (py_eq v) vs \<and> pairwise_different vs)"

definition distinct_values :: "pyval list \<Rightarrow> bool res" where
  "distinct_values vs = (if list_all hashable vs then Inr (pairwise_different vs) else Inl (Exc TypeError ''unhashable''))"

definition task_ids :: "pyval \<Rightarrow> pyval list res" where
  "task_ids v = rbind (rbind (getitem v ''device'') iterate) (rmap (\<lambda>t. getitem t ''id''))"

section \<open>Cases\<close>

text \<open>
  \<^verbatim>\<open>check(name, action)\<close>: the case is recorded however the action ends, its evidence through the
  script's own sanitizer; an
  interrupt leaves it without a status. Times are not modelled.
\<close>

definition add_case :: "case_row \<Rightarrow> 'z manage_scheme \<Rightarrow> 'z manage_scheme" where
  "add_case r s = s\<lparr>mg_cases := mg_cases s @ [r]\<rparr>"

definition run_case :: "(pyval \<Rightarrow> pyval) \<Rightarrow> string \<Rightarrow> ('z manage_scheme, pyval) act \<Rightarrow> ('z manage_scheme, pyval) act" where
  "run_case san name action s = (case action s of
     (Inr v, t) \<Rightarrow> (Inr v, add_case \<lparr>cr_name = name, cr_status = Some True, cr_evidence = san v, cr_error = []\<rparr> t)
   | (Inl e, t) \<Rightarrow> (Inl e, add_case (if is_exception (exc_kind e)
        then \<lparr>cr_name = name, cr_status = Some False, cr_evidence = PNone, cr_error = exc_msg e\<rparr>
        else \<lparr>cr_name = name, cr_status = None, cr_evidence = PNone, cr_error = []\<rparr>) t))"

lemma keeps_option [keeps_intro]:
  "keeps I f \<Longrightarrow> (\<And>x. keeps I (g x)) \<Longrightarrow> keeps I (case r of None \<Rightarrow> f | Some x \<Rightarrow> g x)"
  by (cases r) simp_all

lemma keeps_assert [keeps_intro]: "keeps I (assert_that b msg)" "keeps I (assert_res r msg)"
  unfolding assert_res_def assert_that_def by (intro keeps_intro)+

lemma run_case_adds: "\<exists>row. snd (run_case san name m s) = add_case row (snd (m s)) \<and> cr_name row = name"
  by (auto simp: run_case_def split: prod.splits sum.splits)

text \<open>
  \<^verbatim>\<open>only P\<close>: requests are only ever added, and each added one satisfies \<^verbatim>\<open>P\<close>.
\<close>

definition only :: "(mcall \<Rightarrow> bool) \<Rightarrow> 'z manage_scheme \<Rightarrow> 'z manage_scheme \<Rightarrow> bool" where
  "only P s t \<longleftrightarrow> (\<exists>new. mg_calls t = mg_calls s @ new \<and> list_all P new)"

lemma only_calls: "only P s t \<Longrightarrow> list_all P (mg_calls s) \<Longrightarrow> list_all P (mg_calls t)"
  by (auto simp: only_def)

interpretation asks: state_order "only P" for P
proof unfold_locales
  show "only P s s" for s
    by (simp add: only_def)
  show "only P s t \<Longrightarrow> only P t u \<Longrightarrow> only P s u" for s t u
    by (auto simp: only_def)
qed

lemma asks_send: "P c \<Longrightarrow> asks.grows P (send up c)"
  by (simp add: asks.grows_def send_def only_def)

lemma asks_modify: "(\<And>s. mg_calls (u s) = mg_calls s) \<Longrightarrow> asks.grows P (modify u)"
  by (simp add: asks.grows_def act_run only_def)

lemma asks_case: "asks.grows P m \<Longrightarrow> asks.grows P (run_case san name m)"
  unfolding asks.grows_def
proof
  fix s
  assume "\<forall>s. only P s (snd (m s))"
  then have "only P s (snd (m s))"
    by blast
  then show "only P s (snd (run_case san name m s))"
    by (auto simp: run_case_def only_def add_case_def split: prod.splits sum.splits)
qed

lemma asks_assert: "asks.grows P (assert_that b msg)" "asks.grows P (assert_res r msg)"
  unfolding assert_res_def assert_that_def by (intro asks.grows_rules)+

lemmas asks_rules = asks.grows_basic asks.grows_bind asks.grows_andthen asks.grows_when asks.grows_if
  asks.grows_catch asks.grows_finally asks.grows_for_each asks.grows_prod asks.grows_Let
  asks_case asks_assert

text \<open>
  A temporary change and its undoing, as requests: whatever was opened is closed by a later request,
  after which nothing is opened again.
\<close>

definition undone :: "(mcall \<Rightarrow> bool) \<Rightarrow> (mcall \<Rightarrow> bool) \<Rightarrow> mcall list \<Rightarrow> bool" where
  "undone opens closes cs \<longleftrightarrow> list_all (\<lambda>c. \<not> opens c) cs
     \<or> (\<exists>front c rest. cs = front @ c # rest \<and> closes c \<and> list_all (\<lambda>c. \<not> opens c) rest)"

lemma undone_Nil: "undone opens closes []"
  by (simp add: undone_def)

lemma undone_closed: "closes c \<Longrightarrow> undone opens closes (cs @ [c])"
  unfolding undone_def by (rule disjI2, rule exI [of _ cs], rule exI [of _ c], rule exI [of _ "[]"]) simp

lemma undone_append:
  assumes "undone opens closes cs" and new: "list_all (\<lambda>c. \<not> opens c) new"
  shows "undone opens closes (cs @ new)"
  using assms(1) unfolding undone_def
proof (elim disjE exE conjE)
  fix front c rest
  assume "cs = front @ c # rest" and "closes c" and "list_all (\<lambda>c. \<not> opens c) rest"
  then have "cs @ new = front @ c # (rest @ new) \<and> closes c \<and> list_all (\<lambda>c. \<not> opens c) (rest @ new)"
    using new by simp
  then show "list_all (\<lambda>c. \<not> opens c) (cs @ new)
      \<or> (\<exists>front c rest. cs @ new = front @ c # rest \<and> closes c \<and> list_all (\<lambda>c. \<not> opens c) rest)"
    by blast
qed (simp add: new)

lemma keeps_undone:
  assumes "asks.grows (\<lambda>c. \<not> opens c) m"
  shows "keeps (\<lambda>s. undone opens closes (mg_calls s)) m"
  unfolding keeps_def
proof (intro allI impI)
  fix s :: "'a manage_scheme"
  assume s: "undone opens closes (mg_calls s)"
  obtain new where "mg_calls (snd (m s)) = mg_calls s @ new" and "list_all (\<lambda>c. \<not> opens c) new"
    using asks.growsD [OF assms, of s] by (auto simp: only_def)
  then show "undone opens closes (mg_calls (snd (m s)))"
    using undone_append [OF s] by simp
qed

text \<open>From one condition to another: what holds after an action when something held before it.\<close>

definition leads :: "('s \<Rightarrow> bool) \<Rightarrow> ('s \<Rightarrow> bool) \<Rightarrow> ('s, 'a) act \<Rightarrow> bool" where
  "leads I J m \<longleftrightarrow> (\<forall>s. I s \<longrightarrow> J (snd (m s)))"

lemma leadsD: "leads I J m \<Longrightarrow> I s \<Longrightarrow> J (snd (m s))"
  by (simp add: leads_def)

lemma leads_keeps: "keeps I m \<Longrightarrow> (\<And>s. I s \<Longrightarrow> J s) \<Longrightarrow> leads I J m"
  by (simp add: leads_def keeps_def)

lemma leads_bind: "keeps I m \<Longrightarrow> (\<And>s. I s \<Longrightarrow> J s) \<Longrightarrow> (\<And>x. leads I J (f x)) \<Longrightarrow> leads I J (bind m f)"
  unfolding leads_def bind_def keeps_def by (auto split: prod.splits sum.splits)

lemma leads_then: "leads I J m \<Longrightarrow> (\<And>x. keeps J (f x)) \<Longrightarrow> leads I J (bind m f)"
  unfolding leads_def bind_def keeps_def by (auto split: prod.splits sum.splits)

lemma leads_andthen:
  "keeps I m \<Longrightarrow> (\<And>s. I s \<Longrightarrow> J s) \<Longrightarrow> leads I J n \<Longrightarrow> leads I J (andthen m n)"
  "leads I J m \<Longrightarrow> keeps J n \<Longrightarrow> leads I J (andthen m n)"
  by (simp_all add: andthen_def leads_bind leads_then)

text \<open>How often a request was made.\<close>

definition at_most :: "nat \<Rightarrow> (mcall \<Rightarrow> bool) \<Rightarrow> 'z manage_scheme \<Rightarrow> bool" where
  "at_most n P s \<longleftrightarrow> length (filter P (mg_calls s)) \<le> n"

lemma at_most_mono: "at_most n P s \<Longrightarrow> n \<le> m \<Longrightarrow> at_most m P s"
  by (simp add: at_most_def)

lemma keeps_at_most:
  assumes "asks.grows (\<lambda>c. \<not> P c) m"
  shows "keeps (at_most n P) m"
  unfolding keeps_def
proof (intro allI impI)
  fix s :: "'a manage_scheme"
  assume s: "at_most n P s"
  obtain new where "mg_calls (snd (m s)) = mg_calls s @ new" and "list_all (\<lambda>c. \<not> P c) new"
    using asks.growsD [OF assms, of s] by (auto simp: only_def)
  then show "at_most n P (snd (m s))"
    using s by (simp add: at_most_def list_all_iff filter_empty_conv [THEN iffD2])
qed

text \<open>A clause that always ends in a good state makes the whole statement end in one.\<close>

lemma finally_last: "(\<And>s. I (snd (n s))) \<Longrightarrow> keeps I (finally_do m n)"
  unfolding keeps_def finally_do_def
proof (intro allI impI)
  fix s
  assume n: "\<And>s. I (snd (n s))"
  obtain r t where "m s = (r, t)"
    by fastforce
  then show "I (snd (case m s of (r, t) \<Rightarrow> case n t of (Inl e, u) \<Rightarrow> (Inl e, u) | (Inr _, u) \<Rightarrow> (r, u)))"
    using n [of t] by (auto split: prod.splits sum.splits)
qed

text \<open>
  No case has failed, and none can have failed without the run raising: what an action keeps
  as long as it returns.
\<close>

definition none_failed :: "'z manage_scheme \<Rightarrow> bool" where
  "none_failed s \<longleftrightarrow> list_all (\<lambda>r. cr_status r = Some True) (mg_cases s)"

definition sound :: "('z manage_scheme, 'a) act \<Rightarrow> bool" where
  "sound m \<longleftrightarrow> yields none_failed none_failed m"

lemma sound_basic: "sound (ret x)" "sound (raise c e)" "sound (lift r)" "sound (gets f)"
  by (simp_all add: sound_def yields_pure yields_raise)

lemma sound_bind: "sound m \<Longrightarrow> (\<And>x. sound (f x)) \<Longrightarrow> sound (bind m f)"
  unfolding sound_def by (rule yields_bind)

lemma sound_andthen: "sound m \<Longrightarrow> sound n \<Longrightarrow> sound (andthen m n)"
  unfolding sound_def by (rule yields_andthen)

lemma sound_if: "sound m \<Longrightarrow> sound n \<Longrightarrow> sound (if b then m else n)"
  by simp

lemma sound_when: "sound m \<Longrightarrow> sound (when_do b m)"
  by (simp add: when_do_def sound_basic)

lemma sound_for_each: "(\<And>x. sound (body x)) \<Longrightarrow> sound (for_each xs body)"
  by (induction xs) (auto intro: sound_basic sound_andthen)

lemma sound_send: "sound (send up c)"
  by (simp add: sound_def yields_def send_def none_failed_def)

lemma sound_assert: "sound (assert_that b msg)" "sound (assert_res r msg)"
  unfolding assert_res_def assert_that_def by (intro sound_basic sound_bind sound_if)+

lemma sound_case: "sound m \<Longrightarrow> sound (run_case san name m)"
  by (auto simp: sound_def yields_def run_case_def none_failed_def add_case_def split: prod.splits sum.splits)

lemma sound_modify: "(\<And>s. mg_cases (u s) = mg_cases s) \<Longrightarrow> sound (modify u)"
  unfolding sound_def by (rule yields_modify) (simp add: none_failed_def)

lemma sound_option: "sound f \<Longrightarrow> (\<And>x. sound (g x)) \<Longrightarrow> sound (case r of None \<Rightarrow> f | Some x \<Rightarrow> g x)"
  by (cases r) simp_all

lemma sound_prod: "(\<And>a b. sound (f a b)) \<Longrightarrow> sound (case p of (a, b) \<Rightarrow> f a b)"
  by (cases p) simp

lemmas sound_rules = sound_basic sound_bind sound_andthen sound_if sound_when sound_for_each sound_send
  sound_assert sound_case sound_option sound_prod

end
