(* ===== verification/Hardware.thy ===== *)
theory Hardware
  imports Manage
begin

text \<open>
  The real-device management checks of \<^verbatim>\<open>hardware-check.py\<close>. The daemon, the gateway it serves,
  the clock and the files are fields of the environment; the state is the list of cases, the fields
  of the report and the values the script keeps for its cleanup.
\<close>

section \<open>The run\<close>

record hw_report =
  hr_passed :: bool
  hr_cases :: "case_row list"
  hr_transport :: pyval
  hr_failure :: "string option"
  hr_partial :: "(pyval \<times> int \<times> pyval list) option"

record hw_env =
  he_lib :: pylib
  he_up :: mserver
  he_phase :: string
  he_port :: string
  he_token :: string
  he_pairing :: pyval
  he_image :: "string res"
  he_seconds :: nat
  he_clock :: "nat \<Rightarrow> rat"
  he_exited :: "nat \<Rightarrow> bool"
  he_ends :: "nat \<Rightarrow> bool"
  he_spawn :: "unit res"
  he_random :: string
  he_b64 :: "pyval \<Rightarrow> string res"
  he_store :: "string \<Rightarrow> string res"

record hw = manage +
  hw_restore :: pyval
  hw_failed :: bool
  hw_failure :: "string option"
  hw_transport :: pyval
  hw_partial :: "(pyval \<times> int \<times> pyval list) option"
  hw_reads :: nat
  hw_waits :: nat
  hw_published :: "hw_report option"

definition hw_init :: hw where
  "hw_init = \<lparr>mg_calls = [], mg_cases = [], hw_restore = PNone, hw_failed = False, hw_failure = None,
     hw_transport = PStr ''pending capability check'', hw_partial = None, hw_reads = 0, hw_waits = 0,
     hw_published = None\<rparr>"

text \<open>
  \<^verbatim>\<open>time.monotonic()\<close> and \<^verbatim>\<open>daemon.wait(timeout=..)\<close>: the k-th read of the clock and the k-th wait
  are given by the environment.
\<close>

definition now :: "hw_env \<Rightarrow> (hw, rat) act" where
  "now E s = (Inr (he_clock E (hw_reads s)), s\<lparr>hw_reads := Suc (hw_reads s)\<rparr>)"

definition wait_exit :: "hw_env \<Rightarrow> (hw, unit) act" where
  "wait_exit E s = (if he_ends E (hw_waits s) then Inr () else Inl (Exc TimeoutExpired ''serve''),
     s\<lparr>hw_waits := Suc (hw_waits s)\<rparr>)"

section \<open>Requests\<close>

definition hw_url :: "string \<Rightarrow> string" where
  "hw_url path = ''http://localhost:18966/admin/v1'' @ path"

definition hw_call :: "hw_env \<Rightarrow> string \<Rightarrow> string \<Rightarrow> payload \<Rightarrow> mcall" where
  "hw_call E method path body =
     \<lparr>mc_method = method, mc_url = hw_url path, mc_token = Some (he_token E), mc_body = body\<rparr>"

definition hw_request :: "hw_env \<Rightarrow> string \<Rightarrow> string \<Rightarrow> payload \<Rightarrow> int \<Rightarrow> (hw, pyval) act" where
  "hw_request E path method data expected =
     bind (send (he_up E) (hw_call E method path data)) (\<lambda>r.
     bind (lift (loads (he_lib E) (read_bytes (2 * 1024 * 1024) (mr_body r)))) (\<lambda>result.
       if mr_status r \<noteq> expected
       then raise AssertionError (method @ '' '' @ path @ '': HTTP '' @ repr_of (he_lib E) (PInt (mr_status r))
              @ '', expected '' @ repr_of (he_lib E) (PInt expected) @ ''; ''
              @ to_str (he_lib E) (hw_sanitize result))
       else ret result))"

abbreviation hw_get :: "hw_env \<Rightarrow> string \<Rightarrow> (hw, pyval) act" where
  "hw_get E path \<equiv> hw_request E path ''GET'' Empty 200"

abbreviation hw_post :: "hw_env \<Rightarrow> string \<Rightarrow> payload \<Rightarrow> (hw, pyval) act" where
  "hw_post E path data \<equiv> hw_request E path ''POST'' data 200"

abbreviation hw_case :: "string \<Rightarrow> (hw, pyval) act \<Rightarrow> (hw, pyval) act" where
  "hw_case \<equiv> run_case hw_sanitize"

definition do_action :: "hw_env \<Rightarrow> string \<Rightarrow> (hw, pyval) act" where
  "do_action E name = hw_post E ''/device/action'' (Json (PDict [(''action'', PStr name)]))"

definition diagnose :: "hw_env \<Rightarrow> string \<Rightarrow> (hw, pyval) act" where
  "diagnose E name = hw_post E ''/diagnostics'' (Json (PDict [(''action'', PStr name)]))"

definition device_config :: "hw_env \<Rightarrow> (hw, pyval) act" where
  "device_config E = bind (hw_get E ''/config'') (\<lambda>v. lift (getitem v ''device''))"

definition link_session :: "hw_env \<Rightarrow> (hw, pyval) act" where
  "link_session E = bind (hw_get E ''/state'') (\<lambda>v. lift (path_at v [''connection'', ''link'', ''session'']))"

section \<open>Readiness\<close>

text \<open>\<^verbatim>\<open>not paired or (conn.get('paired') and ...)\<close>, then the caller's predicate.\<close>

definition is_ready :: "bool \<Rightarrow> pyval \<Rightarrow> (pyval \<Rightarrow> bool res) option \<Rightarrow> pyval \<Rightarrow> bool res" where
  "is_ready paired old_session predicate state =
     rbind (pyget state ''connection'' (PDict [])) (\<lambda>conn.
     rbind (pyget conn ''link'' (PDict [])) (\<lambda>link.
     rbind (pyget link ''session'' PNone) (\<lambda>session.
     rand (if \<not> paired then Inr True else
         rand (rbind (pyget conn ''paired'' PNone) (\<lambda>p. Inr (truthy p)))
        (rand (rbind (get_or_empty state ''device'') (\<lambda>d. rbind (pyget d ''session'' PNone) (\<lambda>x. Inr (py_eq x session))))
              (Inr (old_session = PNone \<or> \<not> py_eq session old_session))))
       (case predicate of None \<Rightarrow> Inr True | Some f \<Rightarrow> f state))))"

text \<open>
  The loop sleeps half a second per round and ends 35 seconds after its start, so it has at most
  70 rounds; the clock may end it earlier.
\<close>

definition ready_rounds :: nat where
  "ready_rounds = 70"

definition poll_ready :: "hw_env \<Rightarrow> bool \<Rightarrow> pyval \<Rightarrow> (pyval \<Rightarrow> bool res) option \<Rightarrow> (hw, pyval option) act" where
  "poll_ready E paired old f = catch is_os_error
     (bind (hw_get E ''/state'') (\<lambda>state.
      bind (lift (is_ready paired old f state)) (\<lambda>b. ret (if b then Some state else None))))
     (\<lambda>_. ret None)"

fun ready_loop :: "hw_env \<Rightarrow> bool \<Rightarrow> pyval \<Rightarrow> (pyval \<Rightarrow> bool res) option \<Rightarrow> rat \<Rightarrow> nat \<Rightarrow> (hw, pyval) act" where
  "ready_loop E paired old f deadline 0 = raise TimeoutError ''device/daemon readiness deadline''"
| "ready_loop E paired old f deadline (Suc n) =
     bind (now E) (\<lambda>t.
       if deadline \<le> t then raise TimeoutError ''device/daemon readiness deadline''
       else bind (gets (\<lambda>s. he_exited E (hw_reads s))) (\<lambda>dead.
         if dead then raise RuntimeError ''daemon exited; inspect private daemon log''
         else bind (poll_ready E paired old f)
           (\<lambda>r. case r of Some state \<Rightarrow> ret state | None \<Rightarrow> ready_loop E paired old f deadline n)))"

definition wait_ready :: "hw_env \<Rightarrow> bool \<Rightarrow> pyval \<Rightarrow> (pyval \<Rightarrow> bool res) option \<Rightarrow> (hw, pyval) act" where
  "wait_ready E paired old f = bind (now E) (\<lambda>t. ready_loop E paired old f (t + 35) ready_rounds)"

section \<open>The configuration phase\<close>

definition interval :: string where
  "interval = ''telemetry.interval_ms''"

definition set_device :: "hw_env \<Rightarrow> pydict \<Rightarrow> int \<Rightarrow> (hw, pyval) act" where
  "set_device E d expected = hw_request E ''/config'' ''PATCH'' (Json (PDict [(''device'', PDict d)])) expected"

definition apply_interval :: "hw_env \<Rightarrow> pyval \<Rightarrow> (hw, pyval) act" where
  "apply_interval E value = set_device E [(interval, value)] 200"

definition confirm_interval :: "hw_env \<Rightarrow> pyval \<Rightarrow> (hw, pyval) act" where
  "confirm_interval E value =
     andthen (apply_interval E value) (andthen (hw_post E ''/config/confirm'' Empty)
       (bind (device_config E) (\<lambda>result.
          andthen (assert_res (same_at result [''persisted'', interval] value) []) (ret result))))"

definition config_restart :: "hw_env \<Rightarrow> pyval \<Rightarrow> (hw, pyval) act" where
  "config_restart E target =
     bind (link_session E) (\<lambda>old.
     andthen (do_action E ''reboot'') (andthen (wait_ready E True old None)
       (bind (device_config E) (\<lambda>value.
          andthen (assert_res (same_at value [''persisted'', interval] target) []) (ret value)))))"

definition config_rollback :: "hw_env \<Rightarrow> int \<Rightarrow> (hw, pyval) act" where
  "config_rollback E target =
     andthen (apply_interval E (PInt (target + 200))) (andthen (hw_post E ''/config/rollback'' Empty)
       (bind (device_config E) (\<lambda>result.
          andthen (assert_res (same_at result [''effective'', interval] (PInt target)) []) (ret result))))"

definition config_automatic :: "hw_env \<Rightarrow> int \<Rightarrow> (hw, pyval) act" where
  "config_automatic E target =
     andthen (apply_interval E (PInt (target + 300)))
       (bind (device_config E) (\<lambda>result.
          andthen (assert_res (rand (unset_at result [''pending'']) (same_at result [''effective'', interval] (PInt target))) [])
            (ret result)))"

definition bad_wifi :: "hw_env \<Rightarrow> (hw, pyval) act" where
  "bad_wifi E =
     bind (bind (device_config E) (\<lambda>v. lift (getitem v ''persisted''))) (\<lambda>before.
     andthen (assert_res (unset_at before [''wifi.ssid'']) ''bad-Wi-Fi test requires an unconfigured board'')
    (andthen (set_device E [(''wifi.ssid'', PStr (''u2-no-ap-'' @ he_random E)),
                            (''wifi.password'', PStr ''not-a-real-network-key'')] 200)
    (andthen (hw_request E ''/config/confirm'' ''POST'' Empty 400)
    (bind (device_config E) (\<lambda>later.
     andthen (assert_res (rand (unset_at later [''pending'']) (same_at later [''persisted''] before)) [])
    (andthen (assert_res (rbind (path_at before [''wifi.ssid'']) (same_at later [''effective'', ''wifi.ssid''])) [])
    (ret later)))))))"

definition configuration :: "hw_env \<Rightarrow> (hw, unit) act" where
  "configuration E =
     bind (bind (device_config E) (\<lambda>v. lift (path_at v [''persisted'', interval]))) (\<lambda>original.
     andthen (modify (\<lambda>s. s\<lparr>hw_restore := original\<rparr>))
    (let target = (if eq_int original 1300 then 1400 else 1300) in
     andthen (hw_case ''config-confirm'' (confirm_interval E (PInt target)))
    (andthen (hw_case ''restart-persists-confirmed-config'' (config_restart E (PInt target)))
    (andthen (hw_case ''explicit-rollback'' (config_rollback E target))
    (andthen (hw_case ''confirmation-timeout-rollback'' (config_automatic E target))
    (andthen (hw_case ''restore-original-configuration'' (confirm_interval E original))
    (andthen (hw_case ''invalid-setting-rejected'' (set_device E [(interval, PInt 1)] 400))
    (andthen (hw_case ''valid-setting-immediately-after-rejection'' (confirm_interval E original))
    (andthen (hw_case ''usb-uart-change-rejected'' (set_device E [(''uart.baud'', PInt 230400)] 400))
    (andthen (hw_case ''valid-setting-after-unsupported-uart'' (confirm_interval E original))
    (andthen (hw_case ''bad-wifi-cannot-confirm-and-auto-rolls-back'' (bad_wifi E))
    (ret ()))))))))))))"

section \<open>Firmware phases\<close>

definition firmware_call :: "hw_env \<Rightarrow> payload \<Rightarrow> mcall" where
  "firmware_call E = hw_call E ''POST'' ''/firmware''"

definition upload :: "hw_env \<Rightarrow> string \<Rightarrow> int \<Rightarrow> (hw, pyval) act" where
  "upload E data expected =
     bind (send (he_up E) (firmware_call E (Bytes data))) (\<lambda>r.
     bind (lift (loads (he_lib E) (read_bytes 65536 (mr_body r)))) (\<lambda>value.
     andthen (assert_that (mr_status r = expected)
        (''('' @ repr_of (he_lib E) (PInt (mr_status r)) @ '', '' @ repr_of (he_lib E) (hw_sanitize value) @ '')''))
       (ret value)))"

text \<open>The connection is cut after 4096 bytes of the declared length; no reply is read.\<close>

definition interrupted_upload :: "hw_env \<Rightarrow> string \<Rightarrow> (hw, pyval) act" where
  "interrupted_upload E firmware =
     andthen (send (he_up E) (firmware_call E (Partial (take 4096 firmware))))
       (bind (hw_get E ''/state'') (\<lambda>state.
        andthen (assert_res (unset_at state [''host'', ''firmware_upload'']) []) (ret state)))"

definition slot :: "string list" where
  "slot = [''device'', ''ota'', ''running_partition'']"

definition image_state :: "string list" where
  "image_state = [''device'', ''ota'', ''image_state'']"

definition crashed :: "string list" where
  "crashed = [''device'', ''crash'', ''available'']"

definition same_persisted :: "hw_env \<Rightarrow> pyval \<Rightarrow> string \<Rightarrow> (hw, unit) act" where
  "same_persisted E original msg =
     bind (device_config E) (\<lambda>v. assert_res (same_at v [''persisted''] original) msg)"

definition unconfirmed_candidate :: "hw_env \<Rightarrow> pyval \<Rightarrow> pyval \<Rightarrow> pyval \<Rightarrow> (hw, pyval) act" where
  "unconfirmed_candidate E original old_session old_slot =
     andthen (do_action E ''reboot'') (andthen (hw_post E ''/shutdown'' Empty)
    (andthen (wait_exit E) (andthen (lift (he_spawn E))
    (bind (wait_ready E True old_session None) (\<lambda>state.
     andthen (assert_res (same_at state slot old_slot) ''unconfirmed candidate did not roll back'')
    (andthen (assert_res (same_at state image_state (PInt 2)) ''fallback image is not valid'')
    (andthen (assert_res (unset_at state crashed) ''rollback produced a coredump'')
    (andthen (same_persisted E original ''rollback changed persisted configuration'')
    (ret state)))))))))"

definition activation :: "hw_env \<Rightarrow> pyval \<Rightarrow> pyval \<Rightarrow> pyval \<Rightarrow> (hw, pyval) act" where
  "activation E original old_session old_slot =
     andthen (do_action E ''reboot'')
    (bind (wait_ready E True old_session (Some (\<lambda>s. same_at s image_state (PInt 2)))) (\<lambda>state.
     andthen (assert_res (rbind (same_at state slot old_slot) (\<lambda>b. Inr (\<not> b))) ''OTA did not select the other slot'')
    (andthen (assert_res (same_at state image_state (PInt 2)) ''candidate image was not confirmed valid'')
    (andthen (same_persisted E original ''OTA changed persisted configuration'')
    (ret state)))))"

definition valid_image :: "string \<Rightarrow> bool res" where
  "valid_image firmware = (case firmware of [] \<Rightarrow> Inl (Exc IndexError ''index'')
     | c # _ \<Rightarrow> Inr (c = CHR 0xE9 \<and> length firmware \<le> 4 * 1024 * 1024))"

definition maintenance :: "hw_env \<Rightarrow> (hw, unit) act" where
  "maintenance E =
     bind (lift (he_image E)) (\<lambda>firmware.
     andthen (assert_res (valid_image firmware) [])
    (andthen (if he_phase E = ''maintenance''
        then andthen (hw_case ''corrupt-image-rejected'' (upload E (replicate 1024 (CHR 0x00)) 502))
            (andthen (hw_case ''interrupted-upload-releases-maintenance'' (interrupted_upload E firmware)) (ret ()))
        else ret ())
    (bind (bind (device_config E) (\<lambda>v. lift (getitem v ''persisted''))) (\<lambda>original.
     bind (hw_get E ''/state'') (\<lambda>before.
     bind (lift (path_at before [''connection'', ''link'', ''session''])) (\<lambda>old_session.
     bind (lift (path_at before slot)) (\<lambda>old_slot.
     andthen (hw_case ''valid-image-upload'' (upload E firmware 200))
    (andthen (if he_phase E = ''rollback''
        then hw_case ''unconfirmed-candidate-rolls-back-with-host-offline''
               (unconfirmed_candidate E original old_session old_slot)
        else hw_case ''ota-new-slot-self-test-and-config-preservation''
               (activation E original old_session old_slot))
    (ret ())))))))))"

section \<open>Diagnostics and the soak\<close>

definition tasks_snapshot :: "hw_env \<Rightarrow> (hw, pyval) act" where
  "tasks_snapshot E = bind (hw_get E ''/tasks'') (\<lambda>value.
     andthen (assert_res (rbind (task_ids value) distinct_values) ''duplicate task IDs across pages'') (ret value))"

definition export_crash :: "hw_env \<Rightarrow> (hw, pyval) act" where
  "export_crash E =
     bind (diagnose E ''crash_export'') (\<lambda>value.
     bind (lift (rbind (getitem value ''data'') (he_b64 E))) (\<lambda>data.
     bind (lift (he_store E data)) (\<lambda>path.
     ret (PDict [(''bytes'', PInt (int (length data))), (''sha256'', PStr (sha256 (he_lib E) data)),
                 (''private_file'', PStr path)]))))"

definition startup :: "hw_env \<Rightarrow> (hw, pyval) act" where
  "startup E =
     bind (link_session E) (\<lambda>old.
     andthen (do_action E ''reboot'')
    (bind (wait_ready E True old None) (\<lambda>state.
     andthen (assert_res (unset_at state crashed) [])
    (andthen (assert_res (enough_at state [''device'', ''memory'', ''internal_free''] 32768)
        ''low internal heap after restart'')
    (andthen (assert_res (enough_at state [''device'', ''memory'', ''largest_internal_block''] 16384)
        ''fragmented internal heap after restart'')
    (ret state))))))"

definition soak_check :: "hw_env \<Rightarrow> pyval \<Rightarrow> (hw, pyval) act" where
  "soak_check E session =
     bind (hw_get E ''/state'') (\<lambda>state.
     andthen (assert_res (same_at state [''connection'', ''link'', ''session''] session) ''unexpected session restart'')
    (andthen (assert_res (unset_at state crashed) ''new coredump'')
    (andthen (assert_res (enough_at state [''device'', ''memory'', ''internal_free''] 32768) ''internal heap exhausted'')
    (bind (hw_get E ''/tasks'') (\<lambda>tasks.
     andthen (assert_res (rbind (task_ids tasks) distinct_values) ''duplicate task pagination'')
    (andthen (hw_get E ''/config'') (andthen (hw_get E ''/logs'') (andthen (diagnose E ''health'')
    (ret state)))))))))"

definition add_round :: "pyval \<Rightarrow> hw \<Rightarrow> hw" where
  "add_round row s = s\<lparr>hw_partial := map_option (\<lambda>(session, n, rows). (session, n + 1, rows @ [row])) (hw_partial s)\<rparr>"

text \<open>A round sleeps one second, so a soak of n seconds has at most n rounds.\<close>

fun soak_loop :: "hw_env \<Rightarrow> pyval \<Rightarrow> rat \<Rightarrow> nat \<Rightarrow> (hw, unit) act" where
  "soak_loop E session start 0 = ret ()"
| "soak_loop E session start (Suc n) =
     bind (now E) (\<lambda>t.
       if start + of_nat (he_seconds E) \<le> t then ret ()
       else bind (soak_check E session) (\<lambda>state.
            bind (now E) (\<lambda>u.
            bind (lift (path_at state [''device'', ''memory''])) (\<lambda>memory.
            andthen (modify (add_round (PDict [(''elapsed_seconds'', py_round 1 (u - start)), (''memory'', memory)])))
              (soak_loop E session start n)))))"

definition soak_rows :: "hw \<Rightarrow> int \<times> pyval list" where
  "soak_rows s = (case hw_partial s of None \<Rightarrow> (0, []) | Some (_, n, rows) \<Rightarrow> (n, rows))"

definition load :: "hw_env \<Rightarrow> (hw, pyval) act" where
  "load E =
     bind (now E) (\<lambda>start.
     bind (link_session E) (\<lambda>session.
     andthen (modify (\<lambda>s. s\<lparr>hw_partial := Some (session, 0, [])\<rparr>))
    (andthen (soak_loop E session start (he_seconds E))
    (bind (hw_get E ''/state'') (\<lambda>final.
     bind (gets soak_rows) (\<lambda>(count, samples).
     andthen (modify (\<lambda>s. s\<lparr>hw_partial := None\<rparr>))
    (bind (now E) (\<lambda>t.
     ret (PDict [(''duration_seconds'', py_round 1 (t - start)), (''rounds'', PInt count),
                 (''samples'', PList samples), (''final'', final)])))))))))"

definition startup_names :: "string list" where
  "startup_names = map ((@) ''repeated-startup-'') [''1'', ''2'', ''3'', ''4'', ''5'']"

definition soak :: "hw_env \<Rightarrow> (hw, unit) act" where
  "soak E =
     bind (wait_ready E True PNone None) (\<lambda>state.
     bind (lift (flag_at state crashed)) (\<lambda>b.
     andthen (if b then andthen (hw_case ''archive-coredump-before-clearing'' (export_crash E)) (ret ()) else ret ())
    (andthen (hw_case ''clear-preserved-coredump'' (do_action E ''clear_crash''))
    (andthen (for_each startup_names (\<lambda>name. andthen (hw_case name (startup E)) (ret ())))
    (andthen (hw_case ''management-soak-no-restart-or-new-coredump'' (load E)) (ret ()))))))"

section \<open>The whole script\<close>

definition hw_connect :: "hw_env \<Rightarrow> (hw, unit) act" where
  "hw_connect E =
     bind (hw_case ''serial-handshake'' (hw_post E ''/connect'' (Json (PDict
        [(''port'', PStr (he_port E)), (''baud'', PInt 115200), (''flow_control'', PBool False)])))) (\<lambda>connected.
     bind (lift (pyget connected ''paired'' PNone)) (\<lambda>p.
       if \<not> truthy p then andthen (hw_case ''security2-pairing'' (hw_post E ''/pair'' (Json (he_pairing E)))) (ret ())
       else modify (add_case \<lparr>cr_name = ''security2-auto-pairing'', cr_status = Some True,
              cr_evidence = PStr ''Stored device credential successfully authenticated'', cr_error = []\<rparr>)))"

definition hw_capabilities :: "hw_env \<Rightarrow> (hw, unit) act" where
  "hw_capabilities E =
     bind (hw_case ''actual-device-capabilities'' (hw_get E ''/capabilities'')) (\<lambda>caps.
     bind (lift (getitem caps ''device'')) (\<lambda>device.
     andthen (assert_res (rand (same_at device [''flash_bytes''] (PInt (16 * 1024 * 1024)))
                               (same_at device [''psram_bytes''] (PInt (8 * 1024 * 1024)))) [])
    (bind (lift (getitem device ''transport'')) (\<lambda>transport.
     andthen (modify (\<lambda>s. s\<lparr>hw_transport := transport\<rparr>))
       (if he_phase E \<in> {''config'', ''maintenance'', ''rollback'', ''soak''}
        then assert_res (rand (Inr (py_eq transport (PStr ''usb_serial_jtag_validation'')))
                              (unset_at device [''uart_configuration_supported'']))
               ''This test phase requires the USB validation build''
        else ret ())))))"

definition hw_basics :: "hw_env \<Rightarrow> (hw, unit) act" where
  "hw_basics E =
     andthen (hw_case ''real-telemetry'' (wait_ready E True PNone None))
    (andthen (hw_case ''configuration-registry'' (hw_get E ''/config/schema''))
    (andthen (hw_case ''state-registry'' (hw_get E ''/state/schema''))
    (andthen (hw_case ''task-stack-diagnostics'' (tasks_snapshot E))
    (andthen (hw_case ''encrypted-logs-channel'' (hw_get E ''/logs''))
    (andthen (hw_case ''health-diagnostics'' (diagnose E ''health''))
    (andthen (hw_case ''configuration-snapshot'' (hw_get E ''/config''))
    (ret ())))))))"

definition hw_phase :: "hw_env \<Rightarrow> (hw, unit) act" where
  "hw_phase E =
     andthen (when_do (he_phase E = ''config'') (configuration E))
    (andthen (when_do (he_phase E = ''crash'') (andthen (hw_case ''private-coredump-export'' (export_crash E)) (ret ())))
    (andthen (when_do (he_phase E \<in> {''maintenance'', ''rollback''}) (maintenance E))
             (when_do (he_phase E = ''soak'') (soak E))))"

definition hw_body :: "hw_env \<Rightarrow> (hw, unit) act" where
  "hw_body E =
     andthen (hw_case ''daemon-ready'' (wait_ready E False PNone None))
    (andthen (hw_connect E) (andthen (hw_capabilities E) (andthen (hw_basics E) (hw_phase E))))"

text \<open>The cleanup of the configuration, whatever ended the run.\<close>

definition restore :: "hw_env \<Rightarrow> pyval \<Rightarrow> (hw, pyval) act" where
  "restore E original =
     bind (device_config E) (\<lambda>first.
     bind (lift (flag_at first [''pending''])) (\<lambda>pending.
     bind (if pending then andthen (hw_post E ''/config/rollback'' Empty) (device_config E) else ret first) (\<lambda>snapshot.
     bind (lift (same_at snapshot [''persisted'', interval] original)) (\<lambda>same.
     andthen (if same then ret ()
        else andthen (apply_interval E original) (andthen (hw_post E ''/config/confirm'' Empty) (ret ())))
    (bind (device_config E) (\<lambda>restored.
     andthen (assert_res (rand (unset_at restored [''pending'']) (same_at restored [''persisted'', interval] original)) [])
    (ret (PDict [(''original_telemetry_interval_ms'', original), (''restored'', PBool True)]))))))))"

definition set_failed :: "hw \<Rightarrow> hw" where
  "set_failed s = s\<lparr>hw_failed := True\<rparr>"

definition restore_config :: "hw_env \<Rightarrow> (hw, unit) act" where
  "restore_config E = bind (gets hw_restore) (\<lambda>original.
     if original = PNone then ret ()
     else catch is_exception
       (andthen (hw_case ''configuration-finally-cleanup'' (restore E original)) (ret ()))
       (\<lambda>_. modify set_failed))"

definition stop_daemon :: "hw_env \<Rightarrow> (hw, unit) act" where
  "stop_daemon E =
     andthen (catch is_exception (andthen (hw_post E ''/shutdown'' Empty) (ret ())) (\<lambda>_. ret ()))
       (catch (\<lambda>c. c = TimeoutExpired) (wait_exit E) (\<lambda>_. wait_exit E))"

definition report_of :: "hw \<Rightarrow> hw_report" where
  "report_of s = \<lparr>hr_passed = (\<not> hw_failed s), hr_cases = mg_cases s, hr_transport = hw_transport s,
     hr_failure = hw_failure s, hr_partial = hw_partial s\<rparr>"

definition publish :: "(hw, unit) act" where
  "publish = modify (\<lambda>s. s\<lparr>hw_published := Some (report_of s)\<rparr>)"

definition hw_main :: "hw_env \<Rightarrow> (hw, int) act" where
  "hw_main E =
     andthen (finally_do
       (catch is_exception (hw_body E)
         (\<lambda>e. modify (\<lambda>s. set_failed s\<lparr>hw_failure := Some (exc_msg e)\<rparr>)))
       (andthen (restore_config E) (andthen (stop_daemon E) publish)))
     (gets (\<lambda>s. if hw_failed s then 1 else 0))"

end
