(* ===== verification/HardwareProps.thy ===== *)
theory HardwareProps
  imports Hardware
begin

text \<open>
  What the management checks guarantee: the phases without a change of the device ask for none,
  a configured network is never replaced, the cleanup asks the daemon to stop and puts the
  configuration back, and what a passed report says.
\<close>

section \<open>What each operation keeps\<close>

text \<open>
  Reads, the connection, the pairing, the diagnostics and the end of the daemon: the requests that
  change no setting and no firmware.
\<close>

definition harmless :: "mcall \<Rightarrow> bool" where
  "harmless c \<longleftrightarrow> mc_method c = ''GET''
     \<or> mc_method c = ''POST'' \<and> mc_url c \<in> hw_url ` {''/connect'', ''/pair'', ''/diagnostics'', ''/shutdown''}"

definition sets_wifi :: "mcall \<Rightarrow> bool" where
  "sets_wifi c \<longleftrightarrow> mc_method c = ''PATCH'' \<and> mc_url c = hw_url ''/config''
     \<and> (case mc_body c of Json v \<Rightarrow> (case path_at v [''device'', ''wifi.ssid''] of Inr _ \<Rightarrow> True | Inl _ \<Rightarrow> False) | _ \<Rightarrow> False)"

text \<open>
  An invariant of the requests made and of the value kept for the cleanup: it survives every
  operation whose requests it allows.
\<close>

locale hw_frame =
  fixes E :: hw_env and I :: "hw \<Rightarrow> bool" and ok :: "mcall \<Rightarrow> bool"
  assumes frame: "I s \<Longrightarrow> mg_calls t = mg_calls s \<Longrightarrow> hw_restore t = hw_restore s
      \<Longrightarrow> hw_published t = hw_published s \<Longrightarrow> I t"
    and call: "I s \<Longrightarrow> ok c \<Longrightarrow> I (s\<lparr>mg_calls := mg_calls s @ [c]\<rparr>)"
    and reads_ok: "harmless c \<Longrightarrow> ok c"
begin

lemma keeps_send: "ok c \<Longrightarrow> keeps I (send up c)"
  by (simp add: keeps_def send_def call)

lemma keeps_frame: "(\<And>s. mg_calls (u s) = mg_calls s \<and> hw_restore (u s) = hw_restore s
    \<and> hw_published (u s) = hw_published s) \<Longrightarrow> keeps I (modify u)"
  by (rule keeps_modify) (blast intro: frame)

lemma keeps_now: "keeps I (now E)" "keeps I (wait_exit E)"
  by (auto simp: keeps_def now_def wait_exit_def elim!: frame)

lemma keeps_case: "keeps I m \<Longrightarrow> keeps I (run_case san name m)"
  unfolding keeps_def
proof (intro allI impI)
  fix s
  assume "\<forall>s. I s \<longrightarrow> I (snd (m s))" and "I s"
  then have "I (snd (m s))"
    by blast
  moreover obtain row where "snd (run_case san name m s) = add_case row (snd (m s))"
    using run_case_adds by blast
  ultimately show "I (snd (run_case san name m s))"
    using frame by (simp add: add_case_def)
qed

lemma keeps_request: "ok (hw_call E method path data) \<Longrightarrow> keeps I (hw_request E path method data expected)"
  unfolding hw_request_def by (intro keeps_intro keeps_send)

lemma keeps_get: "keeps I (hw_get E path)"
  by (intro keeps_request reads_ok) (simp add: harmless_def hw_call_def)

lemma keeps_post:
  "path \<in> {''/connect'', ''/pair'', ''/diagnostics'', ''/shutdown''} \<Longrightarrow> keeps I (hw_post E path data)"
  by (intro keeps_request reads_ok) (auto simp: harmless_def hw_call_def)

lemma keeps_reads: "keeps I (device_config E)" "keeps I (link_session E)" "keeps I (diagnose E name)"
  unfolding device_config_def link_session_def diagnose_def
  by (intro keeps_intro keeps_get keeps_post insertI1 insertI2)+

lemma keeps_ready_loop: "keeps I (ready_loop E paired old f deadline n)"
  by (induction n) (auto simp: poll_ready_def intro!: keeps_intro keeps_now keeps_get)

lemma keeps_ready: "keeps I (wait_ready E paired old f)"
  unfolding wait_ready_def by (intro keeps_intro keeps_now keeps_ready_loop)

lemmas op_rules = keeps_intro keeps_now keeps_case keeps_get keeps_reads keeps_ready

lemma keeps_tasks: "keeps I (tasks_snapshot E)"
  unfolding tasks_snapshot_def by (intro op_rules)

lemma keeps_export: "keeps I (export_crash E)"
  unfolding export_crash_def by (intro op_rules)

lemma keeps_connect: "keeps I (hw_connect E)"
  unfolding hw_connect_def
  by (intro op_rules keeps_post keeps_frame) (simp_all add: add_case_def)

lemma keeps_capabilities: "keeps I (hw_capabilities E)"
  unfolding hw_capabilities_def by (intro op_rules keeps_frame) simp

lemma keeps_basics: "keeps I (hw_basics E)"
  unfolding hw_basics_def by (intro op_rules keeps_tasks)

lemma keeps_body: "keeps I (hw_phase E) \<Longrightarrow> keeps I (hw_body E)"
  unfolding hw_body_def by (intro op_rules keeps_connect keeps_capabilities keeps_basics)

lemma keeps_stop: "keeps I (stop_daemon E)"
  unfolding stop_daemon_def by (intro op_rules keeps_post) simp

lemma keeps_main: "keeps I publish \<Longrightarrow> keeps I (hw_phase E) \<Longrightarrow> keeps I (restore_config E) \<Longrightarrow> keeps I (hw_main E)"
  unfolding hw_main_def
  by (intro op_rules keeps_body keeps_stop keeps_frame) (simp_all add: set_failed_def)

lemma keeps_crash_phase:
  "he_phase E \<notin> {''config'', ''maintenance'', ''rollback'', ''soak''} \<Longrightarrow> keeps I (hw_phase E)"
  unfolding hw_phase_def by (simp add: op_rules keeps_export)

end


text \<open>An invariant that also survives every request that is not a change of the configuration.\<close>

locale hw_plain = hw_frame +
  assumes plain_ok: "mc_method c \<noteq> ''PATCH'' \<Longrightarrow> ok c"
begin

lemma keeps_other: "m \<noteq> ''PATCH'' \<Longrightarrow> keeps I (hw_request E path m data expected)"
  by (intro keeps_request plain_ok) (simp add: hw_call_def)

lemma keeps_action: "keeps I (do_action E name)"
  unfolding do_action_def by (rule keeps_other) simp

lemma keeps_upload: "keeps I (upload E data expected)" "keeps I (interrupted_upload E data)"
  unfolding upload_def interrupted_upload_def firmware_call_def
  by (intro op_rules keeps_send plain_ok; simp add: hw_call_def)+

lemma keeps_candidate: "keeps I (unconfirmed_candidate E v old n)" "keeps I (activation E v old n)"
  unfolding unconfirmed_candidate_def activation_def same_persisted_def
  by (intro op_rules keeps_action keeps_other; simp)+

lemma keeps_maintenance: "keeps I (maintenance E)"
  unfolding maintenance_def by (intro op_rules keeps_upload keeps_candidate)

lemma keeps_soak_loop: "keeps I (soak_loop E session start n)"
  by (induction n)
    (auto simp: soak_check_def add_round_def intro!: op_rules keeps_frame)

lemma keeps_soak: "keeps I (soak E)"
  unfolding soak_def startup_def load_def
  by (intro op_rules keeps_action keeps_export keeps_soak_loop keeps_frame) simp_all

lemma keeps_other_phases:
  "keeps I (andthen (when_do (he_phase E = ''crash'') (andthen (hw_case ''private-coredump-export'' (export_crash E)) (ret ())))
     (andthen (when_do (he_phase E \<in> {''maintenance'', ''rollback''}) (maintenance E))
              (when_do (he_phase E = ''soak'') (soak E))))"
  by (intro op_rules keeps_maintenance keeps_export keeps_soak)

end

text \<open>
  An invariant that survives every request that does not set the network: it survives the steps of
  the configuration phase once the test of a bad network keeps it.
\<close>

locale hw_guard = hw_plain +
  assumes other_ok: "\<not> sets_wifi c \<Longrightarrow> ok c"
    and wifi_test: "keeps I (bad_wifi E)"
begin

lemma keeps_set: "k \<noteq> ''wifi.ssid'' \<Longrightarrow> keeps I (set_device E [(k, v)] expected)"
  unfolding set_device_def by (intro keeps_request other_ok) (simp add: sets_wifi_def hw_call_def)

lemma keeps_interval: "keeps I (apply_interval E v)"
  unfolding apply_interval_def by (rule keeps_set) (simp add: interval_def)

lemma keeps_confirm: "keeps I (confirm_interval E v)"
  unfolding confirm_interval_def by (intro op_rules keeps_interval keeps_other) simp

lemma keeps_config_steps:
  "keeps I (config_restart E v)" "keeps I (config_rollback E n)" "keeps I (config_automatic E n)"
  unfolding config_restart_def config_rollback_def config_automatic_def
  by (intro op_rules keeps_interval keeps_action keeps_other; simp)+

lemma keeps_restore: "keeps I (restore_config E)"
  unfolding restore_config_def restore_def
  by (intro op_rules keeps_interval keeps_other keeps_frame) (simp_all add: set_failed_def)

lemmas config_rules = op_rules keeps_confirm keeps_config_steps keeps_set wifi_test

end

text \<open>One that does not depend on the value kept for the cleanup survives the whole script.\<close>

locale hw_script = hw_guard +
  assumes restore_set: "I s \<Longrightarrow> I (s\<lparr>hw_restore := v\<rparr>)"
begin

lemma keeps_configuration: "keeps I (configuration E)"
  unfolding configuration_def
  by (intro config_rules keeps_modify restore_set) (simp_all add: interval_def)

lemma keeps_phase: "keeps I (hw_phase E)"
  unfolding hw_phase_def
  by (rule keeps_andthen [OF keeps_when [OF keeps_configuration] keeps_other_phases])

lemma keeps_script: "keeps I publish \<Longrightarrow> keeps I (hw_main E)"
  by (intro keeps_main keeps_phase keeps_restore)

end

text \<open>The phases without a change of the device: nothing to restore, and harmless requests only.\<close>

definition quiet :: "hw \<Rightarrow> bool" where
  "quiet s \<longleftrightarrow> list_all harmless (mg_calls s) \<and> hw_restore s = PNone"

interpretation quiet: hw_frame E quiet harmless for E
  by unfold_locales (auto simp: quiet_def)

lemma quiet_restore: "keeps quiet (restore_config E)"
  by (auto simp: keeps_def quiet_def restore_config_def act_run)

section \<open>The requests of a run\<close>

text \<open>
  A smoke or crash run asks the device for nothing that changes a setting, the firmware or its
  state: whatever the gateway answers and however the run ends, its requests are reads, the
  connection, the pairing, the diagnostics and the final shutdown.
\<close>

lemma smoke_changes_nothing:
  assumes "he_phase E \<in> {''smoke'', ''crash''}"
  shows "list_all harmless (mg_calls (snd (hw_main E hw_init)))"
proof -
  have "keeps quiet (hw_main E)"
    using assms
    by (intro quiet.keeps_main quiet.keeps_crash_phase quiet_restore)
      (auto simp: publish_def quiet_def intro: keeps_modify)
  then show ?thesis
    using keepsD [of quiet "hw_main E" hw_init] by (simp add: quiet_def hw_init_def)
qed

text \<open>
  The reply that the gateway gave to a request of the list, decoded; and the guard of the network:
  a change of it directly follows a snapshot in which no network is configured.
\<close>

definition decoded :: "hw_env \<Rightarrow> mcall list \<Rightarrow> pyval res" where
  "decoded E calls = rbind (he_up E (butlast calls) (last calls)) (\<lambda>r.
     loads (he_lib E) (read_bytes (2 * 1024 * 1024) (mr_body r)))"

definition shows_config :: "hw_env \<Rightarrow> mcall list \<Rightarrow> (pyval \<Rightarrow> bool res) \<Rightarrow> bool" where
  "shows_config E calls f \<longleftrightarrow> calls \<noteq> [] \<and> last calls = hw_call E ''GET'' ''/config'' Empty
     \<and> rbind (rbind (decoded E calls) (\<lambda>v. getitem v ''device'')) f = Inr True"

definition wifi_guarded :: "hw_env \<Rightarrow> mcall list \<Rightarrow> bool" where
  "wifi_guarded E calls \<longleftrightarrow> (\<forall>before c. prefix (before @ [c]) calls \<longrightarrow> sets_wifi c \<longrightarrow>
     shows_config E before (\<lambda>d. unset_at d [''persisted'', ''wifi.ssid'']))"

lemma wifi_guarded_snoc: "wifi_guarded E (calls @ [c]) \<longleftrightarrow> wifi_guarded E calls
    \<and> (sets_wifi c \<longrightarrow> shows_config E calls (\<lambda>d. unset_at d [''persisted'', ''wifi.ssid'']))"
  unfolding wifi_guarded_def by (simp only: prefix_snoc) auto

lemma request_shows:
  assumes "hw_request E path method data expected s = (Inr v, t)"
  shows "mg_calls t = mg_calls s @ [hw_call E method path data] \<and> decoded E (mg_calls t) = Inr v
    \<and> t = s\<lparr>mg_calls := mg_calls t\<rparr>"
  using assms
  by (auto simp: hw_request_def bind_Inr_iff send_def act_run decoded_def split: if_splits)

lemma config_shows:
  assumes "device_config E s = (Inr d, t)"
  shows "shows_config E (mg_calls t) f \<longleftrightarrow> f d = Inr True"
    and "mg_calls t = mg_calls s @ [hw_call E ''GET'' ''/config'' Empty]"
    and "t = s\<lparr>mg_calls := mg_calls t\<rparr>"
proof -
  obtain v where "hw_get E ''/config'' s = (Inr v, t)" and "getitem v ''device'' = Inr d"
    using assms by (auto simp: device_config_def bind_Inr_iff act_run)
  then show "shows_config E (mg_calls t) f \<longleftrightarrow> f d = Inr True"
    and "mg_calls t = mg_calls s @ [hw_call E ''GET'' ''/config'' Empty]"
    and "t = s\<lparr>mg_calls := mg_calls t\<rparr>"
    using request_shows by (fastforce simp: shows_config_def)+
qed


lemma request_state: "snd (hw_request E path method data expected s)
    = s\<lparr>mg_calls := mg_calls s @ [hw_call E method path data]\<rparr>"
  by (auto simp: hw_request_def bind_def send_def act_run split: prod.splits sum.splits)

abbreviation guarded_calls :: "hw_env \<Rightarrow> hw \<Rightarrow> bool" where
  "guarded_calls E s \<equiv> wifi_guarded E (mg_calls s)"

interpretation wifi: hw_frame E "guarded_calls E" "\<lambda>c. \<not> sets_wifi c" for E
proof unfold_locales
  show "\<not> sets_wifi c" if "harmless c" for c
    using that by (auto simp: harmless_def sets_wifi_def)
qed (auto simp: wifi_guarded_snoc)

lemma bind_keeps: "I (snd (m s)) \<Longrightarrow> (\<And>x. keeps I (f x)) \<Longrightarrow> I (snd (bind m f s))"
  by (auto simp: bind_def keeps_def split: prod.splits sum.splits)

lemma wifi_step:
  assumes "unset_at persisted [''wifi.ssid''] = Inr True" and "getitem d ''persisted'' = Inr persisted"
    and "device_config E s = (Inr d, t)" and "guarded_calls E t" and "keeps (guarded_calls E) m"
  shows "guarded_calls E (snd (andthen (set_device E changes expected) m t))"
  unfolding andthen_def
proof (rule bind_keeps)
  have "unset_at d [''persisted'', ''wifi.ssid''] = Inr True"
    using assms by (simp add: unset_at_def)
  then have "shows_config E (mg_calls t) (\<lambda>d. unset_at d [''persisted'', ''wifi.ssid''])"
    using config_shows(1) [OF assms(3)] by simp
  then show "guarded_calls E (snd (set_device E changes expected t))"
    using assms(4) by (simp add: set_device_def request_state wifi_guarded_snoc)
qed (rule assms(5))

lemma wifi_test_guarded: "keeps (guarded_calls E) (bad_wifi E)"
  unfolding keeps_def
proof (intro allI impI)
  fix s
  assume I: "guarded_calls E s"
  obtain r t where run: "device_config E s = (r, t)"
    by (cases "device_config E s")
  then have t: "guarded_calls E t"
    using keepsD [OF wifi.keeps_reads(1) I] by simp
  show "guarded_calls E (snd (bad_wifi E s))"
  proof (cases r)
    case (Inl e)
    then show ?thesis
      using run t by (simp add: bad_wifi_def bind_def)
  next
    case (Inr d)
    note read = run [unfolded Inr]
    show ?thesis
    proof (cases "\<exists>b. getitem d ''persisted'' = Inr b \<and> unset_at b [''wifi.ssid''] = Inr True")
      case True
      then obtain b where b: "getitem d ''persisted'' = Inr b" "unset_at b [''wifi.ssid''] = Inr True"
        by blast
      show ?thesis
        unfolding bad_wifi_def
        by (simp add: bind_def [of "bind (device_config E) _"] bind_def [of "device_config E"] read b act_run)
          (intro wifi_step [OF b(2) b(1) read t] wifi.op_rules wifi.keeps_request;
            simp add: sets_wifi_def hw_call_def)
    next
      case False
      then show ?thesis
        using run t unfolding bad_wifi_def Inr
        by (auto simp: bind_def andthen_def act_run assert_res_def assert_that_def split: prod.splits sum.splits if_splits)
    qed
  qed
qed


interpretation guard: hw_script E "guarded_calls E" "\<lambda>c. \<not> sets_wifi c" for E
  by unfold_locales (auto simp: sets_wifi_def intro: wifi_test_guarded)

text \<open>
  C24. A configured network is never replaced: in every run of every phase, a request that sets the
  network comes directly after a configuration snapshot of the device in which no network name is
  set.
\<close>

theorem network_never_replaced:
  "wifi_guarded E (mg_calls (snd (hw_main E hw_init)))"
proof -
  have "keeps (guarded_calls E) (hw_main E)"
    by (rule guard.keeps_script) (auto simp: publish_def intro: keeps_modify)
  then show ?thesis
    using keepsD [of "guarded_calls E" "hw_main E" hw_init] by (simp add: hw_init_def wifi_guarded_def)
qed

section \<open>The original interval\<close>

text \<open>
  A request that sets the interval; and the value the device had persisted before the first of
  them, in the snapshot that directly precedes it.
\<close>

definition changes_interval :: "mcall \<Rightarrow> bool" where
  "changes_interval c \<longleftrightarrow> mc_method c = ''PATCH''
     \<and> (case mc_body c of Json v \<Rightarrow> (case path_at v [''device'', interval] of Inr _ \<Rightarrow> True | Inl _ \<Rightarrow> False) | _ \<Rightarrow> False)"

definition unchanged_interval :: "mcall list \<Rightarrow> bool" where
  "unchanged_interval calls \<longleftrightarrow> list_all (\<lambda>c. \<not> changes_interval c) calls"

definition original_interval :: "hw_env \<Rightarrow> mcall list \<Rightarrow> pyval \<Rightarrow> bool" where
  "original_interval E calls v \<longleftrightarrow> (let front = takeWhile (\<lambda>c. \<not> changes_interval c) calls in
     front \<noteq> [] \<and> last front = hw_call E ''GET'' ''/config'' Empty
     \<and> rbind (rbind (decoded E front) (\<lambda>d. getitem d ''device'')) (\<lambda>d. path_at d [''persisted'', interval]) = Inr v)"

text \<open>As long as nothing was changed there is nothing to restore; then it is the original.\<close>

definition untouched :: "hw \<Rightarrow> bool" where
  "untouched s \<longleftrightarrow> unchanged_interval (mg_calls s) \<and> hw_restore s = PNone"

definition remembered :: "hw_env \<Rightarrow> hw \<Rightarrow> bool" where
  "remembered E s \<longleftrightarrow> \<not> unchanged_interval (mg_calls s) \<and> original_interval E (mg_calls s) (hw_restore s)"

lemma takeWhile_change: "\<not> unchanged_interval calls
    \<Longrightarrow> takeWhile (\<lambda>c. \<not> changes_interval c) (calls @ new) = takeWhile (\<lambda>c. \<not> changes_interval c) calls"
  by (induction calls) (auto simp: unchanged_interval_def)

lemma harmless_keeps_interval: "mc_method c \<noteq> ''PATCH'' \<Longrightarrow> \<not> changes_interval c"
  by (simp add: changes_interval_def)

interpretation untouched: hw_plain E untouched "\<lambda>c. \<not> changes_interval c" for E
  by unfold_locales
    (auto simp: untouched_def unchanged_interval_def harmless_keeps_interval harmless_def)

interpretation remembered: hw_frame E "remembered E" "\<lambda>_. True" for E
  by unfold_locales
    (auto simp: remembered_def original_interval_def takeWhile_change unchanged_interval_def)

lemma remembered_test: "keeps (remembered E) (bad_wifi E)"
  unfolding bad_wifi_def set_device_def by (intro remembered.op_rules remembered.keeps_request) simp_all

interpretation remembered: hw_guard E "remembered E" "\<lambda>_. True" for E
  by unfold_locales (auto intro: remembered_test)

text \<open>The first change, directly after the snapshot whose value was kept.\<close>

lemma first_change:
  assumes read: "device_config E s = (Inr d, t)" and original: "path_at d [''persisted'', interval] = Inr v"
    and s: "untouched t"
  shows "remembered E (snd (apply_interval E new (t\<lparr>hw_restore := v\<rparr>)))"
proof -
  let ?c = "hw_call E ''PATCH'' ''/config'' (Json (PDict [(''device'', PDict [(interval, new)])]))"
  have change: "changes_interval ?c" by (simp add: changes_interval_def hw_call_def interval_def)
  have front: "takeWhile (\<lambda>c. \<not> changes_interval c) (mg_calls t @ [?c]) = mg_calls t"
    using s change by (simp add: untouched_def unchanged_interval_def list_all_iff)
  have "mg_calls t \<noteq> [] \<and> last (mg_calls t) = hw_call E ''GET'' ''/config'' Empty
      \<and> rbind (decoded E (mg_calls t)) (\<lambda>d. getitem d ''device'') = Inr d"
    using config_shows(1) [OF read, of "\<lambda>x. Inr (x = d)"] by (auto simp: shows_config_def rbind_Inr_iff)
  then have "original_interval E (mg_calls t @ [?c]) v"
    using original by (simp add: original_interval_def front Let_def)
  then show ?thesis
    using change by (simp add: remembered_def unchanged_interval_def apply_interval_def set_device_def request_state)
qed

lemma configuration_remembers:
  assumes s: "untouched s"
  shows "untouched (snd (configuration E s)) \<or> remembered E (snd (configuration E s))"
proof -
  obtain r t where run: "device_config E s = (r, t)"
    by (cases "device_config E s")
  then have t: "untouched t"
    using keepsD [OF untouched.keeps_reads(1) s] by (metis snd_conv)
  show ?thesis
  proof (cases "rbind r (\<lambda>d. path_at d [''persisted'', interval])")
    case (Inl e)
    then have "snd (configuration E s) = t"
      using run by (cases r) (simp_all add: configuration_def bind_def act_run)
    with t show ?thesis by simp
  next
    case (Inr v)
    then obtain d where read: "device_config E s = (Inr d, t)" and v: "path_at d [''persisted'', interval] = Inr v"
      using run by (auto simp: rbind_Inr_iff)
    have first: "remembered E (snd (confirm_interval E target (t\<lparr>hw_restore := v\<rparr>)))" for target
      unfolding confirm_interval_def andthen_def
      by (rule bind_keeps [where I = "remembered E"], rule first_change [OF read v t],
        auto intro!: remembered.op_rules remembered.keeps_other)
    have first_case: "remembered E (snd (hw_case name (confirm_interval E target) (t\<lparr>hw_restore := v\<rparr>)))" for name target
    proof -
      obtain row where "snd (hw_case name (confirm_interval E target) (t\<lparr>hw_restore := v\<rparr>))
          = add_case row (snd (confirm_interval E target (t\<lparr>hw_restore := v\<rparr>)))"
        using run_case_adds by blast
      then show ?thesis
        using remembered.frame [OF first [of target]] by (simp add: add_case_def)
    qed
    have step: "remembered E (snd (andthen (hw_case name (confirm_interval E target)) rest (t\<lparr>hw_restore := v\<rparr>)))"
      if "keeps (remembered E) rest" for name target rest
      unfolding andthen_def by (rule bind_keeps [where I = "remembered E"], rule first_case, rule that)
    have run: "bind (device_config E) (\<lambda>v. lift (path_at v [''persisted'', interval])) s = (Inr v, t)"
      using read v by (simp add: bind_def act_run)
    have "remembered E (snd (configuration E s))"
      unfolding configuration_def Let_def bind_def [of "bind (device_config E) _"] run prod.case sum.case
        andthen_def [of "modify _"] bind_def [of "modify _"] modify_def
      by (rule step, intro remembered.config_rules; simp add: interval_def)
    then show ?thesis by simp
  qed
qed

text \<open>Both together, from the start of the run to the shutdown.\<close>

definition tracked_interval :: "hw_env \<Rightarrow> hw \<Rightarrow> bool" where
  "tracked_interval E s \<longleftrightarrow> untouched s \<or> remembered E s"

interpretation tracked: hw_plain E "tracked_interval E" "\<lambda>c. \<not> changes_interval c" for E
proof unfold_locales
  show "tracked_interval E t" if "tracked_interval E s" "mg_calls t = mg_calls s" "hw_restore t = hw_restore s"
      "hw_published t = hw_published s" for E s t
    using that untouched.frame remembered.frame unfolding tracked_interval_def by blast
  show "tracked_interval E (s\<lparr>mg_calls := mg_calls s @ [c]\<rparr>)" if "tracked_interval E s" "\<not> changes_interval c" for E s c
    using that untouched.call remembered.call unfolding tracked_interval_def by blast
qed (auto simp: harmless_keeps_interval harmless_def)

lemma phase_tracked:
  assumes "untouched s"
  shows "tracked_interval E (snd (hw_phase E s))"
  unfolding hw_phase_def andthen_def [of "when_do (he_phase E = ''config'') _"]
proof (rule bind_keeps [where I = "tracked_interval E"])
  show "tracked_interval E (snd (when_do (he_phase E = ''config'') (configuration E) s))"
    using assms configuration_remembers [OF assms, of E] by (simp add: tracked_interval_def when_do_def act_run)
qed (rule tracked.keeps_other_phases)

lemma body_tracked: "tracked_interval E (snd (hw_body E hw_init))"
proof -
  have start: "untouched hw_init" by (simp add: untouched_def unchanged_interval_def hw_init_def)
  have weak: "tracked_interval E u" if "untouched u" for u using that by (simp add: tracked_interval_def)
  have ready: "keeps untouched (hw_case ''daemon-ready'' (wait_ready E False PNone None))"
    by (intro untouched.op_rules)
  have "leads untouched (tracked_interval E) (hw_phase E)"
    by (simp add: leads_def phase_tracked)
  then have "leads untouched (tracked_interval E) (hw_body E)"
    unfolding hw_body_def
    by (intro leads_andthen(1) ready untouched.keeps_connect untouched.keeps_capabilities untouched.keeps_basics weak)
  with start show ?thesis
    by (simp add: leads_def)
qed

section \<open>The cleanup\<close>

definition calls_changed :: "hw \<Rightarrow> hw \<Rightarrow> bool" where
  "calls_changed s t \<longleftrightarrow> t = s\<lparr>mg_calls := mg_calls t\<rparr>"

interpretation calling: state_order calls_changed
proof unfold_locales
  fix s t u :: hw
  show "calls_changed s s"
    by (simp add: calls_changed_def)
  assume "calls_changed s t" and "calls_changed t u"
  then have "u = (s\<lparr>mg_calls := mg_calls t\<rparr>)\<lparr>mg_calls := mg_calls u\<rparr>"
    unfolding calls_changed_def by metis
  then show "calls_changed s u"
    by (simp add: calls_changed_def)
qed

lemma calling_request: "calling.grows (hw_request E path method data expected)"
  by (simp add: calling.grows_def request_state calls_changed_def)

lemma calling_restore: "calling.grows (restore E original)"
  unfolding restore_def device_config_def apply_interval_def set_device_def assert_res_def assert_that_def
  by (intro calling.grows_rules calling_request)

definition settled_config :: "pyval \<Rightarrow> pyval \<Rightarrow> bool res" where
  "settled_config original d = rand (unset_at d [''pending'']) (same_at d [''persisted'', interval] original)"

lemma restore_shows:
  assumes "restore E original s = (Inr v, t)"
  shows "shows_config E (mg_calls t) (settled_config original)"
  using assms
  by (auto simp: restore_def andthen_def bind_Inr_iff assert_Inr_iff act_run config_shows(1) settled_config_def)

text \<open>What the cleanup of the configuration leaves when it returns.\<close>

definition cleanup_row :: "bool \<Rightarrow> case_row \<Rightarrow> bool" where
  "cleanup_row b row \<longleftrightarrow> cr_name row = ''configuration-finally-cleanup'' \<and> cr_status row = Some b"

lemma restore_config_result:
  assumes run: "restore_config E s = (Inr x, t)"
  shows "hw_restore t = hw_restore s" and "hw_published t = hw_published s"
    and "hw_restore s = PNone \<and> t = s
     \<or> hw_restore s \<noteq> PNone \<and> (\<exists>row. mg_cases t = mg_cases s @ [row]
         \<and> (cleanup_row False row \<and> hw_failed t
          \<or> cleanup_row True row \<and> hw_failed t = hw_failed s
             \<and> shows_config E (mg_calls t) (settled_config (hw_restore s))))"
proof -
  obtain r u where m: "restore E (hw_restore s) s = (r, u)"
    by (cases "restore E (hw_restore s) s")
  have u: "u = s\<lparr>mg_calls := mg_calls u\<rparr>"
    using calling.growsD [OF calling_restore, of s E "hw_restore s"] m by (simp add: calls_changed_def)
  then have same: "hw_restore u = hw_restore s" "hw_published u = hw_published s" "mg_cases u = mg_cases s" "hw_failed u = hw_failed s"
    by (metis hw.select_convs hw.update_convs manage.select_convs manage.update_convs hw.surjective manage.surjective)+
  show "hw_restore t = hw_restore s" and "hw_published t = hw_published s"
    and "hw_restore s = PNone \<and> t = s
     \<or> hw_restore s \<noteq> PNone \<and> (\<exists>row. mg_cases t = mg_cases s @ [row]
         \<and> (cleanup_row False row \<and> hw_failed t
          \<or> cleanup_row True row \<and> hw_failed t = hw_failed s
             \<and> shows_config E (mg_calls t) (settled_config (hw_restore s))))"
    using run m same restore_shows
    by (auto simp: restore_config_def act_run catch_def andthen_def bind_def run_case_def add_case_def
        cleanup_row_def set_failed_def split: sum.splits if_splits)
qed

lemma stop_state: "\<exists>k. snd (stop_daemon E s)
    = s\<lparr>mg_calls := mg_calls s @ [hw_call E ''POST'' ''/shutdown'' Empty], hw_waits := k\<rparr>"
proof -
  let ?c = "hw_call E ''POST'' ''/shutdown'' Empty"
  let ?m = "catch is_exception (andthen (hw_post E ''/shutdown'' Empty) (ret ())) (\<lambda>_. ret ())"
  obtain r t where m: "?m s = (r, t)"
    by (cases "?m s")
  have "snd (?m s) = s\<lparr>mg_calls := mg_calls s @ [?c]\<rparr>"
    using request_state [of E "''/shutdown''" "''POST''" Empty 200 s]
    by (auto simp: catch_def andthen_def bind_def act_run split: prod.splits sum.splits)
  then have t: "t = s\<lparr>mg_calls := mg_calls s @ [?c]\<rparr>"
    by (simp add: m)
  have "\<exists>k. snd (stop_daemon E s) = t\<lparr>hw_waits := k\<rparr>"
  proof (cases r)
    case (Inl e)
    then have "snd (stop_daemon E s) = t\<lparr>hw_waits := hw_waits t\<rparr>"
      by (simp add: stop_daemon_def andthen_def [of ?m] bind_def [of ?m] m)
    then show ?thesis
      by blast
  next
    case (Inr x)
    then show ?thesis
      by (auto simp: stop_daemon_def andthen_def [of ?m] bind_def [of ?m] m catch_def [of "\<lambda>c. c = TimeoutExpired"]
          wait_exit_def)
  qed
  then show ?thesis
    by (simp add: t)
qed

text \<open>Every case of a body that returned has passed.\<close>

lemma sound_hw_request: "sound (hw_request E path method data expected)"
  unfolding hw_request_def by (intro sound_rules)

lemma keeps_none_failed_request: "keeps none_failed (hw_request E path method data expected)"
  by (simp add: keeps_def request_state none_failed_def)

lemma sound_catch:
  "keeps none_failed m \<Longrightarrow> (\<And>e. sound (h e)) \<Longrightarrow> sound (catch c m h)"
  by (fastforce simp: sound_def yields_def keeps_def catch_def split: prod.splits sum.splits if_splits)

lemma sound_now: "sound (now E)" "sound (wait_exit E)"
  by (auto simp: sound_def yields_def now_def wait_exit_def none_failed_def)

lemma sound_ready_loop: "sound (ready_loop E paired old f deadline n)"
  by (induction n) (auto simp: poll_ready_def intro!: sound_rules sound_now sound_catch keeps_intro keeps_none_failed_request)

lemma sound_reads: "sound (device_config E)" "sound (link_session E)" "sound (diagnose E name)"
    "sound (do_action E name)" "sound (set_device E d expected)" "sound (wait_ready E paired old f)"
  unfolding device_config_def link_session_def diagnose_def do_action_def set_device_def wait_ready_def
  by (intro sound_rules sound_hw_request sound_now sound_ready_loop)+

lemmas hw_sound = sound_rules sound_now sound_hw_request sound_reads

lemma sound_configuration: "sound (configuration E)"
  unfolding configuration_def confirm_interval_def config_restart_def config_rollback_def
    config_automatic_def bad_wifi_def apply_interval_def Let_def
  by (intro hw_sound sound_modify) simp

lemma sound_maintenance: "sound (maintenance E)"
  unfolding maintenance_def upload_def interrupted_upload_def unconfirmed_candidate_def activation_def
    same_persisted_def
  by (intro hw_sound)

lemma sound_export: "sound (export_crash E)"
  unfolding export_crash_def by (intro hw_sound)

lemma sound_soak_loop: "sound (soak_loop E session start n)"
  by (induction n) (auto simp: soak_check_def add_round_def intro!: hw_sound sound_modify)

lemma sound_soak: "sound (soak E)"
  unfolding soak_def startup_def load_def
  by (intro hw_sound sound_modify sound_export sound_soak_loop) simp_all

lemma sound_pass: "cr_status r = Some True \<Longrightarrow> sound (modify (add_case r))"
  by (simp add: sound_def yields_def act_run none_failed_def add_case_def)

lemma sound_connect: "sound (hw_connect E)"
  unfolding hw_connect_def
  by (intro hw_sound sound_pass) simp

lemma sound_body: "sound (hw_body E)"
  unfolding hw_body_def hw_capabilities_def hw_basics_def hw_phase_def tasks_snapshot_def
  by (intro hw_sound sound_modify sound_connect sound_configuration sound_maintenance sound_export sound_soak) simp_all


text \<open>Until its last step a run has published nothing.\<close>

interpretation unpublished: hw_frame E "\<lambda>s. hw_published s = None" "\<lambda>_. True" for E
  by unfold_locales auto

lemma unpublished_test: "keeps (\<lambda>s. hw_published s = None) (bad_wifi E)"
  unfolding bad_wifi_def set_device_def by (intro unpublished.op_rules unpublished.keeps_request) simp_all

interpretation unpublished: hw_script E "\<lambda>s. hw_published s = None" "\<lambda>_. True" for E
  by unfold_locales (auto intro: unpublished_test)

definition guarded_body :: "hw_env \<Rightarrow> (hw, unit) act" where
  "guarded_body E = catch is_exception (hw_body E)
     (\<lambda>e. modify (\<lambda>s. set_failed s\<lparr>hw_failure := Some (exc_msg e)\<rparr>))"

lemma guarded_body_result:
  assumes "guarded_body E hw_init = (r, s)"
  shows "hw_published s = None" and "\<not> hw_failed s \<Longrightarrow> r = Inr x \<Longrightarrow> none_failed s"
proof -
  have "keeps (\<lambda>s. hw_published s = None) (guarded_body E)"
    unfolding guarded_body_def
    by (intro keeps_intro unpublished.keeps_body unpublished.keeps_phase) (simp add: set_failed_def)
  then show "hw_published s = None"
    using assms keepsD [of "\<lambda>s. hw_published s = None" "guarded_body E" hw_init] by (simp add: hw_init_def)
  assume "\<not> hw_failed s" and "r = Inr x"
  then have "hw_body E hw_init = (Inr x, s)"
    using assms by (auto simp: guarded_body_def catch_def act_run set_failed_def split: prod.splits sum.splits if_splits)
  moreover have "none_failed hw_init"
    by (simp add: none_failed_def hw_init_def)
  ultimately show "none_failed s"
    using sound_body [of E] by (auto simp: sound_def dest: yieldsD)
qed

lemma published_run:
  assumes "hw_main E hw_init = (r, t)" and "hw_published t = Some rep"
  obtains rb s u k where "guarded_body E hw_init = (rb, s)" and "restore_config E s = (Inr (), u)"
    and "t = u\<lparr>mg_calls := mg_calls u @ [hw_call E ''POST'' ''/shutdown'' Empty], hw_waits := k, hw_published := Some rep\<rparr>"
    and "rep = report_of t" and "r = map_sum id (\<lambda>_. if hw_failed t then 1 else 0) rb"
proof -
  obtain rb s where body: "guarded_body E hw_init = (rb, s)"
    by fastforce
  obtain rc u where cfg: "restore_config E s = (rc, u)"
    by fastforce
  obtain rs v where stop: "stop_daemon E u = (rs, v)"
    by fastforce
  obtain k where v: "v = u\<lparr>mg_calls := mg_calls u @ [hw_call E ''POST'' ''/shutdown'' Empty], hw_waits := k\<rparr>"
    using stop_state [of E u] stop by auto
  note main = hw_main_def [of E, folded guarded_body_def]
  have none: "hw_published s = None" "hw_published u = None" "hw_published v = None"
  proof -
    show s: "hw_published s = None"
      using guarded_body_result(1) [OF body] .
    then show u: "hw_published u = None"
      using keepsD [OF unpublished.keeps_restore s, of E] cfg by simp
    then show "hw_published v = None"
      by (simp add: v)
  qed
  have rc: "rc = Inr ()" and rs: "rs = Inr ()"
    using assms none
    by (auto simp: main andthen_def bind_def finally_do_def body cfg stop split: sum.splits)
  show thesis
  proof (rule that [OF body])
    show "restore_config E s = (Inr (), u)"
      using cfg rc by simp
    show "t = u\<lparr>mg_calls := mg_calls u @ [hw_call E ''POST'' ''/shutdown'' Empty], hw_waits := k, hw_published := Some rep\<rparr>"
      and "rep = report_of t" and "r = map_sum id (\<lambda>_. if hw_failed t then 1 else 0) rb"
      using assms rc rs v
      by (auto simp: main andthen_def bind_def finally_do_def body cfg stop publish_def act_run report_of_def split: sum.splits)
  qed
qed


lemma returned_published:
  assumes "hw_main E hw_init = (Inr n, t)"
  shows "\<exists>rep. hw_published t = Some rep"
  using assms
  by (auto simp: hw_main_def andthen_def bind_Inr_iff act_run finally_do_def publish_def bind_def
      split: prod.splits sum.splits)

text \<open>The end of a published run: the state before the shutdown, and what the cleanup left.\<close>

lemma published_end:
  assumes "hw_main E hw_init = (r, t)" and "hw_published t = Some rep"
  obtains rb s u where "guarded_body E hw_init = (rb, s)" and "restore_config E s = (Inr (), u)"
    and "mg_calls t = mg_calls u @ [hw_call E ''POST'' ''/shutdown'' Empty]"
    and "hr_cases rep = mg_cases u" and "hr_passed rep = (\<not> hw_failed u)" and "hw_restore t = hw_restore s"
    and "r = map_sum id (\<lambda>_. if hw_failed u then 1 else 0) rb"
proof -
  obtain rb s u k where body: "guarded_body E hw_init = (rb, s)" and cfg: "restore_config E s = (Inr (), u)"
    and t: "t = u\<lparr>mg_calls := mg_calls u @ [hw_call E ''POST'' ''/shutdown'' Empty], hw_waits := k, hw_published := Some rep\<rparr>"
    and report: "rep = report_of t" and r: "r = map_sum id (\<lambda>_. if hw_failed t then 1 else 0) rb"
    using published_run [OF assms] .
  have "hw_failed t = hw_failed u" "hw_restore t = hw_restore u" "mg_cases t = mg_cases u"
    "mg_calls t = mg_calls u @ [hw_call E ''POST'' ''/shutdown'' Empty]"
    by (simp_all add: t)
  then show thesis
    by (intro that [OF body cfg]) (simp_all add: report report_of_def r restore_config_result(1) [OF cfg])
qed

lemma run_interval:
  assumes "hw_main E hw_init = (r, t)" and "hw_published t = Some rep"
  shows "unchanged_interval (mg_calls t) \<or> original_interval E (mg_calls t) (hw_restore t)"
proof -
  obtain rb s u where body: "guarded_body E hw_init = (rb, s)" and cfg: "restore_config E s = (Inr (), u)"
    and calls: "mg_calls t = mg_calls u @ [hw_call E ''POST'' ''/shutdown'' Empty]"
    and restore: "hw_restore t = hw_restore s"
    using published_end [OF assms] .
  have "mg_calls s = mg_calls (snd (hw_body E hw_init)) \<and> hw_restore s = hw_restore (snd (hw_body E hw_init))
      \<and> hw_published s = hw_published (snd (hw_body E hw_init))"
    using body by (auto simp: guarded_body_def catch_def act_run set_failed_def split: prod.splits sum.splits if_splits)
  then have "tracked_interval E s"
    using tracked.frame [OF body_tracked] by blast
  then have "tracked_interval E u"
    unfolding tracked_interval_def
  proof
    assume s: "untouched s"
    then have "hw_restore s = PNone" by (simp add: untouched_def)
    then have "u = s" using restore_config_result(3) [OF cfg] by simp
    with s show "untouched u \<or> remembered E u" by simp
  next
    assume "remembered E s"
    from keepsD [OF remembered.keeps_restore this] show "untouched u \<or> remembered E u"
      by (simp add: cfg)
  qed
  moreover have "\<not> changes_interval (hw_call E ''POST'' ''/shutdown'' Empty)"
    by (simp add: changes_interval_def hw_call_def)
  ultimately have "tracked_interval E (u\<lparr>mg_calls := mg_calls t\<rparr>)"
    using tracked.call by (simp add: calls)
  then show ?thesis
    by (auto simp: tracked_interval_def untouched_def remembered_def restore restore_config_result(1) [OF cfg])
qed

text \<open>
  C9. A passed run: when the script returns 0, it published a report that passed, in which every
  case has passed; and if any request of the run set the telemetry interval, the last request
  before the shutdown is a configuration snapshot in which nothing is pending and the interval that
  the device had persisted just before the first of these requests is persisted again (unless that
  value was null, which the script takes for nothing to restore).
\<close>

theorem passed_hardware_run:
  assumes "hw_main E hw_init = (Inr 0, t)"
  shows "(\<exists>rep. hw_published t = Some rep \<and> hr_passed rep \<and> list_all (\<lambda>r. cr_status r = Some True) (hr_cases rep))
    \<and> (unchanged_interval (mg_calls t) \<or> (\<exists>original. original_interval E (mg_calls t) original
         \<and> (original = PNone \<or> shows_config E (butlast (mg_calls t)) (settled_config original))))"
proof -
  obtain rep where rep: "hw_published t = Some rep"
    using returned_published [OF assms] by blast
  obtain rb s u where body: "guarded_body E hw_init = (rb, s)" and cfg: "restore_config E s = (Inr (), u)"
    and calls: "mg_calls t = mg_calls u @ [hw_call E ''POST'' ''/shutdown'' Empty]"
    and cases: "hr_cases rep = mg_cases u" and passed: "hr_passed rep = (\<not> hw_failed u)"
    and restore: "hw_restore t = hw_restore s"
    and r: "Inr 0 = map_sum id (\<lambda>_. if hw_failed u then 1 else 0 :: int) rb"
    using published_end [OF assms rep] .
  obtain x where x: "rb = Inr x" and ok: "\<not> hw_failed u"
    using r by (cases rb) (simp_all split: if_splits)
  from restore_config_result(3) [OF cfg] ok
  have left: "(hw_restore s = PNone \<and> u = s \<or> (\<exists>row. mg_cases u = mg_cases s @ [row] \<and> cleanup_row True row
      \<and> \<not> hw_failed s)) \<and> (hw_restore s = PNone \<or> shows_config E (mg_calls u) (settled_config (hw_restore s)))"
    by metis
  then have "none_failed u"
    using guarded_body_result(2) [OF body _ x] ok by (auto simp: none_failed_def cleanup_row_def)
  then show ?thesis
    using run_interval [OF assms rep] rep cases passed ok restore calls left
    by (auto simp: none_failed_def)
qed

text \<open>
  C8. Cleanup: whenever the script publishes its report, also after an interrupt, its last request
  asks the daemon to shut down. If any request of the run set the telemetry interval, the script
  knows the value that the snapshot directly before the first of them showed as persisted (a null
  there it takes for nothing to restore), and the last case of the report is the cleanup: either it
  failed and the report with it, or the last request before the shutdown is a snapshot in which
  nothing is pending and that original value is persisted.
\<close>

theorem hardware_cleanup:
  assumes "hw_main E hw_init = (r, t)" and "hw_published t = Some rep"
  shows "last (mg_calls t) = hw_call E ''POST'' ''/shutdown'' Empty
    \<and> (unchanged_interval (mg_calls t) \<or> (\<exists>original. original_interval E (mg_calls t) original
        \<and> (original = PNone
         \<or> cleanup_row False (last (hr_cases rep)) \<and> \<not> hr_passed rep
         \<or> cleanup_row True (last (hr_cases rep)) \<and> shows_config E (butlast (mg_calls t)) (settled_config original))))"
proof -
  obtain rb s u where cfg: "restore_config E s = (Inr (), u)"
    and calls: "mg_calls t = mg_calls u @ [hw_call E ''POST'' ''/shutdown'' Empty]"
    and cases: "hr_cases rep = mg_cases u" and passed: "hr_passed rep = (\<not> hw_failed u)"
    and restore: "hw_restore t = hw_restore s"
    using published_end [OF assms] .
  from restore_config_result(3) [OF cfg]
  have "hw_restore s = PNone
    \<or> (\<exists>row. mg_cases u = mg_cases s @ [row] \<and> (cleanup_row False row \<and> hw_failed u
        \<or> cleanup_row True row \<and> shows_config E (mg_calls u) (settled_config (hw_restore s))))"
    by metis
  then show ?thesis
    using run_interval [OF assms] by (auto simp: calls cases passed restore)
qed

lemma request_answered:
  assumes "he_up E (mg_calls s) (hw_call E method path data) = Inr reply"
    and "hw_request E path method data expected s = (Inl e, t)"
  shows "is_exception (exc_kind e)"
  using assms
  by (auto simp: hw_request_def bind_def send_def act_run loads_def is_exception_def
      split: option.splits if_splits)

lemma stop_answered:
  assumes "he_up E (mg_calls s) (hw_call E ''POST'' ''/shutdown'' Empty) = Inr reply" and "he_ends E (hw_waits s)"
  shows "fst (stop_daemon E s) = Inr ()"
proof -
  obtain r t where run: "hw_post E ''/shutdown'' Empty s = (r, t)"
    by fastforce
  then have t: "t = s\<lparr>mg_calls := mg_calls s @ [hw_call E ''POST'' ''/shutdown'' Empty]\<rparr>"
    using request_state [of E "''/shutdown''" "''POST''" Empty 200 s] by simp
  have "catch is_exception (andthen (hw_post E ''/shutdown'' Empty) (ret ())) (\<lambda>_. ret ()) s = (Inr (), t)"
    using run request_answered [OF assms(1)]
    by (cases r) (auto simp: catch_def andthen_def bind_def act_run)
  then show ?thesis
    using assms(2) t by (simp add: stop_daemon_def andthen_def [of "catch _ _ _"] bind_def [of "catch _ _ _"]
        catch_def [of "\<lambda>c. c = TimeoutExpired"] wait_exit_def)
qed

text \<open>
  C36. An interrupt is no failure: when the wait for the daemon is interrupted at its first
  request, no check of the device has been made, and the report published by the cleanup says that
  the run passed.
\<close>

theorem interrupted_hardware_passes:
  assumes "\<And>c. he_up E [] c = Inl (Exc KeyboardInterrupt m)"
    and "\<And>c d. he_up E [c] d = Inr reply"
    and "he_clock E 1 < he_clock E 0 + 35" and "\<not> he_exited E 2" and "he_ends E 0"
  shows "\<exists>t rep. hw_main E hw_init = (Inl (Exc KeyboardInterrupt m), t) \<and> hw_published t = Some rep \<and> hr_passed rep
    \<and> hr_cases rep = [\<lparr>cr_name = ''daemon-ready'', cr_status = None, cr_evidence = PNone, cr_error = []\<rparr>]"
proof -
  let ?row = "\<lparr>cr_name = ''daemon-ready'', cr_status = None, cr_evidence = PNone, cr_error = []\<rparr>"
  let ?s = "hw_init\<lparr>hw_reads := 2, mg_calls := [hw_call E ''GET'' ''/state'' Empty], mg_cases := [?row]\<rparr>"
  obtain n where n: "ready_rounds = Suc n"
    by (simp add: ready_rounds_def numeral_eq_Suc)
  have "wait_ready E False PNone None hw_init
      = (Inl (Exc KeyboardInterrupt m), hw_init\<lparr>hw_reads := 2, mg_calls := [hw_call E ''GET'' ''/state'' Empty]\<rparr>)"
    using assms(1,3,4) unfolding wait_ready_def n
    by (simp add: bind_def now_def hw_init_def act_run poll_ready_def catch_def hw_request_def
        send_def is_os_error_def numeral_2_eq_2)
  then have "hw_case ''daemon-ready'' (wait_ready E False PNone None) hw_init = (Inl (Exc KeyboardInterrupt m), ?s)"
    by (simp add: run_case_def is_exception_def add_case_def hw_init_def)
  then have body: "guarded_body E hw_init = (Inl (Exc KeyboardInterrupt m), ?s)"
    by (simp add: guarded_body_def hw_body_def catch_def andthen_def bind_def is_exception_def)
  have cfg: "restore_config E ?s = (Inr (), ?s)"
    by (simp add: restore_config_def act_run hw_init_def)
  obtain u where stop: "stop_daemon E ?s = (Inr (), u)"
    using stop_answered [of E ?s reply] assms(2,5) by (cases "stop_daemon E ?s") (simp add: hw_init_def)
  have u: "mg_cases u = [?row]" "\<not> hw_failed u"
    using stop_state [of E ?s] stop by (auto simp: hw_init_def)
  show ?thesis
    unfolding hw_main_def guarded_body_def [symmetric]
    by (simp add: andthen_def bind_def finally_do_def body cfg stop publish_def act_run report_of_def u)
qed

section \<open>Waiting\<close>

lemma poll_ready_calls: "mg_calls (snd (poll_ready E paired old f s)) = mg_calls s @ [hw_call E ''GET'' ''/state'' Empty]"
  using request_state [of E "''/state''" "''GET''" Empty 200 s]
  by (auto simp: poll_ready_def catch_def bind_def act_run split: prod.splits sum.splits)

lemma poll_ready_result:
  assumes "poll_ready E paired old f s = (Inr (Some state), t)"
  shows "is_ready paired old f state = Inr True \<and> decoded E (mg_calls t) = Inr state"
  using assms request_shows [of E "''/state''" "''GET''" Empty 200 s]
  by (auto simp: poll_ready_def catch_def bind_def act_run split: prod.splits sum.splits if_splits)

lemma ready_loop_result:
  assumes "ready_loop E paired old f deadline n s = (r, t)"
  shows "length (mg_calls t) \<le> length (mg_calls s) + n
    \<and> (r = Inr state \<longrightarrow> is_ready paired old f state = Inr True \<and> decoded E (mg_calls t) = Inr state)"
  using assms
proof (induction n arbitrary: s)
  case (Suc n)
  let ?s = "s\<lparr>hw_reads := Suc (hw_reads s)\<rparr>"
  obtain p u where poll: "poll_ready E paired old f ?s = (p, u)"
    by fastforce
  have u: "mg_calls u = mg_calls s @ [hw_call E ''GET'' ''/state'' Empty]"
    using poll_ready_calls [of E paired old f ?s] poll by simp
  consider "mg_calls t = mg_calls s" "\<exists>e. r = Inl e"
    | "mg_calls t = mg_calls u" "\<exists>e. r = Inl e"
    | v where "p = Inr (Some v)" "r = Inr v" "t = u"
    | "ready_loop E paired old f deadline n u = (r, t)"
    using Suc.prems poll
    by (auto simp: bind_def now_def act_run split: if_splits sum.splits option.splits)
  then show ?case
  proof cases
    case 3
    then show ?thesis
      using poll_ready_result [of E paired old f ?s v u] poll u by auto
  next
    case 4
    then show ?thesis
      using Suc.IH [of u] u by auto
  qed (use u in auto)
qed (auto simp: act_run)

text \<open>
  Waiting for the device: whatever the gateway answers, the wait returns or raises after at
  most 70 requests; a state it returns is the gateway's last answer and is ready in the sense asked
  for, with a new session where an old one was given.
\<close>

lemma wait_ready_result:
  assumes "wait_ready E paired old f s = (r, t)"
  shows "length (mg_calls t) \<le> length (mg_calls s) + 70
    \<and> (r = Inr state \<longrightarrow> is_ready paired old f state = Inr True \<and> decoded E (mg_calls t) = Inr state)"
  using assms ready_loop_result [of E paired old f _ ready_rounds "s\<lparr>hw_reads := Suc (hw_reads s)\<rparr>" r t state]
  by (auto simp: wait_ready_def bind_def now_def ready_rounds_def)


section \<open>A device that passes\<close>

text \<open>
  A gateway whose answer depends on the path only, as a document \<^verbatim>\<open>D\<close>, and what the checks ask
  of these documents before any phase.
\<close>

definition answers :: "hw_env \<Rightarrow> (string \<Rightarrow> pyval) \<Rightarrow> bool" where
  "answers E D \<longleftrightarrow> (\<forall>calls method path body. \<exists>r. he_up E calls (hw_call E method path body) = Inr r
     \<and> mr_status r = 200 \<and> loads (he_lib E) (read_bytes (2 * 1024 * 1024) (mr_body r)) = Inr (D path))"

definition good_device :: "(string \<Rightarrow> pyval) \<Rightarrow> bool" where
  "good_device D \<longleftrightarrow> is_ready True PNone None (D ''/state'') = Inr True
     \<and> is_ready False PNone None (D ''/state'') = Inr True
     \<and> is_dict (D ''/connect'')
     \<and> same_at (D ''/capabilities'') [''device'', ''flash_bytes''] (PInt (16 * 1024 * 1024)) = Inr True
     \<and> same_at (D ''/capabilities'') [''device'', ''psram_bytes''] (PInt (8 * 1024 * 1024)) = Inr True
     \<and> same_at (D ''/capabilities'') [''device'', ''transport''] (PStr ''usb_serial_jtag_validation'') = Inr True
     \<and> unset_at (D ''/capabilities'') [''device'', ''uart_configuration_supported''] = Inr True
     \<and> rbind (task_ids (D ''/tasks'')) distinct_values = Inr True"

text \<open>
  \<^verbatim>\<open>passes m x\<close>: the action returns \<^verbatim>\<open>x\<close>, and neither fails the run nor leaves anything to restore.
\<close>

definition calm :: "hw \<Rightarrow> bool" where
  "calm s \<longleftrightarrow> hw_restore s = PNone \<and> \<not> hw_failed s"

definition passes :: "(hw, 'a) act \<Rightarrow> 'a \<Rightarrow> bool" where
  "passes m x \<longleftrightarrow> (\<forall>s. calm s \<longrightarrow> (\<exists>t. m s = (Inr x, t) \<and> calm t))"

lemma passes_ret: "passes (ret x) x"
  by (simp add: passes_def act_run)

lemma passes_lift: "r = Inr x \<Longrightarrow> passes (lift r) x"
  by (simp add: passes_def act_run)

lemma passes_assert: "r = Inr True \<Longrightarrow> passes (assert_res r msg) ()"
  by (simp add: passes_ret)

lemma passes_bind: "passes m x \<Longrightarrow> passes (f x) y \<Longrightarrow> passes (bind m f) y"
  unfolding passes_def bind_def by fastforce

lemma passes_andthen: "passes m x \<Longrightarrow> passes n y \<Longrightarrow> passes (andthen m n) y"
  by (simp add: andthen_def passes_bind)

lemma passes_modify: "(\<And>s. calm s \<Longrightarrow> calm (u s)) \<Longrightarrow> passes (modify u) ()"
  by (simp add: passes_def act_run)

lemma passes_case: "passes m x \<Longrightarrow> passes (run_case san name m) x"
  unfolding passes_def run_case_def add_case_def by (fastforce simp: calm_def)

lemma passes_catch: "passes m x \<Longrightarrow> passes (catch c m h) x"
  unfolding passes_def catch_def by fastforce

lemma passes_request: "answers E D \<Longrightarrow> passes (hw_request E path method data 200) (D path)"
  unfolding passes_def
proof (intro allI impI)
  fix s
  assume D: "answers E D" and s: "calm s"
  obtain r where "he_up E (mg_calls s) (hw_call E method path data) = Inr r" and "mr_status r = 200"
    and "loads (he_lib E) (read_bytes (2 * 1024 * 1024) (mr_body r)) = Inr (D path)"
    using D unfolding answers_def by blast
  then show "\<exists>t. hw_request E path method data 200 s = (Inr (D path), t) \<and> calm t"
    using s by (simp add: hw_request_def bind_def send_def act_run calm_def)
qed

lemmas passes_rules = passes_ret passes_lift passes_bind passes_andthen passes_case passes_request

lemma passes_ready:
  assumes D: "answers E D" and ready: "is_ready paired PNone None (D ''/state'') = Inr True"
    and clock: "\<And>i. he_clock E i = 0" and alive: "\<And>i. \<not> he_exited E i"
  shows "passes (wait_ready E paired PNone None) (D ''/state'')"
proof -
  obtain n where n: "ready_rounds = Suc n"
    by (simp add: ready_rounds_def numeral_eq_Suc)
  have now: "passes (now E) 0"
    by (simp add: passes_def now_def clock calm_def)
  have "passes (bind (hw_get E ''/state'') (\<lambda>state. bind (lift (is_ready paired PNone None state))
      (\<lambda>b. ret (if b then Some state else None)))) (Some (D ''/state''))"
    by (rule passes_bind [OF passes_request [OF D]], rule passes_bind [OF passes_lift [OF ready]])
      (simp add: passes_ret)
  then have poll: "passes (poll_ready E paired PNone None) (Some (D ''/state''))"
    unfolding poll_ready_def by (rule passes_catch)
  have running: "passes (gets (\<lambda>s. he_exited E (hw_reads s))) False"
    by (simp add: passes_def act_run alive)
  have "passes (ready_loop E paired PNone None 35 (Suc n)) (D ''/state'')"
    unfolding ready_loop.simps
    by (rule passes_bind [OF now], subst if_not_P, simp, rule passes_bind [OF running], subst if_not_P, simp,
        rule passes_bind [OF poll], simp add: passes_ret)
  then show ?thesis
    unfolding wait_ready_def n by (intro passes_bind [OF now]) simp
qed


lemma passes_connect:
  assumes D: "answers E D" and "is_dict (D ''/connect'')"
  shows "passes (hw_connect E) ()"
proof -
  obtain p where p: "pyget (D ''/connect'') ''paired'' PNone = Inr p"
    using assms(2) by (cases "D ''/connect''") simp_all
  show ?thesis
    unfolding hw_connect_def
  proof (rule passes_bind [OF passes_case [OF passes_request [OF D]]], rule passes_bind [OF passes_lift [OF p]])
    show "passes (if \<not> truthy p then andthen (hw_case ''security2-pairing'' (hw_post E ''/pair'' (Json (he_pairing E)))) (ret ())
       else modify (add_case \<lparr>cr_name = ''security2-auto-pairing'', cr_status = Some True,
              cr_evidence = PStr ''Stored device credential successfully authenticated'', cr_error = []\<rparr>)) ()"
      using passes_andthen [OF passes_case [OF passes_request [OF D]] passes_ret]
      by (auto intro: passes_modify simp: calm_def add_case_def)
  qed
qed

lemma passes_capabilities:
  assumes D: "answers E D" and good: "good_device D"
  shows "passes (hw_capabilities E) ()"
proof -
  obtain d where d: "getitem (D ''/capabilities'') ''device'' = Inr d"
    using good by (auto simp: good_device_def same_at_def rbind_Inr_iff)
  have size: "rand (same_at d [''flash_bytes''] (PInt (16 * 1024 * 1024))) (same_at d [''psram_bytes''] (PInt (8 * 1024 * 1024))) = Inr True"
    using good d by (simp add: good_device_def same_at_def)
  obtain tr where tr: "getitem d ''transport'' = Inr tr" and usb: "py_eq tr (PStr ''usb_serial_jtag_validation'')"
    and uart: "unset_at d [''uart_configuration_supported''] = Inr True"
    using good d by (auto simp: good_device_def same_at_def unset_at_def rbind_Inr_iff)
  show ?thesis
    unfolding hw_capabilities_def
  proof (rule passes_bind [OF passes_case [OF passes_request [OF D]]], rule passes_bind [OF passes_lift [OF d]],
      rule passes_andthen [OF passes_assert [OF size]], rule passes_bind [OF passes_lift [OF tr]], rule passes_andthen)
    show "passes (modify (hw_transport_update (\<lambda>_. tr))) ()"
      by (rule passes_modify) (simp add: calm_def)
    show "passes (if he_phase E \<in> {''config'', ''maintenance'', ''rollback'', ''soak''}
        then assert_res (rand (Inr (py_eq tr (PStr ''usb_serial_jtag_validation''))) (unset_at d [''uart_configuration_supported'']))
               ''This test phase requires the USB validation build''
        else ret ()) ()"
      using usb uart by (simp add: passes_ret)
  qed
qed

lemma passes_basics:
  assumes D: "answers E D" and good: "good_device D" and "\<And>i. he_clock E i = 0" and "\<And>i. \<not> he_exited E i"
  shows "passes (hw_basics E) ()"
proof -
  have tasks: "rbind (task_ids (D ''/tasks'')) distinct_values = Inr True" and ready: "is_ready True PNone None (D ''/state'') = Inr True"
    using good by (simp_all add: good_device_def)
  have snapshot: "passes (tasks_snapshot E) (D ''/tasks'')"
    unfolding tasks_snapshot_def
    by (rule passes_bind [OF passes_request [OF D]], rule passes_andthen [OF passes_assert [OF tasks]], rule passes_ret)
  show ?thesis
    unfolding hw_basics_def diagnose_def
    by (intro passes_andthen passes_case passes_ret;
        (rule snapshot | rule passes_ready [OF D ready assms(3,4)] | rule passes_request [OF D]))
qed

text \<open>On such a device the script reaches its phase with nothing failed.\<close>

lemma reaches_phase:
  assumes D: "answers E D" and good: "good_device D" and time: "\<And>i. he_clock E i = 0" "\<And>i. \<not> he_exited E i"
  shows "\<exists>t. hw_body E hw_init = hw_phase E t \<and> calm t"
proof -
  have ready: "is_ready False PNone None (D ''/state'') = Inr True" and "is_dict (D ''/connect'')"
    using good by (simp_all add: good_device_def)
  note steps = passes_case [OF passes_ready [OF D ready time], of hw_sanitize "''daemon-ready''"]
    passes_connect [OF D \<open>is_dict _\<close>] passes_capabilities [OF D good] passes_basics [OF D good time]
  have "calm hw_init"
    by (simp add: calm_def hw_init_def)
  then show ?thesis
    using steps unfolding hw_body_def passes_def andthen_def bind_def by fastforce
qed

lemma passing_run:
  assumes D: "answers E D" and "\<And>i. he_ends E i" and body: "hw_body E hw_init = (Inr (), s)" and s: "calm s"
  shows "\<exists>t. hw_main E hw_init = (Inr 0, t)"
proof -
  obtain reply where "he_up E (mg_calls s) (hw_call E ''POST'' ''/shutdown'' Empty) = Inr reply"
    using D unfolding answers_def by blast
  then obtain u where stop: "stop_daemon E s = (Inr (), u)"
    using stop_answered assms(2) by (metis prod.collapse)
  have u: "\<not> hw_failed u"
    using stop_state [of E s] stop s by (auto simp: calm_def)
  have "restore_config E s = (Inr (), s)"
    using s by (simp add: restore_config_def act_run calm_def)
  moreover have "guarded_body E hw_init = (Inr (), s)"
    by (simp add: guarded_body_def catch_def body)
  ultimately show ?thesis
    unfolding hw_main_def guarded_body_def [symmetric]
    by (simp add: andthen_def bind_def finally_do_def stop publish_def act_run u)
qed

text \<open>
  A device that answers as it should passes the smoke run: with a gateway whose documents show a
  ready and paired device with the expected memories, the USB validation build and distinct tasks,
  the script returns 0.
\<close>

lemma smoke_accepts:
  assumes "he_phase E = ''smoke''" and "answers E D" and "good_device D"
    and "\<And>i. he_clock E i = 0" and "\<And>i. \<not> he_exited E i" and "\<And>i. he_ends E i"
  shows "\<exists>t. hw_main E hw_init = (Inr 0, t)"
proof -
  have "hw_phase E = ret ()"
    using assms(1) by (simp add: hw_phase_def)
  then obtain s where "hw_body E hw_init = (Inr (), s)" and "calm s"
    using reaches_phase [OF assms(2,3,4,5)] by (auto simp: act_run)
  then show ?thesis
    using passing_run assms(2,6) by blast
qed

section \<open>Witnesses\<close>

definition example_doc :: "string \<Rightarrow> pyval" where
  "example_doc path = PDict (
     if path = ''/state'' then [(''connection'', PDict [(''link'', PDict []), (''paired'', PBool True)])]
     else if path = ''/capabilities'' then [(''device'', PDict [(''flash_bytes'', PInt 16777216),
        (''psram_bytes'', PInt 8388608), (''transport'', PStr ''usb_serial_jtag_validation''),
        (''uart_configuration_supported'', PBool False)])]
     else if path = ''/config'' then [(''device'', PDict [(''pending'', PBool False), (''persisted'', PDict [(interval, PInt 1300)])])]
     else if path = ''/tasks'' then [(''device'', PList [])]
     else [])"

definition example_env :: "mserver \<Rightarrow> string \<Rightarrow> hw_env" where
  "example_env up phase = \<lparr>he_lib = \<lparr>json_loads = \<lambda>s. Some (example_doc s), dumps = \<lambda>_. [], dumps_ascii = \<lambda>_. [],
       sha256 = \<lambda>_. [], repr_of = \<lambda>_. []\<rparr>, he_up = up, he_phase = phase, he_port = ''COM4'',
     he_token = ''k'', he_pairing = PDict [], he_image = Inr [], he_seconds = 60, he_clock = \<lambda>_. 0,
     he_exited = \<lambda>_. False, he_ends = \<lambda>_. True, he_spawn = Inr (), he_random = [],
     he_b64 = \<lambda>_. Inr [], he_store = \<lambda>_. Inr []\<rparr>"

lemma example_fields [simp]:
  "he_phase (example_env up phase) = phase" "he_clock (example_env up phase) i = 0"
  "he_exited (example_env up phase) i = False" "he_ends (example_env up phase) i = True"
  "he_up (example_env up phase) = up"
  by (simp_all add: example_env_def)

text \<open>A gateway that answers each request with its own path, which the library reads as the document.\<close>

definition example_up :: mserver where
  "example_up calls c = Inr \<lparr>mr_status = 200, mr_headers = [], mr_body = drop 31 (mc_url c)\<rparr>"

lemma read_all_bytes: "int (length s) \<le> n \<Longrightarrow> read_bytes n s = s"
  by (induction n s rule: read_bytes.induct) auto

lemma example_answers: "answers (example_env example_up phase) (\<lambda>path. example_doc (read_bytes (2 * 1024 * 1024) path))"
  by (simp add: answers_def example_env_def example_up_def hw_call_def hw_url_def loads_def)

lemma example_good: "good_device (\<lambda>path. example_doc (read_bytes (2 * 1024 * 1024) path))"
  unfolding good_device_def by (intro conjI; code_simp)

lemma smoke_changes_nothing_witness:
  "list_all harmless (mg_calls (snd (hw_main (example_env example_up ''smoke'') hw_init)))"
  by (rule smoke_changes_nothing) (simp add: example_env_def)

lemma smoke_accepts_witness: "\<exists>t. hw_main (example_env example_up ''smoke'') hw_init = (Inr 0, t)"
  by (rule smoke_accepts [OF _ example_answers example_good]) (simp_all add: example_env_def)


lemma example_smoke: "\<exists>t. hw_main (example_env example_up ''smoke'') hw_init = (Inr 0, t)"
proof -
  have "hw_phase (example_env example_up ''smoke'') = ret ()"
    by (simp add: hw_phase_def)
  then obtain s where "hw_body (example_env example_up ''smoke'') hw_init = (Inr (), s)" and "calm s"
    using reaches_phase [OF example_answers example_good, of "''smoke''"] by (auto simp: act_run)
  then show ?thesis
    by (intro passing_run [OF example_answers]) simp_all
qed

lemma passed_hardware_run_witness:
  "\<exists>t rep. hw_main (example_env example_up ''smoke'') hw_init = (Inr 0, t) \<and> hw_published t = Some rep
     \<and> hr_passed rep \<and> list_all (\<lambda>r. cr_status r = Some True) (hr_cases rep)"
proof -
  obtain t where t: "hw_main (example_env example_up ''smoke'') hw_init = (Inr 0, t)"
    using example_smoke by blast
  then show ?thesis
    using passed_hardware_run [OF t] by auto
qed

lemma wait_ready_result_witness:
  "\<exists>t state. wait_ready (example_env example_up ''smoke'') True PNone None hw_init = (Inr state, t)
     \<and> length (mg_calls t) \<le> 70 \<and> is_ready True PNone None state = Inr True"
proof -
  have "is_ready True PNone None (example_doc (read_bytes (2 * 1024 * 1024) ''/state'')) = Inr True"
    by code_simp
  then have "passes (wait_ready (example_env example_up ''smoke'') True PNone None) (example_doc (read_bytes (2 * 1024 * 1024) ''/state''))"
    by (intro passes_ready [OF example_answers]) simp_all
  moreover have "calm hw_init"
    by (simp add: calm_def hw_init_def)
  ultimately obtain t where t: "wait_ready (example_env example_up ''smoke'') True PNone None hw_init
      = (Inr (example_doc (read_bytes (2 * 1024 * 1024) ''/state'')), t)"
    unfolding passes_def by blast
  show ?thesis
    using wait_ready_result [OF t] t by (auto simp: hw_init_def)
qed

definition interrupting :: mserver where
  "interrupting calls c = (if calls = [] then Inl (Exc KeyboardInterrupt [])
     else Inr \<lparr>mr_status = 200, mr_headers = [], mr_body = []\<rparr>)"

lemma interrupted_hardware_passes_witness:
  "\<exists>t rep. hw_main (example_env interrupting ''soak'') hw_init = (Inl (Exc KeyboardInterrupt []), t)
     \<and> hw_published t = Some rep \<and> hr_passed rep
     \<and> hr_cases rep = [\<lparr>cr_name = ''daemon-ready'', cr_status = None, cr_evidence = PNone, cr_error = []\<rparr>]"
  by (rule interrupted_hardware_passes) (simp_all add: interrupting_def)

lemma example_request:
  "hw_request (example_env example_up phase) path method data 200 s = (Inr (example_doc (read_bytes (2 * 1024 * 1024) path)),
     s\<lparr>mg_calls := mg_calls s @ [hw_call (example_env example_up phase) method path data]\<rparr>)"
  by (simp add: hw_request_def send_def bind_def example_env_def example_up_def hw_call_def hw_url_def
      loads_def act_run)

lemma example_config: "device_config (example_env example_up phase) s
    = (Inr (PDict [(''pending'', PBool False), (''persisted'', PDict [(interval, PInt 1300)])]),
       s\<lparr>mg_calls := mg_calls s @ [hw_call (example_env example_up phase) ''GET'' ''/config'' Empty]\<rparr>)"
proof -
  have "getitem (example_doc (read_bytes (2 * 1024 * 1024) ''/config'')) ''device''
      = Inr (PDict [(''pending'', PBool False), (''persisted'', PDict [(interval, PInt 1300)])])"
    by code_simp
  then show ?thesis
    by (simp add: device_config_def bind_def example_request act_run)
qed

text \<open>
  In the configuration phase this gateway never adopts the new interval: the first case fails, and
  the cleanup finds the original one.
\<close>

abbreviation example_config_env :: hw_env where
  "example_config_env \<equiv> example_env example_up ''config''"

abbreviation example_change :: mcall where
  "example_change \<equiv> hw_call example_config_env ''PATCH'' ''/config'' (Json (PDict [(''device'', PDict [(interval, PInt 1400)])]))"

lemma example_changes: "changes_interval example_change"
  by (simp add: changes_interval_def hw_call_def interval_def)

lemma example_confirm:
  "\<exists>calls. confirm_interval example_config_env (PInt 1400) s = (Inl (Exc AssertionError []), s\<lparr>mg_calls := calls\<rparr>)
     \<and> example_change \<in> set calls"
  by (simp add: confirm_interval_def apply_interval_def set_device_def andthen_def bind_def example_request
      example_config act_run same_at_def interval_def) (intro exI conjI, rule refl, simp)

lemma example_configuration:
  "\<exists>calls row. configuration example_config_env s
     = (Inl (Exc AssertionError []), s\<lparr>hw_restore := PInt 1300, mg_calls := calls, mg_cases := mg_cases s @ [row]\<rparr>)
     \<and> example_change \<in> set calls"
proof -
  let ?c = "hw_call example_config_env ''GET'' ''/config'' Empty"
  let ?u = "s\<lparr>mg_calls := mg_calls s @ [?c], hw_restore := PInt 1300\<rparr>"
  obtain calls where "confirm_interval example_config_env (PInt 1400) ?u = (Inl (Exc AssertionError []), ?u\<lparr>mg_calls := calls\<rparr>)"
    and calls: "example_change \<in> set calls"
    using example_confirm by blast
  then obtain row where "hw_case ''config-confirm'' (confirm_interval example_config_env (PInt 1400)) ?u
      = (Inl (Exc AssertionError []), ?u\<lparr>mg_calls := calls, mg_cases := mg_cases s @ [row]\<rparr>)"
    by (cases "is_exception AssertionError") (simp_all add: run_case_def add_case_def)
  then have "configuration example_config_env s
     = (Inl (Exc AssertionError []), s\<lparr>hw_restore := PInt 1300, mg_calls := calls, mg_cases := mg_cases s @ [row]\<rparr>)"
    by (simp add: configuration_def andthen_def bind_def act_run example_config)
  with calls show ?thesis by (intro exI conjI)
qed

lemma example_restore: "\<exists>v calls. restore example_config_env (PInt 1300) s = (Inr v, s\<lparr>mg_calls := calls\<rparr>)
    \<and> set (mg_calls s) \<subseteq> set calls"
  by (simp add: restore_def andthen_def bind_def act_run example_config flag_at_def unset_at_def same_at_def)
    (intro exI conjI, rule refl, auto)

lemma hardware_cleanup_witness:
  "\<exists>r t rep original. hw_main example_config_env hw_init = (r, t) \<and> hw_published t = Some rep
     \<and> last (mg_calls t) = hw_call example_config_env ''POST'' ''/shutdown'' Empty
     \<and> example_change \<in> set (mg_calls t) \<and> original_interval example_config_env (mg_calls t) original
     \<and> cleanup_row True (last (hr_cases rep))"
proof -
  obtain s where phase: "hw_body example_config_env hw_init = hw_phase example_config_env s" and s: "calm s"
    using reaches_phase [OF example_answers example_good, of "''config''"] by auto
  obtain u where body: "guarded_body example_config_env hw_init = (Inr (), u)" and u: "hw_restore u = PInt 1300"
    and change: "example_change \<in> set (mg_calls u)"
    using example_configuration [of s]
    by (auto simp: guarded_body_def catch_def phase hw_phase_def andthen_def bind_def is_exception_def act_run set_failed_def)
  obtain w where cfg: "restore_config example_config_env u = (Inr (), w)"
    and w: "cleanup_row True (last (mg_cases w))" "example_change \<in> set (mg_calls w)"
    using example_restore [of u] u change
    by (auto simp: restore_config_def act_run run_case_def add_case_def catch_def andthen_def bind_def cleanup_row_def)
  obtain v where stop: "stop_daemon example_config_env w = (Inr (), v)"
    using stop_answered [of example_config_env w]
    by (cases "stop_daemon example_config_env w") (simp add: example_up_def)
  have v: "mg_cases v = mg_cases w" "set (mg_calls w) \<subseteq> set (mg_calls v)"
    using stop_state [of example_config_env w] stop by auto
  obtain r t rep where run: "hw_main example_config_env hw_init = (r, t)" "hw_published t = Some rep"
    and rep: "hr_cases rep = mg_cases w" and t: "example_change \<in> set (mg_calls t)"
    unfolding hw_main_def guarded_body_def [symmetric]
    using w v by (auto simp: andthen_def bind_def finally_do_def body cfg stop publish_def act_run report_of_def)
  have "\<not> unchanged_interval (mg_calls t)"
    using t example_changes by (auto simp: unchanged_interval_def list_all_iff)
  then show ?thesis
    using hardware_cleanup [OF run] run rep t w by auto
qed

end
