(* ===== verification/Network.thy ===== *)
theory Network
  imports Manage PyText
begin

text \<open>
  The upstream checks of \<^verbatim>\<open>network-check.py\<close>: the daemon's command line, its two HTTP interfaces,
  the private input file and the clock are fields of the environment.
\<close>

section \<open>The run\<close>

record net_env =
  ne_lib :: pylib
  ne_up :: mserver
  ne_cli :: "string list \<Rightarrow> string res"
  ne_input :: "pyval res"
  ne_pairing :: "pyval res"
  ne_port :: string
  ne_chat :: bool
  ne_soak :: nat
  ne_clock :: "nat \<Rightarrow> rat"

record net = manage +
  nt_passed :: bool
  nt_failure :: "string option"
  nt_partial :: "pyval list option"
  nt_reads :: nat

definition net_init :: net where
  "net_init = \<lparr>mg_calls = [], mg_cases = [], nt_passed = False, nt_failure = None, nt_partial = None, nt_reads = 0\<rparr>"

abbreviation net_case :: "string \<Rightarrow> (net, pyval) act \<Rightarrow> (net, pyval) act" where
  "net_case \<equiv> run_case sanitize"

definition net_now :: "net_env \<Rightarrow> (net, rat) act" where
  "net_now E s = (Inr (ne_clock E (nt_reads s)), s\<lparr>nt_reads := Suc (nt_reads s)\<rparr>)"

section \<open>Requests\<close>

text \<open>The tokens of the two interfaces, as the command line printed them.\<close>

record tokens =
  tk_admin :: string
  tk_api :: string

definition net_call :: "tokens \<Rightarrow> string \<Rightarrow> string \<Rightarrow> payload \<Rightarrow> bool \<Rightarrow> mcall" where
  "net_call T path method data admin = \<lparr>mc_method = method,
     mc_url = (if admin then ''http://localhost:8766/admin/v1'' else ''http://localhost:8765'') @ path,
     mc_token = Some (if admin then tk_admin T else tk_api T), mc_body = data\<rparr>"

definition net_detail :: "pylib \<Rightarrow> string \<Rightarrow> pyval" where
  "net_detail L body = (case loads L body of Inr v \<Rightarrow> sanitize v
     | Inl _ \<Rightarrow> PDict [(''body_bytes'', PInt (int (length body))), (''sha256'', PStr (sha256 L body))])"

definition http :: "net_env \<Rightarrow> tokens \<Rightarrow> string \<Rightarrow> string \<Rightarrow> payload \<Rightarrow> bool \<Rightarrow> int option \<Rightarrow> (net, mreply) act" where
  "http E T path method data admin expected =
     bind (send (ne_up E) (net_call T path method data admin)) (\<lambda>r.
       case expected of None \<Rightarrow> ret r
       | Some status \<Rightarrow> if mr_status r = status then ret r
           else raise AssertionError (method @ '' '' @ path @ '': HTTP '' @ repr_of (ne_lib E) (PInt (mr_status r))
             @ '', expected '' @ repr_of (ne_lib E) (PInt status) @ ''; ''
             @ to_str (ne_lib E) (net_detail (ne_lib E) (read_bytes 4096 (mr_body r)))))"

definition admin :: "net_env \<Rightarrow> tokens \<Rightarrow> string \<Rightarrow> string \<Rightarrow> payload \<Rightarrow> (net, pyval) act" where
  "admin E T path method data =
     bind (http E T path method data True (Some 200)) (\<lambda>r. lift (loads (ne_lib E) (mr_body r)))"

abbreviation admin_get :: "net_env \<Rightarrow> tokens \<Rightarrow> string \<Rightarrow> (net, pyval) act" where
  "admin_get E T path \<equiv> admin E T path ''GET'' Empty"

abbreviation admin_post :: "net_env \<Rightarrow> tokens \<Rightarrow> string \<Rightarrow> payload \<Rightarrow> (net, pyval) act" where
  "admin_post E T path data \<equiv> admin E T path ''POST'' data"

section \<open>Readiness\<close>

definition net_ready :: "(pyval \<Rightarrow> bool res) \<Rightarrow> pyval \<Rightarrow> bool res" where
  "net_ready predicate s =
     rbind (get_or_empty s ''device'') (\<lambda>d.
     rbind (get_or_empty s ''connection'') (\<lambda>c.
     rand (rbind (pyget c ''paired'' PNone) (\<lambda>p. Inr (truthy p)))
    (rand (rbind (pyget d ''session'' PNone) (\<lambda>x.
           rbind (pyget c ''link'' (PDict [])) (\<lambda>link.
           rbind (pyget link ''session'' PNone) (\<lambda>y. Inr (py_eq x y)))))
          (predicate s))))"

text \<open>A round sleeps half a second, so a wait of n seconds has at most 2n rounds.\<close>

fun net_loop :: "net_env \<Rightarrow> tokens \<Rightarrow> (pyval \<Rightarrow> bool res) \<Rightarrow> rat \<Rightarrow> nat \<Rightarrow> (net, pyval) act" where
  "net_loop E T predicate end_time 0 = raise TimeoutError ''device state did not meet readiness condition''"
| "net_loop E T predicate end_time (Suc n) =
     bind (net_now E) (\<lambda>t.
       if end_time \<le> t then raise TimeoutError ''device state did not meet readiness condition''
       else bind (admin_get E T ''/state'') (\<lambda>s.
            bind (lift (net_ready predicate s)) (\<lambda>b.
              if b then ret s else net_loop E T predicate end_time n)))"

definition net_wait :: "net_env \<Rightarrow> tokens \<Rightarrow> (pyval \<Rightarrow> bool res) \<Rightarrow> nat \<Rightarrow> (net, pyval) act" where
  "net_wait E T predicate seconds =
     bind (net_now E) (\<lambda>t. net_loop E T predicate (t + of_nat seconds) (2 * seconds))"

abbreviation any_state :: "pyval \<Rightarrow> bool res" where
  "any_state \<equiv> \<lambda>_. Inr True"

section \<open>The device's network\<close>

definition set_wifi :: "net_env \<Rightarrow> tokens \<Rightarrow> pyval \<Rightarrow> pyval \<Rightarrow> (net, pyval) act" where
  "set_wifi E T ssid password = admin E T ''/config'' ''PATCH''
     (Json (PDict [(''device'', PDict [(''wifi.ssid'', ssid), (''wifi.password'', password)])]))"

definition is_connected :: "pyval \<Rightarrow> bool res" where
  "is_connected s = flag_at s [''device'', ''network'', ''connected'']"

definition confirm_wifi :: "net_env \<Rightarrow> tokens \<Rightarrow> (net, pyval) act" where
  "confirm_wifi E T = bind (net_wait E T is_connected 24) (\<lambda>state.
     andthen (admin_post E T ''/config/confirm'' Empty) (ret state))"

definition reraise :: "exc \<Rightarrow> (net, 'a) act" where
  "reraise e = lift (Inl e)"

text \<open>A pending change is rolled back first; then the private values are looked up.\<close>

definition wifi_prepare :: "net_env \<Rightarrow> tokens \<Rightarrow> pyval \<Rightarrow> (net, pyval \<times> pyval) act" where
  "wifi_prepare E T private =
     bind (bind (admin_get E T ''/config'') (\<lambda>v. lift (getitem v ''device''))) (\<lambda>snapshot.
     bind (lift (flag_at snapshot [''pending''])) (\<lambda>pending.
     andthen (if pending then andthen (admin_post E T ''/config/rollback'' Empty) (ret ()) else ret ())
    (bind (lift (getitem private ''wifi_ssid'')) (\<lambda>ssid.
     bind (lift (getitem private ''wifi_password'')) (\<lambda>password.
     ret (ssid, password))))))"

definition wifi :: "net_env \<Rightarrow> tokens \<Rightarrow> pyval \<Rightarrow> (net, pyval) act" where
  "wifi E T private =
     bind (wifi_prepare E T private) (\<lambda>(ssid, password).
     andthen (set_wifi E T ssid password)
       (catch is_exception (confirm_wifi E T)
         (\<lambda>e. andthen (admin_post E T ''/config/rollback'' Empty) (reraise e))))"

section \<open>The upstream\<close>

definition models :: "net_env \<Rightarrow> tokens \<Rightarrow> (net, pyval) act" where
  "models E T =
     bind (http E T ''/v1/models'' ''GET'' Empty False (Some 200)) (\<lambda>r.
     bind (lift (rbind (loads (ne_lib E) (mr_body r)) (\<lambda>v. rbind (rbind (getitem v ''data'') iterate) (rmap (\<lambda>m. getitem m ''id''))))) (\<lambda>ids.
     andthen (assert_that (ids \<noteq> []) ''empty model list'')
     (ret (PDict [(''models'', PList ids)]))))"

text \<open>Four workers make one request each; the first exception in their order is raised.\<close>

fun try_all :: "nat \<Rightarrow> ('s, 'a) act \<Rightarrow> ('s, 'a res list) act" where
  "try_all 0 m s = (Inr [], s)"
| "try_all (Suc n) m s = (case m s of (r, t) \<Rightarrow> (case try_all n m t of
     (Inl e, u) \<Rightarrow> (Inl e, u) | (Inr rs, u) \<Rightarrow> (Inr (r # rs), u)))"

definition parallel_models :: "net_env \<Rightarrow> tokens \<Rightarrow> (net, pyval) act" where
  "parallel_models E T =
     bind (try_all 4 (models E T)) (\<lambda>rs.
     bind (lift (rmap id rs)) (\<lambda>values.
     ret (PDict [(''completed'', PInt (int (length values))),
                 (''same_models'', PBool (list_all (\<lambda>v. py_eq v (hd values)) values))])))"

definition chat_payload :: "pyval \<Rightarrow> pydict" where
  "chat_payload model = [(''model'', model),
     (''messages'', PList [PDict [(''role'', PStr ''user''), (''content'', PStr ''Reply with only OK.'')]]),
     (''max_tokens'', PInt 32), (''thinking'', PDict [(''type'', PStr ''disabled'')]), (''stream'', PBool False)]"

definition completions :: string where
  "completions = ''/v1/chat/completions''"

definition normal_chat :: "net_env \<Rightarrow> tokens \<Rightarrow> pydict \<Rightarrow> (net, pyval) act" where
  "normal_chat E T chat =
     bind (http E T completions ''POST'' (Json (PDict chat)) False (Some 200)) (\<lambda>r.
     bind (lift (loads (ne_lib E) (mr_body r))) (\<lambda>value.
     bind (lift (pyget value ''choices'' PNone)) (\<lambda>choices.
     andthen (assert_res (if truthy choices
        then rbind (first_item choices) (\<lambda>c. rbind (pyget c ''message'' PNone) (\<lambda>m. Inr (truthy m))) else Inr False) [])
    (bind (lift (pyget value ''model'' PNone)) (\<lambda>model.
     bind (lift (pyget value ''usage'' PNone)) (\<lambda>usage.
     bind (lift (rbind (rbind (getitem value ''choices'') first_item) (\<lambda>c. pyget c ''finish_reason'' PNone))) (\<lambda>reason.
     ret (PDict [(''model'', model), (''usage'', usage), (''finish_reason'', reason)]))))))))"

text \<open>\<^verbatim>\<open>for line in response\<close>: lines end with their newline, the last one may lack it.\<close>

fun response_lines :: "string \<Rightarrow> string \<Rightarrow> string list" where
  "response_lines acc [] = (if acc = [] then [] else [acc])"
| "response_lines acc (c # cs) =
     (if c = CHR 0x0A then (acc @ [c]) # response_lines [] cs else response_lines (acc @ [c]) cs)"

record chat_acc =
  ca_events :: int
  ca_done :: bool
  ca_usage :: pyval
  ca_content :: int
  ca_first :: bool

definition chat_init :: chat_acc where
  "chat_init = \<lparr>ca_events = 0, ca_done = False, ca_usage = PNone, ca_content = 0, ca_first = False\<rparr>"

definition choice_bytes :: "pyval \<Rightarrow> int res" where
  "choice_bytes choice =
     rbind (pyget choice ''delta'' (PDict [])) (\<lambda>delta.
     rbind (pyget delta ''content'' (PStr [])) (\<lambda>content.
       case content of PStr s \<Rightarrow> Inr (int (length s)) | _ \<Rightarrow> Inl (Exc AttributeError ''encode'')))"

definition chat_event :: "pyval \<Rightarrow> chat_acc \<Rightarrow> chat_acc res" where
  "chat_event event a =
     rbind (pyget event ''usage'' PNone) (\<lambda>usage.
     rbind (pyget event ''choices'' (PList [])) (\<lambda>choices.
     rbind (iterate choices) (\<lambda>cs.
     rbind (rmap choice_bytes cs) (\<lambda>ns.
       Inr (a\<lparr>ca_events := ca_events a + 1, ca_first := True, ca_usage := (if truthy usage then usage else ca_usage a),
              ca_content := ca_content a + sum_list ns\<rparr>)))))"

fun chat_lines :: "pylib \<Rightarrow> string list \<Rightarrow> chat_acc \<Rightarrow> chat_acc res" where
  "chat_lines L [] a = Inr a"
| "chat_lines L (line # lines) a =
     (if \<not> prefix ''data:'' line then chat_lines L lines a
      else let data = strip (drop 5 line) in
        if data = ''[DONE]'' then Inr (a\<lparr>ca_done := True\<rparr>)
        else rbind (loads L data) (\<lambda>event. rbind (chat_event event a) (chat_lines L lines)))"

definition get_header :: "string \<Rightarrow> (string \<times> string) list \<Rightarrow> string option" where
  "get_header name hs = map_option snd (find (\<lambda>h. py_lower (fst h) = py_lower name) hs)"

definition stream_chat :: "net_env \<Rightarrow> tokens \<Rightarrow> pydict \<Rightarrow> (net, pyval) act" where
  "stream_chat E T chat =
     bind (net_now E) (\<lambda>start.
     bind (http E T completions ''POST''
       (Json (PDict (AList.update ''stream_options'' (PDict [(''include_usage'', PBool True)])
                    (AList.update ''stream'' (PBool True) chat)))) False (Some 200)) (\<lambda>r.
     andthen (assert_that (contains ''text/event-stream''
        (case get_header ''Content-Type'' (mr_headers r) of None \<Rightarrow> [] | Some v \<Rightarrow> v)) [])
    (bind (lift (chat_lines (ne_lib E) (response_lines [] (mr_body r)) chat_init)) (\<lambda>a.
     bind (if ca_first a then bind (net_now E) (\<lambda>t. ret (PFloat (Finite (t - start)))) else ret PNone) (\<lambda>first.
     andthen (assert_that (ca_done a \<and> ca_events a \<noteq> 0 \<and> ca_content a \<noteq> 0) ''incomplete SSE response'')
     (ret (PDict [(''events'', PInt (ca_events a)), (''done'', PBool (ca_done a)), (''content_bytes'', PInt (ca_content a)),
                  (''first_event_seconds'', first), (''usage'', ca_usage a)])))))))"

definition probe :: "net_env \<Rightarrow> tokens \<Rightarrow> string \<Rightarrow> (net, pyval) act" where
  "probe E T path =
     bind (http E T path ''GET'' Empty False None) (\<lambda>r.
     let b = read_bytes 65536 (mr_body r) in
     ret (PDict [(''http_status'', PInt (mr_status r)),
        (''content_type'', case get_header ''Content-Type'' (mr_headers r) of None \<Rightarrow> PNone | Some v \<Rightarrow> PStr v),
        (''bytes'', PInt (int (length b))), (''body_sha256'', PStr (sha256 (ne_lib E) b))]))"

section \<open>The soak\<close>

definition net_soak_check :: "net_env \<Rightarrow> tokens \<Rightarrow> pyval \<Rightarrow> (net, pyval) act" where
  "net_soak_check E T session =
     bind (admin_get E T ''/state'') (\<lambda>s.
     bind (lift (get_or_empty s ''device'')) (\<lambda>d.
     andthen (assert_res (rand (rbind (pyget d ''session'' PNone) (\<lambda>x. Inr (py_eq x session)))
                               (flag_at s [''connection'', ''paired''])) ''unexpected session loss'')
    (andthen (assert_res (flag_at d [''network'', ''connected'']) ''Wi-Fi lost'')
    (andthen (assert_res (unset_at d [''crash'', ''available'']) ''new coredump'')
    (andthen (assert_res (enough_at d [''memory'', ''internal_free''] 32768) ''internal memory exhausted'')
    (bind (admin_get E T ''/tasks'') (\<lambda>tasks.
     andthen (assert_res (rbind (task_ids tasks) distinct_values) ''duplicate task enumeration'')
    (andthen (admin_get E T ''/config'') (andthen (admin_get E T ''/logs'')
    (andthen (admin_post E T ''/diagnostics'' (Json (PDict [(''action'', PStr ''health'')])))
    (lift (getitem d ''memory''))))))))))))"

definition net_sample :: "pyval \<Rightarrow> net \<Rightarrow> net" where
  "net_sample row s = s\<lparr>nt_partial := map_option (\<lambda>rows. rows @ [row]) (nt_partial s)\<rparr>"

text \<open>A round sleeps one second: at most as many rounds as seconds.\<close>

fun net_soak_loop :: "net_env \<Rightarrow> tokens \<Rightarrow> pyval \<Rightarrow> rat \<Rightarrow> nat \<Rightarrow> (net, unit) act" where
  "net_soak_loop E T session start 0 = ret ()"
| "net_soak_loop E T session start (Suc n) =
     bind (net_now E) (\<lambda>t.
       if of_nat (ne_soak E) \<le> t - start then ret ()
       else bind (net_soak_check E T session) (\<lambda>memory.
            bind (net_now E) (\<lambda>u.
            andthen (modify (net_sample (PDict [(''seconds'', py_round 2 (u - start)), (''memory'', memory)])))
              (net_soak_loop E T session start n))))"

definition net_soak :: "net_env \<Rightarrow> tokens \<Rightarrow> (net, pyval) act" where
  "net_soak E T =
     bind (net_now E) (\<lambda>start.
     bind (net_wait E T any_state 35) (\<lambda>initial.
     bind (lift (path_at initial [''device'', ''session''])) (\<lambda>session.
     andthen (modify (\<lambda>s. s\<lparr>nt_partial := Some []\<rparr>))
    (andthen (net_soak_loop E T session start (ne_soak E))
    (bind (gets (\<lambda>s. case nt_partial s of None \<Rightarrow> [] | Some rows \<Rightarrow> rows)) (\<lambda>samples.
     andthen (modify (\<lambda>s. s\<lparr>nt_partial := None\<rparr>))
    (bind (net_now E) (\<lambda>t.
     ret (PDict [(''seconds'', py_round 3 (t - start)), (''rounds'', PInt (int (length samples))), (''samples'', PList samples)])))))))))"

section \<open>The whole script\<close>

definition net_connect :: "net_env \<Rightarrow> tokens \<Rightarrow> (net, unit) act" where
  "net_connect E T =
     bind (admin_get E T ''/state'') (\<lambda>state.
     bind (lift (rbind (pyget state ''connection'' (PDict [])) (\<lambda>c. pyget c ''connected'' PNone))) (\<lambda>connected.
     andthen (if truthy connected then ret () else andthen (net_case ''connect-device''
         (admin_post E T ''/connect'' (Json (PDict [(''port'', PStr (ne_port E)), (''baud'', PInt 115200), (''flow_control'', PBool False)])))) (ret ()))
    (bind (admin_get E T ''/state'') (\<lambda>again.
     bind (lift (rbind (pyget again ''connection'' (PDict [])) (\<lambda>c. pyget c ''paired'' PNone))) (\<lambda>paired.
     if truthy paired then ret () else andthen (net_case ''security2-pair''
         (bind (lift (ne_pairing E)) (\<lambda>p. admin_post E T ''/pair'' (Json p)))) (ret ()))))))"

definition net_configure :: "net_env \<Rightarrow> tokens \<Rightarrow> pyval \<Rightarrow> (net, unit) act" where
  "net_configure E T private =
     andthen (net_case ''fresh-authenticated-device'' (net_wait E T any_state 35))
    (andthen (net_case ''configure-upstream'' (bind (lift (getitem private ''upstream_url'')) (\<lambda>u.
        admin E T ''/config'' ''PATCH'' (Json (PDict [(''host'', PDict [(''upstream_url'', u)])])))))
    (andthen (net_case ''save-upstream-credential'' (bind (lift (getitem private ''upstream_key'')) (\<lambda>k.
        admin_post E T ''/credentials'' (Json (PDict [(''upstream_key'', k)])))))
    (andthen (net_case ''wifi-IP-and-confirmed-configuration'' (wifi E T private)) (ret ()))))"

definition net_upstream :: "net_env \<Rightarrow> tokens \<Rightarrow> (net, unit) act" where
  "net_upstream E T =
     bind (bind (net_case ''models-via-ESP32-TLS'' (models E T)) (\<lambda>v. lift (getitem v ''models''))) (\<lambda>found.
     andthen (net_case ''four-concurrent-model-queries'' (parallel_models E T))
    (andthen (if \<not> ne_chat E then ret () else
        bind (lift (py_in ''deepseek-flash'' found)) (\<lambda>b.
        bind (if b then ret (PStr ''deepseek-flash'') else lift (first_item found)) (\<lambda>model.
        andthen (net_case ''bounded-nonstream-chat'' (normal_chat E T (chat_payload model)))
       (andthen (net_case ''bounded-SSE-chat'' (stream_chat E T (chat_payload model))) (ret ())))))
    (andthen (net_case ''upstream-resource-probe-files'' (probe E T ''/v1/files''))
    (andthen (net_case ''upstream-resource-probe-jobs'' (probe E T ''/v1/fine_tuning/jobs'')) (ret ())))))"

definition net_steps :: "net_env \<Rightarrow> tokens \<Rightarrow> pyval \<Rightarrow> (net, unit) act" where
  "net_steps E T private =
     andthen (net_connect E T)
    (andthen (net_configure E T private)
    (andthen (net_upstream E T)
    (andthen (if ne_soak E = 0 then ret () else andthen (net_case ''network-connected-management-soak'' (net_soak E T)) (ret ()))
    (andthen (net_case ''final-device-state'' (net_wait E T any_state 35)) (ret ())))))"

definition net_run :: "net_env \<Rightarrow> (net, unit) act" where
  "net_run E =
     bind (lift (ne_input E)) (\<lambda>private.
     andthen (lift (ne_cli E [''init'']))
    (andthen (net_case ''final-windows-daemon-starts'' (bind (lift (ne_cli E [''start''])) (\<lambda>out. ret (PStr out))))
    (bind (lift (ne_cli E [''token'', ''admin''])) (\<lambda>a.
     bind (lift (ne_cli E [''token'', ''api''])) (\<lambda>b.
     net_steps E \<lparr>tk_admin = a, tk_api = b\<rparr> private)))))"

definition net_body :: "net_env \<Rightarrow> (net, unit) act" where
  "net_body E = andthen (net_run E) (modify (\<lambda>s. s\<lparr>nt_passed := True\<rparr>))"

definition net_main :: "net_env \<Rightarrow> (net, int) act" where
  "net_main E =
     andthen (catch is_exception (net_body E) (\<lambda>e. modify (\<lambda>s. s\<lparr>nt_failure := Some (exc_msg e)\<rparr>)))
       (gets (\<lambda>s. if nt_passed s then 0 else 1))"

end
