(* ===== verification/NetworkProps.thy ===== *)
theory NetworkProps
  imports Network
begin

text \<open>
  What the upstream checks guarantee: their requests and tokens stay on the machine, a network
  change is confirmed or rolled back, and what a passed report says.
\<close>

section \<open>What every operation respects\<close>

locale net_order = state_order R for R :: "net \<Rightarrow> net \<Rightarrow> bool" +
  fixes E :: net_env and T :: tokens
  assumes call_step: "R s (s\<lparr>mg_calls := mg_calls s @ [net_call T (CHR ''/'' # path) method data own]\<rparr>)"
    and frame_step: "mg_calls t = mg_calls s \<Longrightarrow> mg_cases t = mg_cases s
      \<Longrightarrow> nt_passed t = nt_passed s \<Longrightarrow> R s t"
begin

lemma grows_now: "grows (net_now E)"
  by (simp add: grows_def net_now_def frame_step)

lemma grows_frame: "(\<And>s. mg_calls (u s) = mg_calls s \<and> mg_cases (u s) = mg_cases s
    \<and> nt_passed (u s) = nt_passed s) \<Longrightarrow> grows (modify u)"
  by (rule grows_modify) (simp add: frame_step)

lemma grows_send: "grows (send up (net_call T (CHR ''/'' # path) method data own))"
  by (simp add: grows_def send_def call_step)

lemma grows_option: "grows f \<Longrightarrow> (\<And>x. grows (g x)) \<Longrightarrow> grows (case r of None \<Rightarrow> f | Some x \<Rightarrow> g x)"
  by (cases r) simp_all

lemma grows_assert: "grows (assert_that b msg)" "grows (assert_res r msg)"
  unfolding assert_res_def assert_that_def by (intro grows_rules)+

lemma grows_http: "grows (http E T (CHR ''/'' # path) method data own expected)"
  unfolding http_def by (intro grows_rules grows_send grows_option)

lemma grows_admin: "grows (admin E T (CHR ''/'' # path) method data)"
  unfolding admin_def by (intro grows_rules grows_http)

lemmas net_rules = grows_rules grows_now grows_assert grows_http grows_admin

lemma grows_loop: "grows (net_loop E T predicate end_time n)"
  by (induction n) (auto intro!: net_rules)

lemma grows_wait: "grows (net_wait E T predicate seconds)"
  unfolding net_wait_def by (intro net_rules grows_loop)

lemma grows_confirm: "grows (confirm_wifi E T)"
  unfolding confirm_wifi_def by (intro net_rules grows_wait)

lemma grows_wifi: "grows (wifi E T private)"
  unfolding wifi_def wifi_prepare_def set_wifi_def reraise_def by (intro net_rules grows_confirm)

lemma grows_models: "grows (models E T)"
  unfolding models_def by (intro net_rules)

lemma grows_try_all:
  assumes "grows m"
  shows "grows (try_all n m)"
  unfolding grows_def
proof (induction n)
  case (Suc n)
  have "snd (try_all (Suc n) m s) = snd (try_all n m (snd (m s)))" for s
    by (simp split: prod.splits sum.splits)
  then show ?case
    using Suc assms order_trans by (metis growsD)
qed (simp add: order_refl)

lemma grows_upstream:
  "grows (parallel_models E T)" "grows (normal_chat E T chat)" "grows (stream_chat E T chat)"
  unfolding parallel_models_def normal_chat_def stream_chat_def completions_def
  by (intro net_rules grows_try_all grows_models)+

lemma grows_probe: "grows (probe E T (CHR ''/'' # path))"
  unfolding probe_def by (intro net_rules)

lemma grows_soak_loop: "grows (net_soak_loop E T session start n)"
  by (induction n) (auto simp: net_soak_check_def net_sample_def intro!: net_rules grows_frame)

lemma grows_soak: "grows (net_soak E T)"
  unfolding net_soak_def by (intro net_rules grows_wait grows_soak_loop grows_frame) simp_all

end

section \<open>Destinations\<close>

text \<open>
  A request of the administration interface carries its token, one of the programming interface
  the other, and both go to this machine.
\<close>

definition own_destination :: "net_env \<Rightarrow> mcall \<Rightarrow> bool" where
  "own_destination E c \<longleftrightarrow> (\<exists>token. mc_token c = Some token
     \<and> (prefix ''http://localhost:8766/admin/v1/'' (mc_url c) \<and> ne_cli E [''token'', ''admin''] = Inr token
      \<or> prefix ''http://localhost:8765/'' (mc_url c) \<and> ne_cli E [''token'', ''api''] = Inr token))"

definition own_tokens :: "net_env \<Rightarrow> tokens \<Rightarrow> bool" where
  "own_tokens E T \<longleftrightarrow> ne_cli E [''token'', ''admin''] = Inr (tk_admin T) \<and> ne_cli E [''token'', ''api''] = Inr (tk_api T)"

lemma own_call: "own_tokens E T \<Longrightarrow> own_destination E (net_call T (CHR ''/'' # path) method data own)"
  by (simp add: own_tokens_def own_destination_def net_call_def prefix_def)

definition destined :: "net_env \<Rightarrow> tokens \<Rightarrow> net \<Rightarrow> net \<Rightarrow> bool" where
  "destined E T s t \<longleftrightarrow> nt_passed t = nt_passed s \<and> (own_tokens E T \<longrightarrow> only (own_destination E) s t)"

interpretation destined: net_order "destined E T" E T for E T
proof unfold_locales
  show "destined E T s t \<Longrightarrow> destined E T t u \<Longrightarrow> destined E T s u" for s t u
    unfolding destined_def using asks.order_trans by metis
  show "destined E T s (s\<lparr>mg_calls := mg_calls s @ [net_call T (CHR ''/'' # path) k d b]\<rparr>)"
    for s path k d b
    by (simp add: destined_def only_def own_call)
qed (auto simp: destined_def only_def)

lemma destined_case: "destined.grows E T m \<Longrightarrow> destined.grows E T (run_case san name m)"
  unfolding destined.grows_def destined_def
proof (intro allI)
  fix s
  assume m: "\<forall>s. nt_passed (snd (m s)) = nt_passed s \<and> (own_tokens E T \<longrightarrow> only (own_destination E) s (snd (m s)))"
  obtain row where "snd (run_case san name m s) = add_case row (snd (m s))"
    using run_case_adds by blast
  then show "nt_passed (snd (run_case san name m s)) = nt_passed s
      \<and> (own_tokens E T \<longrightarrow> only (own_destination E) s (snd (run_case san name m s)))"
    using m by (auto simp: add_case_def only_def)
qed

lemma destined_steps: "destined.grows E T (net_steps E T private)"
  unfolding net_steps_def net_connect_def net_configure_def net_upstream_def
  by (intro destined.net_rules destined_case destined.grows_wait destined.grows_wifi destined.grows_models
      destined.grows_upstream destined.grows_probe destined.grows_soak)

text \<open>What follows a successful step of the command line may use its result.\<close>

lemma asks_lift: "(\<And>x. r = Inr x \<Longrightarrow> asks.grows P (f x)) \<Longrightarrow> asks.grows P (bind (lift r) f)"
  by (cases r) (simp_all add: asks.grows_basic)

lemma asks_body: "asks.grows (own_destination E) (net_body E)"
proof -
  have "asks.grows (own_destination E) (net_steps E T v)" if "own_tokens E T" for T v
    using destined_steps [of E T v] that by (simp add: destined.grows_def destined_def asks.grows_def)
  then show ?thesis
    unfolding net_body_def net_run_def andthen_def
    by (intro asks_lift asks_case asks.grows_bind asks.grows_basic asks_modify) (simp_all add: own_tokens_def)
qed

text \<open>
  Whatever the daemon answers, the upstream check talks to its two local interfaces only,
  and each request carries the token of the interface it goes to.
\<close>

lemma network_requests_local: "list_all (own_destination E) (mg_calls (snd (net_main E net_init)))"
proof -
  have "asks.grows (own_destination E) (net_main E)"
    unfolding net_main_def by (intro asks_rules asks_body asks_modify) simp
  from only_calls [OF asks.growsD [OF this], of net_init] show ?thesis
    by (simp add: net_init_def)
qed

section \<open>The network change\<close>

definition unchanging :: "mcall \<Rightarrow> bool" where
  "unchanging c \<longleftrightarrow> mc_method c \<noteq> ''PATCH''"

lemma unchanging_admin: "k \<noteq> ''PATCH'' \<Longrightarrow> asks.grows unchanging (admin E T path k d)"
  unfolding admin_def http_def
  by (intro asks_rules asks_send; simp add: unchanging_def net_call_def asks.grows_basic split: option.splits)

lemma admin_state: "\<exists>r. admin E T path k d s
    = (r, s\<lparr>mg_calls := mg_calls s @ [net_call T path k d True]\<rparr>)"
  by (auto simp: admin_def http_def bind_def send_def act_run split: sum.splits)

lemma admin_calls: "mg_calls (snd (admin E T path k d s)) = mg_calls s @ [net_call T path k d True]"
  using admin_state [of E T path k d s] by auto

lemma unchanging_prepare: "asks.grows unchanging (wifi_prepare E T private)"
  unfolding wifi_prepare_def by (intro asks_rules unchanging_admin) simp_all

lemma net_loop_result: "net_loop E T predicate end_time n s = (Inr v, t) \<Longrightarrow> predicate v = Inr True"
proof (induction n arbitrary: s)
  case (Suc n)
  then show ?case
    by (auto simp: bind_Inr_iff net_now_def act_run net_ready_def rbind_Inr_iff rand_True_iff split: if_splits)
qed (simp add: act_run)


lemma confirm_result:
  assumes "confirm_wifi E T s = (Inr v, t)"
  shows "is_connected v = Inr True" and "last (mg_calls t) = net_call T ''/config/confirm'' ''POST'' Empty True"
proof -
  obtain u x w where wait: "net_wait E T is_connected 24 s = (Inr v, u)"
    and "admin E T ''/config/confirm'' ''POST'' Empty u = (Inr x, t)"
    using assms by (auto simp: confirm_wifi_def andthen_def bind_Inr_iff act_run)
  then show "last (mg_calls t) = net_call T ''/config/confirm'' ''POST'' Empty True"
    using admin_state [of E T "''/config/confirm''" "''POST''" Empty u] by auto
  show "is_connected v = Inr True"
    using wait net_loop_result by (fastforce simp: net_wait_def bind_Inr_iff)
qed

text \<open>The request that changes the network, and whether the gateway accepted it.\<close>

definition wifi_call :: "tokens \<Rightarrow> pyval \<Rightarrow> pyval \<Rightarrow> mcall" where
  "wifi_call T ssid password = net_call T ''/config'' ''PATCH''
     (Json (PDict [(''device'', PDict [(''wifi.ssid'', ssid), (''wifi.password'', password)])])) True"

definition accepted :: "net_env \<Rightarrow> mcall list \<Rightarrow> mcall \<Rightarrow> bool" where
  "accepted E earlier c \<longleftrightarrow> (case ne_up E earlier c of Inl e \<Rightarrow> False
     | Inr reply \<Rightarrow> mr_status reply = 200 \<and> (\<exists>v. loads (ne_lib E) (mr_body reply) = Inr v))"

lemma admin_accepted: "(\<exists>v. fst (admin E T path k d s) = Inr v) = accepted E (mg_calls s) (net_call T path k d True)"
  by (auto simp: admin_def http_def bind_def send_def act_run accepted_def split: sum.splits)

lemma rollback_state:
  "last (mg_calls (snd (andthen (admin_post E T ''/config/rollback'' Empty) (reraise e) s)))
     = net_call T ''/config/rollback'' ''POST'' Empty True"
  "\<exists>e'. fst (andthen (admin_post E T ''/config/rollback'' Empty) (reraise e) s) = Inl e'"
  using admin_state [of E T "''/config/rollback''" "''POST''" Empty s]
  by (auto simp: andthen_def bind_def reraise_def act_run split: sum.splits)

text \<open>What follows an accepted change: its confirmation, its rollback, or an interrupt.\<close>

definition after_change :: "net_env \<Rightarrow> tokens \<Rightarrow> (net, pyval) act" where
  "after_change E T = catch is_exception (confirm_wifi E T)
     (\<lambda>e. andthen (admin_post E T ''/config/rollback'' Empty) (reraise e))"

definition settled :: "tokens \<Rightarrow> pyval res \<Rightarrow> net \<Rightarrow> bool" where
  "settled T r t \<longleftrightarrow> (case r of
      Inr state \<Rightarrow> is_connected state = Inr True \<and> last (mg_calls t) = net_call T ''/config/confirm'' ''POST'' Empty True
    | Inl e \<Rightarrow> last (mg_calls t) = net_call T ''/config/rollback'' ''POST'' Empty True \<or> \<not> is_exception (exc_kind e))"

lemma after_change_settled:
  assumes "after_change E T w = (r, t)"
  shows "settled T r t"
proof -
  obtain k x where conf: "confirm_wifi E T w = (k, x)"
    by fastforce
  consider v where "k = Inr v" | e where "k = Inl e" "is_exception (exc_kind e)" | e where "k = Inl e" "\<not> is_exception (exc_kind e)"
    by (cases k) auto
  then show ?thesis
  proof cases
    case (1 v)
    then have "r = Inr v" "t = x"
      using assms conf by (simp_all add: after_change_def catch_def)
    then show ?thesis
      using confirm_result conf 1 by (auto simp: settled_def)
  next
    case (2 e)
    then have "(r, t) = andthen (admin_post E T ''/config/rollback'' Empty) (reraise e) x"
      using assms conf by (simp add: after_change_def catch_def)
    then have "last (mg_calls t) = net_call T ''/config/rollback'' ''POST'' Empty True" "\<exists>e. r = Inl e"
      using rollback_state [of E T e x] by (metis fst_conv snd_conv)+
    then show ?thesis
      by (auto simp: settled_def)
  next
    case (3 e)
    then have "r = Inl e"
      using assms conf by (simp add: after_change_def catch_def)
    then show ?thesis
      using 3 by (simp add: settled_def)
  qed
qed

lemma unchanging_now: "asks.grows unchanging (net_now E)"
  by (simp add: asks.grows_def net_now_def only_def)

lemma unchanging_loop: "asks.grows unchanging (net_loop E T p end_time n)"
  by (induction n) (auto intro!: asks_rules unchanging_admin unchanging_now)

lemma unchanging_after: "asks.grows unchanging (after_change E T)"
  unfolding after_change_def confirm_wifi_def net_wait_def reraise_def
  by (intro asks_rules unchanging_admin unchanging_now unchanging_loop) simp_all

lemma prepared_values:
  assumes "wifi_prepare E T v s = (Inr (ssid, pw), t)"
  shows "getitem v ''wifi_ssid'' = Inr ssid \<and> getitem v ''wifi_password'' = Inr pw"
  using assms by (auto simp: wifi_prepare_def andthen_def bind_Inr_iff act_run)

text \<open>
  C20. The network step, request by request. It sends at most one PATCH, which sets the private
  name and password. Without it the step raises. When the gateway does not answer it with a 200 and a
  JSON body (or the request raises), it is the last request and the step raises: no rollback is
  asked for, whatever the gateway did. When it does, the change is confirmed or undone: the step
  returns only a state in which the device is connected, right after asking for the confirmation;
  and it raises only right after asking for the rollback, unless it was interrupted.
\<close>

theorem wifi_change_settled:
  assumes "wifi E T v s = (r, t)"
  shows "\<exists>front. list_all unchanging front
    \<and> (mg_calls t = mg_calls s @ front \<and> (\<exists>e. r = Inl e)
     \<or> (\<exists>ssid pw rest. mg_calls t = mg_calls s @ front @ wifi_call T ssid pw # rest \<and> list_all unchanging rest
          \<and> getitem v ''wifi_ssid'' = Inr ssid \<and> getitem v ''wifi_password'' = Inr pw
          \<and> (if accepted E (mg_calls s @ front) (wifi_call T ssid pw) then settled T r t
             else rest = [] \<and> (\<exists>e. r = Inl e))))"
proof -
  obtain p u where prep: "wifi_prepare E T v s = (p, u)"
    by fastforce
  then obtain new where u: "mg_calls u = mg_calls s @ new" and new: "list_all unchanging new"
    using asks.growsD [OF unchanging_prepare, of s E T v] by (auto simp: only_def)
  show ?thesis
  proof (cases p)
    case (Inl e)
    then have "r = Inl e" "t = u"
      using assms prep by (simp_all add: wifi_def bind_def)
    then show ?thesis
      using u new by blast
  next
    case (Inr sp)
    obtain ssid pw where sp: "sp = (ssid, pw)"
      by fastforce
    obtain q w where set: "set_wifi E T ssid pw u = (q, w)"
      by fastforce
    have w: "mg_calls w = mg_calls s @ new @ [wifi_call T ssid pw]"
      using set u by (metis admin_calls append_assoc set_wifi_def snd_conv wifi_call_def)
    have q: "(\<exists>x. q = Inr x) = accepted E (mg_calls s @ new) (wifi_call T ssid pw)"
      using admin_accepted [of E T "''/config''" "''PATCH''"
          "Json (PDict [(''device'', PDict [(''wifi.ssid'', ssid), (''wifi.password'', pw)])])" u] set u
      by (simp add: set_wifi_def wifi_call_def)
    have rt: "(r, t) = (case q of Inl e \<Rightarrow> (Inl e, w) | Inr _ \<Rightarrow> after_change E T w)"
      using assms prep Inr sp set
      by (auto simp: wifi_def andthen_def bind_def after_change_def split: sum.splits)
    obtain rest where rest: "mg_calls t = mg_calls s @ new @ wifi_call T ssid pw # rest" "list_all unchanging rest"
        "if accepted E (mg_calls s @ new) (wifi_call T ssid pw) then settled T r t else rest = [] \<and> (\<exists>e. r = Inl e)"
    proof (cases q)
      case (Inl e)
      then show thesis
        using rt q w by (intro that [of "[]"]) simp_all
    next
      case (Inr x)
      obtain later where "mg_calls (snd (after_change E T w)) = mg_calls w @ later" "list_all unchanging later"
        using asks.growsD [OF unchanging_after, of w E T] by (auto simp: only_def)
      moreover have "after_change E T w = (r, t)" "accepted E (mg_calls s @ new) (wifi_call T ssid pw)"
        using rt q Inr by simp_all
      ultimately show thesis
        using after_change_settled w by (intro that [of later]) simp_all
    qed
    then show ?thesis
      using new prepared_values [of E T v s ssid pw u] prep Inr sp by blast
  qed
qed

section \<open>A passed report\<close>

definition unrecorded :: "net \<Rightarrow> net \<Rightarrow> bool" where
  "unrecorded s t \<longleftrightarrow> mg_cases t = mg_cases s"

interpretation still: net_order unrecorded E T for E T
  by unfold_locales (auto simp: unrecorded_def)

definition covered :: "string set \<Rightarrow> net \<Rightarrow> bool" where
  "covered A s \<longleftrightarrow> A \<subseteq> cr_name ` set (mg_cases s) \<and> none_failed s"

lemma still_cases: "still.grows m \<Longrightarrow> m s = (r, t) \<Longrightarrow> mg_cases t = mg_cases s"
  using still.growsD [of m s] by (simp add: unrecorded_def)

lemma covered_still: "still.grows m \<Longrightarrow> yields (covered A) (covered A) m"
  by (simp add: yields_def covered_def none_failed_def) (metis still_cases)

lemma covered_case:
  assumes "still.grows m"
  shows "yields (covered A) (covered (insert n A)) (run_case san n m)"
  unfolding yields_def
proof (intro allI impI)
  fix s x t
  assume s: "covered A s" and run: "run_case san n m s = (Inr x, t)"
  obtain u where "m s = (Inr x, u)" and t: "t = add_case \<lparr>cr_name = n, cr_status = Some True, cr_evidence = san x, cr_error = []\<rparr> u"
    using run by (auto simp: run_case_def split: prod.splits sum.splits)
  then have "mg_cases u = mg_cases s"
    using still_cases [OF assms] by simp
  then show "covered (insert n A) t"
    using s by (auto simp: t covered_def none_failed_def add_case_def)
qed

lemma yields_weaken: "yields I J m \<Longrightarrow> (\<And>s. J s \<Longrightarrow> K s) \<Longrightarrow> yields I K m"
  by (auto simp: yields_def)

lemma covered_keep: "still.grows m \<Longrightarrow> yields (covered A) (covered A) (run_case san n m)"
  by (rule yields_weaken [OF covered_case]) (simp_all add: covered_def)

lemma covered_optional:
  "still.grows m \<Longrightarrow> yields (covered A) (covered A) (andthen (run_case san n m) (ret ()))"
  by (rule yields_andthen [OF covered_keep yields_pure(1)])

text \<open>The rules for steps that record no obligatory case.\<close>

lemmas cover_rules = yields_bind [where I = "covered A" and J = "covered A" and K = "covered A" for A]
  yields_andthen [where I = "covered A" and J = "covered A" and K = "covered A" for A]
  yields_if yields_pure covered_optional covered_still

lemma covered_connect: "yields (covered A) (covered A) (net_connect E T)"
  unfolding net_connect_def by (intro cover_rules still.net_rules)

lemma covered_last: "yields I (covered A) m \<Longrightarrow> yields I (covered A) (andthen m (ret ()))"
  by (rule yields_andthen [OF _ yields_pure(1)])

lemma covered_configure: "yields (covered A) (covered ({''fresh-authenticated-device'', ''configure-upstream'',
    ''save-upstream-credential'', ''wifi-IP-and-confirmed-configuration''} \<union> A)) (net_configure E T v)"
proof -
  have "yields (covered A) (covered (insert ''wifi-IP-and-confirmed-configuration'' (insert ''save-upstream-credential''
      (insert ''configure-upstream'' (insert ''fresh-authenticated-device'' A))))) (net_configure E T v)"
    unfolding net_configure_def
    by (rule yields_andthen [OF covered_case] covered_last [OF covered_case],
        intro still.net_rules still.grows_wait still.grows_wifi)+
  then show ?thesis
    by (simp add: insert_commute)
qed


definition upstream_cases :: "string set" where
  "upstream_cases = {''models-via-ESP32-TLS'', ''four-concurrent-model-queries'',
     ''upstream-resource-probe-files'', ''upstream-resource-probe-jobs''}"

lemma covered_chat: "yields (covered A) (covered A) (if \<not> ne_chat E then ret () else
    bind (lift (py_in ''deepseek-flash'' found)) (\<lambda>b.
    bind (if b then ret (PStr ''deepseek-flash'') else lift (first_item found)) (\<lambda>model.
    andthen (net_case ''bounded-nonstream-chat'' (normal_chat E T (chat_payload model)))
   (andthen (net_case ''bounded-SSE-chat'' (stream_chat E T (chat_payload model))) (ret ())))))"
  by (intro cover_rules(1,2,3,4,5) covered_keep still.grows_upstream)

lemma covered_upstream: "yields (covered A) (covered (upstream_cases \<union> A)) (net_upstream E T)"
proof -
  have "yields (covered A) (covered (insert ''upstream-resource-probe-jobs'' (insert ''upstream-resource-probe-files''
      (insert ''four-concurrent-model-queries'' (insert ''models-via-ESP32-TLS'' A))))) (net_upstream E T)"
    unfolding net_upstream_def
    by (rule yields_bind [OF yields_bind [OF covered_case [OF still.grows_models] yields_pure(2)]],
        rule yields_andthen [OF covered_case [OF still.grows_upstream(1)]],
        rule yields_andthen [OF covered_chat],
        rule yields_andthen [OF covered_case [OF still.grows_probe]],
        rule covered_last [OF covered_case [OF still.grows_probe]])
  then show ?thesis
    by (simp add: upstream_cases_def insert_commute)
qed

definition obligatory_cases :: "string set" where
  "obligatory_cases = {''fresh-authenticated-device'', ''configure-upstream'', ''save-upstream-credential'',
     ''wifi-IP-and-confirmed-configuration'', ''final-device-state''} \<union> upstream_cases"

lemma covered_steps: "yields (covered {}) (covered obligatory_cases) (net_steps E T v)"
proof (rule yields_weaken)
  show "yields (covered {}) (covered (insert ''final-device-state'' (upstream_cases \<union> ({''fresh-authenticated-device'',
      ''configure-upstream'', ''save-upstream-credential'', ''wifi-IP-and-confirmed-configuration''} \<union> {})))) (net_steps E T v)"
    unfolding net_steps_def
    by (rule yields_andthen [OF covered_connect], rule yields_andthen [OF covered_configure],
        rule yields_andthen [OF covered_upstream],
        rule yields_andthen [OF yields_if [OF yields_pure(1) covered_optional [OF still.grows_soak]]],
        rule covered_last [OF covered_case [OF still.grows_wait]])
  show "covered obligatory_cases s"
    if "covered (insert ''final-device-state'' (upstream_cases \<union> ({''fresh-authenticated-device'',
      ''configure-upstream'', ''save-upstream-credential'', ''wifi-IP-and-confirmed-configuration''} \<union> {}))) s" for s
    using that by (auto simp: covered_def obligatory_cases_def)
qed

lemma covered_run: "yields (covered {}) (covered obligatory_cases) (net_run E)"
  unfolding net_run_def
  by (intro yields_bind [where J = "covered {}"] yields_andthen [where J = "covered {}"] covered_steps
      covered_keep covered_still still.grows_rules)

text \<open>The flag of the report is set by the last step only.\<close>

lemma run_unpassed: "keeps (\<lambda>s. \<not> nt_passed s) (net_run E)"
proof -
  have steps: "keeps (\<lambda>s. \<not> nt_passed s) (net_steps E T v)" for T v
    using destined_steps [of E T v] by (simp add: keeps_def destined.grows_def destined_def)
  have start: "keeps (\<lambda>s. \<not> nt_passed s) (net_case n (bind (lift r) (\<lambda>x. ret (g x))))" for n g and r :: "string res"
    by (cases r) (simp_all add: keeps_def run_case_def act_run add_case_def)
  show ?thesis
    unfolding net_run_def by (intro keeps_intro steps start)
qed

text \<open>
  A passed report of the upstream check: the script returned 0, every case of the report has
  passed, and among them are the obligatory ones, from the authenticated device over the confirmed
  network change to the models and the final state of the device.
\<close>

lemma network_passed_sound:
  assumes "net_main E net_init = (r, t)" and "nt_passed t"
  shows "r = Inr 0 \<and> none_failed t \<and> obligatory_cases \<subseteq> cr_name ` set (mg_cases t)"
proof -
  obtain q u where run: "net_run E net_init = (q, u)"
    by fastforce
  have u: "\<not> nt_passed u"
    using keepsD [OF run_unpassed, of net_init E] run by (simp add: net_init_def)
  have main: "net_body E net_init = (case q of Inl e \<Rightarrow> (Inl e, u) | Inr _ \<Rightarrow> (Inr (), u\<lparr>nt_passed := True\<rparr>))"
    by (simp add: net_body_def andthen_def bind_def run act_run split: sum.splits)
  show ?thesis
  proof (cases q)
    case (Inl e)
    then have "\<not> nt_passed t"
      using assms(1) main u
      by (auto simp: net_main_def andthen_def bind_def catch_def act_run split: if_splits)
    then show ?thesis
      using assms(2) by blast
  next
    case (Inr x)
    have "covered {} net_init"
      by (simp add: covered_def none_failed_def net_init_def)
    then have "covered obligatory_cases u"
      using yieldsD [OF covered_run _ run [unfolded Inr]] by blast
    then show ?thesis
      using assms(1) main Inr
      by (auto simp: net_main_def andthen_def bind_def catch_def act_run covered_def none_failed_def)
  qed
qed


section \<open>Witnesses\<close>

text \<open>A device that answers every request with one document, which shows it connected and ready.\<close>

definition ready_doc :: pyval where
  "ready_doc = PDict
    [(''connection'', PDict [(''connected'', PBool True), (''paired'', PBool True), (''link'', PDict [(''session'', PStr ''s'')])]),
     (''device'', PDict [(''session'', PStr ''s''), (''pending'', PBool False), (''network'', PDict [(''connected'', PBool True)])]),
     (''data'', PList [PDict [(''id'', PStr ''m'')]])]"

definition secrets_doc :: pyval where
  "secrets_doc = PDict [(''wifi_ssid'', PStr ''lab''), (''wifi_password'', PStr ''p''),
     (''upstream_url'', PStr ''u''), (''upstream_key'', PStr ''k'')]"

definition ready_reply :: mreply where
  "ready_reply = \<lparr>mr_status = 200, mr_headers = [], mr_body = []\<rparr>"

definition ready_env :: net_env where
  "ready_env = \<lparr>ne_lib = \<lparr>json_loads = \<lambda>_. Some ready_doc, dumps = \<lambda>_. [], dumps_ascii = \<lambda>_. [],
       sha256 = \<lambda>_. [], repr_of = \<lambda>_. []\<rparr>, ne_up = \<lambda>_ _. Inr ready_reply, ne_cli = Inr \<circ> concat,
     ne_input = Inr secrets_doc, ne_pairing = Inr PNone, ne_port = ''COM4'', ne_chat = False, ne_soak = 0,
     ne_clock = \<lambda>_. 0\<rparr>"

definition succeeds :: "(net, 'a) act \<Rightarrow> 'a \<Rightarrow> bool" where
  "succeeds m x \<longleftrightarrow> (\<forall>s. \<exists>t. m s = (Inr x, t))"

lemma succeedsD: "succeeds m x \<Longrightarrow> \<exists>t. m s = (Inr x, t)"
  by (simp add: succeeds_def)

lemma succeeds_basic: "succeeds (ret x) x" "succeeds (modify u) ()" "succeeds (gets f) y \<longleftrightarrow> (\<forall>s. f s = y)"
  by (simp_all add: succeeds_def act_run)

lemma succeeds_lift: "r = Inr x \<Longrightarrow> succeeds (lift r) x"
  by (simp add: succeeds_def act_run)

lemma succeeds_bind:
  assumes m: "succeeds m x" and f: "succeeds (f x) y"
  shows "succeeds (bind m f) y"
  unfolding succeeds_def
proof
  fix s
  obtain t where t: "m s = (Inr x, t)"
    using succeedsD [OF m] by blast
  obtain u where "f x t = (Inr y, u)"
    using succeedsD [OF f] by blast
  then show "\<exists>u. bind m f s = (Inr y, u)"
    by (simp add: bind_def t)
qed

lemma succeeds_andthen: "succeeds m x \<Longrightarrow> succeeds n y \<Longrightarrow> succeeds (andthen m n) y"
  by (simp add: andthen_def succeeds_bind)

lemma succeeds_case:
  assumes "succeeds m x"
  shows "succeeds (run_case san n m) x"
  unfolding succeeds_def
proof
  fix s
  obtain t where "m s = (Inr x, t)"
    using succeedsD [OF assms] by blast
  then show "\<exists>t. run_case san n m s = (Inr x, t)"
    by (simp add: run_case_def)
qed

lemma succeeds_http: "expected = None \<or> expected = Some 200 \<Longrightarrow>
    succeeds (http ready_env T path method data own expected) ready_reply"
  by (auto simp: succeeds_def http_def bind_def send_def act_run ready_env_def ready_reply_def)

lemma succeeds_admin: "succeeds (admin ready_env T path method data) ready_doc"
  unfolding admin_def
  by (rule succeeds_bind [OF succeeds_http], simp, rule succeeds_lift) (simp add: loads_def ready_env_def)

lemma succeeds_wait:
  assumes "net_ready f ready_doc = Inr True" and "0 < seconds"
  shows "succeeds (net_wait ready_env T f seconds) ready_doc"
proof -
  obtain n where n: "2 * seconds = Suc n"
    using assms(2) by (cases "2 * seconds") auto
  have now: "succeeds (net_now ready_env) 0"
    by (simp add: succeeds_def net_now_def ready_env_def)
  have "succeeds (net_loop ready_env T f (of_nat seconds) (Suc n)) ready_doc"
    unfolding net_loop.simps
    by (rule succeeds_bind [OF now], subst if_not_P, use assms(2) in simp, rule succeeds_bind [OF succeeds_admin],
        rule succeeds_bind [OF succeeds_lift [OF assms(1)]]) (simp add: succeeds_basic)
  then show ?thesis
    unfolding net_wait_def n by (intro succeeds_bind [OF now]) simp
qed

lemma ready_docs: "net_ready any_state ready_doc = Inr True" "net_ready is_connected ready_doc = Inr True"
  by code_simp+

lemma succeeds_catch: "succeeds m x \<Longrightarrow> succeeds (catch c m h) x"
  unfolding succeeds_def catch_def by (metis (no_types, lifting) case_prod_conv old.sum.simps(6))

lemma succeeds_wifi: "succeeds (wifi ready_env T secrets_doc) ready_doc"
proof -
  have docs: "\<exists>d. getitem ready_doc ''device'' = Inr d \<and> flag_at d [''pending''] = Inr False"
    "getitem secrets_doc ''wifi_ssid'' = Inr (PStr ''lab'')" "getitem secrets_doc ''wifi_password'' = Inr (PStr ''p'')"
    by (simp_all add: ready_doc_def secrets_doc_def flag_at_def)
  then obtain d where d: "getitem ready_doc ''device'' = Inr d" "flag_at d [''pending''] = Inr False"
    by blast
  have prepared: "succeeds (wifi_prepare ready_env T secrets_doc) (PStr ''lab'', PStr ''p'')"
    unfolding wifi_prepare_def
    by (rule succeeds_bind, rule succeeds_bind [OF succeeds_admin], rule succeeds_lift [OF d(1)],
        rule succeeds_bind [OF succeeds_lift [OF d(2)]], rule succeeds_andthen, simp only: if_False,
        rule succeeds_basic, rule succeeds_bind [OF succeeds_lift [OF docs(2)]],
        rule succeeds_bind [OF succeeds_lift [OF docs(3)]], rule succeeds_basic)
  have confirmed: "succeeds (confirm_wifi ready_env T) ready_doc"
    unfolding confirm_wifi_def
    by (rule succeeds_bind [OF succeeds_wait [OF ready_docs(2)]], simp,
        rule succeeds_andthen [OF succeeds_admin succeeds_basic(1)])
  show ?thesis
    unfolding wifi_def set_wifi_def
    by (rule succeeds_bind [OF prepared], simp only: prod.case,
        rule succeeds_andthen [OF succeeds_admin succeeds_catch [OF confirmed]])
qed

lemma wifi_change_settled_witness:
  "\<exists>t front rest. wifi ready_env \<lparr>tk_admin = ''a'', tk_api = ''b''\<rparr> secrets_doc net_init = (Inr ready_doc, t)
     \<and> mg_calls t = front @ wifi_call \<lparr>tk_admin = ''a'', tk_api = ''b''\<rparr> (PStr ''lab'') (PStr ''p'') # rest
     \<and> list_all unchanging (front @ rest) \<and> is_connected ready_doc = Inr True
     \<and> last (mg_calls t) = net_call \<lparr>tk_admin = ''a'', tk_api = ''b''\<rparr> ''/config/confirm'' ''POST'' Empty True"
proof -
  let ?T = "\<lparr>tk_admin = ''a'', tk_api = ''b''\<rparr>"
  obtain t where run: "wifi ready_env ?T secrets_doc net_init = (Inr ready_doc, t)"
    using succeedsD [OF succeeds_wifi] by blast
  have "getitem secrets_doc ''wifi_ssid'' = Inr (PStr ''lab'')" "getitem secrets_doc ''wifi_password'' = Inr (PStr ''p'')"
    by (simp_all add: secrets_doc_def)
  with wifi_change_settled [OF run] obtain front rest where "list_all unchanging front" "list_all unchanging rest"
    "mg_calls t = mg_calls net_init @ front @ wifi_call ?T (PStr ''lab'') (PStr ''p'') # rest"
    "settled ?T (Inr ready_doc) t" by (auto split: if_splits)
  then show ?thesis
    using run by (intro exI [of _ t] exI [of _ front] exI [of _ rest]) (simp add: net_init_def settled_def)
qed

lemma succeeds_only: "succeeds m x \<Longrightarrow> succeeds (andthen (run_case san n m) (ret ())) ()"
  by (rule succeeds_andthen [OF succeeds_case succeeds_basic(1)])

lemma succeeds_connect: "succeeds (net_connect ready_env T) ()"
proof -
  have "rbind (pyget ready_doc ''connection'' (PDict [])) (\<lambda>c. pyget c ''connected'' PNone) = Inr (PBool True)"
    "rbind (pyget ready_doc ''connection'' (PDict [])) (\<lambda>c. pyget c ''paired'' PNone) = Inr (PBool True)"
    by (simp_all add: ready_doc_def)
  note docs = this
  show ?thesis
    unfolding net_connect_def
    by (rule succeeds_bind [OF succeeds_admin], rule succeeds_bind [OF succeeds_lift [OF docs(1)]],
        rule succeeds_andthen, simp only: truthy.simps if_True, rule succeeds_basic(1),
        rule succeeds_bind [OF succeeds_admin], rule succeeds_bind [OF succeeds_lift [OF docs(2)]])
      (simp add: succeeds_basic)
qed

lemma succeeds_configure: "succeeds (net_configure ready_env T secrets_doc) ()"
proof -
  have docs: "getitem secrets_doc ''upstream_url'' = Inr (PStr ''u'')" "getitem secrets_doc ''upstream_key'' = Inr (PStr ''k'')"
    by (simp_all add: secrets_doc_def)
  have "succeeds (bind (lift (getitem secrets_doc ''upstream_url'')) (\<lambda>u. admin ready_env T p m (f u))) ready_doc"
    "succeeds (bind (lift (getitem secrets_doc ''upstream_key'')) (\<lambda>u. admin ready_env T p m (f u))) ready_doc" for p m f
    by (rule succeeds_bind [OF succeeds_lift [OF docs(1)] succeeds_admin],
        rule succeeds_bind [OF succeeds_lift [OF docs(2)] succeeds_admin])
  note steps = this
  show ?thesis
    unfolding net_configure_def
    by (rule succeeds_andthen [OF succeeds_case [OF succeeds_wait [OF ready_docs(1)]]], simp,
        rule succeeds_andthen [OF succeeds_case [OF steps(1)]], rule succeeds_andthen [OF succeeds_case [OF steps(2)]],
        rule succeeds_only [OF succeeds_wifi])
qed

lemma succeeds_models: "succeeds (models ready_env T) (PDict [(''models'', PList [PStr ''m''])])"
proof -
  have ids: "rbind (loads (ne_lib ready_env) (mr_body ready_reply)) (\<lambda>v. rbind (rbind (getitem v ''data'') iterate)
      (rmap (\<lambda>m. getitem m ''id''))) = Inr [PStr ''m'']"
    by (simp add: ready_env_def loads_def ready_doc_def)
  have list: "succeeds (assert_that ([PStr ''m''] \<noteq> []) ''empty model list'') ()"
    by (simp add: succeeds_basic)
  show ?thesis
    unfolding models_def
    by (rule succeeds_bind [OF succeeds_http], simp, rule succeeds_bind [OF succeeds_lift [OF ids]],
        rule succeeds_andthen [OF list succeeds_basic(1)])
qed

lemma succeeds_all:
  assumes "succeeds m x"
  shows "succeeds (try_all n m) (replicate n (Inr x))"
proof (induction n)
  case (Suc n)
  show ?case
    unfolding succeeds_def
  proof
    fix s
    obtain t where "m s = (Inr x, t)"
      using succeedsD [OF assms] by blast
    moreover obtain u where "try_all n m t = (Inr (replicate n (Inr x)), u)"
      using succeedsD [OF Suc] by blast
    ultimately show "\<exists>t. try_all (Suc n) m s = (Inr (replicate (Suc n) (Inr x)), t)"
      by simp
  qed
qed (simp add: succeeds_def)

lemma succeeds_parallel: "\<exists>v. succeeds (parallel_models ready_env T) v"
proof -
  have "rmap id (replicate 4 (Inr x)) = Inr (replicate 4 x)" for x :: pyval
    by (simp add: numeral_eq_Suc)
  then show ?thesis
    unfolding parallel_models_def
    by (blast intro: succeeds_bind succeeds_all succeeds_models succeeds_lift succeeds_basic(1))
qed

lemma succeeds_upstream: "succeeds (net_upstream ready_env T) ()"
proof -
  obtain v where v: "succeeds (parallel_models ready_env T) v"
    using succeeds_parallel by blast
  have "\<exists>w. succeeds (probe ready_env T path) w" for path
    unfolding probe_def Let_def
    by (rule exI, rule succeeds_bind [OF succeeds_http], simp, rule succeeds_basic(1))
  then obtain w1 w2 where w: "succeeds (probe ready_env T ''/v1/files'') w1" "succeeds (probe ready_env T ''/v1/fine_tuning/jobs'') w2"
    by blast
  have found: "getitem (PDict [(''models'', PList [PStr ''m''])]) ''models'' = Inr (PList [PStr ''m''])"
    by simp
  show ?thesis
    unfolding net_upstream_def
    by (rule succeeds_bind, rule succeeds_bind [OF succeeds_case [OF succeeds_models]], rule succeeds_lift [OF found],
        rule succeeds_andthen [OF succeeds_case [OF v]], rule succeeds_andthen, simp add: ready_env_def succeeds_basic,
        rule succeeds_andthen [OF succeeds_case [OF w(1)]], rule succeeds_only [OF w(2)])
qed

lemma succeeds_net_run: "succeeds (net_run ready_env) ()"
proof -
  have input: "ne_input ready_env = Inr secrets_doc" and cli: "ne_cli ready_env args = Inr (concat args)" for args
    by (simp_all add: ready_env_def)
  have steps: "succeeds (net_steps ready_env T secrets_doc) ()" for T
    unfolding net_steps_def
    by (rule succeeds_andthen [OF succeeds_connect], rule succeeds_andthen [OF succeeds_configure],
        rule succeeds_andthen [OF succeeds_upstream], rule succeeds_andthen, simp add: ready_env_def succeeds_basic,
        rule succeeds_only [OF succeeds_wait [OF ready_docs(1)]], simp)
  show ?thesis
    unfolding net_run_def
    by (rule succeeds_bind [OF succeeds_lift [OF input]], rule succeeds_andthen [OF succeeds_lift [OF cli]],
        rule succeeds_andthen [OF succeeds_case], rule succeeds_bind [OF succeeds_lift [OF cli] succeeds_basic(1)],
        rule succeeds_bind [OF succeeds_lift [OF cli]], rule succeeds_bind [OF succeeds_lift [OF cli]], rule steps)
qed

lemma network_passed_sound_witness:
  "\<exists>t. net_main ready_env net_init = (Inr 0, t) \<and> none_failed t \<and> ''wifi-IP-and-confirmed-configuration'' \<in> cr_name ` set (mg_cases t)"
proof -
  obtain u where "net_run ready_env net_init = (Inr (), u)"
    using succeedsD [OF succeeds_net_run] by blast
  then have run: "net_main ready_env net_init = (Inr 0, u\<lparr>nt_passed := True\<rparr>)"
    by (simp add: net_main_def net_body_def andthen_def bind_def catch_def act_run)
  show ?thesis
    using network_passed_sound [OF run] run by (auto simp: obligatory_cases_def)
qed

end
