(* ===== verification/Settings.thy ===== *)
theory Settings
  imports Runner Manage
begin

text \<open>
  The two scripts that change settings of the Harness: \<^verbatim>\<open>harness-configure.py\<close>, which adds the
  local provider once, and \<^verbatim>\<open>harness-search-check.py\<close>, which points the search at the local
  endpoint for one probe and restores the fields it changed. Both use the RPC of the runner.
\<close>

section \<open>Namespaces\<close>

definition describe :: "'w env \<Rightarrow> ('w, pyval list) run" where
  "describe E = bind (call E ''settings/describe'' (PDict [])) (\<lambda>v. lift (rbind (getitem v ''namespaces'') iterate))"

text \<open>\<^verbatim>\<open>{n['ns']: n for n in ..}[name]\<close>: the last entry of that name.\<close>

definition space_key :: "pyval \<Rightarrow> (pyval \<times> pyval) res" where
  "space_key n = rbind (getitem n ''ns'') (\<lambda>k.
     if hashable k then Inr (k, n) else Inl (Exc TypeError ''unhashable''))"

definition space_named :: "string \<Rightarrow> (pyval \<times> pyval) list \<Rightarrow> pyval res" where
  "space_named name kvs = (case find (\<lambda>kv. fst kv = PStr name) (rev kvs) of
     None \<Rightarrow> Inl (Exc KeyError name) | Some kv \<Rightarrow> Inr (snd kv))"

text \<open>\<^verbatim>\<open>next(n for n in .. if n['ns'] == name)\<close>: the first one.\<close>

fun next_named :: "string \<Rightarrow> pyval list \<Rightarrow> pyval res" where
  "next_named name [] = Inl (Exc StopIteration [])"
| "next_named name (n # ns) = rbind (getitem n ''ns'') (\<lambda>k. if k = PStr name then Inr n else next_named name ns)"

definition local_base :: string where
  "local_base = ''http://127.0.0.1:8765/v1''"

definition set_op :: "string list \<Rightarrow> pyval \<Rightarrow> pyval" where
  "set_op path v = PDict [(''op'', PStr ''set''), (''path'', PList (map PStr path)), (''value'', v)]"

definition unset_op :: "string list \<Rightarrow> pyval" where
  "unset_op path = PDict [(''op'', PStr ''unset''), (''path'', PList (map PStr path))]"

definition mutate_args :: "pyval \<Rightarrow> pyval \<Rightarrow> pyval list \<Rightarrow> pyval" where
  "mutate_args ns revision ops = PDict [(''ns'', ns), (''expectedRevision'', revision), (''ops'', PList ops)]"

definition mutate :: "'w env \<Rightarrow> pyval \<Rightarrow> pyval \<Rightarrow> pyval list \<Rightarrow> ('w, pyval) run" where
  "mutate E ns revision ops = call E ''settings/mutate'' (mutate_args ns revision ops)"

section \<open>Adding the provider\<close>

definition model_profile :: "string \<Rightarrow> pyval" where
  "model_profile m = PDict [(''id'', PStr m), (''contextWindow'', PInt 1000000), (''maxTokens'', PInt 8192),
     (''input'', PList (if m = ''deepseek-flash'' then [PStr ''text'', PStr ''image''] else [PStr ''text''])),
     (''reasoningEfforts'', PDict [(''off'', PStr ''off''), (''high'', PStr ''high''), (''max'', PStr ''max'')])]"

definition display_name :: string where
  "display_name = ''uart2llm '' @ [CHR 0xE6, CHR 0x9C, CHR 0xAC, CHR 0xE5, CHR 0x9C, CHR 0xB0,
     CHR 0xE4, CHR 0xBB, CHR 0xA3, CHR 0xE7, CHR 0x90, CHR 0x86]"

definition profile :: "string \<Rightarrow> pyval" where
  "profile key_env = PDict [(''displayName'', PStr display_name), (''api'', PStr ''openai-completions''),
     (''baseURL'', PStr local_base), (''apiKeyEnv'', PStr key_env),
     (''models'', PList (map model_profile [''deepseek-flash'', ''deepseek-v4-pro''])),
     (''reasoning'', PStr ''off''), (''defaultMaxTokens'', PInt 8192),
     (''compat'', PDict [(''thinkingFormat'', PStr ''deepseek''), (''requiresReasoningContentOnAssistantMessages'', PBool True),
        (''supportsDeveloperRole'', PBool False), (''maxTokensField'', PStr ''max_tokens''), (''supportsStore'', PBool False),
        (''supportsUsageInStreaming'', PBool True), (''supportsReasoningEffort'', PBool True)]),
     (''retryPolicy'', PDict [(''mode'', PStr ''normal''), (''maxRetries'', PInt 0)])]"

definition discover :: "'w env \<Rightarrow> string \<Rightarrow> ('w, pyval) run" where
  "discover E token = call E ''llm/discoverModels'' (PDict [(''settingsNs'', PStr ''llm-pi-ai''),
     (''request'', PDict [(''provider'', PStr PROVIDER), (''baseURL'', PStr local_base),
        (''api'', PStr ''openai-completions''), (''apiKey'', PStr token)])])"

definition credential_status :: "'w env \<Rightarrow> pyval \<Rightarrow> ('w, pyval) run" where
  "credential_status E ref = call E ''credentials/describe'' (PDict [(''refs'', PList [ref])])"

text \<open>\<^verbatim>\<open>d[ref]\<close> where \<^verbatim>\<open>ref\<close> is a value: JSON objects have string keys only.\<close>

definition item_at :: "pyval \<Rightarrow> pyval \<Rightarrow> pyval res" where
  "item_at v k = (case k of PStr s \<Rightarrow> getitem v s | _ \<Rightarrow> Inl (Exc (if is_dict v \<and> hashable k then KeyError else TypeError) ''key''))"

text \<open>A provider that exists is inspected, never changed.\<close>

definition keep_existing :: "'w env \<Rightarrow> pyval \<Rightarrow> ('w, unit) run" where
  "keep_existing E existing =
     bind (lift (pyget existing ''baseURL'' PNone)) (\<lambda>base.
     if \<not> py_eq base (PStr local_base) then raise RuntimeError ''Existing uart2llm provider points elsewhere; preserved''
     else bind (lift (pyget existing ''apiKeyEnv'' PNone)) (\<lambda>ref.
       bind (if \<not> truthy ref then ret False
             else bind (credential_status E ref) (\<lambda>status.
               lift (rbind (item_at status ref) (\<lambda>s. flag_at s [''configured''])))) (\<lambda>configured.
       if \<not> configured then raise RuntimeError ''Existing provider credential is missing; repair it in Harness settings''
       else ret ())))"

text \<open>A new provider gets a credential of its own name, set before the settings refer to it.\<close>

definition fresh_ref :: "string \<Rightarrow> string" where
  "fresh_ref unique = ''UART2LLM_API_KEY_'' @ unique"

definition add_provider :: "'w env \<Rightarrow> string \<Rightarrow> string \<Rightarrow> (pyval \<times> pyval) list \<Rightarrow> ('w, unit) run" where
  "add_provider E token unique sections =
     (let ref = fresh_ref unique in
      andthen (call E ''credentials/set'' (PDict [(''ref'', PStr ref), (''value'', PStr token)]))
     (bind (lift (rbind (space_named ''llm-pi-ai'' sections) (\<lambda>n. getitem n ''revision''))) (\<lambda>revision.
      andthen (mutate E (PStr ''llm-pi-ai'') revision [set_op [''providers'', PROVIDER] (profile ref)])
     (andthen (credential_status E (PStr ref))
     (bind (describe E) (\<lambda>namespaces.
      bind (lift (rbind (next_named ''llm-pi-ai'' namespaces) (\<lambda>n. path_at n [''value'', ''providers'', PROVIDER]))) (\<lambda>_.
      ret ())))))))"

definition existing_provider :: "(pyval \<times> pyval) list \<Rightarrow> pyval res" where
  "existing_provider sections =
     rbind (space_named ''llm-pi-ai'' sections) (\<lambda>n. rbind (getitem n ''value'') (\<lambda>v.
     rbind (pyget v ''providers'' (PDict [])) (\<lambda>ps. pyget ps PROVIDER PNone)))"

definition configure :: "'w env \<Rightarrow> string \<Rightarrow> string \<Rightarrow> ('w, unit) run" where
  "configure E token unique =
     bind (bind (describe E) (\<lambda>ns. lift (rmap space_key ns))) (\<lambda>sections.
     andthen (discover E token)
    (bind (lift (existing_provider sections)) (\<lambda>existing.
     if existing \<noteq> PNone then keep_existing E existing else add_provider E token unique sections)))"

section \<open>The search probe\<close>

record 'w search =
  se_runner :: "'w runner"
  se_checks :: checks
  se_changed :: bool
  se_codes :: "string list option"
  se_error :: "pydict option"
  se_restore_error :: "pydict option"
  se_conflict :: bool
  se_cleanup :: "pydict list"

type_synonym ('w, 'a) probe_run = "('w search, 'a) act"

definition search_init :: "'w search" where
  "search_init = \<lparr>se_runner = runner_init, se_checks = [], se_changed = False, se_codes = None, se_error = None,
     se_restore_error = None, se_conflict = False, se_cleanup = []\<rparr>"

definition in_runner :: "('w, 'a) run \<Rightarrow> ('w, 'a) probe_run" where
  "in_runner m s = (case m (se_runner s) of (r, t) \<Rightarrow> (r, s\<lparr>se_runner := t\<rparr>))"

definition note_checks :: "checks \<Rightarrow> ('w, unit) probe_run" where
  "note_checks new = modify (\<lambda>s. s\<lparr>se_checks := add_checks new (se_checks s)\<rparr>)"

text \<open>
  What the script read before its change: the namespace, the route it sets, the user's fields and
  the operations that put them back.
\<close>

record plan =
  pl_space :: pyval
  pl_before :: pyval
  pl_route :: pydict
  pl_restore :: "pyval list"

definition search_space :: string where
  "search_space = ''web-search-deepseek''"

definition restore_op :: "pyval \<Rightarrow> string \<Rightarrow> pyval res" where
  "restore_op before k = rbind (py_in k before) (\<lambda>b.
     if b then rbind (getitem before k) (\<lambda>v. Inr (set_op [k] v)) else Inr (unset_op [k]))"

definition make_plan :: "'w env \<Rightarrow> ('w, plan) run" where
  "make_plan E =
     bind (bind (describe E) (\<lambda>ns. lift (rmap space_key ns))) (\<lambda>namespaces.
     bind (lift (space_named search_space namespaces)) (\<lambda>n.
     bind (lift (rbind (rbind (pyget n ''secrets'' (PList [])) iterate) (rany (\<lambda>s. flag_at s [''set''])))) (\<lambda>literal.
     if literal then raise RuntimeError ''Literal search credential exists; preserve it and stop this probe'' else
     bind (call E ''session/list'' (PDict [(''_request'', PDict [])])) (\<lambda>sessions.
     bind (lift (rbind (rbind (getitem sessions ''items'') iterate) (rany (\<lambda>s. flag_at s [''running''])))) (\<lambda>busy.
     if busy then raise RuntimeError ''Wait for existing Harness tasks before temporary search configuration'' else
     bind (lift (rbind (space_named ''llm-pi-ai'' namespaces) (\<lambda>l. path_at l [''value'', ''providers'', PROVIDER]))) (\<lambda>provider.
     bind (lift (pyget provider ''apiKeyEnv'' PNone)) (\<lambda>ref.
     bind (lift (pyget provider ''baseURL'' PNone)) (\<lambda>base.
     if \<not> py_eq base (PStr local_base) \<or> \<not> truthy ref
     then raise RuntimeError ''Expected the configured local provider; preserve search configuration'' else
     bind (lift (pyget n ''user'' (PDict []))) (\<lambda>before.
     bind (lift (rmap (restore_op before) [''baseURL'', ''apiKeyEnv''])) (\<lambda>ops.
     ret \<lparr>pl_space = n, pl_before = before,
          pl_route = [(''baseURL'', PStr ''http://127.0.0.1:8765/anthropic/v1''), (''apiKeyEnv'', ref)],
          pl_restore = ops\<rparr>))))))))))"

definition search_prompt :: string where
  "search_prompt = ''Test the installed web_search tool exactly once: search for ''
     @ ''ESP32-S3 official technical documentation. Do not answer from memory and do not use ''
     @ ''web_fetch, shell, another provider or a fallback. If it fails, report that failure briefly. ''
     @ ''Do not change endpoint settings or ask me a question; this is a controlled transport test.''"

definition code_words :: "string list" where
  "code_words = [''unsupported_endpoint'', ''404'', ''WEB_PROVIDER_ERROR'']"

definition record_codes :: "pyval \<Rightarrow> string list res" where
  "record_codes record =
     rbind (pyget record ''event'' (PDict [])) (\<lambda>e.
     rbind (pyget e ''type'' PNone) (\<lambda>kind.
     if kind \<noteq> PStr ''tool/result'' then Inr [] else
     rbind (pyget e ''data'' (PDict [])) (\<lambda>d. rbind (pyget d ''message'' (PDict [])) (\<lambda>m.
     rbind (pyget m ''content'' PNone) (\<lambda>content.
       Inr (filter (\<lambda>w. contains w (join [CHR 0x0A] (text_blocks content))) code_words))))))"

definition is_search :: "pydict \<Rightarrow> bool" where
  "is_search t \<longleftrightarrow> map_of t ''name'' = Some (PStr ''web_search'')"

definition search_failed :: "pydict \<Rightarrow> bool" where
  "search_failed t \<longleftrightarrow> (case map_of t ''is_error'' of None \<Rightarrow> False | Some v \<Rightarrow> truthy v)"

definition search_checks :: "pyval \<Rightarrow> pydict list \<Rightarrow> string list \<Rightarrow> checks" where
  "search_checks reason ts errors = (let search = filter is_search ts in
     [(''model_turn_completed'', reason = PStr ''completed''),
      (''native_search_tool_called'', length search = 1),
      (''native_search_failed'', search \<noteq> [] \<and> list_all search_failed search),
      (''unsupported_local_route_confirmed'', ''unsupported_endpoint'' \<in> set errors),
      (''no_fetch_or_shell_fallback'', list_all is_search ts)])"

definition search_turn :: "'w env \<Rightarrow> ('w, unit) probe_run" where
  "search_turn E =
     bind (in_runner (create E)) (\<lambda>i.
     bind (in_runner (prompt E i search_prompt)) (\<lambda>reason.
     bind (gets (\<lambda>s. rn_follows (se_runner s) ! i)) (\<lambda>f.
     bind (in_runner (call E ''session/page'' (request [(''address'', address f),
        (''throughSeq'', PInt (cursor f)), (''maxMessages'', PInt 100)]))) (\<lambda>page.
     bind (lift (rbind (rbind (getitem page ''records'') iterate) (rmap record_codes))) (\<lambda>codes.
     bind (gets (\<lambda>s. map snd (tools (rn_follows (se_runner s) ! i)))) (\<lambda>ts.
     let errors = concat codes in
     andthen (note_checks (search_checks reason ts errors))
       (modify (\<lambda>s. s\<lparr>se_codes := Some (sort (remdups errors))\<rparr>))))))))"

definition probe_search :: "'w env \<Rightarrow> plan \<Rightarrow> ('w, unit) probe_run" where
  "probe_search E p =
     bind (lift (getitem (pl_space p) ''ns'')) (\<lambda>ns.
     bind (lift (getitem (pl_space p) ''revision'')) (\<lambda>revision.
     andthen (in_runner (mutate E ns revision (map (\<lambda>(k, v). set_op [k] v) (pl_route p))))
    (andthen (modify (\<lambda>s. s\<lparr>se_changed := True\<rparr>)) (search_turn E))))"

definition same_route :: "plan \<Rightarrow> pyval \<Rightarrow> bool res" where
  "same_route p current = rall (\<lambda>(k, v). rbind (getitem current ''value'') (\<lambda>c.
     rbind (pyget c k PNone) (\<lambda>w. Inr (py_eq w v)))) (pl_route p)"

definition same_field :: "pyval \<Rightarrow> pyval \<Rightarrow> string \<Rightarrow> bool res" where
  "same_field before actual k = rbind (py_in k actual) (\<lambda>a. rbind (py_in k before) (\<lambda>b.
     rand (Inr (a = b)) (rbind (pyget actual k PNone) (\<lambda>v. rbind (pyget before k PNone) (\<lambda>w. Inr (py_eq v w))))))"

definition same_user :: "plan \<Rightarrow> pyval \<Rightarrow> bool res" where
  "same_user p restored = rbind (pyget restored ''user'' (PDict [])) (\<lambda>actual.
     rall (same_field (pl_before p) actual) (map fst (pl_route p)))"

text \<open>The fields are restored only if they still hold what the script had set.\<close>

definition restore_search :: "'w env \<Rightarrow> plan \<Rightarrow> ('w, unit) probe_run" where
  "restore_search E p =
     bind (bind (in_runner (describe E)) (\<lambda>ns. lift (next_named search_space ns))) (\<lambda>current.
     bind (lift (same_route p current)) (\<lambda>ours.
     if ours then
       bind (lift (getitem (pl_space p) ''ns'')) (\<lambda>ns.
       bind (lift (getitem current ''revision'')) (\<lambda>revision.
       andthen (in_runner (mutate E ns revision (pl_restore p)))
      (bind (bind (in_runner (describe E)) (\<lambda>ns. lift (next_named search_space ns))) (\<lambda>restored.
       bind (lift (same_user p restored)) (\<lambda>b. note_checks [(''configuration_restored'', b)])))))
     else andthen (note_checks [(''configuration_restored'', False)]) (modify (\<lambda>s. s\<lparr>se_conflict := True\<rparr>))))"

definition end_search :: "'w env \<Rightarrow> plan \<Rightarrow> ('w, unit) probe_run" where
  "end_search E p =
     bind (in_runner (cleanup E)) (\<lambda>es.
     andthen (modify (\<lambda>s. s\<lparr>se_cleanup := es\<rparr>))
    (bind (gets se_changed) (\<lambda>changed.
     when_do changed (catch is_exception (restore_search E p)
       (\<lambda>e. andthen (note_checks [(''configuration_restored'', False)])
              (modify (\<lambda>s. s\<lparr>se_restore_error := Some (safe_error (en_lib E) e)\<rparr>)))))))"

definition search_main :: "'w env \<Rightarrow> ('w, int) probe_run" where
  "search_main E =
     bind (in_runner (make_plan E)) (\<lambda>p.
     andthen (finally_do (catch is_exception (probe_search E p)
         (\<lambda>e. modify (\<lambda>s. s\<lparr>se_error := Some (safe_error (en_lib E) e)\<rparr>))) (end_search E p))
       (ret 1))"

end
