(* ===== verification/SettingsProps.thy ===== *)
theory SettingsProps
  imports Settings
begin

text \<open>
  What the two scripts leave of the user's settings: an existing provider is never changed, a new
  one refers to a credential of its own, and the search probe either shows the user's fields back
  as they were or says that it could not.
\<close>

section \<open>The provider\<close>

definition asked :: "(string \<times> pyval \<Rightarrow> bool) \<Rightarrow> 'w runner \<Rightarrow> 'w runner \<Rightarrow> bool" where
  "asked P s t \<longleftrightarrow> (\<exists>new. rn_calls t = rn_calls s @ new \<and> list_all P new)"

interpretation rpc: state_order "asked P" for P
proof unfold_locales
  show "asked P s s" for s
    by (simp add: asked_def)
  show "asked P s t \<Longrightarrow> asked P t u \<Longrightarrow> asked P s u" for s t u
    by (auto simp: asked_def)
qed

lemma rpc_call: "P (m, args) \<Longrightarrow> rpc.grows P (call E m args)"
  by (simp add: rpc.grows_def call_def asked_def)

lemma asked_calls: "rpc.grows P m \<Longrightarrow> list_all P (rn_calls s) \<Longrightarrow> list_all P (rn_calls (snd (m s)))"
  by (drule rpc.growsD [of P m s]) (auto simp: asked_def)

text \<open>Requests that change nothing, and the two changes of a new provider.\<close>

definition reading :: "string \<times> pyval \<Rightarrow> bool" where
  "reading c \<longleftrightarrow> fst c \<in> {''settings/describe'', ''llm/discoverModels'', ''credentials/describe''}"

definition own_credential :: "string \<Rightarrow> string \<Rightarrow> string \<times> pyval \<Rightarrow> bool" where
  "own_credential token unique c \<longleftrightarrow>
     c = (''credentials/set'', PDict [(''ref'', PStr (fresh_ref unique)), (''value'', PStr token)])"

definition own_provider :: "string \<Rightarrow> string \<times> pyval \<Rightarrow> bool" where
  "own_provider unique c \<longleftrightarrow> (\<exists>revision. c = (''settings/mutate'', mutate_args (PStr ''llm-pi-ai'') revision
     [set_op [''providers'', PROVIDER] (profile (fresh_ref unique))]))"

definition allowed :: "string \<Rightarrow> string \<Rightarrow> string \<times> pyval \<Rightarrow> bool" where
  "allowed token unique c \<longleftrightarrow> reading c \<or> own_credential token unique c \<or> own_provider unique c"

lemma reading_ops:
  "rpc.grows reading (describe E)" "rpc.grows reading (discover E token)"
  "rpc.grows reading (credential_status E ref)" "rpc.grows reading (keep_existing E existing)"
  unfolding describe_def discover_def credential_status_def keep_existing_def
  by (intro rpc.grows_rules rpc_call; simp add: reading_def)+

lemma allowed_reading: "rpc.grows reading m \<Longrightarrow> rpc.grows (allowed token unique) m"
  by (auto simp: rpc.grows_def asked_def allowed_def list_all_iff) metis

lemma allowed_add: "rpc.grows (allowed token unique) (add_provider E token unique sections)"
  unfolding add_provider_def mutate_def Let_def
  by (intro rpc.grows_rules rpc_call allowed_reading reading_ops)
    (auto simp: allowed_def own_credential_def own_provider_def)

lemma allowed_configure: "rpc.grows (allowed token unique) (configure E token unique)"
  unfolding configure_def by (intro rpc.grows_rules allowed_add allowed_reading reading_ops)

text \<open>The provider that the first description of the settings shows.\<close>

definition described_provider :: "'w env \<Rightarrow> pyval res" where
  "described_provider E = rbind (rbind (rbind (en_server E [] ''settings/describe'' (PDict [])) (\<lambda>v.
     rbind (getitem v ''namespaces'') iterate)) (rmap space_key)) existing_provider"

definition first_sections :: "'w env \<Rightarrow> (pyval \<times> pyval) list res" where
  "first_sections E = rbind (rbind (en_server E [] ''settings/describe'' (PDict [])) (\<lambda>v.
     rbind (getitem v ''namespaces'') iterate)) (rmap space_key)"

lemma first_describe: "bind (describe E) (\<lambda>ns. lift (rmap space_key ns)) runner_init
    = (first_sections E, runner_init\<lparr>rn_calls := [(''settings/describe'', PDict [])]\<rparr>)"
  by (auto simp: describe_def call_def bind_def first_sections_def runner_init_def act_run rbind_def split: sum.splits)

lemma configure_reads:
  assumes "described_provider E \<noteq> Inr PNone"
  shows "list_all reading (rn_calls (snd (configure E token unique runner_init)))"
proof (cases "first_sections E")
  case (Inl e)
  then show ?thesis
    by (simp add: configure_def bind_def [of "bind (describe E) _"] first_describe reading_def)
next
  case (Inr sections)
  then have other: "existing_provider sections \<noteq> Inr PNone"
    using assms by (simp add: described_provider_def first_sections_def)
  have "rpc.grows reading (andthen (discover E token) (bind (lift (existing_provider sections)) (\<lambda>existing.
      if existing \<noteq> PNone then keep_existing E existing else add_provider E token unique sections)))"
  proof (cases "existing_provider sections")
    case (Inr x)
    then show ?thesis
      using other by (simp add: rpc.grows_andthen reading_ops)
  qed (simp add: rpc.grows_andthen rpc.grows_basic reading_ops)
  from asked_calls [OF this, of "runner_init\<lparr>rn_calls := [(''settings/describe'', PDict [])]\<rparr>"] Inr
  show ?thesis
    by (simp add: configure_def bind_def [of "bind (describe E) _"] first_describe reading_def)
qed

text \<open>
  C17. An existing provider is never changed: unless the settings have no provider of this name, the
  configuration makes reading requests only; and whatever the Harness answers, the only changes it
  ever asks for are the new credential under its own fresh name and the new provider's profile
  that refers to it.
\<close>

theorem provider_preserved:
  "list_all (allowed token unique) (rn_calls (snd (configure E token unique runner_init)))
   \<and> (described_provider E = Inr PNone \<or> list_all reading (rn_calls (snd (configure E token unique runner_init))))"
  using asked_calls [OF allowed_configure [of token unique E], of runner_init] configure_reads [of E token unique]
  by (auto simp: runner_init_def)


section \<open>The search probe\<close>

text \<open>The last request shows the namespace of the search, and what it shows.\<close>

definition shows_search :: "'w env \<Rightarrow> (string \<times> pyval) list \<Rightarrow> (pyval \<Rightarrow> bool res) \<Rightarrow> bool" where
  "shows_search E cs f \<longleftrightarrow> cs \<noteq> [] \<and> last cs = (''settings/describe'', PDict [])
     \<and> rbind (rbind (rbind (en_server E (butlast cs) ''settings/describe'' (PDict [])) (\<lambda>v.
         rbind (getitem v ''namespaces'') iterate)) (next_named search_space)) f = Inr True"

abbreviation probe_calls :: "'w search \<Rightarrow> (string \<times> pyval) list" where
  "probe_calls s \<equiv> rn_calls (se_runner s)"

lemma describe_shows:
  assumes "bind (in_runner (describe E)) (\<lambda>ns. lift (next_named search_space ns)) s = (Inr n, t)"
  shows "shows_search E (probe_calls t) f \<longleftrightarrow> f n = Inr True"
    and "probe_calls t = probe_calls s @ [(''settings/describe'', PDict [])]"
    and "se_changed t = se_changed s" and "se_checks t = se_checks s"
  using assms
  by (auto simp: shows_search_def in_runner_def describe_def call_def bind_def act_run rbind_Inr_iff
      split: prod.splits sum.splits)

lemma note_recorded: "note_checks [(k, b)] s = (Inr (), t) \<Longrightarrow> recorded k b (se_checks t)
    \<and> se_changed t = se_changed s \<and> se_runner t = se_runner s"
  by (auto simp: note_checks_def act_run add_checks_def update_conv')

lemma in_runner_frame: "in_runner m s = (r, t) \<Longrightarrow> se_changed t = se_changed s \<and> se_checks t = se_checks s"
  by (auto simp: in_runner_def split: prod.splits)

lemma restore_outcome:
  assumes run: "restore_search E p s = (Inr (), t)"
  shows "se_changed t = se_changed s \<and> (\<exists>b. recorded ''configuration_restored'' b (se_checks t)
    \<and> (b \<longrightarrow> shows_search E (probe_calls t) (same_user p)))"
proof -
  let ?look = "bind (in_runner (describe E)) (\<lambda>ns. lift (next_named search_space ns))"
  obtain current u ours where look: "?look s = (Inr current, u)" and "same_route p current = Inr ours"
    and rest: "(if ours then
       bind (lift (getitem (pl_space p) ''ns'')) (\<lambda>ns.
       bind (lift (getitem current ''revision'')) (\<lambda>revision.
       andthen (in_runner (mutate E ns revision (pl_restore p)))
      (bind ?look (\<lambda>restored.
       bind (lift (same_user p restored)) (\<lambda>b. note_checks [(''configuration_restored'', b)])))))
     else andthen (note_checks [(''configuration_restored'', False)]) (modify (\<lambda>s. s\<lparr>se_conflict := True\<rparr>))) u = (Inr (), t)"
    using run unfolding restore_search_def by (auto simp: bind_Inr_iff act_run)
  note u = describe_shows [OF look]
  show ?thesis
  proof (cases ours)
    case True
    then obtain ns revision x v restored w b where step: "in_runner (mutate E ns revision (pl_restore p)) u = (Inr x, v)"
      and again: "?look v = (Inr restored, w)" and b: "same_user p restored = Inr b"
      and noted: "note_checks [(''configuration_restored'', b)] w = (Inr (), t)"
      using rest by (auto simp: andthen_def bind_Inr_iff act_run)
    show ?thesis
      using in_runner_frame [OF step] describe_shows [OF again] note_recorded [OF noted] u b by auto
  next
    case False
    then obtain v where noted: "note_checks [(''configuration_restored'', False)] u = (Inr (), v)" and t: "t = v\<lparr>se_conflict := True\<rparr>"
      using rest by (auto simp: andthen_def bind_Inr_iff act_run)
    show ?thesis
      using note_recorded [OF noted] u by (auto simp: t)
  qed
qed

text \<open>The probe's end: whatever happened before, the fate of the user's fields is on record.\<close>

lemma end_outcome:
  assumes run: "end_search E p s = (Inr (), t)" and changed: "se_changed t"
  shows "\<exists>b. recorded ''configuration_restored'' b (se_checks t) \<and> (b \<longrightarrow> shows_search E (probe_calls t) (same_user p))"
proof -
  obtain es u where clean: "in_runner (cleanup E) s = (Inr es, u)"
    and rest: "when_do (se_changed u) (catch is_exception (restore_search E p)
       (\<lambda>e. andthen (note_checks [(''configuration_restored'', False)])
              (modify (\<lambda>s. s\<lparr>se_restore_error := Some (safe_error (en_lib E) e)\<rparr>)))) (u\<lparr>se_cleanup := es\<rparr>) = (Inr (), t)"
    using run by (auto simp: end_search_def andthen_def bind_Inr_iff act_run)
  show ?thesis
  proof (cases "se_changed u")
    case True
    obtain r v where restore: "restore_search E p (u\<lparr>se_cleanup := es\<rparr>) = (r, v)"
      by fastforce
    show ?thesis
    proof (cases r)
      case (Inr x)
      then have "restore_search E p (u\<lparr>se_cleanup := es\<rparr>) = (Inr (), t)"
        using rest restore True by (simp add: catch_def)
      then show ?thesis
        using restore_outcome by blast
    next
      case (Inl e)
      then obtain w where noted: "note_checks [(''configuration_restored'', False)] v = (Inr (), w)"
        and t: "t = w\<lparr>se_restore_error := Some (safe_error (en_lib E) e)\<rparr>"
        using rest restore True by (auto simp: catch_def andthen_def bind_Inr_iff act_run split: if_splits)
      show ?thesis
        using note_recorded [OF noted] by (auto simp: t)
    qed
  next
    case False
    then have "t = u\<lparr>se_cleanup := es\<rparr>"
      using rest by (simp add: act_run)
    then show ?thesis
      using changed False by simp
  qed
qed

text \<open>A Harness that accepts the change, refuses the session and then shows the changed route.\<close>

definition accepting :: "pyval" where
  "accepting = PDict [(''namespaces'', PList [
     PDict [(''ns'', PStr search_space), (''revision'', PInt 1), (''value'', PDict
       [(''baseURL'', PStr ''http://127.0.0.1:8765/anthropic/v1''), (''apiKeyEnv'', PStr ''REF'')])],
     PDict [(''ns'', PStr ''llm-pi-ai''), (''value'', PDict [(''providers'', PDict [(PROVIDER, PDict
       [(''baseURL'', PStr local_base), (''apiKeyEnv'', PStr ''REF'')])])])]]), (''items'', PList [])]"

definition plain_lib :: pylib where
  "plain_lib = \<lparr>json_loads = (\<lambda>_. None), dumps = (\<lambda>_. []), dumps_ascii = (\<lambda>_. []), sha256 = (\<lambda>_. []), repr_of = (\<lambda>_. [])\<rparr>"

definition accepting_env :: "unit env" where
  "accepting_env = \<lparr>en_lib = plain_lib, en_server = (\<lambda>_ m _. if m = ''session/create'' then Inl (Exc RuntimeError []) else Inr accepting),
     en_deadline = 0, en_connect = (\<lambda>_. Inr ()), en_feed = (\<lambda>_. []), en_uuid = (\<lambda>_. []), en_write = (\<lambda>_. Inr ()),
     en_cwd = [], en_model = [], en_reasoning = []\<rparr>"

lemma accepting_run: "fst (search_main accepting_env search_init) = Inr 1"
  "se_changed (snd (search_main accepting_env search_init))"
  "se_checks (snd (search_main accepting_env search_init)) = [(''configuration_restored'', True)]"
  by code_simp+

definition probed :: "(string \<times> pyval \<Rightarrow> bool) \<Rightarrow> 'w search \<Rightarrow> 'w search \<Rightarrow> bool" where
  "probed P s t \<longleftrightarrow> asked P (se_runner s) (se_runner t)"

interpretation probing: state_order "probed P" for P
  by unfold_locales (auto simp: probed_def rpc.order_refl intro: rpc.order_trans)

lemma probing_runner: "rpc.grows P m \<Longrightarrow> probing.grows P (in_runner m)"
  by (auto simp: probing.grows_def probed_def in_runner_def rpc.grows_def split: prod.splits) (metis snd_conv)

lemma probing_note: "probing.grows P (note_checks new)" "probing.grows P (modify (\<lambda>s. s\<lparr>se_conflict := b\<rparr>))"
  by (simp_all add: note_checks_def probing.grows_def act_run probed_def rpc.order_refl)

lemma look_calls: "probe_calls (snd (bind (in_runner (describe E)) (\<lambda>ns. lift (g ns)) s))
    = probe_calls s @ [(''settings/describe'', PDict [])]"
  by (auto simp: in_runner_def describe_def call_def bind_def act_run split: prod.splits sum.splits)

lemma conflict_calls: "probe_calls (snd (andthen (note_checks new) (modify (\<lambda>s. s\<lparr>se_conflict := b\<rparr>)) s)) = probe_calls s"
  by (simp add: note_checks_def act_run)

text \<open>
  Only its own values are undone: the restoring request is made only directly after a
  description of the settings that still shows the values the script had set; otherwise the
  cleanup makes no change at all.
\<close>

lemma restore_undoes_own:
  "list_all (\<lambda>c. fst c \<noteq> ''settings/mutate'') (drop (length (probe_calls s)) (probe_calls (snd (restore_search E p s))))
   \<or> shows_search E (take (Suc (length (probe_calls s))) (probe_calls (snd (restore_search E p s)))) (same_route p)"
proof -
  let ?look = "bind (in_runner (describe E)) (\<lambda>ns. lift (next_named search_space ns))"
  obtain r u where look: "?look s = (r, u)"
    by fastforce
  then have u: "probe_calls u = probe_calls s @ [(''settings/describe'', PDict [])]"
    using look_calls [of E "next_named search_space" s] by simp
  show ?thesis
  proof (cases "\<exists>current. r = Inr current \<and> same_route p current = Inr True")
    case True
    then obtain current where r: "r = Inr current" and ours: "same_route p current = Inr True"
      by blast
    let ?rest = "bind (lift (getitem (pl_space p) ''ns'')) (\<lambda>ns.
       bind (lift (getitem current ''revision'')) (\<lambda>revision.
       andthen (in_runner (mutate E ns revision (pl_restore p)))
      (bind ?look (\<lambda>restored.
       bind (lift (same_user p restored)) (\<lambda>b. note_checks [(''configuration_restored'', b)])))))"
    have "snd (restore_search E p s) = snd (?rest u)"
      by (simp add: restore_search_def bind_def [of ?look] look r ours)
    moreover have "probing.grows (\<lambda>_. True) ?rest"
      unfolding mutate_def describe_def
      by (intro probing.grows_rules probing_runner rpc.grows_rules rpc_call probing_note) simp_all
    ultimately have "prefix (probe_calls u) (probe_calls (snd (restore_search E p s)))"
      using probing.growsD [of "\<lambda>_. True" ?rest u] by (auto simp: probed_def asked_def)
    then have "take (Suc (length (probe_calls s))) (probe_calls (snd (restore_search E p s))) = probe_calls u"
      by (auto simp: u prefix_def)
    then show ?thesis
      using describe_shows(1) [OF look [unfolded r]] ours by simp
  next
    case False
    have "probe_calls (snd (restore_search E p s)) = probe_calls u"
      using False look
      by (cases r) (auto simp: restore_search_def bind_def [of ?look] act_run conflict_calls
          bind_def [of "lift (same_route p b)" for b] split: sum.splits)
    then show ?thesis
      by (simp add: u)
  qed
qed

section \<open>A change that was not confirmed\<close>

text \<open>The plan and the change are requests only: no session, no follower and no stop file.\<close>

definition bare :: "'w runner \<Rightarrow> bool" where
  "bare r \<longleftrightarrow> rn_sessions r = [] \<and> rn_follows r = [] \<and> rn_stop_files r = []"

lemma bare_call: "keeps bare (call E m args)"
  by (simp add: keeps_def call_def bare_def)

lemma bare_plan: "keeps bare (make_plan E)"
  unfolding make_plan_def describe_def by (intro keeps_intro bare_call)

lemma bare_cleanup: "bare r \<Longrightarrow> cleanup E r = (Inr [], r)"
  by (simp add: bare_def cleanup_def close_all_def act_run andthen_def enumerate_eq_zip)

lemma changed_kept: "keeps se_changed (in_runner m)" "keeps se_changed (note_checks new)"
  by (auto simp: keeps_def in_runner_def note_checks_def act_run split: prod.splits)

lemma changed_turn: "keeps se_changed (search_turn E)"
  unfolding search_turn_def by (intro keeps_intro changed_kept) simp

lemma probe_change:
  assumes run: "probe_search E p s = (r, t)" and same: "\<not> se_changed t"
  shows "\<exists>e. r = Inl e \<and> (t = s \<or> (\<exists>args. en_server E (probe_calls s) ''settings/mutate'' args = Inl e
    \<and> t = s\<lparr>se_runner := snd (call E ''settings/mutate'' args (se_runner s))\<rparr>))"
proof -
  consider (ns) e where "getitem (pl_space p) ''ns'' = Inl e"
    | (revision) ns e where "getitem (pl_space p) ''ns'' = Inr ns" "getitem (pl_space p) ''revision'' = Inl e"
    | (change) ns revision where "getitem (pl_space p) ''ns'' = Inr ns" "getitem (pl_space p) ''revision'' = Inr revision"
    by (metis sum.exhaust)
  then show ?thesis
  proof cases
    case (change ns revision)
    let ?args = "mutate_args ns revision (map (\<lambda>(k, v). set_op [k] v) (pl_route p))"
    let ?w = "s\<lparr>se_runner := snd (call E ''settings/mutate'' ?args (se_runner s))\<rparr>"
    have step: "in_runner (mutate E ns revision (map (\<lambda>(k, v). set_op [k] v) (pl_route p))) s
        = (en_server E (probe_calls s) ''settings/mutate'' ?args, ?w)"
      by (simp add: in_runner_def mutate_def call_def)
    show ?thesis
    proof (cases "en_server E (probe_calls s) ''settings/mutate'' ?args")
      case (Inl e)
      then have "r = Inl e \<and> t = ?w"
        using run change step by (simp add: probe_search_def andthen_def bind_def [of "in_runner _"])
      then show ?thesis
        using Inl by blast
    next
      case (Inr x)
      then have "search_turn E (?w\<lparr>se_changed := True\<rparr>) = (r, t)"
        using run change step by (simp add: probe_search_def andthen_def bind_def [of "in_runner _"])
      then show ?thesis
        using keepsD [OF changed_turn, of "?w\<lparr>se_changed := True\<rparr>" E] same by simp
    qed
  qed (use run in \<open>auto simp: probe_search_def act_run\<close>)
qed

lemma end_changed: "end_search E p s = (Inr (), t) \<Longrightarrow> bare (se_runner s) \<Longrightarrow> \<not> se_changed s
    \<Longrightarrow> se_checks t = se_checks s \<and> probe_calls t = probe_calls s"
  by (auto simp: end_search_def andthen_def bind_def in_runner_def bare_cleanup act_run)

lemma end_kept: "keeps se_changed (end_search E p)"
  unfolding end_search_def restore_search_def by (intro keeps_intro changed_kept) simp_all

text \<open>Only an interrupt leaves the end of the probe without a record.\<close>

definition ends :: "('s, 'a) act \<Rightarrow> bool" where
  "ends m \<longleftrightarrow> (\<forall>s e t. m s = (Inl e, t) \<longrightarrow> \<not> is_exception (exc_kind e))"

lemma ends_basic: "ends (ret x)" "ends (gets f)" "ends (modify u)"
  by (simp_all add: ends_def act_run)

lemma ends_bind: "ends m \<Longrightarrow> (\<And>x. ends (f x)) \<Longrightarrow> ends (bind m f)"
  by (auto simp: ends_def bind_def split: prod.splits sum.splits)

lemma ends_catch: "(\<And>e. ends (h e)) \<Longrightarrow> ends (catch is_exception m h)"
  by (auto simp: ends_def catch_def split: prod.splits sum.splits if_splits)

lemma ends_collect: "(\<And>x. ends (body x)) \<Longrightarrow> ends (collect xs body)"
  by (induction xs) (auto intro: ends_basic ends_bind)

lemmas ends_rules = ends_basic ends_bind ends_catch ends_collect

lemma ends_cleanup: "ends (cleanup E)"
proof -
  have "ends (guarded m entry)" for m :: "('a runner, unit) act" and entry
    unfolding guarded_def by (intro ends_rules)
  then have "ends (clean_session E sid)" for sid
    unfolding clean_session_def by (intro ends_rules) (auto intro: ends_rules)
  with \<open>\<And>m entry. ends (guarded m entry)\<close> show ?thesis
    unfolding cleanup_def close_all_def andthen_def by (intro ends_rules)
qed

lemma ends_search: "ends (end_search E p)"
proof -
  have "ends (in_runner (cleanup E))"
    using ends_cleanup [of E] by (auto simp: ends_def in_runner_def split: prod.splits)
  then show ?thesis unfolding end_search_def andthen_def note_checks_def when_do_def
    by (auto intro!: ends_rules)
qed

lemma end_bare: "bare (se_runner s) \<Longrightarrow> \<not> se_changed s
    \<Longrightarrow> fst (end_search E p s) = Inr () \<and> probe_calls (snd (end_search E p s)) = probe_calls s"
  by (simp add: end_search_def andthen_def bind_def in_runner_def bare_cleanup act_run)

text \<open>Without the flag, the change was not asked for or was not answered.\<close>

lemma unanswered_change:
  assumes probe: "probe_search E p s = (q, u)" and s: "bare (se_runner s)" and u: "\<not> se_changed u"
    and calls: "probe_calls (snd (end_search E p (u\<lparr>se_error := err\<rparr>))) = probe_calls s @ c # rest"
  shows "en_server E (probe_calls s) (fst c) (snd c) \<noteq> Inr reply"
proof -
  from probe_change [OF probe u] have "bare (se_runner u)" and "u = s \<or> (\<exists>e args.
      en_server E (probe_calls s) ''settings/mutate'' args = Inl e \<and> probe_calls u = probe_calls s @ [(''settings/mutate'', args)])"
    using s by (auto simp: call_def bare_def)
  moreover have "probe_calls (snd (end_search E p (u\<lparr>se_error := err\<rparr>))) = probe_calls u"
    using end_bare [of "u\<lparr>se_error := err\<rparr>" E p] calculation(1) u by simp
  ultimately show ?thesis
    using calls by auto
qed

text \<open>
  C11. The user's search settings are put back or reported lost. Take any run in which the first
  request after the planning, the change of the search settings, was answered by the Harness.
  Unless the run was interrupted, it records whether the settings were restored; and it records that
  they were only if the Harness, asked last, shows exactly the user's fields that the plan had read.
  (A change whose reply is lost is the subject of C35.)
\<close>

theorem search_restored:
  assumes run: "search_main E search_init = (r, t)"
    and calls: "probe_calls t = rn_calls (snd (make_plan E runner_init)) @ c # rest"
    and answered: "en_server E (rn_calls (snd (make_plan E runner_init))) (fst c) (snd c) = Inr reply"
  shows "(\<exists>e. r = Inl e \<and> \<not> is_exception (exc_kind e))
    \<or> (\<exists>p b. fst (make_plan E runner_init) = Inr p \<and> recorded ''configuration_restored'' b (se_checks t)
         \<and> (b = False \<or> shows_search E (probe_calls t) (same_user p)))"
proof -
  obtain pr s where plan: "in_runner (make_plan E) search_init = (pr, s)"
    by fastforce
  have s: "probe_calls s = rn_calls (snd (make_plan E runner_init))" "pr = fst (make_plan E runner_init)" "bare (se_runner s)"
    using plan keepsD [OF bare_plan, of runner_init E]
    by (auto simp: in_runner_def search_init_def bare_def runner_init_def split: prod.splits)
  obtain p where p: "pr = Inr p"
    using run plan calls s(1) by (cases pr) (auto simp: search_main_def bind_def)
  let ?body = "catch is_exception (probe_search E p) (\<lambda>e. modify (\<lambda>s. s\<lparr>se_error := Some (safe_error (en_lib E) e)\<rparr>))"
  obtain q u where probe: "probe_search E p s = (q, u)"
    by fastforce
  obtain k err where body: "?body s = (k, u\<lparr>se_error := err\<rparr>)"
  proof (cases "\<exists>e. q = Inl e \<and> is_exception (exc_kind e)")
    case True
    then obtain e where "q = Inl e" "is_exception (exc_kind e)" by blast
    then show thesis
      using probe by (intro that [of _ "Some (safe_error (en_lib E) e)"]) (simp add: catch_def act_run)
  next
    case False
    then show thesis
      using probe by (intro that [of q "se_error u"]) (auto simp: catch_def split: sum.split)
  qed
  obtain er where finished: "end_search E p (u\<lparr>se_error := err\<rparr>) = (er, t)" and r: "\<And>e. er = Inl e \<Longrightarrow> r = Inl e"
    using run plan p body
    by (auto simp: search_main_def andthen_def bind_def finally_do_def ret_def split: prod.splits sum.splits)
  have "se_changed u"
    using unanswered_change [OF probe s(3), of err c rest reply] finished calls answered by (auto simp: s(1))
  then have changed: "se_changed t"
    using keepsD [OF end_kept, of "u\<lparr>se_error := err\<rparr>" E p] finished by simp
  show ?thesis
  proof (cases er)
    case (Inl e)
    then show ?thesis
      using ends_search [of E p, unfolded ends_def] finished r by blast
  next
    case (Inr x)
    then obtain b where "recorded ''configuration_restored'' b (se_checks t)" "b \<longrightarrow> shows_search E (probe_calls t) (same_user p)"
      using end_outcome [of E p "u\<lparr>se_error := err\<rparr>" t] finished changed by auto
    then show ?thesis
      using s(2) p by (intro disjI2 exI [of _ p] exI [of _ b]) simp
  qed
qed

lemma accepting_calls:
  "rn_calls (snd (make_plan accepting_env runner_init)) = take 2 (probe_calls (snd (search_main accepting_env search_init)))"
  "2 < length (probe_calls (snd (search_main accepting_env search_init)))"
  by code_simp+

lemma search_restored_witness:
  "se_checks (snd (search_main accepting_env search_init)) = [(''configuration_restored'', True)]
   \<and> (\<exists>p. fst (make_plan accepting_env runner_init) = Inr p
     \<and> shows_search accepting_env (probe_calls (snd (search_main accepting_env search_init))) (same_user p))"
proof -
  obtain t where t: "search_main accepting_env search_init = (Inr 1, t)"
    using accepting_run(1) by (cases "search_main accepting_env search_init") simp
  have "drop 2 (probe_calls t) = probe_calls t ! 2 # drop 3 (probe_calls t)"
    using accepting_calls(2) Cons_nth_drop_Suc [of 2 "probe_calls t"] by (simp add: t eval_nat_numeral)
  then have calls: "probe_calls t = rn_calls (snd (make_plan accepting_env runner_init)) @ probe_calls t ! 2 # drop 3 (probe_calls t)"
    using accepting_calls(1) append_take_drop_id [of 2 "probe_calls t"] by (simp add: t)
  have "fst (probe_calls (snd (search_main accepting_env search_init)) ! 2) = ''settings/mutate''"
    by code_simp
  then have "fst (probe_calls t ! 2) = ''settings/mutate''"
    by (simp add: t)
  then have answer: "en_server accepting_env earlier (fst (probe_calls t ! 2)) args = Inr accepting" for earlier args
    by (simp add: accepting_env_def)
  show ?thesis
    using search_restored [OF t calls answer] accepting_run(3) by (simp add: t) blast
qed

text \<open>
  C35. A change without a confirmation is left in place: when the request that changes the search
  settings raises, the script never looks at the settings again; the report says nothing about their
  restoration, even if the Harness has applied the change and only its reply was lost.
\<close>

theorem unconfirmed_change_kept:
  assumes run: "search_main E search_init = (Inr status, t)" and unchanged: "\<not> se_changed t"
  shows "se_checks t = [] \<and> (\<exists>planned made. probe_calls t = planned @ made
    \<and> planned = rn_calls (snd (make_plan E runner_init)) \<and> length made \<le> 1
    \<and> list_all (\<lambda>c. fst c = ''settings/mutate'' \<and> (\<exists>e. en_server E planned (fst c) (snd c) = Inl e)) made)"
proof -
  obtain p s where plan: "in_runner (make_plan E) search_init = (Inr p, s)"
    and body: "finally_do (catch is_exception (probe_search E p)
         (\<lambda>e. modify (\<lambda>s. s\<lparr>se_error := Some (safe_error (en_lib E) e)\<rparr>))) (end_search E p) s = (Inr (), t)"
    using run by (auto simp: search_main_def andthen_def bind_Inr_iff act_run)
  have s: "se_checks s = []" "\<not> se_changed s" "se_runner s = snd (make_plan E runner_init)" "bare (se_runner s)"
    using plan keepsD [OF bare_plan, of runner_init E]
    by (auto simp: in_runner_def search_init_def bare_def runner_init_def split: prod.splits)
  obtain r u where probe: "probe_search E p s = (r, u)"
    by fastforce
  obtain v where handled: "catch is_exception (probe_search E p)
      (\<lambda>e. modify (\<lambda>s. s\<lparr>se_error := Some (safe_error (en_lib E) e)\<rparr>)) s = (Inr (), v)"
    and finished: "end_search E p v = (Inr (), t)"
    using body by (auto simp: finally_do_def split: prod.splits sum.splits)
  have v: "\<not> se_changed v"
    using keepsD [OF end_kept, of v E p] finished unchanged by auto
  have u: "v = u \<or> (\<exists>err. v = u\<lparr>se_error := err\<rparr>)"
    using handled probe by (auto simp: catch_def act_run split: sum.splits if_splits)
  then have "\<not> se_changed u"
    using v by auto
  from probe_change [OF probe this] consider "u = s"
    | e args where "en_server E (probe_calls s) ''settings/mutate'' args = Inl e"
      "u = s\<lparr>se_runner := snd (call E ''settings/mutate'' args (se_runner s))\<rparr>"
    by blast
  then show ?thesis
  proof cases
    case 1
    then have "se_checks t = [] \<and> probe_calls t = probe_calls s"
      using end_changed [OF finished] u s v by auto
    then show ?thesis
      using s by simp
  next
    case (2 e args)
    then have "se_checks t = [] \<and> probe_calls t = probe_calls s @ [(''settings/mutate'', args)]"
      using end_changed [OF finished] u s v by (auto simp: call_def bare_def)
    then show ?thesis
      using s 2 by (intro conjI exI [of _ "probe_calls s"] exI [of _ "[(''settings/mutate'', args)]"]) auto
  qed
qed


text \<open>The Harness applies the change, but its reply is lost.\<close>

definition lossy_env :: "unit env" where
  "lossy_env = accepting_env\<lparr>en_server := (\<lambda>_ m _. if m = ''settings/mutate'' then Inl (Exc TimeoutError []) else Inr accepting)\<rparr>"

lemma lossy_run: "fst (search_main lossy_env search_init) = Inr 1"
  "\<not> se_changed (snd (search_main lossy_env search_init))"
  "map fst (probe_calls (snd (search_main lossy_env search_init))) = [''settings/describe'', ''session/list'', ''settings/mutate'']"
  by code_simp+

lemma unconfirmed_change_kept_witness:
  "se_checks (snd (search_main lossy_env search_init)) = []
   \<and> map fst (probe_calls (snd (search_main lossy_env search_init))) = [''settings/describe'', ''session/list'', ''settings/mutate'']"
  using unconfirmed_change_kept [of lossy_env 1 "snd (search_main lossy_env search_init)"] lossy_run
  by (metis prod.collapse)

end
