(* ===== verification/Tray.thy ===== *)
theory Tray
  imports Network
begin

text \<open>
  The check of the tray's counters, \<^verbatim>\<open>tray-check.py\<close>: it compares the gateway's metrics with the
  usage that the upstream reports, and pauses the proxy for one request. Requests and replies are
  those of \<^verbatim>\<open>Manage\<close>; the command line, the agent's report and the digest of the host program are fields
  of the environment. Times are not modelled.
\<close>

section \<open>Numbers of unknown type\<close>

fun number :: "pyval \<Rightarrow> pyfloat option" where
  "number (PBool b) = Some (Finite (if b then 1 else 0))"
| "number (PInt n) = Some (Finite (of_int n))"
| "number (PFloat f) = Some f"
| "number _ = None"

fun float_neg :: "pyfloat \<Rightarrow> pyfloat" where
  "float_neg (Finite a) = Finite (- a)"
| "float_neg PosInf = NegInf"
| "float_neg NegInf = PosInf"
| "float_neg NaN = NaN"

fun float_ge :: "pyfloat \<Rightarrow> pyfloat \<Rightarrow> bool" where
  "float_ge NaN g = False"
| "float_ge f NaN = False"
| "float_ge (Finite a) (Finite b) = (b \<le> a)"
| "float_ge PosInf g = True"
| "float_ge f NegInf = True"
| "float_ge f g = False"

text \<open>\<^verbatim>\<open>v - w\<close>, \<^verbatim>\<open>v + n\<close> and \<^verbatim>\<open>v >= w\<close>; the type of a number is forgotten, since \<^verbatim>\<open>==\<close> ignores it.\<close>

definition num_sub :: "pyval \<Rightarrow> pyval \<Rightarrow> pyval res" where
  "num_sub v w = (case (number v, number w) of
     (Some a, Some b) \<Rightarrow> Inr (PFloat (float_add a (float_neg b)))
   | _ \<Rightarrow> Inl (Exc TypeError ''type''))"

definition num_inc :: "pyval \<Rightarrow> int \<Rightarrow> pyfloat res" where
  "num_inc v n = (case number v of Some a \<Rightarrow> Inr (float_add a (Finite (of_int n))) | None \<Rightarrow> Inl (Exc TypeError ''type''))"

definition num_ge :: "pyval \<Rightarrow> pyfloat \<Rightarrow> bool res" where
  "num_ge v g = (case number v of Some a \<Rightarrow> Inr (float_ge a g) | None \<Rightarrow> Inl (Exc TypeError ''type''))"

section \<open>The run\<close>

record tray_env =
  te_lib :: pylib
  te_up :: mserver
  te_api :: string
  te_admin :: string
  te_api_token :: string
  te_admin_token :: string
  te_model :: string
  te_host_hash :: string
  te_agent :: "pyval res option"
  te_reconcile :: bool

record tray = manage +
  tr_checks :: pydict
  tr_before :: "pyval option"
  tr_after :: "pyval option"
  tr_usage :: "pyval option"
  tr_agent_usage :: "pyval option"
  tr_error :: "string option"
  tr_passed :: bool

definition tray_init :: tray where
  "tray_init = \<lparr>mg_calls = [], mg_cases = [], tr_checks = [], tr_before = None, tr_after = None, tr_usage = None,
     tr_agent_usage = None, tr_error = None, tr_passed = False\<rparr>"

text \<open>An empty token is no token; a request with a body is a POST.\<close>

definition tray_call :: "string \<Rightarrow> string \<Rightarrow> string option \<Rightarrow> payload \<Rightarrow> mcall" where
  "tray_call base path token data = \<lparr>mc_method = (if data = Empty then ''GET'' else ''POST''), mc_url = base @ path,
     mc_token = (if token = Some [] then None else token), mc_body = data\<rparr>"

definition tray_request :: "tray_env \<Rightarrow> string \<Rightarrow> string \<Rightarrow> string option \<Rightarrow> payload \<Rightarrow> (tray, mreply \<times> pyval) act" where
  "tray_request E base path token data =
     bind (send (te_up E) (tray_call base path token data)) (\<lambda>r.
     bind (lift (loads (te_lib E) (mr_body r))) (\<lambda>v. ret (r, v)))"

definition metrics :: "tray_env \<Rightarrow> (tray, pyval) act" where
  "metrics E = bind (tray_request E (te_admin E) ''/metrics'' (Some (te_admin_token E)) Empty) (\<lambda>(r, v).
     andthen (assert_that (mr_status r = 200) []) (ret v))"

definition is_settled :: "pyfloat \<Rightarrow> pyval \<Rightarrow> bool res" where
  "is_settled n v = rand (rbind (getitem v ''active'') (\<lambda>a. Inr (eq_int a 0)))
     (rbind (getitem v ''completed'') (\<lambda>c. num_ge c n))"

fun settled_loop :: "nat \<Rightarrow> tray_env \<Rightarrow> pyfloat \<Rightarrow> (tray, pyval) act" where
  "settled_loop 0 E n s = raise AssertionError ''request cleanup did not settle'' s"
| "settled_loop (Suc k) E n s = bind (metrics E) (\<lambda>v. bind (lift (is_settled n v)) (\<lambda>b.
     if b then ret v else settled_loop k E n)) s"

text \<open>\<^verbatim>\<open>settled(v['completed'] + 1)\<close>.\<close>

definition wait_settled :: "tray_env \<Rightarrow> pyval \<Rightarrow> (tray, pyval) act" where
  "wait_settled E v = bind (lift (rbind (getitem v ''completed'') (\<lambda>c. num_inc c 1))) (settled_loop 100 E)"

definition check_as :: "string \<Rightarrow> pyval \<Rightarrow> (tray, unit) act" where
  "check_as k v = modify (\<lambda>s. s\<lparr>tr_checks := AList.update k v (tr_checks s)\<rparr>)"

definition check_res :: "string \<Rightarrow> bool res \<Rightarrow> (tray, unit) act" where
  "check_res k r = bind (lift r) (\<lambda>b. check_as k (PBool b))"

section \<open>The agent's report\<close>

definition token_keys :: "string list" where
  "token_keys = [''prompt_tokens'', ''completion_tokens'', ''total_tokens'']"

definition same_counts :: "pyval \<Rightarrow> pyval \<Rightarrow> bool res" where
  "same_counts earlier agent =
     rbind (getitem earlier ''completed'') (\<lambda>c.
     rbind (rbind (getitem agent ''requests'') py_length) (\<lambda>n.
     rand (Inr (eq_int c (int n))) (rbind (getitem earlier ''usage_reported'') (\<lambda>u. Inr (eq_int u (int n))))))"

definition no_failures :: "pyval \<Rightarrow> bool res" where
  "no_failures earlier =
     rbind (getitem earlier ''failed'') (\<lambda>f. rbind (getitem earlier ''usage_missing'') (\<lambda>m.
       Inr (py_eq f m \<and> eq_int m 0)))"

definition equal_items :: "pyval \<Rightarrow> string \<Rightarrow> pyval \<Rightarrow> string \<Rightarrow> bool res" where
  "equal_items v k w j = rbind (getitem v k) (\<lambda>x. rbind (getitem w j) (\<lambda>y. Inr (py_eq x y)))"

definition reconcile :: "tray_env \<Rightarrow> pyval \<Rightarrow> pyval \<Rightarrow> (tray, unit) act" where
  "reconcile E earlier agent =
     bind (lift (getitem agent ''usage_totals'')) (\<lambda>usage.
     bind (lift (getitem agent ''passed'')) (\<lambda>p.
     andthen (check_as ''agent_passed'' p)
    (andthen (check_res ''same_binary'' (rbind (getitem agent ''host_sha256'') (\<lambda>h. Inr (PStr (te_host_hash E) = h))))
    (andthen (check_res ''agent_requests_exact'' (same_counts earlier agent))
    (andthen (for_each token_keys (\<lambda>k. check_res (''agent_'' @ k @ ''_exact'') (equal_items earlier k usage k)))
    (andthen (check_res ''agent_cached_tokens_exact'' (equal_items earlier ''cached_tokens'' usage ''prompt_cache_hit_tokens''))
    (andthen (check_res ''agent_no_failures_or_missing_usage'' (no_failures earlier))
      (modify (\<lambda>s. s\<lparr>tr_agent_usage := Some usage\<rparr>)))))))))"

section \<open>Pause and resume\<close>

definition paused_body :: "pyval \<Rightarrow> payload" where
  "paused_body v = Json (PDict [(''paused'', v)])"

text \<open>\<^verbatim>\<open>checks[name] = request(..)[0] == status\<close>.\<close>

definition check_status :: "tray_env \<Rightarrow> string \<Rightarrow> string \<Rightarrow> string option \<Rightarrow> payload \<Rightarrow> int \<Rightarrow> (tray, unit) act" where
  "check_status E name path token data status =
     bind (tray_request E (te_admin E) path token data) (\<lambda>(r, _). check_as name (PBool (mr_status r = status)))"

text \<open>\<^verbatim>\<open>dict(response.headers).get(name)\<close>: the name as it was sent.\<close>

definition header_item :: "(string \<times> string) list \<Rightarrow> string \<Rightarrow> string option" where
  "header_item hs name = (if name \<in> fst ` set hs then get_header name hs else None)"

definition retry_hint :: "mreply \<Rightarrow> pyval \<Rightarrow> bool res" where
  "retry_hint r body = rand (Inr (mr_status r = 503)) (rand (Inr (header_item (mr_headers r) ''Retry-After'' = Some ''1''))
     (rbind (path_at body [''error'', ''code'']) (\<lambda>c. Inr (c = PStr ''proxy_paused''))))"

definition pause_probe :: "tray_env \<Rightarrow> (tray, unit) act" where
  "pause_probe E =
     andthen (check_status E ''pause_applied'' ''/proxy/pause'' (Some (te_admin_token E)) (paused_body (PBool True)) 200)
    (bind (tray_request E (te_api E) ''/v1/models'' (Some (te_api_token E)) Empty) (\<lambda>(r, body).
     check_res ''pause_rejects_with_retry_hint'' (retry_hint r body)))"

definition resume_proxy :: "tray_env \<Rightarrow> pyval \<Rightarrow> (tray, unit) act" where
  "resume_proxy E earlier = bind (lift (getitem earlier ''paused'')) (\<lambda>p.
     check_status E ''resume_applied'' ''/proxy/pause'' (Some (te_admin_token E)) (paused_body p) 200)"

section \<open>One completion\<close>

definition chat_body :: "tray_env \<Rightarrow> payload" where
  "chat_body E = Json (PDict [(''model'', PStr (te_model E)), (''stream'', PBool False), (''max_tokens'', PInt 96),
     (''thinking'', PDict [(''type'', PStr ''disabled'')]),
     (''messages'', PList [PDict [(''role'', PStr ''user''), (''content'', PStr ''Reply with the word READY.'')]])])"

definition completed_ok :: "mreply \<Rightarrow> pyval \<Rightarrow> bool res" where
  "completed_ok r body = rand (Inr (mr_status r = 200)) (rbind (pyget body ''choices'' PNone) (\<lambda>c. Inr (truthy c)))"

text \<open>\<^verbatim>\<open>v[k] - w[k] == x\<close>.\<close>

definition grew_by :: "pyval \<Rightarrow> pyval \<Rightarrow> string \<Rightarrow> pyval \<Rightarrow> bool res" where
  "grew_by v w k x = rbind (getitem v k) (\<lambda>a. rbind (getitem w k) (\<lambda>b. rbind (num_sub a b) (\<lambda>d. Inr (py_eq d x))))"

definition tokens_exact :: "pyval \<Rightarrow> pyval \<Rightarrow> pyval \<Rightarrow> string \<Rightarrow> bool res" where
  "tokens_exact base later usage k = rand (py_in k usage)
     (rbind (getitem later k) (\<lambda>a. rbind (getitem base k) (\<lambda>b. rbind (num_sub a b) (\<lambda>d.
      rbind (getitem usage k) (\<lambda>u. Inr (py_eq d u))))))"

definition cached_of :: "pyval \<Rightarrow> pyval res" where
  "cached_of usage =
     rbind (pyget usage ''prompt_tokens_details'' (PDict [])) (\<lambda>details.
     rbind (pyget details ''cached_tokens'' (PInt 0)) (\<lambda>dflt. pyget usage ''prompt_cache_hit_tokens'' dflt))"

definition outcomes :: "pyval \<Rightarrow> pyval \<Rightarrow> bool res" where
  "outcomes earlier later = rand (grew_by later earlier ''requests'' (PInt 2))
     (rand (grew_by later earlier ''succeeded'' (PInt 1)) (grew_by later earlier ''failed'' (PInt 1)))"

definition state_agrees :: "pyval \<Rightarrow> pyval \<Rightarrow> bool res" where
  "state_agrees state later = rall (\<lambda>k. rbind (path_at state [''llm'', k]) (\<lambda>x. rbind (getitem later k) (\<lambda>y. Inr (py_eq x y))))
     [''requests'', ''completed'', ''total_tokens'', ''paused'']"

text \<open>\<^verbatim>\<open>paired and not paused and active == 0\<close>: the value of the first operand that decides.\<close>

definition device_ready :: "pyval \<Rightarrow> pyval \<Rightarrow> pyval res" where
  "device_ready state later = rbind (path_at state [''connection'', ''paired'']) (\<lambda>p.
     if \<not> truthy p then Inr p else
     rbind (rand (unset_at later [''paused'']) (rbind (getitem later ''active'') (\<lambda>a. Inr (eq_int a 0)))) (\<lambda>b. Inr (PBool b)))"

definition completion_probe :: "tray_env \<Rightarrow> pyval \<Rightarrow> pyval \<Rightarrow> (tray, unit) act" where
  "completion_probe E earlier base =
     bind (tray_request E (te_api E) ''/v1/chat/completions'' (Some (te_api_token E)) (chat_body E)) (\<lambda>(r, body).
     andthen (check_res ''real_json_completion'' (completed_ok r body))
    (bind (lift (pyget body ''usage'' (PDict []))) (\<lambda>usage.
     andthen (modify (\<lambda>s. s\<lparr>tr_usage := Some usage\<rparr>))
    (bind (wait_settled E base) (\<lambda>later.
     andthen (modify (\<lambda>s. s\<lparr>tr_after := Some later\<rparr>))
    (andthen (for_each token_keys (\<lambda>k. check_res (''json_'' @ k @ ''_exact'') (tokens_exact base later usage k)))
    (bind (lift (cached_of usage)) (\<lambda>cached.
     andthen (check_res ''json_cached_tokens_exact'' (grew_by later base ''cached_tokens'' cached))
    (andthen (check_res ''json_usage_reported_once'' (grew_by later base ''usage_reported'' (PInt 1)))
    (andthen (check_res ''pause_counted_as_rejected'' (grew_by later earlier ''rejected'' (PInt 1)))
    (andthen (check_res ''request_outcomes'' (outcomes earlier later))
    (bind (tray_request E (te_admin E) ''/state'' (Some (te_admin_token E)) Empty) (\<lambda>(_, state).
     andthen (check_res ''state_and_metrics_consistent'' (state_agrees state later))
    (bind (lift (device_ready state later)) (check_as ''device_ready_after_test'')))))))))))))))"

section \<open>The whole check\<close>

definition probe_metrics :: "tray_env \<Rightarrow> pyval \<Rightarrow> (tray, unit) act" where
  "probe_metrics E earlier =
     andthen (assert_res (rand (rbind (getitem earlier ''active'') (\<lambda>a. Inr (eq_int a 0))) (unset_at earlier [''paused'']))
       ''requires an idle, resumed daemon'')
    (andthen (check_status E ''metrics_authenticated'' ''/metrics'' None Empty 401)
    (andthen (check_status E ''pause_authenticated'' ''/proxy/pause'' None (paused_body (PBool True)) 401)
    (andthen (check_status E ''pause_strict_validation'' ''/proxy/pause'' (Some (te_admin_token E)) (Json (PDict [])) 400)
    (andthen (finally_do (pause_probe E) (resume_proxy E earlier))
    (bind (wait_settled E earlier) (completion_probe E earlier))))))"

definition tray_steps :: "tray_env \<Rightarrow> (tray, unit) act" where
  "tray_steps E =
     bind (metrics E) (\<lambda>earlier.
     andthen (modify (\<lambda>s. s\<lparr>tr_before := Some earlier\<rparr>))
    (andthen (case te_agent E of None \<Rightarrow> ret () | Some r \<Rightarrow> bind (lift r) (reconcile E earlier))
    (andthen (when_do (\<not> te_reconcile E) (probe_metrics E earlier))
      (modify (\<lambda>s. s\<lparr>tr_passed := (tr_checks s \<noteq> [] \<and> list_all (truthy \<circ> snd) (tr_checks s))\<rparr>)))))"

definition tray_main :: "tray_env \<Rightarrow> (tray, int) act" where
  "tray_main E =
     andthen (catch is_exception (tray_steps E) (\<lambda>e. modify (\<lambda>s. s\<lparr>tr_error := Some (class_name (exc_kind e)), tr_passed := False\<rparr>)))
       (gets (\<lambda>s. if tr_passed s then 0 else 1))"

end
