(* ===== verification/TrayProps.thy ===== *)
theory TrayProps
  imports Tray
begin

text \<open>
  What the tray check guarantees: the proxy is never left paused, and a passed report compared the
  counters of the gateway with the usage of one real completion.
\<close>

section \<open>Pausing\<close>

definition pause_call :: "tray_env \<Rightarrow> pyval \<Rightarrow> mcall" where
  "pause_call E v = tray_call (te_admin E) ''/proxy/pause'' (Some (te_admin_token E)) (paused_body v)"

definition metrics_call :: "tray_env \<Rightarrow> mcall" where
  "metrics_call E = tray_call (te_admin E) ''/metrics'' (Some (te_admin_token E)) Empty"

text \<open>The gateway's answer to the last of some requests; and a snapshot of the metrics among them.\<close>

definition answered :: "tray_env \<Rightarrow> mcall list \<Rightarrow> (mreply \<Rightarrow> pyval \<Rightarrow> bool res) \<Rightarrow> bool" where
  "answered E cs f \<longleftrightarrow> (\<exists>r v. cs \<noteq> [] \<and> te_up E (butlast cs) (last cs) = Inr r \<and> loads (te_lib E) (mr_body r) = Inr v
     \<and> f r v = Inr True)"

definition snapshot_of :: "tray_env \<Rightarrow> mcall list \<Rightarrow> pyval \<Rightarrow> bool" where
  "snapshot_of E cs v \<longleftrightarrow> last cs = metrics_call E \<and> answered E cs (\<lambda>r w. Inr (mr_status r = 200 \<and> w = v))"

text \<open>
  The value of \<^verbatim>\<open>paused\<close> in the first snapshot. Every pause is followed by a request that sets exactly
  this value, which is not true, and no pause comes after that one.
\<close>

definition paused_at_start :: "tray_env \<Rightarrow> pyval \<Rightarrow> bool" where
  "paused_at_start E v \<longleftrightarrow> (\<exists>m. snapshot_of E [metrics_call E] m \<and> getitem m ''paused'' = Inr v)"

definition resumed :: "tray_env \<Rightarrow> mcall list \<Rightarrow> bool" where
  "resumed E = undone (\<lambda>c. c = pause_call E (PBool True))
     (\<lambda>c. \<exists>v. c = pause_call E v \<and> paused_at_start E v \<and> \<not> truthy v)"

abbreviation peaceful :: "tray_env \<Rightarrow> (tray, 'a) act \<Rightarrow> bool" where
  "peaceful E \<equiv> asks.grows (\<lambda>c. c \<noteq> pause_call E (PBool True))"

lemma peaceful_keeps: "peaceful E m \<Longrightarrow> keeps (\<lambda>s. resumed E (mg_calls s)) m"
  unfolding resumed_def by (rule keeps_undone)

lemma settled_loop_eqs: "settled_loop 0 E n = raise AssertionError ''request cleanup did not settle''"
  "settled_loop (Suc k) E n = bind (metrics E) (\<lambda>v. bind (lift (is_settled n v)) (\<lambda>b.
     if b then ret v else settled_loop k E n))"
  by (simp_all add: fun_eq_iff)

lemma peaceful_request:
  "tray_call base path token data \<noteq> pause_call E (PBool True) \<Longrightarrow> peaceful E (tray_request E base path token data)"
  unfolding tray_request_def by (intro asks_rules asks_send)

lemma not_pausing:
  "data \<noteq> paused_body (PBool True) \<Longrightarrow> tray_call base path token data \<noteq> pause_call E (PBool True)"
  "te_admin_token E \<noteq> [] \<Longrightarrow> tray_call base path None data \<noteq> pause_call E (PBool True)"
  by (auto simp: tray_call_def pause_call_def)

lemma peaceful_check: "peaceful E (check_as k v)" "peaceful E (check_res k r)"
  unfolding check_res_def check_as_def by (intro asks_rules asks_modify; simp)+

lemma peaceful_metrics: "peaceful E (metrics E)"
  unfolding metrics_def by (intro asks_rules peaceful_request not_pausing) (simp add: paused_body_def)

lemma peaceful_settled: "peaceful E (wait_settled E v)"
proof -
  have "peaceful E (settled_loop k E n)" for k n
    by (induction k) (auto simp: settled_loop_eqs intro!: asks_rules peaceful_metrics)
  then show ?thesis
    unfolding wait_settled_def by (intro asks_rules)
qed

lemmas peaceful_rules = asks_rules peaceful_check peaceful_request peaceful_metrics peaceful_settled

lemma peaceful_completion: "peaceful E (completion_probe E earlier base)"
  unfolding completion_probe_def
  by (intro peaceful_rules not_pausing asks_modify) (simp_all add: chat_body_def paused_body_def)

lemma peaceful_reconcile: "peaceful E (reconcile E earlier agent)"
  unfolding reconcile_def by (intro peaceful_rules asks_modify) simp

lemma peaceful_status: "tray_call (te_admin E) path token data \<noteq> pause_call E (PBool True)
    \<Longrightarrow> peaceful E (check_status E name path token data status)"
  unfolding check_status_def by (intro peaceful_rules)

lemma request_calls: "tray_request E base path token data s
    = (rbind (te_up E (mg_calls s) (tray_call base path token data)) (\<lambda>r. rbind (loads (te_lib E) (mr_body r)) (\<lambda>v. Inr (r, v))),
       s\<lparr>mg_calls := mg_calls s @ [tray_call base path token data]\<rparr>)"
  by (auto simp: tray_request_def send_def bind_def act_run rbind_def split: sum.splits)

lemma status_calls: "mg_calls (snd (check_status E name path token data status s))
    = mg_calls s @ [tray_call (te_admin E) path token data]"
  by (auto simp: check_status_def bind_def request_calls check_as_def act_run split: sum.splits prod.splits)

text \<open>The request that resumes is the last one of its clause, whatever the gateway answers.\<close>

lemma resume_last:
  assumes "getitem earlier ''paused'' = Inr v" and "paused_at_start E v" and "\<not> truthy v"
  shows "resumed E (mg_calls (snd (resume_proxy E earlier s)))"
proof -
  have "mg_calls (snd (resume_proxy E earlier s)) = mg_calls s @ [pause_call E v]"
    using status_calls [of E "''resume_applied''" "''/proxy/pause''" "Some (te_admin_token E)" "paused_body v" 200 s]
    by (simp add: assms(1) resume_proxy_def pause_call_def)
  then show ?thesis
    using assms(2,3) by (auto simp: resumed_def intro: undone_closed)
qed

lemma probe_resumed:
  assumes token: "te_admin_token E \<noteq> []" and first: "snapshot_of E [metrics_call E] earlier"
  shows "keeps (\<lambda>s. resumed E (mg_calls s)) (probe_metrics E earlier)"
proof (cases "rand (rbind (getitem earlier ''active'') (\<lambda>a. Inr (eq_int a 0))) (unset_at earlier [''paused''])")
  case (Inr idle)
  show ?thesis
  proof (cases idle)
    case True
    then obtain v where "getitem earlier ''paused'' = Inr v" "paused_at_start E v" "\<not> truthy v"
      using Inr first by (auto simp: rand_True_iff unset_at_def rbind_Inr_iff paused_at_start_def)
    then have "keeps (\<lambda>s. resumed E (mg_calls s)) (finally_do (pause_probe E) (resume_proxy E earlier))"
      by (intro finally_last resume_last)
    note clause = this
    have before: "keeps (\<lambda>s. resumed E (mg_calls s)) (check_status E ''metrics_authenticated'' ''/metrics'' None Empty 401)"
      "keeps (\<lambda>s. resumed E (mg_calls s)) (check_status E ''pause_authenticated'' ''/proxy/pause'' None (paused_body (PBool True)) 401)"
      "keeps (\<lambda>s. resumed E (mg_calls s)) (check_status E ''pause_strict_validation'' ''/proxy/pause''
         (Some (te_admin_token E)) (Json (PDict [])) 400)"
      using token by (auto intro!: peaceful_keeps peaceful_status not_pausing simp: paused_body_def)
    have rest: "keeps (\<lambda>s. resumed E (mg_calls s)) (bind (wait_settled E earlier) (completion_probe E earlier))"
      by (intro keeps_bind peaceful_keeps peaceful_settled peaceful_completion)
    then show ?thesis
      unfolding probe_metrics_def by (intro keeps_andthen keeps_assert clause before rest)
  next
    case False
    then show ?thesis
      using Inr by (simp add: probe_metrics_def keeps_basic)
  qed
qed (simp add: probe_metrics_def keeps_basic)

text \<open>Every run starts with the snapshot of the metrics, and its requests are only ever added to.\<close>

lemma metrics_run: "metrics E s = (r, t) \<Longrightarrow> mg_calls t = mg_calls s @ [metrics_call E]
    \<and> t = s\<lparr>mg_calls := mg_calls t\<rparr> \<and> (\<forall>v. r = Inr v \<longrightarrow> snapshot_of E (mg_calls t) v)"
  by (auto simp: metrics_def bind_def request_calls metrics_call_def snapshot_of_def answered_def rbind_def act_run
      assert_that_def andthen_def split: sum.splits if_splits)

lemma peaceful_extends: "peaceful E m \<Longrightarrow> asks.grows (\<lambda>_. True) m"
  unfolding asks.grows_def only_def by (simp add: list.pred_True) blast

lemma extends_status: "asks.grows (\<lambda>_. True) (check_status E name path token data status)"
  unfolding asks.grows_def by (simp add: only_def status_calls)

lemma extends_probe: "asks.grows (\<lambda>_. True) (probe_metrics E earlier)"
proof -
  have "asks.grows (\<lambda>_. True) (pause_probe E)" unfolding pause_probe_def
    by (intro asks_rules extends_status peaceful_extends [OF peaceful_check(2)]
        peaceful_extends [OF peaceful_request] not_pausing) (simp add: paused_body_def)
  moreover have "asks.grows (\<lambda>_. True) (resume_proxy E earlier)"
    unfolding resume_proxy_def by (intro asks_rules extends_status)
  ultimately show ?thesis unfolding probe_metrics_def
    by (intro asks_rules extends_status peaceful_extends [OF peaceful_settled] peaceful_extends [OF peaceful_completion])
qed

text \<open>What follows the first snapshot.\<close>

definition tray_rest :: "tray_env \<Rightarrow> pyval \<Rightarrow> (tray, unit) act" where
  "tray_rest E earlier = andthen (modify (\<lambda>s. s\<lparr>tr_before := Some earlier\<rparr>))
    (andthen (case te_agent E of None \<Rightarrow> ret () | Some r \<Rightarrow> bind (lift r) (reconcile E earlier))
    (andthen (when_do (\<not> te_reconcile E) (probe_metrics E earlier))
      (modify (\<lambda>s. s\<lparr>tr_passed := (tr_checks s \<noteq> [] \<and> list_all (truthy \<circ> snd) (tr_checks s))\<rparr>))))"

lemma rest_extends: "asks.grows (\<lambda>_. True) (tray_rest E earlier)"
proof -
  have "asks.grows (\<lambda>_. True) (case te_agent E of None \<Rightarrow> ret () | Some r \<Rightarrow> bind (lift r) (reconcile E earlier))"
    by (cases "te_agent E") (auto intro!: asks_rules peaceful_extends [OF peaceful_reconcile])
  then show ?thesis unfolding tray_rest_def by (intro asks_rules extends_probe asks_modify) simp_all
qed

lemma rest_resumed:
  assumes token: "te_admin_token E \<noteq> []" and first: "snapshot_of E [metrics_call E] earlier"
  shows "keeps (\<lambda>s. resumed E (mg_calls s)) (tray_rest E earlier)"
proof -
  have "keeps (\<lambda>s. resumed E (mg_calls s)) (case te_agent E of None \<Rightarrow> ret () | Some r \<Rightarrow> bind (lift r) (reconcile E earlier))"
    by (cases "te_agent E") (auto intro!: keeps_basic keeps_bind peaceful_keeps [OF peaceful_reconcile])
  then show ?thesis unfolding tray_rest_def
    by (intro keeps_andthen keeps_when keeps_modify probe_resumed token first) simp_all
qed

lemma tray_main_calls: "mg_calls (snd (tray_main E s)) = mg_calls (snd (bind (metrics E) (tray_rest E) s))"
proof -
  have "tray_steps E = bind (metrics E) (tray_rest E)"
    by (simp add: tray_steps_def tray_rest_def [abs_def])
  then show ?thesis
    by (auto simp: tray_main_def andthen_def bind_def [of "catch _ _ _"] catch_def act_run
        split: sum.splits prod.splits)
qed

text \<open>
  C10. The tray check never leaves the proxy paused: whatever the gateway answers and however the run
  ends, an interrupt included, its first request is the snapshot of the metrics, and each authenticated
  pause request is followed by one that sets exactly the value of \<^verbatim>\<open>paused\<close> in the answer
  to that first request, which was not true; no pause comes after it.
\<close>

theorem proxy_resumed:
  assumes token: "te_admin_token E \<noteq> []"
  shows "hd (mg_calls (snd (tray_main E tray_init))) = metrics_call E
    \<and> resumed E (mg_calls (snd (tray_main E tray_init)))"
proof -
  obtain r u where first: "metrics E tray_init = (r, u)"
    by fastforce
  have u: "mg_calls u = [metrics_call E]"
    using metrics_run [OF first] by (simp add: tray_init_def)
  have shown: "snapshot_of E [metrics_call E] v" if "r = Inr v" for v
    using metrics_run [OF first] that by (simp add: u)
  have "metrics_call E \<noteq> pause_call E (PBool True)"
    by (simp add: metrics_call_def not_pausing paused_body_def)
  then have start: "resumed E (mg_calls u)"
    by (simp add: resumed_def undone_def u)
  show ?thesis
  proof (cases r)
    case (Inl e)
    then show ?thesis
      using first start by (simp add: tray_main_calls bind_def u)
  next
    case (Inr earlier)
    obtain new where "mg_calls (snd (tray_rest E earlier u)) = mg_calls u @ new"
      using asks.growsD [OF rest_extends, of u E earlier] by (auto simp: only_def)
    moreover have "resumed E (mg_calls (snd (tray_rest E earlier u)))"
      by (rule keepsD [OF rest_resumed [OF token shown [OF Inr]]]) (rule start)
    ultimately show ?thesis
      using first Inr by (simp add: tray_main_calls bind_def u)
  qed
qed

section \<open>Passed\<close>

lemma check_as_run: "check_as k v s = (Inr (), t) \<longleftrightarrow> t = s\<lparr>tr_checks := AList.update k v (tr_checks s)\<rparr>"
  by (auto simp: check_as_def act_run)

lemma check_res_run: "check_res k r s = (Inr (), t) \<longleftrightarrow>
    (\<exists>b. r = Inr b \<and> t = s\<lparr>tr_checks := AList.update k (PBool b) (tr_checks s)\<rparr>)"
  by (cases r) (auto simp: check_res_def check_as_def act_run)

lemma request_Inr: "tray_request E base path token data s = (Inr (r, v), t) \<longleftrightarrow>
    te_up E (mg_calls s) (tray_call base path token data) = Inr r \<and> loads (te_lib E) (mr_body r) = Inr v
    \<and> t = s\<lparr>mg_calls := mg_calls s @ [tray_call base path token data]\<rparr>"
  by (auto simp: request_calls rbind_Inr_iff)

text \<open>Waiting only reads, and what it returns is the last snapshot, with one more request completed.\<close>

definition only_reads :: "tray \<Rightarrow> tray \<Rightarrow> bool" where
  "only_reads s t \<longleftrightarrow> (\<exists>new. t = s\<lparr>mg_calls := mg_calls s @ new\<rparr>)"

interpretation reading: state_order only_reads
proof unfold_locales
  show "only_reads s s" for s
    unfolding only_reads_def by (rule exI [of _ "[]"]) simp
  show "only_reads s t \<Longrightarrow> only_reads t u \<Longrightarrow> only_reads s u" for s t u
    by (auto simp: only_reads_def)
qed

lemma reading_metrics: "reading.grows (metrics E)"
proof -
  have "reading.grows (tray_request E base path token data)" for base path token data
    by (auto simp: reading.grows_def request_calls only_reads_def)
  then show ?thesis
    unfolding metrics_def assert_that_def by (intro reading.grows_rules)
qed

lemma reading_settled: "reading.grows (wait_settled E v)"
proof -
  have "reading.grows (settled_loop k E n)" for k n
    by (induction k) (auto simp: settled_loop_eqs intro!: reading.grows_rules reading_metrics)
  then show ?thesis
    unfolding wait_settled_def by (intro reading.grows_rules)
qed

definition settled_after :: "pyval \<Rightarrow> pyval \<Rightarrow> bool" where
  "settled_after v w \<longleftrightarrow> (\<exists>n. rbind (getitem v ''completed'') (\<lambda>c. num_inc c 1) = Inr n \<and> is_settled n w = Inr True)"

lemma settled_loop_result:
  "settled_loop k E n s = (Inr w, t) \<Longrightarrow> is_settled n w = Inr True \<and> snapshot_of E (mg_calls t) w"
proof (induction k arbitrary: s)
  case (Suc k)
  then show ?case
    by (auto simp: settled_loop_eqs bind_Inr_iff act_run dest: metrics_run split: if_splits)
qed (simp add: settled_loop_eqs act_run)

lemma settled_D:
  assumes "wait_settled E v s = (Inr w, t)"
  shows "settled_after v w \<and> snapshot_of E (mg_calls t) w \<and> (\<exists>new. t = s\<lparr>mg_calls := mg_calls s @ new\<rparr>)"
proof -
  obtain n where "rbind (getitem v ''completed'') (\<lambda>c. num_inc c 1) = Inr n" "settled_loop 100 E n s = (Inr w, t)"
    using assms by (auto simp: wait_settled_def bind_Inr_iff act_run)
  moreover have "only_reads s t"
    using reading.growsD [OF reading_settled, of s E v] assms by simp
  ultimately show ?thesis
    using settled_loop_result [of 100 E n s w t] by (auto simp: settled_after_def only_reads_def)
qed

text \<open>A check and what it stands for when it is true.\<close>

definition vouches :: "pydict \<Rightarrow> string \<Rightarrow> bool \<Rightarrow> bool" where
  "vouches cs k P \<longleftrightarrow> (\<exists>v. map_of cs k = Some v \<and> (truthy v \<longrightarrow> P))"

lemma recorded_true: "list_all (truthy \<circ> snd) cs \<Longrightarrow> map_of cs k = Some v \<Longrightarrow> truthy v"
  by (auto simp: list_all_iff dest!: map_of_SomeD)

lemma vouched: "vouches cs k P \<Longrightarrow> list_all (truthy \<circ> snd) cs \<Longrightarrow> P"
  by (auto simp: vouches_def dest: recorded_true)

lemma vouches_cong: "map_of cs k = map_of ds k \<Longrightarrow> vouches cs k P = vouches ds k P"
  by (simp add: vouches_def)

lemma vouches_updated: "vouches (AList.update k v cs) k' P
    \<longleftrightarrow> (if k = k' then truthy v \<longrightarrow> P else vouches cs k' P)"
  by (auto simp: vouches_def update_conv')

definition pause_names :: "string list" where
  "pause_names = [''metrics_authenticated'', ''pause_authenticated'', ''pause_strict_validation'', ''pause_applied'',
     ''pause_rejects_with_retry_hint'', ''resume_applied'']"

definition chat_call :: "tray_env \<Rightarrow> mcall" where
  "chat_call E = tray_call (te_api E) ''/v1/chat/completions'' (Some (te_api_token E)) (chat_body E)"

definition state_call :: "tray_env \<Rightarrow> mcall" where
  "state_call E = tray_call (te_admin E) ''/state'' (Some (te_admin_token E)) Empty"

text \<open>The upstream answered the completion with choices and this usage.\<close>

definition reports_usage :: "pyval \<Rightarrow> mreply \<Rightarrow> pyval \<Rightarrow> bool res" where
  "reports_usage usage r body = rand (completed_ok r body) (rbind (pyget body ''usage'' (PDict [])) (\<lambda>u. Inr (u = usage)))"

text \<open>What the completion's checks record, when the probe returns.\<close>

definition compared :: "pyval \<Rightarrow> pyval \<Rightarrow> pyval \<Rightarrow> pyval \<Rightarrow> bool" where
  "compared earlier base later usage \<longleftrightarrow> list_all (\<lambda>k. tokens_exact base later usage k = Inr True) token_keys
     \<and> grew_by later earlier ''rejected'' (PInt 1) = Inr True \<and> outcomes earlier later = Inr True
     \<and> unset_at later [''paused''] = Inr True \<and> rbind (getitem later ''active'') (\<lambda>a. Inr (eq_int a 0)) = Inr True"

lemma ready_True: "device_ready st later = Inr v \<Longrightarrow> truthy v \<Longrightarrow>
    unset_at later [''paused''] = Inr True \<and> rbind (getitem later ''active'') (\<lambda>a. Inr (eq_int a 0)) = Inr True"
  by (auto simp: device_ready_def rbind_Inr_iff rand_True_iff split: if_splits)

lemma completion_records:
  assumes "completion_probe E earlier base s = (Inr (), t)" and passed: "list_all (truthy \<circ> snd) (tr_checks t)"
  shows "\<exists>later usage wait. mg_calls t = mg_calls s @ [chat_call E] @ wait @ [state_call E]
    \<and> answered E (mg_calls s @ [chat_call E]) (reports_usage usage)
    \<and> snapshot_of E (mg_calls s @ [chat_call E] @ wait) later \<and> settled_after base later
    \<and> compared earlier base later usage
    \<and> list_all (\<lambda>k. map_of (tr_checks t) k = map_of (tr_checks s) k) pause_names"
proof -
  obtain r body ba usage later w cached bb bc bd be bf bg bh bj v bi
    where chat: "te_up E (mg_calls s) (chat_call E) = Inr r" "loads (te_lib E) (mr_body r) = Inr body"
      "completed_ok r body = Inr ba" "pyget body ''usage'' (PDict []) = Inr usage"
      and wait: "wait_settled E base (s\<lparr>mg_calls := mg_calls s @ [chat_call E], tr_checks := AList.update ''real_json_completion'' (PBool ba) (tr_checks s),
        tr_usage := Some usage\<rparr>) = (Inr later, w)"
      and ts: "tokens_exact base later usage ''prompt_tokens'' = Inr bb" "tokens_exact base later usage ''completion_tokens'' = Inr bc"
        "tokens_exact base later usage ''total_tokens'' = Inr bd"
      and cs: "grew_by later earlier ''rejected'' (PInt 1) = Inr bg" "outcomes earlier later = Inr bh" "device_ready bi later = Inr v"
      and t: "t = w\<lparr>tr_after := Some later, mg_calls := mg_calls w @ [state_call E],
         tr_checks := AList.update ''device_ready_after_test'' v (AList.update ''state_and_metrics_consistent'' (PBool bj)
           (AList.update ''request_outcomes'' (PBool bh) (AList.update ''pause_counted_as_rejected'' (PBool bg)
           (AList.update ''json_usage_reported_once'' (PBool bf) (AList.update ''json_cached_tokens_exact'' (PBool be)
           (AList.update ''json_total_tokens_exact'' (PBool bd) (AList.update ''json_completion_tokens_exact'' (PBool bc)
           (AList.update ''json_prompt_tokens_exact'' (PBool bb) (tr_checks w)))))))))\<rparr>"
    using assms(1) unfolding completion_probe_def chat_call_def state_call_def
    by (auto simp: bind_Inr_iff andthen_def check_as_run check_res_run act_run token_keys_def request_Inr)
  obtain new where w: "mg_calls w = mg_calls s @ [chat_call E] @ new"
      "tr_checks w = AList.update ''real_json_completion'' (PBool ba) (tr_checks s)"
    and later: "settled_after base later" "snapshot_of E (mg_calls w) later"
    using settled_D [OF wait] by auto
  have holds: "P" if "vouches (tr_checks t) k P" for k P
    by (rule vouched [OF that passed])
  have "bb" by (rule holds [of "''json_prompt_tokens_exact''"]) (simp add: t vouches_updated)
  moreover have "bc" by (rule holds [of "''json_completion_tokens_exact''"]) (simp add: t vouches_updated)
  moreover have "bd" by (rule holds [of "''json_total_tokens_exact''"]) (simp add: t vouches_updated)
  moreover have "bg" by (rule holds [of "''pause_counted_as_rejected''"]) (simp add: t vouches_updated)
  moreover have "bh" by (rule holds [of "''request_outcomes''"]) (simp add: t vouches_updated)
  moreover have "truthy v" by (rule holds [of "''device_ready_after_test''"]) (simp add: t vouches_updated)
  ultimately have "compared earlier base later usage"
    using ts cs ready_True [OF cs(3)] by (simp add: compared_def token_keys_def)
  moreover have "ba" by (rule holds [of "''real_json_completion''"]) (simp add: t w vouches_updated)
  then have "answered E (mg_calls s @ [chat_call E]) (reports_usage usage)"
    using chat by (simp add: answered_def reports_usage_def rand_True_iff)
  moreover have "list_all (\<lambda>k. map_of (tr_checks t) k = map_of (tr_checks s) k) pause_names"
    by (simp add: t w pause_names_def update_conv')
  ultimately show ?thesis
    using later by (intro exI [of _ later] exI [of _ usage] exI [of _ new]) (simp add: t w)
qed

text \<open>The pausing part, when it returns.\<close>

abbreviation has_status :: "int \<Rightarrow> mreply \<Rightarrow> pyval \<Rightarrow> bool res" where
  "has_status n \<equiv> \<lambda>r _. Inr (mr_status r = n)"

definition models_call :: "tray_env \<Rightarrow> mcall" where
  "models_call E = tray_call (te_api E) ''/v1/models'' (Some (te_api_token E)) Empty"

text \<open>
  The metrics and the pause without a token, a malformed pause, the pause, the model interface,
  and the resumption.
\<close>

definition pausing :: "tray_env \<Rightarrow> pyval \<Rightarrow> mcall list" where
  "pausing E v = [tray_call (te_admin E) ''/metrics'' None Empty,
     tray_call (te_admin E) ''/proxy/pause'' None (paused_body (PBool True)),
     tray_call (te_admin E) ''/proxy/pause'' (Some (te_admin_token E)) (Json (PDict [])),
     pause_call E (PBool True), models_call E, pause_call E v]"

definition pause_expected :: "(mreply \<Rightarrow> pyval \<Rightarrow> bool res) list" where
  "pause_expected = [has_status 401, has_status 401, has_status 400, has_status 200, retry_hint, has_status 200]"

text \<open>Each of these requests got the answer expected of it.\<close>

definition pause_respected :: "tray_env \<Rightarrow> mcall list \<Rightarrow> pyval \<Rightarrow> bool" where
  "pause_respected E front v \<longleftrightarrow>
     list_all (\<lambda>(i, f). answered E (front @ take (Suc i) (pausing E v)) f) (enumerate 0 pause_expected)"

lemma status_D: "check_status E name path token data status s = (Inr (), t) \<Longrightarrow>
    mg_calls t = mg_calls s @ [tray_call (te_admin E) path token data]
    \<and> (\<exists>b. tr_checks t = AList.update name (PBool b) (tr_checks s)
         \<and> (b \<longrightarrow> answered E (mg_calls t) (has_status status)))"
  by (auto simp: check_status_def bind_Inr_iff request_Inr check_as_run answered_def)

lemma hint_D: "bind (tray_request E base path token data) (\<lambda>(r, body). check_res name (f r body)) s = (Inr (), t) \<Longrightarrow>
    mg_calls t = mg_calls s @ [tray_call base path token data]
    \<and> (\<exists>b. tr_checks t = AList.update name (PBool b) (tr_checks s) \<and> (b \<longrightarrow> answered E (mg_calls t) f))"
  by (auto simp: bind_Inr_iff request_Inr check_res_run answered_def)

lemma finally_Inr: "finally_do m n s = (Inr x, t) \<longleftrightarrow> (\<exists>u y. m s = (Inr x, u) \<and> n u = (Inr y, t))"
  by (auto simp: finally_do_def split: prod.splits sum.splits)

lemma chained: "andthen m n s = (Inr y, t) \<Longrightarrow> \<exists>x u. m s = (Inr x, u) \<and> n u = (Inr y, t)"
  by (auto simp: andthen_def bind_Inr_iff)

lemma pause_records:
  assumes run: "andthen (check_status E ''metrics_authenticated'' ''/metrics'' None Empty 401)
    (andthen (check_status E ''pause_authenticated'' ''/proxy/pause'' None (paused_body (PBool True)) 401)
    (andthen (check_status E ''pause_strict_validation'' ''/proxy/pause'' (Some (te_admin_token E)) (Json (PDict [])) 400)
      (finally_do (pause_probe E) (resume_proxy E earlier)))) s = (Inr (), t)"
    and passed: "list_all (truthy \<circ> snd) cs" and same: "list_all (\<lambda>k. map_of cs k = map_of (tr_checks t) k) pause_names"
  shows "\<exists>v. getitem earlier ''paused'' = Inr v \<and> mg_calls t = mg_calls s @ pausing E v \<and> pause_respected E (mg_calls s) v"
proof -
  obtain u1 u2 u3 u5 where 1: "check_status E ''metrics_authenticated'' ''/metrics'' None Empty 401 s = (Inr (), u1)"
    and 2: "check_status E ''pause_authenticated'' ''/proxy/pause'' None (paused_body (PBool True)) 401 u1 = (Inr (), u2)"
    and 3: "check_status E ''pause_strict_validation'' ''/proxy/pause'' (Some (te_admin_token E)) (Json (PDict [])) 400 u2 = (Inr (), u3)"
    and pause: "pause_probe E u3 = (Inr (), u5)" and resume: "resume_proxy E earlier u5 = (Inr (), t)"
    using run by (auto simp: finally_Inr dest!: chained)
  obtain u4 where 4: "check_status E ''pause_applied'' ''/proxy/pause'' (Some (te_admin_token E)) (paused_body (PBool True)) 200 u3 = (Inr (), u4)"
    and 5: "bind (tray_request E (te_api E) ''/v1/models'' (Some (te_api_token E)) Empty) (\<lambda>(r, body).
       check_res ''pause_rejects_with_retry_hint'' (retry_hint r body)) u4 = (Inr (), u5)"
    using chained [OF pause [unfolded pause_probe_def]] by auto
  obtain v where v: "getitem earlier ''paused'' = Inr v"
    and 6: "check_status E ''resume_applied'' ''/proxy/pause'' (Some (te_admin_token E)) (paused_body v) 200 u5 = (Inr (), t)"
    using resume by (auto simp: resume_proxy_def bind_Inr_iff [of "lift _"] act_run)
  note facts = 1 [THEN status_D] 2 [THEN status_D] 3 [THEN status_D] 4 [THEN status_D] 5 [THEN hint_D] 6 [THEN status_D]
  have calls: "mg_calls u1 = mg_calls s @ take 1 (pausing E v)" "mg_calls u2 = mg_calls s @ take 2 (pausing E v)"
    "mg_calls u3 = mg_calls s @ take 3 (pausing E v)" "mg_calls u4 = mg_calls s @ take 4 (pausing E v)"
    "mg_calls u5 = mg_calls s @ take 5 (pausing E v)" "mg_calls t = mg_calls s @ take 6 (pausing E v)"
    using facts by (simp_all add: pausing_def models_call_def pause_call_def)
  have holds: "P" if "vouches (tr_checks t) k P" "k \<in> set pause_names" for k P
    using that vouched [OF _ passed, of k P] same vouches_cong [of cs k "tr_checks t" P] by (simp add: list_all_iff)
  obtain b1 b2 b3 b4 b5 b6 where checks: "tr_checks t = AList.update ''resume_applied'' (PBool b6)
      (AList.update ''pause_rejects_with_retry_hint'' (PBool b5) (AList.update ''pause_applied'' (PBool b4)
      (AList.update ''pause_strict_validation'' (PBool b3) (AList.update ''pause_authenticated'' (PBool b2)
      (AList.update ''metrics_authenticated'' (PBool b1) (tr_checks s))))))"
    and true: "b1 \<longrightarrow> answered E (mg_calls u1) (has_status 401)" "b2 \<longrightarrow> answered E (mg_calls u2) (has_status 401)"
      "b3 \<longrightarrow> answered E (mg_calls u3) (has_status 400)" "b4 \<longrightarrow> answered E (mg_calls u4) (has_status 200)"
      "b5 \<longrightarrow> answered E (mg_calls u5) retry_hint" "b6 \<longrightarrow> answered E (mg_calls t) (has_status 200)"
    using facts by metis
  have "b1" by (rule holds [of "''metrics_authenticated''"]) (simp_all add: checks vouches_updated pause_names_def)
  moreover have "b2" by (rule holds [of "''pause_authenticated''"]) (simp_all add: checks vouches_updated pause_names_def)
  moreover have "b3" by (rule holds [of "''pause_strict_validation''"]) (simp_all add: checks vouches_updated pause_names_def)
  moreover have "b4" by (rule holds [of "''pause_applied''"]) (simp_all add: checks vouches_updated pause_names_def)
  moreover have "b5" by (rule holds [of "''pause_rejects_with_retry_hint''"]) (simp_all add: checks vouches_updated pause_names_def)
  moreover have "b6" by (rule holds [of "''resume_applied''"]) (simp_all add: checks vouches_updated pause_names_def)
  ultimately have "answered E (mg_calls u1) (has_status 401)" "answered E (mg_calls u2) (has_status 401)"
    "answered E (mg_calls u3) (has_status 400)" "answered E (mg_calls u4) (has_status 200)"
    "answered E (mg_calls u5) retry_hint" "answered E (mg_calls t) (has_status 200)"
    using true by simp_all
  then have "pause_respected E (mg_calls s) v"
    unfolding calls by (simp add: pause_respected_def pause_expected_def eval_nat_numeral)
  then show ?thesis
    using v calls(6) by (auto simp: pausing_def)
qed

lemma reconcile_calls: "keeps (\<lambda>s. mg_calls s = x) (reconcile E earlier agent)"
  unfolding reconcile_def check_res_def check_as_def by (intro keeps_intro) simp_all

lemma steps_passed:
  assumes run: "tray_main E tray_init = (Inr 0, t)" and full: "\<not> te_reconcile E"
  shows "\<exists>earlier s v. snapshot_of E [metrics_call E] earlier \<and> mg_calls s = [metrics_call E]
    \<and> probe_metrics E earlier s = (Inr (), v) \<and> mg_calls t = mg_calls v \<and> list_all (truthy \<circ> snd) (tr_checks v)"
proof -
  have steps: "tray_steps E tray_init = (Inr (), t)" and passed: "tr_passed t"
    using run by (auto simp: tray_main_def andthen_def bind_Inr_iff catch_def act_run split: prod.splits sum.splits if_splits)
  obtain earlier r s v where first: "metrics E tray_init = (Inr earlier, r)"
    and agent: "(case te_agent E of None \<Rightarrow> ret () | Some x \<Rightarrow> bind (lift x) (reconcile E earlier))
      (r\<lparr>tr_before := Some earlier\<rparr>) = (Inr (), s)"
    and probe: "probe_metrics E earlier s = (Inr (), v)"
    and t: "t = v\<lparr>tr_passed := (tr_checks v \<noteq> [] \<and> list_all (truthy \<circ> snd) (tr_checks v))\<rparr>"
    using steps full by (auto simp: tray_steps_def andthen_def bind_Inr_iff act_run)
  have r: "mg_calls r = [metrics_call E]" and shown: "snapshot_of E (mg_calls r) earlier"
    using metrics_run [OF first] by (simp add: tray_init_def) (use metrics_run [OF first] in blast)
  have "keeps (\<lambda>s. mg_calls s = mg_calls r) (case te_agent E of None \<Rightarrow> ret () | Some x \<Rightarrow> bind (lift x) (reconcile E earlier))"
    by (cases "te_agent E") (auto intro!: keeps_basic keeps_bind reconcile_calls)
  from keepsD [OF this, of "r\<lparr>tr_before := Some earlier\<rparr>"] agent have "mg_calls s = [metrics_call E]"
    by (simp add: r)
  then show ?thesis
    using probe t passed shown by (auto simp: r)
qed


section \<open>Concrete runs\<close>

definition counters_doc :: "int \<Rightarrow> int \<Rightarrow> int \<Rightarrow> int \<Rightarrow> pyval" where
  "counters_doc r f c n = PDict [(''active'', PInt 0), (''paused'', PBool False), (''completed'', PInt (f + c)), (''requests'', PInt (f + c)),
     (''rejected'', PInt r), (''failed'', PInt f), (''succeeded'', PInt c), (''usage_reported'', PInt c), (''cached_tokens'', PInt 0),
     (''prompt_tokens'', PInt n), (''completion_tokens'', PInt n), (''total_tokens'', PInt (2 * n))]"

definition tray_lib :: pylib where
  "tray_lib = \<lparr>json_loads = map_of [(''a'', counters_doc 0 0 0 0), (''b'', counters_doc 1 1 0 0), (''c'', counters_doc 1 1 1 5),
       (''d'', PDict [(''llm'', counters_doc 1 1 1 5), (''connection'', PDict [(''paired'', PBool True)])]),
       (''e'', PDict [(''choices'', PList [PNone]), (''usage'', PDict [(''prompt_tokens'', PInt 5), (''completion_tokens'', PInt 5),
          (''total_tokens'', PInt 10)])]),
       (''f'', PDict [(''error'', PDict [(''code'', PStr ''proxy_paused'')])]), (''g'', PDict [])],
     dumps = (\<lambda>_. []), dumps_ascii = (\<lambda>_. []), sha256 = (\<lambda>_. []), repr_of = (\<lambda>_. [])\<rparr>"

definition tray_replies :: "mreply list" where
  "tray_replies = map (\<lambda>(n, b). \<lparr>mr_status = n, mr_headers = [(''Retry-After'', ''1'')], mr_body = b\<rparr>)
     [(200, ''a''), (401, ''g''), (401, ''g''), (400, ''g''), (200, ''g''), (503, ''f''), (200, ''g''), (200, ''b''), (200, ''e''),
      (200, ''c''), (200, ''d'')]"

definition tray_demo :: tray_env where
  "tray_demo = \<lparr>te_lib = tray_lib, te_up = (\<lambda>cs _. Inr (tray_replies ! length cs)), te_api = ''http://l:1'', te_admin = ''http://l:2'',
     te_api_token = ''p'', te_admin_token = ''q'', te_model = ''m'', te_host_hash = [], te_agent = None, te_reconcile = False\<rparr>"

text \<open>The same gateway, except that the model interface hangs up while the proxy is paused.\<close>

definition tray_cut :: tray_env where
  "tray_cut = tray_demo\<lparr>te_up := (\<lambda>cs c. if length cs = 5 then Inl (Exc KeyboardInterrupt []) else Inr (tray_replies ! length cs))\<rparr>"

lemma tray_demo_run: "fst (tray_main tray_demo tray_init) = Inr 0"
  by code_simp

lemma tray_cut_run: "map mc_body (mg_calls (snd (tray_main tray_cut tray_init)))
    = [Empty, Empty, paused_body (PBool True), Json (PDict []), paused_body (PBool True), Empty, paused_body (PBool False)]"
  by code_simp

lemma simps_tray_demo: "\<not> te_reconcile tray_demo"
  by (simp add: tray_demo_def)

lemma proxy_resumed_witness:
  "resumed tray_cut (mg_calls (snd (tray_main tray_cut tray_init)))
   \<and> map mc_body (mg_calls (snd (tray_main tray_cut tray_init)))
     = [Empty, Empty, paused_body (PBool True), Json (PDict []), paused_body (PBool True), Empty, paused_body (PBool False)]"
  using proxy_resumed [of tray_cut] tray_cut_run by (simp add: tray_cut_def tray_demo_def)


end
