(* ===== verification/Provision.thy ===== *)
theory Provision
  imports PyText
begin

text \<open>
  The credentials of a device, \<^verbatim>\<open>provision-device.py\<close>: the group of the password proof, the
  verifier, and the files of the pairing directory. The generator of the flash image, the hash,
  the random values, \<^verbatim>\<open>json.dump\<close> and the account tool of Windows are fields of the environment; a file that
  cannot be opened for writing is one whose \<^verbatim>\<open>pe_open\<close> raises.
\<close>

section \<open>Numbers as bytes\<close>

text \<open>\<^verbatim>\<open>int.from_bytes(b, 'big')\<close> and \<^verbatim>\<open>n.to_bytes(k, 'big')\<close>.\<close>

definition from_bytes :: "string \<Rightarrow> nat" where
  "from_bytes bs = foldl (\<lambda>a c. 256 * a + of_char c) 0 bs"

fun big_endian :: "nat \<Rightarrow> nat \<Rightarrow> string" where
  "big_endian 0 n = []"
| "big_endian (Suc k) n = big_endian k (n div 256) @ [char_of (n mod 256)]"

definition to_bytes :: "nat \<Rightarrow> nat \<Rightarrow> string res" where
  "to_bytes k n = (if n < 256 ^ k then Inr (big_endian k n) else Inl (Exc OverflowError ''int too big to convert''))"

text \<open>\<^verbatim>\<open>bytes.hex()\<close>: two digits per byte.\<close>

definition byte_hex :: "char \<Rightarrow> string" where
  "byte_hex c = [hex_chars ! (of_char c div 16), hex_chars ! (of_char c mod 16)]"

definition bytes_hex :: "string \<Rightarrow> string" where
  "bytes_hex bs = concat (map byte_hex bs)"

text \<open>\<^verbatim>\<open>int(s, 16)\<close> of digits of either case.\<close>

definition hex_number :: "string \<Rightarrow> nat option" where
  "hex_number s = (if s = [] then None else read_hex 0 (map lower_char s))"

section \<open>The group\<close>

definition SRP3072_PRIME :: string where
  "SRP3072_PRIME = ''FFFFFFFFFFFFFFFFC90FDAA22168C234C4C6628B80DC1CD129024E088A67CC74020BBEA63B139B22514A08798E3404DD''
     @ ''EF9519B3CD3A431B302B0A6DF25F14374FE1356D6D51C245E485B576625E7EC6F44C42E9A637ED6B0BFF5CB6F406B7ED''
     @ ''EE386BFB5A899FA5AE9F24117C4B1FE649286651ECE45B3DC2007CB8A163BF0598DA48361C55D39A69163FA8FD24CF5F''
     @ ''83655D23DCA3AD961C62F356208552BB9ED529077096966D670C354E4ABC9804F1746C08CA18217C32905E462E36CE3B''
     @ ''E39E772C180E86039B2783A2EC07A28FB5C55DF06F4C52C9DE2BCBF6955817183995497CEA956AE515D2261898FA0510''
     @ ''15728E5A8AAAC42DAD33170D04507A33A85521ABDF1CBA64ECFB850458DBEF0A8AEA71575D060C7DB3970F85A6E1E4C7''
     @ ''ABF5AE8CDB0933D71E8C94E04A25619DCEE3D2261AD2EE6BF12FFA06D98A0864D87602733EC86A64521F2B18177B200C''
     @ ''BBE117577A615D6C770988C0BAD946E208E24FA074E5AB3143DB5BFCE0FD108E4B82D120A93AD2CAFFFFFFFFFFFFFFFF''"

text \<open>
  \<^verbatim>\<open>re.search(r"static const char N_3072\[\]\s*=\s*\{(.*?)\};", source, re.S)\<close>: white space is skipped
  greedily, the group ends at the first closing brace with a semicolon.
\<close>

definition group_start :: string where
  "group_start = ''static const char N_3072[]''"

fun until_end :: "string \<Rightarrow> string option" where
  "until_end [] = None"
| "until_end (c # cs) = (if prefix ''};'' (c # cs) then Some [] else map_option (Cons c) (until_end cs))"

definition literal :: "string \<Rightarrow> string \<Rightarrow> string option" where
  "literal p s = (if prefix p s then Some (drop (length p) s) else None)"

definition match_group :: "string \<Rightarrow> string option" where
  "match_group s = (case literal group_start s of None \<Rightarrow> None
     | Some r \<Rightarrow> (case literal ''='' (lstrip r) of None \<Rightarrow> None
     | Some q \<Rightarrow> (case literal ''{'' (lstrip q) of None \<Rightarrow> None | Some g \<Rightarrow> until_end g)))"

fun search_group :: "string \<Rightarrow> string option" where
  "search_group [] = None"
| "search_group (c # cs) = (case match_group (c # cs) of Some g \<Rightarrow> Some g | None \<Rightarrow> search_group cs)"

text \<open>\<^verbatim>\<open>re.findall(r"0x([0-9a-fA-F]{2})", text)\<close>, each read as a byte.\<close>

fun hex_bytes :: "string \<Rightarrow> string" where
  "hex_bytes (a # b # h # l # cs) =
     (case (if a = CHR ''0'' \<and> b = CHR ''x'' then hex_number [h, l] else None) of
        Some n \<Rightarrow> char_of n # hex_bytes cs
      | None \<Rightarrow> hex_bytes (b # h # l # cs))"
| "hex_bytes _ = []"

definition srp_parameters :: "string res option \<Rightarrow> (nat \<times> nat) res" where
  "srp_parameters idf = (case idf of
     None \<Rightarrow> (case hex_number SRP3072_PRIME of None \<Rightarrow> Inl (Exc ValueError ''int'') | Some n \<Rightarrow> Inr (n, 5))
   | Some read \<Rightarrow> rbind read (\<lambda>source. case search_group source of
       None \<Rightarrow> Inl (Exc RuntimeError (''Cannot find IDF'' @ [CHR 0x27] @ ''s supported SRP-3072 group''))
     | Some text \<Rightarrow> (let group_bytes = hex_bytes text in
         if length group_bytes \<noteq> 384
         then Inl (Exc RuntimeError ''Unexpected SRP group size; refusing incompatible provisioning'')
         else Inr (from_bytes group_bytes, 5))))"

text \<open>\<^verbatim>\<open>pow(g, e, n)\<close>.\<close>

definition pow_mod :: "nat \<Rightarrow> nat \<Rightarrow> nat \<Rightarrow> nat res" where
  "pow_mod g e n = (if n = 0 then Inl (Exc ValueError ''pow() 3rd argument cannot be 0'') else Inr (g ^ e mod n))"

section \<open>The environment and the directory\<close>

type_synonym pair_files = "string \<rightharpoonup> string"

datatype tool_end = Returns | Exits pyval | Fails exc

record prov_env =
  pe_output :: string
  pe_username :: "string option"
  pe_idf :: "string res option"
  pe_mkdir :: "unit res"
  pe_open :: "string \<Rightarrow> unit res"
  pe_sha512 :: "string \<Rightarrow> string"
  pe_json :: "pyval \<Rightarrow> string"
  pe_hex6 :: string
  pe_url32 :: string
  pe_salt :: string
  pe_tool :: "string list \<Rightarrow> pair_files \<Rightarrow> tool_end \<times> pair_files"
  pe_windows :: bool
  pe_account :: "string res"
  pe_icacls :: "string \<Rightarrow> unit res"

record prov =
  pv_files :: pair_files
  pv_argv :: "string list"
  pv_tool :: "(string list \<times> pair_files) list"

type_synonym 'a prov_act = "(prov, 'a) act"

definition pairing_files :: "string list" where
  "pairing_files = [''pairing.json'', ''pairing.bin'', ''pairing.csv'']"

section \<open>Credentials\<close>

definition username_of :: "prov_env \<Rightarrow> string" where
  "username_of E = (case pe_username E of
     Some (c # cs) \<Rightarrow> c # cs | _ \<Rightarrow> ''uart2llm-'' @ pe_hex6 E)"

definition exponent_of :: "prov_env \<Rightarrow> string \<Rightarrow> string \<Rightarrow> string \<Rightarrow> nat" where
  "exponent_of E username password salt =
     (let identity_hash = pe_sha512 E (username @ '':'' @ password) in from_bytes (pe_sha512 E (salt @ identity_hash)))"

definition verifier_of :: "nat \<Rightarrow> nat \<Rightarrow> nat \<Rightarrow> string res" where
  "verifier_of g e n = rbind (pow_mod g e n) (to_bytes 384)"

text \<open>A row of \<^verbatim>\<open>csv.writer\<close>: a field with a special character is quoted, its quotes are doubled.\<close>

definition csv_field :: "string \<Rightarrow> string" where
  "csv_field f = (if list_ex (\<lambda>c. c \<in> {CHR '','', CHR 0x22, CHR 0x0D, CHR 0x0A}) f
     then [CHR 0x22] @ concat (map (\<lambda>c. if c = CHR 0x22 then [c, c] else [c]) f) @ [CHR 0x22] else f)"

definition csv_row :: "string list \<Rightarrow> string" where
  "csv_row fs = join '','' (map csv_field fs) @ [CHR 0x0D, CHR 0x0A]"

definition pairing_rows :: "string \<Rightarrow> string \<Rightarrow> string list list" where
  "pairing_rows salt verifier =
     [[''key'', ''type'', ''encoding'', ''value''], [''security'', ''namespace'', [], []],
      [''salt'', ''data'', ''hex2bin'', bytes_hex salt], [''verifier'', ''data'', ''hex2bin'', bytes_hex verifier]]"

definition pairing_csv :: "string \<Rightarrow> string \<Rightarrow> string" where
  "pairing_csv salt verifier = concat (map csv_row (pairing_rows salt verifier))"

section \<open>The program\<close>

definition write_file :: "prov_env \<Rightarrow> string \<Rightarrow> string \<Rightarrow> unit prov_act" where
  "write_file E name content = bind (lift (pe_open E name)) (\<lambda>_. modify (\<lambda>s. s\<lparr>pv_files := (pv_files s)(name \<mapsto> content)\<rparr>))"

definition output_path :: "prov_env \<Rightarrow> string \<Rightarrow> string" where
  "output_path E name = pe_output E @ ''/'' @ name"

text \<open>The generator runs in the same process: \<^verbatim>\<open>sys.exit\<close> with None or 0 counts as a return.\<close>

definition generate_nvs :: "prov_env \<Rightarrow> unit prov_act" where
  "generate_nvs E s = (case pe_tool E (pv_argv s) (pv_files s) of (r, fs) \<Rightarrow>
     (case r of Returns \<Rightarrow> Inr () | Exits v \<Rightarrow> if v = PNone \<or> eq_int v 0 then Inr () else Inl (Exc SystemExit [])
        | Fails e \<Rightarrow> Inl e,
      s\<lparr>pv_files := fs, pv_tool := pv_tool s @ [(pv_argv s, pv_files s)]\<rparr>))"

definition run_generator :: "prov_env \<Rightarrow> unit prov_act" where
  "run_generator E = bind (gets pv_argv) (\<lambda>previous_argv.
     finally_do (andthen (modify (\<lambda>s. s\<lparr>pv_argv := [''nvs_partition_gen'', ''generate'', output_path E ''pairing.csv'',
        output_path E ''pairing.bin'', ''0x6000'']\<rparr>)) (generate_nvs E))
       (modify (\<lambda>s. s\<lparr>pv_argv := previous_argv\<rparr>)))"

definition image_complete :: "pair_files \<Rightarrow> bool" where
  "image_complete fs \<longleftrightarrow> (case fs ''pairing.bin'' of None \<Rightarrow> False | Some b \<Rightarrow> length b = 24576)"

text \<open>\<^verbatim>\<open>os.open(pairing, O_WRONLY | O_CREAT | O_EXCL)\<close> and the credentials.\<close>

definition save_credentials :: "prov_env \<Rightarrow> string \<Rightarrow> string \<Rightarrow> unit prov_act" where
  "save_credentials E username password = bind (gets pv_files) (\<lambda>fs.
     if fs ''pairing.json'' \<noteq> None then raise FileExistsError ''pairing.json''
     else write_file E ''pairing.json''
       (pe_json E (PDict [(''username'', PStr username), (''password'', PStr password)]) @ [CHR 0x0A]))"

definition provision :: "prov_env \<Rightarrow> unit prov_act" where
  "provision E =
     bind (lift (pe_mkdir E)) (\<lambda>_.
     bind (gets pv_files) (\<lambda>fs.
     if list_ex (\<lambda>name. fs name \<noteq> None) pairing_files then raise SystemExit ''2'' else
     bind (lift (srp_parameters (pe_idf E))) (\<lambda>(n, g).
     let username = username_of E in
     if username = [] \<or> 64 < length username then raise SystemExit ''2'' else
     bind (lift (verifier_of g (exponent_of E username (pe_url32 E) (pe_salt E)) n)) (\<lambda>verifier.
     andthen (write_file E ''pairing.csv'' (pairing_csv (pe_salt E) verifier))
    (andthen (run_generator E)
    (bind (gets pv_files) (\<lambda>made.
     if \<not> image_complete made then raise RuntimeError ''NVS generator did not produce a complete 0x6000-byte pairing image''
     else andthen (save_credentials E username (pe_url32 E))
       (when_do (pe_windows E) (bind (lift (pe_account E)) (\<lambda>account. lift (pe_icacls E account)))))))))))"

end
