(* ===== verification/ProvisionProps.thy ===== *)
theory ProvisionProps
  imports Provision
begin

text \<open>
  What the provisioning guarantees: the verifier always fits its 384 bytes and is the right power,
  the saved credentials belong to the image, and existing credentials are never replaced.
\<close>

section \<open>Bytes and digits\<close>

lemma from_bytes_snoc: "from_bytes (bs @ [c]) = 256 * from_bytes bs + of_char c"
  by (simp add: from_bytes_def)

lemma big_endian_length: "length (big_endian k n) = k"
  by (induction k arbitrary: n) simp_all

lemma from_big_endian: "from_bytes (big_endian k n) = n mod 256 ^ k"
proof (induction k arbitrary: n)
  case (Suc k)
  have "from_bytes (big_endian (Suc k) n) = 256 * (n div 256 mod 256 ^ k) + n mod 256"
    by (simp add: from_bytes_snoc Suc)
  also have "\<dots> = n mod 256 ^ Suc k"
    by (simp add: mod_mult2_eq)
  finally show ?case .
qed (simp add: from_bytes_def)

lemma from_bytes_less: "from_bytes bs < 256 ^ length bs"
proof (induction bs rule: rev_induct)
  case (snoc c bs)
  then show ?case
    using nat_of_char_less_256 [of c] by (simp add: from_bytes_snoc del: nat_of_char_less_256)
qed (simp add: from_bytes_def)

text \<open>The generator reads the digits back: two per byte.\<close>

fun unhex :: "string \<Rightarrow> string option" where
  "unhex [] = Some []"
| "unhex [c] = None"
| "unhex (h # l # cs) = (case (hex_value h, hex_value l) of
     (Some a, Some b) \<Rightarrow> map_option (Cons (char_of (16 * a + b))) (unhex cs)
   | _ \<Rightarrow> None)"

lemma unhex_hex: "unhex (bytes_hex bs) = Some bs"
proof (induction bs)
  case (Cons c bs)
  have "of_char c div 16 < (16::nat)" "of_char c mod 16 < (16::nat)"
    by (simp_all add: less_mult_imp_div_less)
  with Cons show ?case
    by (simp add: bytes_hex_def byte_hex_def hex_value_nth)
qed (simp add: bytes_hex_def)

lemma hex_value_less: "hex_value c = Some d \<Longrightarrow> d < 16"
  unfolding hex_value_def by (drule map_of_SomeD) (auto dest: set_zip_rightD)

lemma read_hex_bounds: "read_hex a s = Some n \<Longrightarrow> a * 16 ^ length s \<le> n \<and> n < Suc a * 16 ^ length s"
proof (induction a s rule: read_hex.induct)
  case (2 a c cs)
  then obtain d where d: "hex_value c = Some d" and rest: "read_hex (16 * a + d) cs = Some n"
    by (auto split: option.splits)
  from 2 d rest have low: "(16 * a + d) * 16 ^ length cs \<le> n" and "n < Suc (16 * a + d) * 16 ^ length cs"
    by auto
  note this(2)
  also have "Suc (16 * a + d) * 16 ^ length cs \<le> (Suc a * 16) * 16 ^ length cs"
    using hex_value_less [OF d] by (intro mult_right_mono) auto
  finally have high: "n < Suc a * 16 ^ length (c # cs)"
    by (simp add: algebra_simps)
  have "a * 16 ^ length (c # cs) \<le> (16 * a + d) * 16 ^ length cs"
    by (simp add: algebra_simps)
  then show ?case
    using low high le_trans by blast
qed auto

lemma read_hex_total: "list_all (\<lambda>c. hex_value c \<noteq> None) s \<Longrightarrow> read_hex a s \<noteq> None"
  by (induction a s rule: read_hex.induct) auto

lemma to_bytes_exact: "n < 256 ^ k \<Longrightarrow> \<exists>b. to_bytes k n = Inr b \<and> length b = k \<and> from_bytes b = n"
  by (simp add: to_bytes_def big_endian_length from_big_endian)

section \<open>The group and the verifier\<close>

lemma prime_digits: "length SRP3072_PRIME = 768" "list_all (\<lambda>c. hex_value (lower_char c) \<noteq> None) SRP3072_PRIME"
  by code_simp+

lemma prime_number: "\<exists>n. hex_number SRP3072_PRIME = Some n \<and> n < 256 ^ 384"
proof -
  let ?s = "map lower_char SRP3072_PRIME"
  have "read_hex 0 ?s \<noteq> None"
    by (rule read_hex_total) (use prime_digits(2) in \<open>simp add: list.pred_map comp_def\<close>)
  then obtain n where n: "read_hex 0 ?s = Some n"
    by blast
  have "n < 16 ^ 768"
    using read_hex_bounds [OF n] prime_digits(1) by simp
  also have "(16::nat) ^ 768 = (16 ^ 2) ^ 384"
    by (simp only: power_mult [symmetric]) simp
  finally show ?thesis
    using n prime_digits(1) by (auto simp: hex_number_def)
qed

lemma group_bound:
  assumes "srp_parameters idf = Inr (n, g)"
  shows "n < 256 ^ 384 \<and> g = 5"
proof (cases idf)
  case None
  then show ?thesis
    using assms prime_number by (auto simp: srp_parameters_def)
next
  case (Some r)
  then obtain found where "length (hex_bytes found) = 384" and "n = from_bytes (hex_bytes found)" and "g = 5"
    using assms by (auto simp: srp_parameters_def rbind_Inr_iff Let_def split: option.splits if_splits)
  then show ?thesis
    using from_bytes_less [of "hex_bytes found"] by simp
qed

text \<open>
  C32. The verifier always fits: with the group of the program, or with one it accepts from the IDF
  sources, the conversion to 384 bytes never overflows, and the bytes, written as hexadecimal digits into
  the table and read back, are the power of the generator modulo the group. Only a group of zeros has no
  verifier.
\<close>

theorem verifier_exact:
  assumes "srp_parameters idf = Inr (n, g)"
  shows "n = 0 \<and> (\<exists>msg. verifier_of g e n = Inl (Exc ValueError msg))
    \<or> 0 < n \<and> (\<exists>b. verifier_of g e n = Inr b \<and> length b = 384 \<and> unhex (bytes_hex b) = Some b \<and> from_bytes b = 5 ^ e mod n)"
proof (cases "n = 0")
  case False
  have n: "n < 256 ^ 384" and g: "g = 5"
    using group_bound [OF assms] by auto
  have "5 ^ e mod n < n"
    using False by simp
  from to_bytes_exact [OF less_trans [OF this n]] show ?thesis
    using False by (auto simp: g verifier_of_def pow_mod_def unhex_hex)
qed (simp add: verifier_of_def pow_mod_def)

lemma verifier_exact_witness:
  "\<exists>n. srp_parameters None = Inr (n, 5) \<and>
    (n = 0 \<and> (\<exists>msg. verifier_of 5 7 n = Inl (Exc ValueError msg))
    \<or> 0 < n \<and> (\<exists>b. verifier_of 5 7 n = Inr b \<and> length b = 384 \<and> unhex (bytes_hex b) = Some b \<and> from_bytes b = 5 ^ 7 mod n))"
proof -
  obtain n where "srp_parameters None = Inr (n, 5)"
    using prime_number by (auto simp: srp_parameters_def)
  with verifier_exact [OF this, of 7] show ?thesis
    by blast
qed


section \<open>The program\<close>

text \<open>
  Existing credentials are never replaced: when the directory holds any of the three pairing files,
  the program stops before it reads or writes anything else, and leaves everything as it is.
\<close>

lemma pairing_preserved:
  assumes "pe_mkdir E = Inr ()" and "name \<in> set pairing_files" and "pv_files s name = Some content"
  shows "provision E s = (Inl (Exc SystemExit ''2''), s)"
  using assms by (auto simp: provision_def act_run list_ex_iff pairing_files_def split: if_splits)

definition demo_prov :: prov_env where
  "demo_prov = \<lparr>pe_output = ''out'', pe_username = None, pe_idf = None, pe_mkdir = Inr (), pe_open = (\<lambda>_. Inr ()),
     pe_sha512 = (\<lambda>_. ''digest''), pe_json = (\<lambda>_. ''{}''), pe_hex6 = ''0123456789ab'', pe_url32 = ''password'', pe_salt = ''salt'',
     pe_tool = (\<lambda>_ fs. (Exits PNone, fs(''pairing.bin'' \<mapsto> replicate 24576 CHR 0xFF))), pe_windows = False,
     pe_account = Inr ''account'', pe_icacls = (\<lambda>_. Inr ())\<rparr>"

definition fresh_prov :: prov where
  "fresh_prov = \<lparr>pv_files = Map.empty, pv_argv = [''provision-device.py''], pv_tool = []\<rparr>"

lemma pairing_preserved_witness:
  "provision demo_prov (fresh_prov\<lparr>pv_files := [''pairing.csv'' \<mapsto> ''x'']\<rparr>)
   = (Inl (Exc SystemExit ''2''), fresh_prov\<lparr>pv_files := [''pairing.csv'' \<mapsto> ''x'']\<rparr>)"
  by (rule pairing_preserved [of _ "''pairing.csv''" _ "''x''"]) (simp_all add: demo_prov_def pairing_files_def)

text \<open>The table that goes into the image, and the credentials saved beside it.\<close>

definition credentials :: "prov_env \<Rightarrow> string" where
  "credentials E = pe_json E (PDict [(''username'', PStr (username_of E)), (''password'', PStr (pe_url32 E))]) @ [CHR 0x0A]"

definition generator_args :: "prov_env \<Rightarrow> string list" where
  "generator_args E = [''nvs_partition_gen'', ''generate'', output_path E ''pairing.csv'', output_path E ''pairing.bin'', ''0x6000'']"

lemma write_Inr: "write_file E name content s = (Inr (), t) \<longleftrightarrow>
    pe_open E name = Inr () \<and> t = s\<lparr>pv_files := (pv_files s)(name \<mapsto> content)\<rparr>"
  by (cases "pe_open E name") (auto simp: write_file_def act_run)

lemma generator_Inr: "run_generator E s = (Inr (), t) \<Longrightarrow>
    t = s\<lparr>pv_files := snd (pe_tool E (generator_args E) (pv_files s)), pv_tool := pv_tool s @ [(generator_args E, pv_files s)]\<rparr>"
  by (auto simp: run_generator_def finally_do_def generate_nvs_def generator_args_def act_run
      split: prod.splits sum.splits tool_end.splits if_splits)

lemma save_Inr: "save_credentials E u p s = (Inr (), t) \<Longrightarrow> pv_files s ''pairing.json'' = None
    \<and> t = s\<lparr>pv_files := (pv_files s)(''pairing.json'' \<mapsto> pe_json E (PDict [(''username'', PStr u), (''password'', PStr p)]) @ [CHR 0x0A])\<rparr>"
  by (auto simp: save_credentials_def write_Inr act_run split: if_splits)

text \<open>
  C12. Image and credentials belong together: when the program returns, it has run the generator once, on a
  table whose verifier, read as a number, is the generator of the group to the power of the hash of the salt, the user name and the
  password; the image is complete, and the file beside it holds exactly this user name and
  password; and the arguments of the process are those of before.
\<close>

theorem credentials_match:
  assumes run: "provision E s = (Inr (), t)"
  shows "\<exists>n g b before. srp_parameters (pe_idf E) = Inr (n, g) \<and> 0 < n
    \<and> pv_tool t = pv_tool s @ [(generator_args E, before)]
    \<and> before ''pairing.csv'' = Some (pairing_csv (pe_salt E) b)
    \<and> from_bytes b = g ^ exponent_of E (username_of E) (pe_url32 E) (pe_salt E) mod n
    \<and> image_complete (pv_files t) \<and> pv_files t ''pairing.json'' = Some (credentials E) \<and> pv_argv t = pv_argv s
    \<and> 0 < length (username_of E) \<and> length (username_of E) \<le> 64"
proof -
  obtain n g b u v where params: "srp_parameters (pe_idf E) = Inr (n, g)" and name: "username_of E \<noteq> []" "length (username_of E) \<le> 64"
    and verifier: "verifier_of g (exponent_of E (username_of E) (pe_url32 E) (pe_salt E)) n = Inr b"
    and table: "write_file E ''pairing.csv'' (pairing_csv (pe_salt E) b) s = (Inr (), u)"
    and tool: "run_generator E u = (Inr (), v)" and image: "image_complete (pv_files v)"
    and save: "save_credentials E (username_of E) (pe_url32 E) v = (Inr (), t)"
    using run by (auto simp: provision_def Let_def andthen_def bind_Inr_iff act_run when_do_def split: if_splits prod.splits)
  have "0 < n" and "from_bytes b = g ^ exponent_of E (username_of E) (pe_url32 E) (pe_salt E) mod n"
    using verifier from_big_endian [of 384] by (auto simp: verifier_of_def pow_mod_def to_bytes_def split: if_splits)
  moreover have "t = v\<lparr>pv_files := (pv_files v)(''pairing.json'' \<mapsto> credentials E)\<rparr>"
    using save_Inr [OF save] by (simp add: credentials_def)
  moreover have "pv_files u ''pairing.csv'' = Some (pairing_csv (pe_salt E) b)" "pv_argv u = pv_argv s" "pv_tool u = pv_tool s"
    using table by (auto simp: write_Inr)
  ultimately show ?thesis
    using params name image generator_Inr [OF tool]
    by (intro exI [of _ n] exI [of _ g] exI [of _ b] exI [of _ "pv_files u"]) (auto simp: image_complete_def)
qed


text \<open>It succeeds wherever its steps can.\<close>

lemma prime_positive: "\<exists>n. srp_parameters None = Inr (n, 5) \<and> 0 < n"
proof -
  obtain n where n: "hex_number SRP3072_PRIME = Some n"
    using prime_number by blast
  have "map lower_char SRP3072_PRIME = CHR ''f'' # tl (map lower_char SRP3072_PRIME)"
    by code_simp
  then have "read_hex 0 (CHR ''f'' # tl (map lower_char SRP3072_PRIME)) = Some n"
    using n prime_digits(1) by (auto simp: hex_number_def split: if_splits)
  moreover have "hex_value (CHR ''f'') = Some 15"
    by code_simp
  ultimately have "read_hex 15 (tl (map lower_char SRP3072_PRIME)) = Some n"
    by simp
  from read_hex_bounds [OF this] have "0 < n"
    by (metis less_le_trans mult_pos_pos zero_less_numeral zero_less_power)
  then show ?thesis
    using n by (auto simp: srp_parameters_def)
qed

lemma provision_returns:
  assumes start: "pe_mkdir E = Inr ()" "list_all (\<lambda>name. pv_files s name = None) pairing_files" "\<And>name. pe_open E name = Inr ()"
    and group: "srp_parameters (pe_idf E) = Inr (n, g)" "0 < n" and name: "username_of E \<noteq> []" "length (username_of E) \<le> 64"
    and tool: "\<And>argv fs. \<exists>v gs. pe_tool E argv fs = (Exits v, gs) \<and> (v = PNone \<or> eq_int v 0) \<and> image_complete gs
      \<and> gs ''pairing.json'' = fs ''pairing.json''" and windows: "\<not> pe_windows E"
  shows "\<exists>t. provision E s = (Inr (), t)"
proof -
  have none: "list_ex (\<lambda>name. pv_files s name \<noteq> None) pairing_files = False"
    using start(2) by (simp add: list_ex_iff list_all_iff)
  obtain b where b: "verifier_of g (exponent_of E (username_of E) (pe_url32 E) (pe_salt E)) n = Inr b"
    using verifier_exact [OF group(1)] group(2) by fastforce
  let ?u = "s\<lparr>pv_files := (pv_files s)(''pairing.csv'' \<mapsto> pairing_csv (pe_salt E) b)\<rparr>"
  obtain v gs where t: "pe_tool E (generator_args E) (pv_files ?u) = (Exits v, gs)" "v = PNone \<or> eq_int v 0" "image_complete gs"
      "gs ''pairing.json'' = pv_files ?u ''pairing.json''"
    using tool by blast
  have run: "run_generator E ?u = (Inr (), ?u\<lparr>pv_files := gs, pv_tool := pv_tool s @ [(generator_args E, pv_files ?u)]\<rparr>)"
    using t by (auto simp: run_generator_def finally_do_def generate_nvs_def generator_args_def act_run andthen_def)
  have fresh: "gs ''pairing.json'' = None"
    using t(4) start(2) by (simp add: pairing_files_def)
  have "andthen (write_file E ''pairing.csv'' (pairing_csv (pe_salt E) b)) m s = m ?u" for m :: "unit prov_act"
    by (simp add: write_file_def start andthen_def)
  moreover have save: "save_credentials E u p w = (Inr (), w\<lparr>pv_files := (pv_files w)(''pairing.json'' \<mapsto>
      pe_json E (PDict [(''username'', PStr u), (''password'', PStr p)]) @ [CHR 0x0A])\<rparr>)"
    if "pv_files w ''pairing.json'' = None" for u p w
    using that by (simp add: save_credentials_def write_file_def start act_run)
  ultimately show ?thesis
    using none name windows group b run t(3) fresh
    by (simp add: provision_def start act_run Let_def andthen_def [of "run_generator E"] bind_def [of "run_generator E"]
        andthen_def [of "save_credentials _ _ _"] bind_def [of "save_credentials _ _ _"] save)
qed

lemma demo_returns: "\<exists>t. provision demo_prov fresh_prov = (Inr (), t)"
proof -
  obtain n where "srp_parameters (pe_idf demo_prov) = Inr (n, 5)" "0 < n"
    using prime_positive by (auto simp: demo_prov_def)
  from provision_returns [OF _ _ _ this] show ?thesis
    by (auto simp: demo_prov_def fresh_prov_def pairing_files_def username_of_def image_complete_def)
qed

lemma credentials_match_witness:
  "\<exists>t n b. provision demo_prov fresh_prov = (Inr (), t)
    \<and> from_bytes b = 5 ^ exponent_of demo_prov ''uart2llm-0123456789ab'' ''password'' ''salt'' mod n
    \<and> pv_files t ''pairing.json'' = Some (credentials demo_prov)"
proof -
  obtain t where run: "provision demo_prov fresh_prov = (Inr (), t)"
    using demo_returns by blast
  obtain n g b where "srp_parameters (pe_idf demo_prov) = Inr (n, g)"
    and "from_bytes b = g ^ exponent_of demo_prov (username_of demo_prov) (pe_url32 demo_prov) (pe_salt demo_prov) mod n"
    and "pv_files t ''pairing.json'' = Some (credentials demo_prov)"
    using credentials_match [OF run] by blast
  moreover have "g = 5" "username_of demo_prov = ''uart2llm-0123456789ab''" "pe_url32 demo_prov = ''password''" "pe_salt demo_prov = ''salt''"
    using group_bound calculation(1) by (auto simp: demo_prov_def username_of_def)
  ultimately show ?thesis
    using run by auto
qed

end
