(* ===== verification/Upkeep.thy ===== *)
theory Upkeep
  imports Tray
begin

text \<open>
  Two checks of a live device through the admin interface: \<^verbatim>\<open>product-management-check.py\<close>, which
  applies a configuration, observes it and rolls it back, and \<^verbatim>\<open>firmware-update-check.py\<close>, which
  uploads an image and waits for the device to come back. A status outside 2xx is an exception here.
  The gateway, the token and the image file are the environment; times are not modelled.
\<close>

section \<open>Requests\<close>

record upkeep_env =
  ue_lib :: pylib
  ue_up :: mserver
  ue_key :: string
  ue_image :: "string res"

record upkeep = manage +
  uk_checks :: pydict
  uk_figures :: pydict
  uk_original :: pyval
  uk_applied :: bool
  uk_error :: "string option"
  uk_cleanup_error :: "string option"
  uk_passed :: bool

definition upkeep_init :: upkeep where
  "upkeep_init = \<lparr>mg_calls = [], mg_cases = [], uk_checks = [], uk_figures = [], uk_original = PNone, uk_applied = False, uk_error = None,
     uk_cleanup_error = None, uk_passed = False\<rparr>"

definition upkeep_call :: "upkeep_env \<Rightarrow> string \<Rightarrow> string \<Rightarrow> payload \<Rightarrow> mcall" where
  "upkeep_call E path method data = \<lparr>mc_method = method, mc_url = ''http://localhost:8766/admin/v1'' @ path,
     mc_token = Some (ue_key E), mc_body = data\<rparr>"

definition read_reply :: "pylib \<Rightarrow> mreply \<Rightarrow> pyval res" where
  "read_reply L r = (if 200 \<le> mr_status r \<and> mr_status r < 300 then loads L (mr_body r) else Inl (Exc HTTPError []))"

definition ask :: "upkeep_env \<Rightarrow> string \<Rightarrow> string \<Rightarrow> payload \<Rightarrow> (upkeep, pyval) act" where
  "ask E path method data = bind (send (ue_up E) (upkeep_call E path method data)) (\<lambda>r. lift (read_reply (ue_lib E) r))"

abbreviation ask_get :: "upkeep_env \<Rightarrow> string \<Rightarrow> (upkeep, pyval) act" where
  "ask_get E path \<equiv> ask E path ''GET'' Empty"

abbreviation live_config :: "upkeep_env \<Rightarrow> (upkeep, pyval) act" where
  "live_config E \<equiv> bind (ask_get E ''/config'') (\<lambda>v. lift (getitem v ''device''))"

definition put_check :: "string \<Rightarrow> pyval res \<Rightarrow> (upkeep, unit) act" where
  "put_check k r = bind (lift r) (\<lambda>v. modify (\<lambda>s. s\<lparr>uk_checks := AList.update k v (uk_checks s)\<rparr>))"

definition truth :: "bool res \<Rightarrow> pyval res" where
  "truth r = rbind r (\<lambda>b. Inr (PBool b))"

text \<open>\<^verbatim>\<open>v and b\<close>: the value itself when it is false.\<close>

definition and_then :: "pyval res \<Rightarrow> bool res \<Rightarrow> pyval res" where
  "and_then r b = rbind r (\<lambda>v. if truthy v then truth b else Inr v)"

section \<open>product-management-check.py\<close>

definition idle :: "pyval \<Rightarrow> bool res" where
  "idle v = rbind (getitem v ''active'') (\<lambda>a. Inr (eq_int a 0))"

definition candidate :: payload where
  "candidate = Json (PDict [(''device'', PDict [(''telemetry.interval_ms'', PInt 60000)])])"

definition health_check :: payload where
  "health_check = Json (PDict [(''action'', PStr ''health'')])"

definition same_items :: "pyval \<Rightarrow> pyval \<Rightarrow> string \<Rightarrow> bool res" where
  "same_items v w k = rbind (getitem v k) (\<lambda>x. rbind (getitem w k) (\<lambda>y. Inr (py_eq x y)))"

definition advanced_by :: "pyval \<Rightarrow> pyval \<Rightarrow> string \<Rightarrow> int \<Rightarrow> bool res" where
  "advanced_by v w k n = rbind (getitem v k) (\<lambda>x. rbind (getitem w k) (\<lambda>y. rbind (num_sub x y) (\<lambda>d. num_ge d (Finite (of_int n)))))"

fun chained_equal :: "pyval \<Rightarrow> pyval list \<Rightarrow> string \<Rightarrow> bool res" where
  "chained_equal v [] k = Inr True"
| "chained_equal v (w # ws) k = rand (same_items v w k) (chained_equal w ws k)"

definition difference :: "pyval \<Rightarrow> string \<Rightarrow> pyval \<Rightarrow> string \<Rightarrow> pyval res" where
  "difference v k w j = rbind (getitem v k) (\<lambda>x. rbind (getitem w j) (\<lambda>y. num_sub x y))"

definition thousandth :: "pyval \<Rightarrow> pyval" where
  "thousandth v = (case v of PFloat (Finite x) \<Rightarrow> PFloat (Finite (x / 1000)) | _ \<Rightarrow> v)"

definition put_figure :: "string \<Rightarrow> pyval res \<Rightarrow> (upkeep, unit) act" where
  "put_figure k r = bind (lift r) (\<lambda>v. modify (\<lambda>s. s\<lparr>uk_figures := AList.update k v (uk_figures s)\<rparr>))"

definition candidate_checks :: "pyval \<Rightarrow> pyval \<Rightarrow> pyval \<Rightarrow> pyval \<Rightarrow> pyval \<Rightarrow> (upkeep, unit) act" where
  "candidate_checks original c1 c2 first second =
     andthen (put_check ''pending_applied'' (and_then (getitem c1 ''pending'')
        (same_at c1 [''effective'', ''telemetry.interval_ms''] (PInt 60000))))
    (andthen (put_check ''device_clock_advances'' (truth (advanced_by c2 c1 ''current_time_ms'' 1400)))
    (andthen (put_check ''deadline_stable'' (truth (same_items c1 c2 ''confirm_deadline_ms'')))
    (andthen (put_check ''candidate_state_is_live_despite_60s_sampling'' (truth (advanced_by second first ''sample_time_ms'' 1400)))
    (andthen (put_check ''configuration_and_state_session_match'' (truth (chained_equal c1 [c2, first, second] ''session'')))
    (andthen (put_check ''still_unpersisted'' (truth (same_items c2 original ''persisted'')))
    (andthen (put_figure ''clock_delta_ms'' (difference c2 ''current_time_ms'' c1 ''current_time_ms''))
    (andthen (put_figure ''state_delta_ms'' (difference second ''sample_time_ms'' first ''sample_time_ms''))
      (put_figure ''remaining_confirm_seconds''
         (rbind (difference c2 ''confirm_deadline_ms'' c2 ''current_time_ms'') (\<lambda>d. Inr (thousandth d)))))))))))"

text \<open>The change is flagged before it is requested, so a lost reply is rolled back too.\<close>

definition product_body :: "upkeep_env \<Rightarrow> (upkeep, unit) act" where
  "product_body E =
     bind (ask_get E ''/metrics'') (\<lambda>m. andthen (assert_res (idle m) [])
    (bind (live_config E) (\<lambda>original. andthen (modify (\<lambda>s. s\<lparr>uk_original := original\<rparr>))
    (andthen (assert_res (unset_at original [''pending'']) [])
    (andthen (modify (\<lambda>s. s\<lparr>uk_applied := True\<rparr>))
    (andthen (ask E ''/config'' ''PATCH'' candidate)
    (bind (live_config E) (\<lambda>c1.
     bind (ask E ''/diagnostics'' ''POST'' health_check) (\<lambda>first.
     bind (live_config E) (\<lambda>c2.
     bind (ask E ''/diagnostics'' ''POST'' health_check) (\<lambda>second. candidate_checks original c1 c2 first second)))))))))))"

text \<open>\<^verbatim>\<open>for _ in range(40)\<close>: the last answer, pending or not; the number counts the rounds after the first.\<close>

fun await_rollback :: "upkeep_env \<Rightarrow> nat \<Rightarrow> (upkeep, pyval) act" where
  "await_rollback E 0 s = bind (live_config E) (\<lambda>final. bind (lift (getitem final ''pending'')) (\<lambda>_. ret final)) s"
| "await_rollback E (Suc n) s = bind (live_config E) (\<lambda>final. bind (lift (getitem final ''pending'')) (\<lambda>p.
     if \<not> truthy p then ret final else await_rollback E n)) s"

definition preserved :: "pyval \<Rightarrow> pyval \<Rightarrow> bool res" where
  "preserved original final = rand (unset_at final [''pending'']) (rand (same_items final original ''effective'')
     (same_items final original ''persisted''))"

definition roll_back :: "upkeep_env \<Rightarrow> pyval \<Rightarrow> (upkeep, unit) act" where
  "roll_back E original =
     andthen (ask E ''/config/rollback'' ''POST'' Empty)
    (bind (await_rollback E 39) (\<lambda>final. put_check ''rolled_back_and_preserved'' (truth (preserved original final))))"

definition undo_candidate :: "upkeep_env \<Rightarrow> pyval \<Rightarrow> (upkeep, unit) act" where
  "undo_candidate E original =
     catch is_exception (roll_back E original) (\<lambda>e. modify (\<lambda>s. s\<lparr>uk_cleanup_error := Some (class_name (exc_kind e))\<rparr>))"

definition product_verdict :: "upkeep \<Rightarrow> bool" where
  "product_verdict s \<longleftrightarrow> length (uk_checks s) = 7 \<and> list_all (truthy \<circ> snd) (uk_checks s)
     \<and> uk_error s = None \<and> uk_cleanup_error s = None"

definition record_error :: "exc \<Rightarrow> (upkeep, unit) act" where
  "record_error e = modify (\<lambda>s. s\<lparr>uk_error := Some (class_name (exc_kind e))\<rparr>)"

definition product_cleanup :: "upkeep_env \<Rightarrow> (upkeep, unit) act" where
  "product_cleanup E = bind (gets uk_applied) (\<lambda>applied. bind (gets uk_original) (\<lambda>original.
     andthen (when_do applied (undo_candidate E original)) (modify (\<lambda>s. s\<lparr>uk_passed := product_verdict s\<rparr>))))"

definition product_main :: "upkeep_env \<Rightarrow> (upkeep, int) act" where
  "product_main E =
     andthen (finally_do (catch is_exception (product_body E) record_error) (product_cleanup E))
     (gets (\<lambda>s. if uk_passed s then 0 else 1))"

section \<open>firmware-update-check.py\<close>

definition online :: "pyval \<Rightarrow> bool res" where
  "online device = rbind (pyget device ''network'' (PDict [])) (\<lambda>n. rbind (pyget n ''connected'' PNone) (\<lambda>c. Inr (truthy c)))"

definition board_session :: "pyval \<Rightarrow> pyval \<Rightarrow> bool res" where
  "board_session device connection = rbind (pyget device ''session'' PNone) (\<lambda>x.
     rbind (pyget connection ''link'' (PDict [])) (\<lambda>l. rbind (pyget l ''session'' PNone) (\<lambda>y. Inr (py_eq x y))))"

definition paired :: "pyval \<Rightarrow> bool res" where
  "paired connection = rbind (pyget connection ''paired'' PNone) (\<lambda>p. Inr (truthy p))"

definition board_ready :: "pyval \<Rightarrow> bool res" where
  "board_ready state =
     rbind (get_or_empty state ''device'') (\<lambda>device.
     rand (rbind (pyget state ''connection'' (PDict [])) paired)
    (rand (rbind (pyget device ''session'' PNone) (\<lambda>x. rbind (pyget state ''connection'' (PDict [])) (\<lambda>c.
             rbind (pyget c ''link'' (PDict [])) (\<lambda>l. rbind (pyget l ''session'' PNone) (\<lambda>y. Inr (py_eq x y))))))
          (online device)))"

fun await_board :: "upkeep_env \<Rightarrow> nat \<Rightarrow> (upkeep, pyval) act" where
  "await_board E 0 s = raise TimeoutError ''device did not become ready'' s"
| "await_board E (Suc n) s = bind (ask_get E ''/state'') (\<lambda>state. bind (lift (board_ready state)) (\<lambda>b.
     if b then ret state else await_board E n)) s"

text \<open>The device after the update: a new session, then the same conditions.\<close>

definition board_back :: "pyval \<Rightarrow> pyval \<Rightarrow> pyval \<Rightarrow> bool res" where
  "board_back earlier state device =
     rbind (getitem state ''connection'') (\<lambda>connection.
     rand (paired connection)
    (rand (board_session device connection)
    (rand (rbind (pyget device ''session'' PNone) (\<lambda>x.
             rbind (path_at earlier [''connection'', ''link'', ''session'']) (\<lambda>y. Inr (\<not> py_eq x y))))
          (online device))))"

text \<open>\<^verbatim>\<open>for _ in range(120)\<close> without an \<^verbatim>\<open>else\<close>: after the last round the loop just ends.\<close>

definition look_back :: "upkeep_env \<Rightarrow> pyval \<Rightarrow> (upkeep, (pyval \<times> pyval) \<times> bool) act" where
  "look_back E earlier = bind (ask_get E ''/state'') (\<lambda>state. bind (lift (get_or_empty state ''device'')) (\<lambda>device.
     bind (lift (board_back earlier state device)) (\<lambda>b. ret ((state, device), b))))"

fun await_back :: "upkeep_env \<Rightarrow> pyval \<Rightarrow> nat \<Rightarrow> (upkeep, pyval \<times> pyval) act" where
  "await_back E earlier 0 s = bind (look_back E earlier) (\<lambda>(v, _). ret v) s"
| "await_back E earlier (Suc n) s = bind (look_back E earlier) (\<lambda>(v, b). if b then ret v else await_back E earlier n) s"

definition device_get :: "pyval \<Rightarrow> string \<Rightarrow> string \<Rightarrow> pyval res" where
  "device_get device k j = rbind (pyget device k (PDict [])) (\<lambda>v. pyget v j PNone)"

definition update_checks :: "pyval \<Rightarrow> pyval \<Rightarrow> pyval \<Rightarrow> pyval \<Rightarrow> pydict res" where
  "update_checks earlier configuration device after =
     rbind (pyget device ''session'' PNone) (\<lambda>x.
     rbind (path_at earlier [''connection'', ''link'', ''session'']) (\<lambda>y.
     rbind (device_get device ''network'' ''connected'') (\<lambda>c.
     rbind (rand (same_items after configuration ''persisted'') (unset_at after [''pending''])) (\<lambda>kept.
     rbind (device_get device ''crash'' ''available'') (\<lambda>core.
     rbind (device_get device ''network'' ''power_save'') (\<lambda>power.
       Inr [(''new_session'', PBool (\<not> py_eq x y)), (''network_ready'', PBool (c = PBool True)), (''config_preserved'', PBool kept),
            (''no_coredump'', PBool (\<not> truthy core)), (''wifi_power_save_disabled'', PBool (eq_int power 0))]))))))"

definition image_call :: "upkeep_env \<Rightarrow> string \<Rightarrow> mcall" where
  "image_call E img = upkeep_call E ''/firmware'' ''POST'' (Bytes img)"

definition firmware_idle :: "pyval \<Rightarrow> pyval \<Rightarrow> bool res" where
  "firmware_idle earlier configuration =
     rand (rbind (path_at earlier [''llm'', ''active'']) (\<lambda>a. Inr (eq_int a 0))) (unset_at configuration [''pending''])"

definition firmware_body :: "upkeep_env \<Rightarrow> (upkeep, unit) act" where
  "firmware_body E =
     bind (lift (ue_image E)) (\<lambda>img.
     bind (await_board E 100) (\<lambda>earlier.
     bind (live_config E) (\<lambda>configuration.
     andthen (assert_res (firmware_idle earlier configuration) [])
    (andthen (ask E ''/firmware'' ''POST'' (Bytes img))
    (bind (await_back E earlier 119) (\<lambda>(state, device).
     bind (live_config E) (\<lambda>after.
     bind (lift (update_checks earlier configuration device after)) (\<lambda>checks.
       modify (\<lambda>s. s\<lparr>uk_checks := checks, uk_passed := list_all (truthy \<circ> snd) checks\<rparr>)))))))))"

definition firmware_main :: "upkeep_env \<Rightarrow> (upkeep, int) act" where
  "firmware_main E = andthen (catch is_exception (firmware_body E) record_error) (gets (\<lambda>s. if uk_passed s then 0 else 1))"

end
