(* ===== verification/UpkeepProps.thy ===== *)
theory UpkeepProps
  imports Upkeep TrayProps
begin

text \<open>
  What the two checks of a live device guarantee: a candidate configuration never stays, an image is
  uploaded once and only to an idle device; and what a passed report shows, or does not show.
\<close>

section \<open>The candidate configuration\<close>

definition applies :: "upkeep_env \<Rightarrow> mcall \<Rightarrow> bool" where
  "applies E c \<longleftrightarrow> c = upkeep_call E ''/config'' ''PATCH'' candidate"

definition withdraws :: "upkeep_env \<Rightarrow> mcall \<Rightarrow> bool" where
  "withdraws E c \<longleftrightarrow> c = upkeep_call E ''/config/rollback'' ''POST'' Empty"

abbreviation withdrawn :: "upkeep_env \<Rightarrow> upkeep \<Rightarrow> bool" where
  "withdrawn E s \<equiv> undone (applies E) (withdraws E) (mg_calls s)"

abbreviation reading_only :: "upkeep_env \<Rightarrow> (upkeep, 'a) act \<Rightarrow> bool" where
  "reading_only E \<equiv> asks.grows (\<lambda>c. \<not> applies E c)"

lemma asks_ask: "P (upkeep_call E path method data) \<Longrightarrow> asks.grows P (ask E path method data)"
  unfolding ask_def by (intro asks_rules asks_send)

lemma asks_put: "asks.grows P (put_check k r)" "asks.grows P (put_figure k r)"
  unfolding put_check_def put_figure_def by (intro asks_rules asks_modify; simp)+

lemma reading_ask: "method \<noteq> ''PATCH'' \<Longrightarrow> reading_only E (ask E path method data)"
  by (rule asks_ask) (simp add: applies_def upkeep_call_def)

lemma reading_config: "reading_only E (live_config E)"
  by (intro asks_rules reading_ask) simp

lemma await_rollback_eqs:
  "await_rollback E 0 = bind (live_config E) (\<lambda>final. bind (lift (getitem final ''pending'')) (\<lambda>_. ret final))"
  "await_rollback E (Suc n) = bind (live_config E) (\<lambda>final. bind (lift (getitem final ''pending'')) (\<lambda>p.
     if \<not> truthy p then ret final else await_rollback E n))"
  by (simp_all add: fun_eq_iff)

lemma reading_await: "reading_only E (await_rollback E n)"
  by (induction n; simp only: await_rollback_eqs) (intro asks_rules reading_config; assumption)+

text \<open>The rollback is requested first, and nothing is applied after it.\<close>

lemma ask_calls: "mg_calls (snd (ask E path method data s)) = mg_calls s @ [upkeep_call E path method data]"
  by (auto simp: ask_def send_def bind_def act_run split: sum.splits)

lemma undo_withdrawn: "withdrawn E (snd (undo_candidate E original s))"
proof -
  have first: "withdrawn E (snd (ask E ''/config/rollback'' ''POST'' Empty s))" for s
    unfolding ask_calls by (rule undone_closed) (simp add: withdraws_def)
  have rest: "keeps (withdrawn E) (bind (await_rollback E 39) (\<lambda>final. put_check ''rolled_back_and_preserved'' (truth (preserved original final))))"
    by (intro keeps_undone asks_rules reading_await asks_put)
  have "withdrawn E (snd (roll_back E original s))"
  proof (cases "ask E ''/config/rollback'' ''POST'' Empty s")
    case (Pair r t)
    then have "withdrawn E t"
      using first [of s] by simp
    then show ?thesis
      using keepsD [OF rest, of t] by (simp add: roll_back_def andthen_def bind_def [of "ask _ _ _ _"] Pair split: sum.splits)
  qed
  then show ?thesis
    by (auto simp: undo_candidate_def catch_def act_run split: prod.splits sum.splits)
qed

lemma finally_from: "keeps I m \<Longrightarrow> I s \<Longrightarrow> (\<And>s. I s \<Longrightarrow> J (snd (n s))) \<Longrightarrow> J (snd (finally_do m n s))"
proof -
  assume m: "keeps I m" "I s" and n: "\<And>s. I s \<Longrightarrow> J (snd (n s))"
  obtain r t where run: "m s = (r, t)"
    by fastforce
  then have "I t"
    using keepsD [OF m] by simp
  then show ?thesis
    using n [of t] by (auto simp: finally_do_def run split: prod.splits sum.splits)
qed

text \<open>Until the flag is set nothing was applied.\<close>

lemma applied_kept: "keeps uk_applied (ask E path method data)" "keeps uk_applied (put_check k r)" "keeps uk_applied (put_figure k r)"
  unfolding ask_def put_check_def put_figure_def
  by (auto simp: keeps_def send_def bind_def act_run split: sum.splits)

lemma keeps_disj: "keeps I m \<Longrightarrow> keeps J m \<Longrightarrow> keeps (\<lambda>s. I s \<or> J s) m"
  by (auto simp: keeps_def)

lemma keeps_entering:
  assumes "keeps uk_applied rest"
  shows "keeps (\<lambda>s. uk_applied s \<or> J s) (andthen (modify (\<lambda>s. s\<lparr>uk_applied := True\<rparr>)) rest)"
  using keepsD [OF assms] by (auto simp: keeps_def)

lemma flagged_rules:
  "method \<noteq> ''PATCH'' \<Longrightarrow> keeps (\<lambda>s. uk_applied s \<or> withdrawn E s) (ask E path method data)"
  by (intro keeps_disj applied_kept keeps_undone reading_ask)

lemma body_flagged: "keeps (\<lambda>s. uk_applied s \<or> withdrawn E s) (product_body E)"
  unfolding product_body_def
  by (intro keeps_bind keeps_andthen [of _ "assert_res r m" for r m] keeps_assert flagged_rules keeps_basic keeps_entering
      keeps_andthen [of _ "modify (\<lambda>s. s\<lparr>uk_original := v\<rparr>)" for v])
    (auto intro!: keeps_intro applied_kept simp: candidate_checks_def)

lemma product_withdrawn: "withdrawn E (snd (product_main E upkeep_init))"
proof -
  have body: "keeps (\<lambda>s. uk_applied s \<or> withdrawn E s) (catch is_exception (product_body E) record_error)"
    unfolding record_error_def by (intro keeps_catch body_flagged keeps_modify) simp
  have clean: "withdrawn E (snd (product_cleanup E s))" if "uk_applied s \<or> withdrawn E s" for s
  proof (cases "uk_applied s")
    case True
    then show ?thesis
      using undo_withdrawn [of E "uk_original s" s]
      by (cases "undo_candidate E (uk_original s) s") (auto simp: product_cleanup_def act_run andthen_def bind_def split: sum.splits)
  qed (use that in \<open>simp add: product_cleanup_def act_run\<close>)
  have "withdrawn E (snd (finally_do (catch is_exception (product_body E) record_error) (product_cleanup E) upkeep_init))"
  proof (rule finally_from [OF body])
    show "withdrawn E (snd (product_cleanup E s))" if "uk_applied s \<or> withdrawn E s" for s
      by (rule clean [OF that])
  qed (simp add: upkeep_init_def undone_Nil)
  then show ?thesis
    by (auto simp: product_main_def andthen_def bind_def act_run split: prod.splits sum.splits)
qed

text \<open>The candidate is applied in one place only.\<close>

lemma applied_once: "at_most 1 (applies E) (snd (product_main E upkeep_init))"
proof -
  let ?none = "at_most 0 (applies E)" and ?once = "at_most 1 (applies E)"
  have weak: "?once s" if "?none s" for s
    using that by (rule at_most_mono) simp
  have reading: "keeps ?none m" "keeps ?once m" if "reading_only E m" for m :: "(upkeep, 'b) act"
    by (intro keeps_at_most that)+
  have change: "leads ?none ?once (ask E ''/config'' ''PATCH'' candidate)"
    by (simp add: leads_def at_most_def ask_calls)
  have checks: "reading_only E (candidate_checks original c1 c2 first second)" for original c1 c2 first second
    unfolding candidate_checks_def by (intro asks_rules asks_put)
  have after: "reading_only E (bind (live_config E) (\<lambda>c1.
     bind (ask E ''/diagnostics'' ''POST'' health_check) (\<lambda>first.
     bind (live_config E) (\<lambda>c2.
     bind (ask E ''/diagnostics'' ''POST'' health_check) (\<lambda>second. candidate_checks original c1 c2 first second)))))"
    for original by (intro asks_rules reading_ask checks) simp_all
  have "leads ?none ?once (product_body E)"
    unfolding product_body_def
    by (intro leads_bind leads_andthen(1) weak keeps_at_most asks_rules reading_ask asks_modify
        leads_andthen(2) [OF change keeps_at_most [OF after]]; simp)
  then have "?once (snd (product_body E upkeep_init))"
    by (rule leadsD) (simp add: at_most_def upkeep_init_def)
  then have body: "?once (snd (catch is_exception (product_body E) record_error upkeep_init))"
    by (auto simp: catch_def record_error_def act_run at_most_def split: prod.splits sum.splits)
  have "reading_only E (product_cleanup E)"
    unfolding product_cleanup_def undo_candidate_def roll_back_def
    by (intro asks_rules reading_ask reading_await asks_put asks_modify; simp)
  from keepsD [OF keeps_at_most [OF this] body] show ?thesis
    by (auto simp: product_main_def finally_do_def andthen_def bind_def act_run split: prod.splits sum.splits)
qed

text \<open>
  C13. A candidate configuration never stays: whatever the gateway answers, and however the check
  ends, an interrupt included, the request that applies the candidate is made at most once, and if it
  was made, the request that rolls it back comes after it.
\<close>

theorem candidate_withdrawn:
  "list_all (\<lambda>c. \<not> applies E c) (mg_calls (snd (product_main E upkeep_init)))
   \<or> (\<exists>front change mid undo rest. mg_calls (snd (product_main E upkeep_init)) = front @ change # mid @ undo # rest
        \<and> applies E change \<and> withdraws E undo \<and> list_all (\<lambda>c. \<not> applies E c) (front @ mid @ rest))"
proof -
  let ?calls = "mg_calls (snd (product_main E upkeep_init))"
  consider "list_all (\<lambda>c. \<not> applies E c) ?calls"
    | front undo rest where "?calls = front @ undo # rest" "withdraws E undo" "list_all (\<lambda>c. \<not> applies E c) rest"
        "\<not> list_all (\<lambda>c. \<not> applies E c) ?calls"
    using product_withdrawn [of E] unfolding undone_def by blast
  then show ?thesis
  proof cases
    case (2 front undo rest)
    have other: "\<not> applies E undo"
      using 2(2) by (simp add: applies_def withdraws_def upkeep_call_def)
    then obtain a change mid where front: "front = a @ change # mid" and change: "applies E change"
      using 2 by (auto simp: list_all_iff in_set_conv_decomp [of _ front])
    have "length (filter (applies E) (a @ change # mid @ undo # rest)) \<le> 1"
      using applied_once [of E] 2(1) front by (simp add: at_most_def)
    then have "list_all (\<lambda>c. \<not> applies E c) (a @ mid @ rest)"
      using change 2(3) other by (auto simp: list_all_iff filter_empty_conv)
    then show ?thesis
      using 2(1,2) front change
      by (intro disjI2 exI [of _ a] exI [of _ change] exI [of _ mid] exI [of _ undo] exI [of _ rest]) simp
  qed simp
qed


section \<open>A passed configuration check\<close>

definition answer :: "upkeep_env \<Rightarrow> mcall list \<Rightarrow> string \<Rightarrow> pyval res" where
  "answer E cs path = rbind (ue_up E cs (upkeep_call E path ''GET'' Empty)) (read_reply (ue_lib E))"

text \<open>The last request reads the configuration, and the device it shows.\<close>

definition last_config :: "upkeep_env \<Rightarrow> mcall list \<Rightarrow> pyval \<Rightarrow> bool" where
  "last_config E cs v \<longleftrightarrow> cs \<noteq> [] \<and> last cs = upkeep_call E ''/config'' ''GET'' Empty
     \<and> rbind (answer E (butlast cs) ''/config'') (\<lambda>d. getitem d ''device'') = Inr v"

lemma ask_Inr: "ask E path method data s = (Inr v, t) \<longleftrightarrow>
    rbind (ue_up E (mg_calls s) (upkeep_call E path method data)) (read_reply (ue_lib E)) = Inr v
    \<and> t = s\<lparr>mg_calls := mg_calls s @ [upkeep_call E path method data]\<rparr>"
  by (auto simp: ask_def send_def bind_def act_run rbind_def split: sum.splits)

lemma config_Inr: "live_config E s = (Inr v, t) \<Longrightarrow> last_config E (mg_calls t) v \<and> (\<exists>cs. t = s\<lparr>mg_calls := cs\<rparr>)"
  by (auto simp: bind_Inr_iff ask_Inr act_run last_config_def answer_def)

lemma await_Inr: "await_rollback E n s = (Inr v, t) \<Longrightarrow> last_config E (mg_calls t) v \<and> (\<exists>cs. t = s\<lparr>mg_calls := cs\<rparr>)"
proof (induction n arbitrary: s)
  case 0
  then show ?case
    using config_Inr by (auto simp: bind_Inr_iff [of "live_config E"] bind_Inr_iff [of "lift _"] act_run)
next
  case (Suc n)
  then obtain w u p where "live_config E s = (Inr w, u)" and "getitem w ''pending'' = Inr p"
    and "(if \<not> truthy p then ret w else await_rollback E n) u = (Inr v, t)"
    by (auto simp: bind_Inr_iff [of "live_config E"] bind_Inr_iff [of "lift _"] act_run)
  then show ?case
    using config_Inr [of E s w u] Suc.IH [of u] by (cases "truthy p") (auto simp: act_run)
qed

lemma rolled_back:
  assumes "roll_back E original s = (Inr (), t)"
  shows "\<exists>v b. last_config E (mg_calls t) v \<and> preserved original v = Inr b
    \<and> map_of (uk_checks t) ''rolled_back_and_preserved'' = Some (PBool b) \<and> uk_original t = uk_original s"
proof -
  obtain u v w b where "ask E ''/config/rollback'' ''POST'' Empty s = (Inr u, v)" and wait: "await_rollback E 39 v = (Inr w, b)"
    and "put_check ''rolled_back_and_preserved'' (truth (preserved original w)) b = (Inr (), t)"
    using assms by (auto simp: roll_back_def andthen_def bind_Inr_iff)
  then show ?thesis
    using await_Inr [OF wait] by (auto simp: ask_Inr put_check_def truth_def bind_Inr_iff act_run rbind_Inr_iff update_conv')
qed

lemma unapplied_checks: "keeps (\<lambda>s. uk_applied s \<or> uk_checks s = []) (product_body E)"
proof -
  have ask: "keeps (\<lambda>s. uk_checks s = []) (ask E path verb content)" for path verb content
    by (auto simp: keeps_def ask_def send_def bind_def act_run split: sum.splits)
  show ?thesis
    unfolding product_body_def
    by (intro keeps_bind keeps_andthen [of _ "assert_res r m" for r m] keeps_assert keeps_disj ask keeps_basic keeps_entering
        keeps_andthen [of _ "modify (\<lambda>s. s\<lparr>uk_original := v\<rparr>)" for v])
      (auto intro!: keeps_intro applied_kept simp: candidate_checks_def)
qed

text \<open>
  A passed configuration check left the device as it was: its last request read the
  configuration, which has nothing pending and the effective and persisted values from before the candidate.
\<close>

lemma product_passed_sound:
  assumes "product_main E upkeep_init = (Inr 0, t)"
  shows "\<exists>v. last_config E (mg_calls t) v \<and> preserved (uk_original t) v = Inr True"
proof -
  have run: "finally_do (catch is_exception (product_body E) record_error) (product_cleanup E) upkeep_init = (Inr (), t)"
    and passed: "uk_passed t"
    using assms by (auto simp: product_main_def andthen_def bind_Inr_iff act_run split: if_splits)
  obtain s where body: "catch is_exception (product_body E) record_error upkeep_init = (Inr (), s)"
    and clean: "product_cleanup E s = (Inr (), t)"
    using run by (auto simp: finally_do_def split: prod.splits sum.splits)
  have "keeps (\<lambda>s. uk_applied s \<or> uk_checks s = []) (catch is_exception (product_body E) record_error)"
    unfolding record_error_def by (intro keeps_catch unapplied_checks keeps_modify) simp
  from keepsD [OF this, of upkeep_init] body have s: "uk_applied s \<or> uk_checks s = []"
    by (simp add: upkeep_init_def)
  show ?thesis
  proof (cases "uk_applied s")
    case True
    then obtain u where undo: "undo_candidate E (uk_original s) s = (Inr (), u)" and t: "t = u\<lparr>uk_passed := product_verdict u\<rparr>"
      using clean by (auto simp: product_cleanup_def andthen_def bind_Inr_iff act_run)
    then have verdict: "product_verdict u"
      using passed by simp
    then have "roll_back E (uk_original s) s = (Inr (), u)"
      using undo by (auto simp: undo_candidate_def catch_def act_run product_verdict_def split: prod.splits sum.splits if_splits)
    from rolled_back [OF this] obtain v b where "last_config E (mg_calls u) v" "preserved (uk_original s) v = Inr b"
      "map_of (uk_checks u) ''rolled_back_and_preserved'' = Some (PBool b)" "uk_original u = uk_original s"
      by blast
    then show ?thesis
      using verdict recorded_true [of "uk_checks u"] by (fastforce simp: t product_verdict_def)
  next
    case False
    then have "t = s\<lparr>uk_passed := product_verdict s\<rparr>"
      using clean by (simp add: product_cleanup_def act_run)
    then show ?thesis
      using passed s False by (simp add: product_verdict_def)
  qed
qed


definition config_doc :: "bool \<Rightarrow> int \<Rightarrow> int \<Rightarrow> pyval" where
  "config_doc p n clock = PDict [(''device'', PDict [(''pending'', PBool p), (''effective'', PDict [(''telemetry.interval_ms'', PInt n)]),
     (''persisted'', PDict [(''telemetry.interval_ms'', PInt 5000)]), (''session'', PInt 1), (''current_time_ms'', PInt clock),
     (''confirm_deadline_ms'', PInt 90000)])]"

definition product_demo :: upkeep_env where
  "product_demo = \<lparr>ue_lib = \<lparr>json_loads = map_of [(''m'', PDict [(''active'', PInt 0)]), (''o'', config_doc False 5000 0),
        (''c'', config_doc True 60000 100), (''d'', config_doc True 60000 1600),
        (''s'', PDict [(''session'', PInt 1), (''sample_time_ms'', PInt 100)]), (''t'', PDict [(''session'', PInt 1), (''sample_time_ms'', PInt 1700)])],
       dumps = (\<lambda>_. []), dumps_ascii = (\<lambda>_. []), sha256 = (\<lambda>_. []), repr_of = (\<lambda>_. [])\<rparr>,
     ue_up = (\<lambda>cs c. Inr \<lparr>mr_status = 200, mr_headers = [], mr_body = [''moocsdtoo'' ! length cs]\<rparr>),
     ue_key = [], ue_image = Inr []\<rparr>"

lemma product_demo_run: "fst (product_main product_demo upkeep_init) = Inr 0"
  by code_simp

lemma product_passed_sound_witness:
  "\<exists>v. last_config product_demo (mg_calls (snd (product_main product_demo upkeep_init))) v
     \<and> preserved (uk_original (snd (product_main product_demo upkeep_init))) v = Inr True"
  using product_passed_sound [of product_demo "snd (product_main product_demo upkeep_init)"] product_demo_run
  by (metis prod.collapse)

section \<open>The firmware update\<close>

text \<open>Any request that is not a reading one.\<close>

definition writes :: "mcall \<Rightarrow> bool" where
  "writes c \<longleftrightarrow> mc_method c \<noteq> ''GET''"

abbreviation state_call :: "upkeep_env \<Rightarrow> mcall" where
  "state_call E \<equiv> upkeep_call E ''/state'' ''GET'' Empty"

abbreviation config_call :: "upkeep_env \<Rightarrow> mcall" where
  "config_call E \<equiv> upkeep_call E ''/config'' ''GET'' Empty"

text \<open>The requests up to an upload: the last two showed a ready, idle device with nothing pending.\<close>

definition cleared :: "upkeep_env \<Rightarrow> mcall list \<Rightarrow> bool" where
  "cleared E cs \<longleftrightarrow> (\<exists>front state configuration. cs = front @ [state_call E, config_call E]
     \<and> answer E front ''/state'' = Inr state \<and> board_ready state = Inr True
     \<and> rbind (answer E (front @ [state_call E]) ''/config'') (\<lambda>d. getitem d ''device'') = Inr configuration
     \<and> firmware_idle state configuration = Inr True)"

abbreviation still :: "upkeep_env \<Rightarrow> (upkeep, 'a) act \<Rightarrow> bool" where
  "still E \<equiv> asks.grows (\<lambda>c. \<not> writes c)"

lemma still_get: "still E (ask_get E path)"
  by (rule asks_ask) (simp add: writes_def upkeep_call_def)

lemma await_board_eqs: "await_board E 0 = raise TimeoutError ''device did not become ready''"
  "await_board E (Suc n) = bind (ask_get E ''/state'') (\<lambda>state. bind (lift (board_ready state)) (\<lambda>b.
     if b then ret state else await_board E n))"
  by (simp_all add: fun_eq_iff)

lemma await_back_eqs: "await_back E earlier 0 = bind (look_back E earlier) (\<lambda>(v, _). ret v)"
  "await_back E earlier (Suc n) = bind (look_back E earlier) (\<lambda>(v, b). if b then ret v else await_back E earlier n)"
  by (simp_all add: fun_eq_iff)

lemma still_loops: "still E (await_board E n)" "still E (look_back E earlier)" "still E (await_back E earlier n)"
proof -
  show "still E (await_board E n)"
    by (induction n; simp only: await_board_eqs) (intro asks_rules still_get; assumption)+
  show look: "still E (look_back E earlier)"
    unfolding look_back_def by (intro asks_rules still_get)
  show "still E (await_back E earlier n)"
    by (induction n; simp only: await_back_eqs) (intro asks_rules look; assumption)+
qed

lemma await_board_Inr: "await_board E n s = (Inr v, t) \<Longrightarrow> \<exists>cs. mg_calls t = cs @ [state_call E]
    \<and> answer E cs ''/state'' = Inr v \<and> board_ready v = Inr True"
proof (induction n arbitrary: s)
  case (Suc n)
  then obtain w u b where look: "ask_get E ''/state'' s = (Inr w, u)" and "board_ready w = Inr b"
    and "(if b then ret w else await_board E n) u = (Inr v, t)"
    by (auto simp: await_board_eqs bind_Inr_iff act_run)
  then show ?case
    using Suc.IH [of u] by (cases b) (auto simp: act_run ask_Inr answer_def)
qed (simp add: act_run)

text \<open>No upload so far, or exactly one, after the requests that cleared it.\<close>

definition one_upload :: "upkeep_env \<Rightarrow> mcall list \<Rightarrow> bool" where
  "one_upload E cs \<longleftrightarrow> list_all (\<lambda>c. \<not> writes c) cs
     \<or> (\<exists>front img rest. cs = front @ image_call E img # rest \<and> ue_image E = Inr img \<and> cleared E front
         \<and> list_all (\<lambda>c. \<not> writes c) front \<and> list_all (\<lambda>c. \<not> writes c) rest)"

lemma one_upload_append:
  assumes "one_upload E cs" and new: "list_all (\<lambda>c. \<not> writes c) new"
  shows "one_upload E (cs @ new)"
  using assms(1) unfolding one_upload_def
proof (elim disjE exE conjE)
  fix front img rest
  assume "cs = front @ image_call E img # rest" and "ue_image E = Inr img" and "cleared E front"
    and "list_all (\<lambda>c. \<not> writes c) front" and "list_all (\<lambda>c. \<not> writes c) rest"
  then have "cs @ new = front @ image_call E img # (rest @ new) \<and> ue_image E = Inr img \<and> cleared E front
      \<and> list_all (\<lambda>c. \<not> writes c) front \<and> list_all (\<lambda>c. \<not> writes c) (rest @ new)"
    using new by simp
  then show "list_all (\<lambda>c. \<not> writes c) (cs @ new)
      \<or> (\<exists>front img rest. cs @ new = front @ image_call E img # rest \<and> ue_image E = Inr img \<and> cleared E front
         \<and> list_all (\<lambda>c. \<not> writes c) front \<and> list_all (\<lambda>c. \<not> writes c) rest)"
    by blast
qed (simp add: new)

lemma still_one: "still E m \<Longrightarrow> keeps (\<lambda>s. one_upload E (mg_calls s)) m"
  unfolding keeps_def
proof (intro allI impI)
  fix s :: upkeep
  assume m: "still E m" and s: "one_upload E (mg_calls s)"
  obtain new where "mg_calls (snd (m s)) = mg_calls s @ new" and "list_all (\<lambda>c. \<not> writes c) new"
    using asks.growsD [OF m, of s] by (auto simp: only_def)
  then show "one_upload E (mg_calls (snd (m s)))"
    using one_upload_append [OF s] by simp
qed

text \<open>What follows the wait for the device, before and after the upload.\<close>

definition after_upload :: "upkeep_env \<Rightarrow> pyval \<Rightarrow> pyval \<Rightarrow> (upkeep, unit) act" where
  "after_upload E earlier configuration =
     bind (await_back E earlier 119) (\<lambda>(state, device).
     bind (live_config E) (\<lambda>after.
     bind (lift (update_checks earlier configuration device after)) (\<lambda>checks.
       modify (\<lambda>s. s\<lparr>uk_checks := checks, uk_passed := list_all (truthy \<circ> snd) checks\<rparr>))))"

lemma still_after: "still E (after_upload E earlier configuration)"
  unfolding after_upload_def by (intro asks_rules still_loops still_get asks_modify) simp

lemma firmware_body_alt: "firmware_body E = bind (lift (ue_image E)) (\<lambda>img. bind (await_board E 100) (\<lambda>earlier.
    bind (live_config E) (\<lambda>configuration. andthen (assert_res (firmware_idle earlier configuration) [])
      (andthen (ask E ''/firmware'' ''POST'' (Bytes img)) (after_upload E earlier configuration)))))"
  by (simp add: firmware_body_def after_upload_def)

text \<open>The part after the device was found ready.\<close>

lemma config_calls: "mg_calls (snd (live_config E s)) = mg_calls s @ [config_call E]"
  by (auto simp: bind_def act_run ask_def send_def split: sum.splits)

lemma upload_step:
  assumes "ue_image E = Inr img" and "cleared E (mg_calls s)" and "list_all (\<lambda>c. \<not> writes c) (mg_calls s)"
  shows "one_upload E (mg_calls (snd (andthen (ask E ''/firmware'' ''POST'' (Bytes img)) (after_upload E earlier configuration) s)))"
proof -
  have "one_upload E (mg_calls s @ [image_call E img])"
    using assms unfolding one_upload_def by fastforce
  then have made: "one_upload E (mg_calls (snd (ask E ''/firmware'' ''POST'' (Bytes img) s)))"
    by (simp add: ask_calls image_call_def)
  obtain r u where run: "ask E ''/firmware'' ''POST'' (Bytes img) s = (r, u)"
    by fastforce
  have rest: "keeps (\<lambda>s. one_upload E (mg_calls s)) (after_upload E earlier configuration)"
    by (rule still_one [OF still_after])
  show ?thesis
    using made keepsD [OF rest, of u]
    by (auto simp: andthen_def bind_def run split: sum.splits)
qed

lemma ready_then:
  assumes img: "ue_image E = Inr img" and last: "mg_calls s = front @ [state_call E]"
    and state: "answer E front ''/state'' = Inr earlier" "board_ready earlier = Inr True"
    and fresh: "list_all (\<lambda>c. \<not> writes c) (mg_calls s)"
  shows "one_upload E (mg_calls (snd (bind (live_config E) (\<lambda>configuration. andthen (assert_res (firmware_idle earlier configuration) [])
      (andthen (ask E ''/firmware'' ''POST'' (Bytes img)) (after_upload E earlier configuration))) s)))"
proof -
  obtain r u where config: "live_config E s = (r, u)"
    by fastforce
  then have u: "mg_calls u = front @ [state_call E, config_call E]" and quiet: "list_all (\<lambda>c. \<not> writes c) (mg_calls u)"
    using config_calls [of E s] fresh last by (auto simp: writes_def upkeep_call_def)
  then have none: "one_upload E (mg_calls u)"
    by (simp add: one_upload_def)
  show ?thesis
  proof (cases r)
    case (Inr configuration)
    then have shown: "rbind (answer E (front @ [state_call E]) ''/config'') (\<lambda>d. getitem d ''device'') = Inr configuration"
      using config last by (auto simp: bind_Inr_iff ask_Inr act_run answer_def)
    show ?thesis
    proof (cases "firmware_idle earlier configuration")
      case (Inr b)
      show ?thesis
      proof (cases b)
        case True
        then have "cleared E (mg_calls u)"
          using u state shown Inr unfolding cleared_def
          by (intro exI [of _ front] exI [of _ earlier] exI [of _ configuration]) simp
        from upload_step [OF img this quiet, of earlier configuration] show ?thesis
          using True Inr \<open>r = Inr configuration\<close> by (simp add: bind_def [of "live_config E"] config)
      qed (use Inr \<open>r = Inr configuration\<close> none in \<open>simp add: bind_def [of "live_config E"] config act_run\<close>)
    qed (use Inr none in \<open>simp add: bind_def [of "live_config E"] config act_run\<close>)
  qed (use none in \<open>simp add: bind_def [of "live_config E"] config\<close>)
qed

text \<open>
  C14. An image is uploaded at most once, and only to an idle device: the upload directly follows an
  answer that shows the device paired, in the session of the link, connected and without
  active requests, and a configuration with nothing pending. Every other request of the script, before
  and after the upload, is a GET.
\<close>

theorem upload_guarded: "one_upload E (mg_calls (snd (firmware_main E upkeep_init)))"
proof -
  have "one_upload E (mg_calls (snd (firmware_body E upkeep_init)))"
  proof (cases "ue_image E")
    case (Inr img)
    obtain r s where wait: "await_board E 100 upkeep_init = (r, s)"
      by fastforce
    have s: "list_all (\<lambda>c. \<not> writes c) (mg_calls s)"
      using asks.growsD [OF still_loops(1) [of E 100], of upkeep_init] wait by (auto simp: only_def upkeep_init_def)
    show ?thesis
    proof (cases r)
      case (Inl e)
      then show ?thesis
        using Inr wait s by (simp add: firmware_body_alt bind_def [of "await_board E 100"] one_upload_def)
    next
      case found: (Inr earlier)
      obtain front where "mg_calls s = front @ [state_call E]" "answer E front ''/state'' = Inr earlier" "board_ready earlier = Inr True"
        using await_board_Inr wait found by blast
      from ready_then [OF Inr this s] show ?thesis
        using Inr wait found by (simp add: firmware_body_alt bind_def [of "await_board E 100"])
    qed
  qed (simp add: firmware_body_alt act_run upkeep_init_def one_upload_def)
  then show ?thesis
    by (auto simp: firmware_main_def record_error_def andthen_def bind_def catch_def act_run split: prod.splits sum.splits)
qed

text \<open>
  A gateway whose device comes back with a new session and its network, but is never paired again.
\<close>

definition board_doc :: "bool \<Rightarrow> int \<Rightarrow> pyval" where
  "board_doc p n = PDict [(''connection'', PDict [(''paired'', PBool p), (''link'', PDict [(''session'', PInt n)])]),
     (''device'', PDict [(''session'', PInt n), (''network'', PDict [(''connected'', PBool True), (''power_save'', PInt 0)])]),
     (''llm'', PDict [(''active'', PInt 0)])]"

definition lost_env :: upkeep_env where
  "lost_env = \<lparr>ue_lib = \<lparr>json_loads = map_of [(''a'', board_doc True 1), (''b'', board_doc False 2),
        (''c'', PDict [(''device'', PDict [(''pending'', PBool False), (''persisted'', PNone)])])],
       dumps = (\<lambda>_. []), dumps_ascii = (\<lambda>_. []), sha256 = (\<lambda>_. []), repr_of = (\<lambda>_. [])\<rparr>,
     ue_up = (\<lambda>cs c. Inr \<lparr>mr_status = 200, mr_headers = [], mr_body = (if mc_url c = ''http://localhost:8766/admin/v1/config'' then ''c''
        else if list_ex writes cs then ''b'' else ''a'')\<rparr>),
     ue_key = [], ue_image = Inr ''img''\<rparr>"

lemma look_never:
  assumes "list_ex writes (mg_calls s)"
  shows "look_back lost_env (board_doc True 1) s = (Inr ((board_doc False 2, PDict [(''session'', PInt 2),
    (''network'', PDict [(''connected'', PBool True), (''power_save'', PInt 0)])]), False), s\<lparr>mg_calls := mg_calls s @ [state_call lost_env]\<rparr>)"
  using assms by (simp add: look_back_def ask_def send_def bind_def act_run lost_env_def upkeep_call_def read_reply_def loads_def
      board_doc_def get_or_empty_def py_or_def board_back_def paired_def)

lemma await_never: "list_ex writes (mg_calls s) \<Longrightarrow>
    \<exists>cs. await_back lost_env (board_doc True 1) n s = (Inr (board_doc False 2, PDict [(''session'', PInt 2),
      (''network'', PDict [(''connected'', PBool True), (''power_save'', PInt 0)])]), s\<lparr>mg_calls := mg_calls s @ cs\<rparr>)"
proof (induction n arbitrary: s)
  case (Suc n)
  from Suc.IH [of "s\<lparr>mg_calls := mg_calls s @ [state_call lost_env]\<rparr>"] Suc.prems show ?case
    by (auto simp: await_back_eqs bind_def look_never)
next
  case 0
  then have "await_back lost_env (board_doc True 1) 0 s = (Inr (board_doc False 2, PDict [(''session'', PInt 2),
      (''network'', PDict [(''connected'', PBool True), (''power_save'', PInt 0)])]), s\<lparr>mg_calls := mg_calls s @ [state_call lost_env]\<rparr>)"
    by (simp add: await_back_eqs bind_def look_never act_run)
  then show ?case
    by blast
qed

lemma lost_ready: "await_board lost_env (Suc n) upkeep_init = (Inr (board_doc True 1), upkeep_init\<lparr>mg_calls := [state_call lost_env]\<rparr>)"
  by (simp add: await_board_eqs ask_def send_def bind_def act_run lost_env_def upkeep_call_def read_reply_def loads_def
      board_doc_def get_or_empty_def py_or_def board_ready_def paired_def online_def upkeep_init_def)

definition lost_config :: pyval where
  "lost_config = PDict [(''pending'', PBool False), (''persisted'', PNone)]"

lemma lost_config_ask: "ask_get lost_env ''/config'' s = (Inr (PDict [(''device'', lost_config)]), s\<lparr>mg_calls := mg_calls s @ [config_call lost_env]\<rparr>)"
  by (simp add: ask_def send_def bind_def act_run lost_env_def upkeep_call_def read_reply_def loads_def lost_config_def)

lemma lost_config_run: "live_config lost_env s = (Inr lost_config, s\<lparr>mg_calls := mg_calls s @ [config_call lost_env]\<rparr>)"
  by (simp add: bind_def lost_config_ask act_run)

lemma lost_upload: "\<exists>v. ask lost_env ''/firmware'' ''POST'' (Bytes ''img'') s
    = (Inr v, s\<lparr>mg_calls := mg_calls s @ [image_call lost_env ''img'']\<rparr>)"
  by (simp add: ask_def send_def bind_def act_run lost_env_def upkeep_call_def read_reply_def loads_def image_call_def)

lemma lost_after:
  assumes "list_ex writes (mg_calls s)"
  shows "\<exists>t. after_upload lost_env (board_doc True 1) lost_config s = (Inr (), t) \<and> uk_passed t"
proof -
  obtain cs where "await_back lost_env (board_doc True 1) 119 s = (Inr (board_doc False 2, PDict [(''session'', PInt 2),
      (''network'', PDict [(''connected'', PBool True), (''power_save'', PInt 0)])]), s\<lparr>mg_calls := mg_calls s @ cs\<rparr>)"
    using await_never [OF assms] by blast
  moreover have "update_checks (board_doc True 1) lost_config (PDict [(''session'', PInt 2),
      (''network'', PDict [(''connected'', PBool True), (''power_save'', PInt 0)])]) lost_config
    = Inr [(''new_session'', PBool True), (''network_ready'', PBool True), (''config_preserved'', PBool True),
        (''no_coredump'', PBool True), (''wifi_power_save_disabled'', PBool True)]"
    by code_simp
  ultimately show ?thesis
    by (simp add: after_upload_def bind_def [of "await_back _ _ _"] bind_def [of "live_config _"] lost_config_run act_run)
qed

text \<open>
  C34. The update check can pass although the device never came back: its second wait has no failing branch, and
  the conditions it records leave out that the device is paired. There is a gateway that
  answers every state request after the upload with an unpaired device, for which the script returns 0.
\<close>

theorem unpaired_update_passes:
  "fst (firmware_main lost_env upkeep_init) = Inr 0
   \<and> (\<forall>front rest. rbind (answer lost_env (front @ image_call lost_env ''img'' # rest) ''/state'')
        (\<lambda>v. rbind (getitem v ''connection'') paired) = Inr False)"
proof
  obtain n where n: "(100::nat) = Suc n"
    by (metis numeral_eq_Suc)
  obtain v where up: "ask lost_env ''/firmware'' ''POST'' (Bytes ''img'') (upkeep_init\<lparr>mg_calls := [state_call lost_env, config_call lost_env]\<rparr>)
      = (Inr v, upkeep_init\<lparr>mg_calls := [state_call lost_env, config_call lost_env, image_call lost_env ''img'']\<rparr>)"
    using lost_upload [of "upkeep_init\<lparr>mg_calls := [state_call lost_env, config_call lost_env]\<rparr>"] by auto
  have idle: "firmware_idle (board_doc True 1) lost_config = Inr True"
    by code_simp
  obtain t where "after_upload lost_env (board_doc True 1) lost_config
      (upkeep_init\<lparr>mg_calls := [state_call lost_env, config_call lost_env, image_call lost_env ''img'']\<rparr>) = (Inr (), t)" "uk_passed t"
    using lost_after [of "upkeep_init\<lparr>mg_calls := [state_call lost_env, config_call lost_env, image_call lost_env ''img'']\<rparr>"]
    by (auto simp: writes_def image_call_def upkeep_call_def)
  moreover have "ue_image lost_env = Inr ''img''"
    by (simp add: lost_env_def)
  ultimately have "firmware_body lost_env upkeep_init = (Inr (), t) \<and> uk_passed t"
    unfolding firmware_body_alt n
    by (simp add: lost_ready bind_def [of "await_board _ _"] bind_def [of "live_config _"] lost_config_ask act_run idle
        andthen_def [of "ask _ _ _ _"] bind_def [of "ask _ _ _ _"] up del: await_board.simps)
  then show "fst (firmware_main lost_env upkeep_init) = Inr 0"
    by (simp add: firmware_main_def catch_def andthen_def bind_def act_run)
  show "\<forall>front rest. rbind (answer lost_env (front @ image_call lost_env ''img'' # rest) ''/state'')
        (\<lambda>v. rbind (getitem v ''connection'') paired) = Inr False"
    by (simp add: answer_def lost_env_def upkeep_call_def read_reply_def loads_def writes_def image_call_def board_doc_def paired_def)
qed

end
