(* ===== verification/FilesCheck.thy ===== *)
theory FilesCheck
  imports Manage Bodies
begin

text \<open>
  \<^verbatim>\<open>files-check.py\<close>: a synthetic picture is uploaded through the gateway's file interface,
  inspected, and deleted again. The picture is drawn by libraries and is a parameter, like the
  two random identifiers; of the request headers only the token is modelled, and the declared length.
\<close>

section \<open>The upload\<close>

record files_env =
  fe_lib :: pylib
  fe_up :: mserver
  fe_token :: string
  fe_png :: string
  fe_boundary_id :: string
  fe_name_id :: string

record files_state = manage +
  fi_id :: pyval
  fi_failure :: "string option"
  fi_passed :: bool
  fi_published :: bool

definition files_init :: files_state where
  "files_init = \<lparr>mg_calls = [], mg_cases = [], fi_id = PNone, fi_failure = None, fi_passed = False, fi_published = False\<rparr>"

definition quoted :: "string \<Rightarrow> string" where
  "quoted s = quote @ s @ quote"

definition form_boundary :: "files_env \<Rightarrow> string" where
  "form_boundary E = ''u2-'' @ fe_boundary_id E"

definition form_fields :: "(string \<times> string) list" where
  "form_fields = [(''purpose'', ''user_data''), (''expires_after[anchor]'', ''created_at''), (''expires_after[seconds]'', ''3600'')]"

definition form_prefix :: "files_env \<Rightarrow> string" where
  "form_prefix E =
     concat (map (\<lambda>(k, v). ''--'' @ form_boundary E @ crlf @ ''Content-Disposition: form-data; name='' @ quoted k @ crlf @ crlf
        @ v @ crlf) form_fields)
     @ ''--'' @ form_boundary E @ crlf @ ''Content-Disposition: form-data; name='' @ quoted ''file''
     @ ''; filename='' @ quoted (''uart2llm-synthetic-'' @ fe_name_id E @ ''.png'') @ crlf @ ''Content-Type: image/png'' @ crlf @ crlf"

definition form_suffix :: "files_env \<Rightarrow> string" where
  "form_suffix E = crlf @ ''--'' @ form_boundary E @ ''--'' @ crlf"

text \<open>\<^verbatim>\<open>for i in range(0, len(png), 4096): yield png[i:i+4096]\<close>.\<close>

function slices :: "nat \<Rightarrow> string \<Rightarrow> string list" where
  "slices n s = (if s = [] \<or> n = 0 then [] else take n s # slices n (drop n s))"
  by pat_completeness auto
termination
  by (relation "measure (\<lambda>(n, s). length s)") auto

declare slices.simps [simp del]

definition form_chunks :: "files_env \<Rightarrow> string list" where
  "form_chunks E = form_prefix E # slices 4096 (fe_png E) @ [form_suffix E]"

definition form_length :: "files_env \<Rightarrow> nat" where
  "form_length E = length (form_prefix E) + length (fe_png E) + length (form_suffix E)"

section \<open>Requests\<close>

definition files_call :: "files_env \<Rightarrow> string \<Rightarrow> string \<Rightarrow> payload \<Rightarrow> mcall" where
  "files_call E path method data = \<lparr>mc_method = method, mc_url = ''http://localhost:8765/v1/files'' @ path,
     mc_token = Some (fe_token E), mc_body = data\<rparr>"

definition files_request :: "files_env \<Rightarrow> string \<Rightarrow> string \<Rightarrow> payload \<Rightarrow> (files_state, int \<times> string) act" where
  "files_request E path method data = bind (send (fe_up E) (files_call E path method data)) (\<lambda>r.
     ret (mr_status r, read_bytes 1048576 (mr_body r)))"

abbreviation files_case :: "string \<Rightarrow> (files_state, pyval) act \<Rightarrow> (files_state, pyval) act" where
  "files_case \<equiv> run_case id"

text \<open>\<^verbatim>\<open>re.fullmatch(r'file-api-[A-Za-z0-9_-]+', v)\<close>: a type error unless it is a string.\<close>

definition file_chars :: string where
  "file_chars = alnum @ ''_-''"

definition is_file_id :: "string \<Rightarrow> bool" where
  "is_file_id s \<longleftrightarrow> prefix ''file-api-'' s \<and> length s > 9 \<and> list_all (\<lambda>c. c \<in> set file_chars) (drop 9 s)"

definition match_id :: "pyval \<Rightarrow> bool res" where
  "match_id v = (case v of PStr s \<Rightarrow> Inr (is_file_id s) | _ \<Rightarrow> Inl (Exc TypeError ''expected string''))"

definition id_path :: "pyval \<Rightarrow> string res" where
  "id_path v = (case v of PStr s \<Rightarrow> Inr (CHR ''/'' # s) | _ \<Rightarrow> Inl (Exc TypeError ''str''))"

definition stored_all :: "files_env \<Rightarrow> pyval \<Rightarrow> bool res" where
  "stored_all E v = rbind (getitem v ''bytes'') (\<lambda>n. Inr (eq_int n (int (length (fe_png E)))))"

section \<open>The cases\<close>

definition upload_file :: "files_env \<Rightarrow> (files_state, pyval) act" where
  "upload_file E = bind (files_request E [] ''POST'' (Bytes (concat (form_chunks E)))) (\<lambda>(status, b).
     andthen (assert_that (status = 200) (''upload status '' @ repr_of (fe_lib E) (PInt status) @ '', response bytes ''
       @ repr_of (fe_lib E) (PInt (int (length b)))))
    (bind (lift (loads (fe_lib E) b)) (\<lambda>value.
     bind (lift (getitem value ''id'')) (\<lambda>fid.
     andthen (modify (\<lambda>s. s\<lparr>fi_id := fid\<rparr>))
    (andthen (assert_res (match_id fid) ''unexpected file identifier'')
    (andthen (assert_res (stored_all E value) ''stored size mismatch'')
    (bind (lift (getitem value ''bytes'')) (\<lambda>n.
     bind (lift (pyget value ''expires_at'' PNone)) (\<lambda>expires.
     ret (PDict [(''http_status'', PInt status), (''stored_bytes'', n), (''expires_at'', expires)]))))))))))"

definition own_path :: "(files_state, string) act" where
  "own_path = bind (gets fi_id) (\<lambda>fid. lift (id_path fid))"

definition read_metadata :: "files_env \<Rightarrow> (files_state, pyval) act" where
  "read_metadata E = bind own_path (\<lambda>path. bind (files_request E path ''GET'' Empty) (\<lambda>(status, b).
     bind (lift (loads (fe_lib E) b)) (\<lambda>value.
     andthen (assert_res (rand (Inr (status = 200)) (stored_all E value)) [])
    (bind (lift (getitem value ''bytes'')) (\<lambda>n. ret (PDict [(''http_status'', PInt status), (''stored_bytes'', n)]))))))"

definition read_content :: "files_env \<Rightarrow> (files_state, pyval) act" where
  "read_content E = bind own_path (\<lambda>path. bind (files_request E (path @ ''/content'') ''GET'' Empty) (\<lambda>(status, b).
     andthen (assert_that (status \<noteq> 200 \<or> sha256 (fe_lib E) b = sha256 (fe_lib E) (fe_png E)) ''download checksum mismatch'')
     (ret (PDict [(''http_status'', PInt status), (''download_verified'', PBool (status = 200)),
        (''bytes'', PInt (int (length b))), (''sha256'', PStr (sha256 (fe_lib E) b))]))))"

definition confirms :: "files_env \<Rightarrow> int \<Rightarrow> string \<Rightarrow> bool res" where
  "confirms E status b = rand (Inr (status = 200))
     (rbind (loads (fe_lib E) b) (\<lambda>v. rbind (pyget v ''deleted'' PNone) (\<lambda>d. Inr (d = PBool True))))"

definition delete_created :: "files_env \<Rightarrow> (files_state, pyval) act" where
  "delete_created E = bind own_path (\<lambda>path. bind (files_request E path ''DELETE'' Empty) (\<lambda>(status, b).
     andthen (assert_res (confirms E status b) ''test file cleanup failed'') (ret (PDict [(''deleted'', PBool True)]))))"

section \<open>The check\<close>

definition files_body :: "files_env \<Rightarrow> (files_state, unit) act" where
  "files_body E =
     andthen (files_case ''streamed-multipart-upload'' (upload_file E))
    (andthen (files_case ''retrieve-uploaded-file-metadata'' (read_metadata E))
    (andthen (files_case ''content-download-support-probe'' (read_content E))
      (modify (\<lambda>s. s\<lparr>fi_passed := True\<rparr>))))"

text \<open>Only a file that the upload created, and whose identifier has the expected form, is deleted.\<close>

definition files_cleanup :: "files_env \<Rightarrow> (files_state, unit) act" where
  "files_cleanup E = bind (gets fi_id) (\<lambda>fid.
     bind (if truthy fid then lift (match_id fid) else ret False) (\<lambda>own.
     andthen (when_do own (catch is_exception (andthen (files_case ''delete-only-created-test-file'' (delete_created E)) (ret ()))
       (\<lambda>_. modify (\<lambda>s. s\<lparr>fi_passed := False\<rparr>))))
     (modify (\<lambda>s. s\<lparr>fi_published := True\<rparr>))))"

definition files_main :: "files_env \<Rightarrow> (files_state, int) act" where
  "files_main E =
     andthen (finally_do (catch is_exception (files_body E) (\<lambda>e. modify (\<lambda>s. s\<lparr>fi_failure := Some (exc_msg e)\<rparr>))) (files_cleanup E))
       (gets (\<lambda>s. if fi_passed s then 0 else 1))"

end
