(* ===== verification/FilesProps.thy ===== *)
theory FilesProps
  imports FilesCheck
begin

text \<open>
  What the file check guarantees: the declared length is the number of bytes it sends, it deletes
  the file it created and no other, and a passed report has seen the deletion.
\<close>

section \<open>The body\<close>

lemma slices_concat: "0 < n \<Longrightarrow> concat (slices n s) = s"
proof (induction n s rule: slices.induct)
  case (1 n s)
  then show ?case
    by (subst slices.simps) simp
qed

lemma slices_small: "x \<in> set (slices n s) \<Longrightarrow> length x \<le> n \<and> x \<noteq> []"
proof (induction n s rule: slices.induct)
  case (1 n s)
  then show ?case
    by (subst (asm) (2) slices.simps) (auto split: if_splits)
qed

text \<open>
  The declared length is the length of the body, however it is cut: its pieces are the form's
  head, the picture in pieces of 1 to 4096 bytes in order, and the closing boundary.
\<close>

lemma upload_length_exact:
  "concat (form_chunks E) = form_prefix E @ fe_png E @ form_suffix E \<and> length (concat (form_chunks E)) = form_length E
   \<and> list_all (\<lambda>x. length x \<le> 4096 \<and> x \<noteq> []) (slices 4096 (fe_png E))"
proof -
  have whole: "concat (form_chunks E) = form_prefix E @ fe_png E @ form_suffix E"
    by (simp add: form_chunks_def slices_concat)
  then show ?thesis
    using slices_small [of _ 4096 "fe_png E"] unfolding whole by (auto simp: form_length_def list_all_iff)
qed

section \<open>Deleting\<close>

definition deletes :: "mcall \<Rightarrow> bool" where
  "deletes c \<longleftrightarrow> mc_method c = ''DELETE''"

abbreviation sparing :: "(files_state, 'a) act \<Rightarrow> bool" where
  "sparing \<equiv> asks.grows (\<lambda>c. \<not> deletes c)"

lemma sparing_request: "method \<noteq> ''DELETE'' \<Longrightarrow> sparing (files_request E path method data)"
  unfolding files_request_def by (intro asks_rules asks_send) (simp add: deletes_def files_call_def)

lemma sparing_body: "sparing (catch is_exception (files_body E) (\<lambda>e. modify (\<lambda>s. s\<lparr>fi_failure := Some (exc_msg e)\<rparr>)))"
  unfolding files_body_def upload_file_def read_metadata_def read_content_def own_path_def
  by (intro asks_rules sparing_request asks_modify) simp_all

definition own_file :: "files_state \<Rightarrow> string option" where
  "own_file s = (case fi_id s of PStr i \<Rightarrow> if is_file_id i then Some i else None | _ \<Rightarrow> None)"

definition delete_call :: "files_env \<Rightarrow> string \<Rightarrow> mcall" where
  "delete_call E i = files_call E (CHR ''/'' # i) ''DELETE'' Empty"

lemma request_run: "files_request E path method data s
    = (rbind (fe_up E (mg_calls s) (files_call E path method data)) (\<lambda>r. Inr (mr_status r, read_bytes 1048576 (mr_body r))),
       s\<lparr>mg_calls := mg_calls s @ [files_call E path method data]\<rparr>)"
  by (auto simp: files_request_def send_def bind_def act_run rbind_def split: sum.splits)

lemma own_bind: "fi_id s = PStr i \<Longrightarrow> bind own_path f s = f (CHR ''/'' # i) s"
  by (simp add: own_path_def id_path_def bind_def act_run)

lemma delete_run:
  assumes "fi_id s = PStr i"
  shows "\<exists>r. delete_created E s = (r, s\<lparr>mg_calls := mg_calls s @ [delete_call E i]\<rparr>)
    \<and> (\<forall>v. r = Inr v \<longleftrightarrow> v = PDict [(''deleted'', PBool True)] \<and> (\<exists>q. fe_up E (mg_calls s) (delete_call E i) = Inr q
        \<and> confirms E (mr_status q) (read_bytes 1048576 (mr_body q)) = Inr True))"
proof (cases "fe_up E (mg_calls s) (delete_call E i)")
  case (Inr q)
  have run: "delete_created E s = andthen (assert_res (confirms E (mr_status q) (read_bytes 1048576 (mr_body q))) ''test file cleanup failed'')
      (ret (PDict [(''deleted'', PBool True)])) (s\<lparr>mg_calls := mg_calls s @ [delete_call E i]\<rparr>)"
    using assms Inr by (simp add: delete_created_def own_bind bind_def [of "files_request _ _ _ _"] request_run
        delete_call_def)
  show ?thesis
  proof (cases "confirms E (mr_status q) (read_bytes 1048576 (mr_body q))")
    case (Inr b)
    then show ?thesis
      using \<open>fe_up E (mg_calls s) (delete_call E i) = Inr q\<close> by (cases b) (auto simp: run act_run)
  qed (use Inr in \<open>auto simp: run act_run\<close>)
qed (use assms in \<open>simp add: delete_created_def own_bind bind_def [of "files_request _ _ _ _"] request_run delete_call_def\<close>)

lemma created_id: "own_file s = Some i \<longleftrightarrow> fi_id s = PStr i \<and> is_file_id i"
  by (auto simp: own_file_def split: pyval.splits)

lemma cleanup_none:
  assumes "own_file s = None"
  shows "\<exists>r b. files_cleanup E s = (r, s\<lparr>fi_published := b\<rparr>)"
proof (cases "truthy (fi_id s)")
  case True
  then show ?thesis
    using assms by (cases "fi_id s") (auto simp: files_cleanup_def match_id_def own_file_def act_run split: if_splits intro: exI [of _ "fi_published s"])
qed (auto simp: files_cleanup_def act_run)

lemma cleanup_some:
  assumes "own_file s = Some i"
  shows "\<exists>r t. files_cleanup E s = (r, t) \<and> mg_calls t = mg_calls s @ [delete_call E i] \<and> fi_id t = fi_id s
    \<and> (fi_passed t \<longrightarrow> (\<exists>q. fe_up E (mg_calls s) (delete_call E i) = Inr q
        \<and> confirms E (mr_status q) (read_bytes 1048576 (mr_body q)) = Inr True) \<or> r \<noteq> Inr ())"
proof -
  have i: "fi_id s = PStr i" "is_file_id i"
    using assms by (auto simp: created_id)
  then have i': "truthy (fi_id s)"
    by (auto simp: is_file_id_def)
  obtain r where run: "delete_created E s = (r, s\<lparr>mg_calls := mg_calls s @ [delete_call E i]\<rparr>)"
    and r: "\<And>v. r = Inr v \<Longrightarrow> \<exists>q. fe_up E (mg_calls s) (delete_call E i) = Inr q
        \<and> confirms E (mr_status q) (read_bytes 1048576 (mr_body q)) = Inr True"
    using delete_run [OF i(1), of E] by auto
  show ?thesis
    using i i' r by (cases r) (auto simp: files_cleanup_def match_id_def act_run andthen_def bind_def catch_def run_case_def run add_case_def)
qed

lemma keeps_filed: "keeps I m \<Longrightarrow> (\<And>row s. I s \<Longrightarrow> I (add_case row s)) \<Longrightarrow> keeps I (run_case san name m)"
  by (metis keeps_def run_case_adds)

lemma frame_request: "(\<And>s cs. I s \<Longrightarrow> I (s\<lparr>mg_calls := cs\<rparr>)) \<Longrightarrow> keeps I (files_request E path method data)"
  by (auto simp: keeps_def request_run)

text \<open>The first request, and the identifier its answer gives, when it has the expected form.\<close>

definition upload_call :: "files_env \<Rightarrow> mcall" where
  "upload_call E = files_call E [] ''POST'' (Bytes (concat (form_chunks E)))"

definition created_file :: "files_env \<Rightarrow> string option" where
  "created_file E = (case fe_up E [] (upload_call E) of Inl e \<Rightarrow> None
     | Inr q \<Rightarrow> if mr_status q \<noteq> 200 then None
         else (case rbind (loads (fe_lib E) (read_bytes 1048576 (mr_body q))) (\<lambda>v. getitem v ''id'') of
             Inr (PStr i) \<Rightarrow> if is_file_id i then Some i else None
           | _ \<Rightarrow> None))"

lemma upload_stores:
  "mg_calls (snd (upload_file E files_init)) = [upload_call E] \<and> own_file (snd (upload_file E files_init)) = created_file E"
proof (cases "fe_up E [] (upload_call E)")
  case (Inl e)
  then show ?thesis
    by (simp add: upload_file_def bind_def [of "files_request _ _ _ _"] request_run files_init_def upload_call_def [symmetric]
        created_file_def own_file_def)
next
  case (Inr q)
  let ?b = "read_bytes 1048576 (mr_body q)" and ?s = "files_init\<lparr>mg_calls := [upload_call E]\<rparr>"
  have none: "own_file ?s = None"
    by (simp add: own_file_def files_init_def)
  have request: "files_request E [] ''POST'' (Bytes (concat (form_chunks E))) files_init = (Inr (mr_status q, ?b), ?s)"
    using Inr by (simp add: request_run upload_call_def files_init_def)
  show ?thesis
  proof (cases "rbind (loads (fe_lib E) ?b) (\<lambda>v. getitem v ''id'')")
    case (Inl e)
    then have "created_file E = None"
      using Inr by (simp add: created_file_def)
    moreover have "snd (upload_file E files_init) = ?s"
      using Inl by (cases "loads (fe_lib E) ?b")
        (simp_all add: upload_file_def bind_def [of "files_request _ _ _ _"] request assert_that_def act_run)
    ultimately show ?thesis
      using none by (simp add: files_init_def)
  next
    case fid: (Inr fid)
    then obtain v where v: "loads (fe_lib E) ?b = Inr v" "getitem v ''id'' = Inr fid"
      by (auto simp: rbind_Inr_iff)
    let ?t = "if mr_status q = 200 then ?s\<lparr>fi_id := fid\<rparr> else ?s"
    have "snd (upload_file E files_init) = ?t"
      using v by (auto simp: upload_file_def bind_def [of "files_request _ _ _ _"] request assert_that_def act_run
          assert_res_def bind_def andthen_def split: sum.splits)
    moreover have "created_file E = own_file ?t"
      using Inr fid none by (simp add: created_file_def own_file_def split: pyval.split)
    ultimately show ?thesis
      by (simp add: files_init_def)
  qed
qed

lemma own_kept: "keeps (\<lambda>s. own_file s = x) (andthen (files_case ''retrieve-uploaded-file-metadata'' (read_metadata E))
    (andthen (files_case ''content-download-support-probe'' (read_content E)) (modify (\<lambda>s. s\<lparr>fi_passed := True\<rparr>))))"
  unfolding read_metadata_def read_content_def own_path_def
  by (intro keeps_filed keeps_intro frame_request keeps_assert; simp add: add_case_def own_file_def)

text \<open>The body makes the upload its first request and keeps the identifier of its answer.\<close>

lemma body_start:
  "\<exists>others. mg_calls (snd (files_body E files_init)) = upload_call E # others \<and> list_all (\<lambda>c. \<not> deletes c) others
    \<and> own_file (snd (files_body E files_init)) = created_file E"
proof -
  let ?rest = "andthen (files_case ''retrieve-uploaded-file-metadata'' (read_metadata E))
    (andthen (files_case ''content-download-support-probe'' (read_content E)) (modify (\<lambda>s. s\<lparr>fi_passed := True\<rparr>)))"
  obtain r u where first: "files_case ''streamed-multipart-upload'' (upload_file E) files_init = (r, u)"
    by fastforce
  have "\<exists>row. u = add_case row (snd (upload_file E files_init))"
    using run_case_adds [of id "''streamed-multipart-upload''" "upload_file E" files_init] first by auto
  then have u: "mg_calls u = [upload_call E]" "own_file u = created_file E"
    using upload_stores [of E] by (auto simp: add_case_def own_file_def)
  have "sparing ?rest"
    unfolding read_metadata_def read_content_def own_path_def
    by (intro asks_rules sparing_request asks_modify) simp_all
  from asks.growsD [OF this, of u] obtain others
    where others: "mg_calls (snd (?rest u)) = mg_calls u @ others" "list_all (\<lambda>c. \<not> deletes c) others"
    by (auto simp: only_def)
  have own: "own_file (snd (?rest u)) = created_file E"
    by (rule keepsD [OF own_kept]) (rule u(2))
  show ?thesis
  proof (cases r)
    case (Inl e)
    then show ?thesis
      using u first by (simp add: files_body_def andthen_def [of "files_case _ _"] bind_def [of "files_case _ _"])
  next
    case (Inr x)
    then have "snd (files_body E files_init) = snd (?rest u)"
      using first by (simp add: files_body_def andthen_def [of "files_case ''streamed-multipart-upload'' _"]
          bind_def [of "files_case ''streamed-multipart-upload'' _"])
    then show ?thesis
      using others own u by simp
  qed
qed

text \<open>
  C15. The check deletes its own file and no other. Whatever the gateway answers and however the run
  ends, its first request is the upload, and the only request to delete anything is its last one; it is made
  exactly when the upload was answered with status 200 and a JSON document whose identifier has the form
  that the script expects, and it deletes the file of that identifier, also after a failure
  or an interrupt. (A file is left behind when the answer of its upload is lost or has another form.)
\<close>

theorem created_file_deleted:
  "\<exists>others. list_all (\<lambda>c. \<not> deletes c) (upload_call E # others)
     \<and> mg_calls (snd (files_main E files_init)) = upload_call E # others @ (case created_file E of
         None \<Rightarrow> [] | Some i \<Rightarrow> [delete_call E i])"
proof -
  let ?body = "catch is_exception (files_body E) (\<lambda>e. modify (\<lambda>s. s\<lparr>fi_failure := Some (exc_msg e)\<rparr>))"
  obtain r s where body: "?body files_init = (r, s)"
    by fastforce
  have "mg_calls s = mg_calls (snd (files_body E files_init)) \<and> fi_id s = fi_id (snd (files_body E files_init))"
    using body by (auto simp: catch_def act_run split: prod.splits sum.splits if_splits)
  then obtain others where s: "mg_calls s = upload_call E # others" "own_file s = created_file E"
    and others: "list_all (\<lambda>c. \<not> deletes c) (upload_call E # others)"
    using body_start [of E] by (auto simp: own_file_def deletes_def upload_call_def files_call_def)
  obtain q t where clean: "files_cleanup E s = (q, t)"
    by fastforce
  have same: "snd (files_main E files_init) = t"
    using body clean by (auto simp: files_main_def andthen_def bind_def finally_do_def act_run split: sum.splits)
  have "mg_calls t = mg_calls s @ (case created_file E of None \<Rightarrow> [] | Some i \<Rightarrow> [delete_call E i])"
    using cleanup_none [of s E] cleanup_some [of s _ E] clean s(2) by (cases "created_file E") auto
  then show ?thesis
    using s others unfolding same by auto
qed


lemma body_unpassed: "files_body E s = (Inl e, t) \<Longrightarrow> \<not> fi_passed s \<Longrightarrow> \<not> fi_passed t"
proof -
  assume run: "files_body E s = (Inl e, t)" and s: "\<not> fi_passed s"
  let ?cases = "andthen (files_case ''streamed-multipart-upload'' (upload_file E)) (andthen (files_case ''retrieve-uploaded-file-metadata'' (read_metadata E))
    (files_case ''content-download-support-probe'' (read_content E)))"
  have cases: "keeps (\<lambda>s. \<not> fi_passed s) ?cases"
    unfolding upload_file_def read_metadata_def read_content_def own_path_def
    by (intro keeps_filed keeps_intro frame_request keeps_assert; simp add: add_case_def)
  have "files_body E = andthen ?cases (modify (\<lambda>s. s\<lparr>fi_passed := True\<rparr>))"
    by (simp add: files_body_def andthen_def bind_assoc)
  then have "?cases s = (Inl e, t)"
    using run by (auto simp: andthen_def [of ?cases] bind_def [of ?cases] act_run split: prod.splits sum.splits)
  then show ?thesis
    using keepsD [OF cases s] by simp
qed

lemma match_True: "match_id v = Inr True \<longleftrightarrow> (\<exists>i. v = PStr i \<and> is_file_id i)"
  by (auto simp: match_id_def split: pyval.splits)

lemma upload_created: "upload_file E s = (Inr v, t) \<Longrightarrow> own_file t \<noteq> None"
  by (auto simp: upload_file_def andthen_def bind_Inr_iff act_run assert_Inr_iff match_True own_file_def)

lemma andthen_Inr: "andthen m n s = (Inr y, t) \<Longrightarrow> \<exists>x u. m s = (Inr x, u) \<and> n u = (Inr y, t)"
  by (simp add: andthen_def bind_Inr_iff)

lemma body_created: "files_body E s = (Inr (), t) \<Longrightarrow> own_file t \<noteq> None"
proof -
  assume run: "files_body E s = (Inr (), t)"
  obtain v w where case1: "files_case ''streamed-multipart-upload'' (upload_file E) s = (Inr v, w)"
    and rest: "andthen (files_case ''retrieve-uploaded-file-metadata'' (read_metadata E)) (andthen (files_case ''content-download-support-probe'' (read_content E))
      (modify (\<lambda>s. s\<lparr>fi_passed := True\<rparr>))) w = (Inr (), t)"
    using andthen_Inr [OF run [unfolded files_body_def]] by blast
  obtain u where upload: "upload_file E s = (Inr v, u)" and w: "fi_id w = fi_id u"
    using case1 by (auto simp: run_case_def add_case_def split: prod.splits sum.splits)
  have "keeps (\<lambda>s. own_file s \<noteq> None) (andthen (files_case ''retrieve-uploaded-file-metadata'' (read_metadata E))
      (andthen (files_case ''content-download-support-probe'' (read_content E)) (modify (\<lambda>s. s\<lparr>fi_passed := True\<rparr>))))"
    unfolding read_metadata_def read_content_def own_path_def
    by (intro keeps_filed keeps_intro frame_request keeps_assert; simp add: add_case_def own_file_def)
  from keepsD [OF this, of w] rest upload_created [OF upload] w show ?thesis
    by (simp add: own_file_def)
qed

text \<open>
  A passed file check has seen its file deleted: the script returned 0, and the last reply
  confirmed the deletion of the file that the upload created.
\<close>

lemma files_passed_sound:
  assumes run: "files_main E files_init = (Inr 0, t)"
  shows "\<exists>i before q. own_file t = Some i \<and> mg_calls t = before @ [delete_call E i] \<and> fe_up E before (delete_call E i) = Inr q
    \<and> confirms E (mr_status q) (read_bytes 1048576 (mr_body q)) = Inr True"
proof -
  let ?body = "catch is_exception (files_body E) (\<lambda>e. modify (\<lambda>s. s\<lparr>fi_failure := Some (exc_msg e)\<rparr>))"
  obtain s where body: "?body files_init = (Inr (), s)" and clean: "files_cleanup E s = (Inr (), t)" and passed: "fi_passed t"
    using run by (auto simp: files_main_def andthen_def bind_Inr_iff act_run finally_do_def split: prod.splits sum.splits if_splits)
  show ?thesis
  proof (cases "own_file s")
    case (Some i)
    then show ?thesis
      using cleanup_some [OF Some, of E] clean passed by (auto simp: created_id)
  next
    case None
    have "fi_passed s"
      using cleanup_none [OF None, of E] clean passed by auto
    then have "files_body E files_init = (Inr (), s)"
      using body body_unpassed [of E files_init] by (auto simp: catch_def act_run files_init_def split: prod.splits sum.splits if_splits)
    then have "own_file s \<noteq> None"
      by (rule body_created)
    then show ?thesis
      using None by simp
  qed
qed

definition files_demo :: "pyval \<Rightarrow> files_env" where
  "files_demo fid = \<lparr>fe_lib = \<lparr>json_loads = map_of [(''a'', PDict [(''id'', fid), (''bytes'', PInt 3)]), (''b'', PDict [(''deleted'', PBool True)])],
       dumps = (\<lambda>_. []), dumps_ascii = (\<lambda>_. []), sha256 = (\<lambda>_. []), repr_of = (\<lambda>_. [])\<rparr>,
     fe_up = (\<lambda>cs c. Inr \<lparr>mr_status = (if length cs = 2 then 404 else 200), mr_headers = [], mr_body = (if length cs < 3 then ''a'' else ''b'')\<rparr>),
     fe_token = ''t'', fe_png = ''png'', fe_boundary_id = ''0'', fe_name_id = ''1''\<rparr>"

lemma files_demo_run: "fst (files_main (files_demo (PStr ''file-api-1'')) files_init) = Inr 0"
  by code_simp

lemma files_passed_sound_witness:
  "\<exists>i. own_file (snd (files_main (files_demo (PStr ''file-api-1'')) files_init)) = Some i
     \<and> last (mg_calls (snd (files_main (files_demo (PStr ''file-api-1'')) files_init))) = delete_call (files_demo (PStr ''file-api-1'')) i"
proof -
  have "files_main (files_demo (PStr ''file-api-1'')) files_init = (Inr 0, snd (files_main (files_demo (PStr ''file-api-1'')) files_init))"
    using files_demo_run by (metis prod.collapse)
  from files_passed_sound [OF this] show ?thesis
    by fastforce
qed

text \<open>
  An identifier that is not a string: the pattern test of the cleanup raises, and no report is
  published, not even one that says so.
\<close>

lemma files_report_lost: "case files_main (files_demo (PInt 7)) files_init of (r, t) \<Rightarrow>
    r = Inl (Exc TypeError ''expected string'') \<and> \<not> fi_published t \<and> fi_id t = PInt 7"
  by code_simp

end
