(* ===== verification/Launch.thy ===== *)
theory Launch
  imports Prelude
begin

text \<open>
  How \<^verbatim>\<open>opencode-check.py\<close> launches its client: the environment without the tester's credentials, the
  command and the stores of each process. The inherited environment and the paths are inputs.
\<close>

section \<open>The environment\<close>

definition upper_char :: "char \<Rightarrow> char" where
  "upper_char c = (case map_of (zip lower_ascii upper_ascii) c of None \<Rightarrow> c | Some d \<Rightarrow> d)"

text \<open>
  \<^verbatim>\<open>str.upper()\<close>. Of the characters outside ASCII, these four have an upper case that can complete
  one of the words below: the dotless i, the long s, the sharp s and the y with ring. The upper
  cases of all others cannot occur in such a word, and they are left as they are.
\<close>

fun py_upper :: "string \<Rightarrow> string" where
  "py_upper [] = []"
| "py_upper (c # cs) =
     (if c = CHR 0xC4 \<and> take 1 cs = [CHR 0xB1] then CHR ''I'' # py_upper (drop 1 cs)
      else if c = CHR 0xC5 \<and> take 1 cs = [CHR 0xBF] then CHR ''S'' # py_upper (drop 1 cs)
      else if c = CHR 0xC3 \<and> take 1 cs = [CHR 0x9F] then CHR ''S'' # CHR ''S'' # py_upper (drop 1 cs)
      else if c = CHR 0xE1 \<and> take 2 cs = [CHR 0xBA, CHR 0x99] then CHR ''Y'' # CHR 0xCC # CHR 0x8A # py_upper (drop 2 cs)
      else upper_char c # py_upper cs)"

definition private_words :: "string list" where
  "private_words = [''API_KEY'', ''AUTH_TOKEN'', ''ACCESS_TOKEN'']"

definition is_private :: "string \<Rightarrow> bool" where
  "is_private key \<longleftrightarrow> list_ex (\<lambda>s. contains s (py_upper key)) private_words"

type_synonym environ = "(string \<times> string) list"

definition child_path :: "string \<Rightarrow> string \<Rightarrow> string" where
  "child_path dir name = dir @ ''/'' @ name"

definition own_variables :: "string \<Rightarrow> string \<Rightarrow> string \<Rightarrow> environ" where
  "own_variables folder workspace client_token =
     [(''UART2LLM_OBSERVER_TOKEN'', client_token),
      (''XDG_CONFIG_HOME'', child_path folder ''config''), (''XDG_DATA_HOME'', child_path folder ''data''),
      (''XDG_CACHE_HOME'', child_path folder ''cache''), (''XDG_STATE_HOME'', child_path folder ''state''),
      (''OPENCODE_CONFIG'', child_path workspace ''opencode.json''), (''OPENCODE_DISABLE_AUTOUPDATE'', ''true''),
      (''OPENCODE_DISABLE_MODELS_FETCH'', ''true''), (''OPENCODE_DISABLE_EXTERNAL_SKILLS'', ''true''),
      (''OPENCODE_ENABLE_EXA'', ''1'')]"

text \<open>\<^verbatim>\<open>env.update(new)\<close>.\<close>

definition set_all :: "environ \<Rightarrow> environ \<Rightarrow> environ" where
  "set_all new env = fold (\<lambda>(k, v). AList.update k v) new env"

definition client_env :: "environ \<Rightarrow> string \<Rightarrow> string \<Rightarrow> string \<Rightarrow> environ" where
  "client_env inherited folder workspace client_token =
     set_all (own_variables folder workspace client_token) (filter (\<lambda>(k, v). \<not> is_private k) inherited)"

section \<open>One process\<close>

definition client_command :: "string \<Rightarrow> string \<Rightarrow> string \<Rightarrow> string \<Rightarrow> string \<Rightarrow> string option \<Rightarrow> string list" where
  "client_command exe model name agent prompt_text session =
     [exe, ''run'', ''--pure'', ''--format'', ''json'', ''--agent'', agent, ''--model'', ''uart2llm/'' @ model,
      ''--title'', ''uart2llm synthetic '' @ name]
     @ (case session of Some (c # cs) \<Rightarrow> [''--session'', c # cs] | _ \<Rightarrow> []) @ [prompt_text]"

definition process_stores :: "string \<Rightarrow> string \<Rightarrow> environ" where
  "process_stores folder name = map (\<lambda>(k, d). (k, child_path (child_path folder name) d))
     [(''XDG_DATA_HOME'', ''data''), (''XDG_CACHE_HOME'', ''cache''), (''XDG_STATE_HOME'', ''state'')]"

definition process_env :: "string \<Rightarrow> environ \<Rightarrow> string \<Rightarrow> environ" where
  "process_env folder env name = (if starts_with ''parallel-'' name then set_all (process_stores folder name) env else env)"

section \<open>What the client can see\<close>

lemma set_all_map: "map_of (set_all new env) k = (case map_of (rev new) k of Some v \<Rightarrow> Some v | None \<Rightarrow> map_of env k)"
  unfolding set_all_def
  by (induction new arbitrary: env) (auto simp: update_conv' map_add_def split: option.splits)

lemma update_keys: "fst ` set (AList.update k v env) = insert k (fst ` set env)"
  by (simp add: dom_update)

lemma public_keys: "list_all (\<lambda>(k, v). \<not> is_private k) env \<longleftrightarrow> (\<forall>k \<in> fst ` set env. \<not> is_private k)"
  by (auto simp: list_all_iff)

lemma set_all_public:
  "list_all (\<lambda>k. \<not> is_private k) (map fst new) \<Longrightarrow> list_all (\<lambda>(k, v). \<not> is_private k) env
   \<Longrightarrow> list_all (\<lambda>(k, v). \<not> is_private k) (set_all new env)"
  unfolding set_all_def
proof (induction new arbitrary: env)
  case (Cons x new)
  have "list_all (\<lambda>(k, v). \<not> is_private k) (AList.update (fst x) (snd x) env)"
    using Cons.prems unfolding public_keys update_keys by simp
  then show ?case
    using Cons.IH Cons.prems(1) by (simp add: case_prod_unfold)
qed simp

lemma own_public: "list_all (\<lambda>k. \<not> is_private k) (map fst (own_variables folder workspace token) @ map fst (process_stores folder name))"
proof -
  have "list_all (\<lambda>k. \<not> is_private k) [''UART2LLM_OBSERVER_TOKEN'', ''XDG_CONFIG_HOME'', ''XDG_DATA_HOME'', ''XDG_CACHE_HOME'',
      ''XDG_STATE_HOME'', ''OPENCODE_CONFIG'', ''OPENCODE_DISABLE_AUTOUPDATE'', ''OPENCODE_DISABLE_MODELS_FETCH'',
      ''OPENCODE_DISABLE_EXTERNAL_SKILLS'', ''OPENCODE_ENABLE_EXA'']"
    by code_simp
  then show ?thesis
    by (simp add: own_variables_def process_stores_def)
qed

lemma own_reverse: "map_of (rev (own_variables folder workspace token)) = map_of (own_variables folder workspace token)"
proof -
  have "distinct (map fst (own_variables folder workspace token))"
    by (simp add: own_variables_def)
  then show ?thesis
    by (intro map_of_inject_set [THEN iffD2]) (simp_all add: rev_map [symmetric])
qed

lemma map_of_public: "map_of (filter (\<lambda>(k, v). \<not> is_private k) env) k = (if is_private k then None else map_of env k)"
  by (induction env) auto

section \<open>Names that are private\<close>

text \<open>
  The same words in lower case, looked for without regard to the case of the ASCII letters: what
  the removal is meant to find, stated without the code's own test.
\<close>

definition secret_name :: "string \<Rightarrow> bool" where
  "secret_name key \<longleftrightarrow> list_ex (\<lambda>word. contains word (map lower_char key)) [''api_key'', ''auth_token'', ''access_token'']"

definition plain_char :: "char \<Rightarrow> bool" where
  "plain_char c \<longleftrightarrow> \<not> digit7 c"

lemma upper_lower: "upper_char (lower_char c) = upper_char c" "lower_char (upper_char c) = lower_char c"
proof -
  have lower: "list_all (\<lambda>c. upper_char (lower_char c) = upper_char c) upper_ascii"
    and upper: "list_all (\<lambda>c. lower_char (upper_char c) = lower_char c) lower_ascii"
    by code_simp+
  show "upper_char (lower_char c) = upper_char c"
  proof (cases "map_of (zip upper_ascii lower_ascii) c")
    case (Some d)
    then have "c \<in> set upper_ascii" by (auto dest: map_of_SomeD set_zip_leftD)
    then show ?thesis using lower by (simp add: list_all_iff)
  qed (simp add: lower_char_def)
  show "lower_char (upper_char c) = lower_char c"
  proof (cases "map_of (zip lower_ascii upper_ascii) c")
    case (Some d)
    then have "c \<in> set lower_ascii" by (auto dest: map_of_SomeD set_zip_leftD)
    then show ?thesis using upper by (simp add: list_all_iff)
  qed (simp add: upper_char_def)
qed

text \<open>An ASCII character stands for itself, wherever it is.\<close>

lemma upper_at: "plain_char c \<Longrightarrow> py_upper (a @ c # b) = py_upper a @ upper_char c # py_upper b"
proof (induction a rule: py_upper.induct)
  case 1
  then show ?case by (auto simp: plain_char_def)
next
  case (2 x xs)
  have other: "c \<noteq> CHR 0xB1" "c \<noteq> CHR 0xBF" "c \<noteq> CHR 0x9F" "c \<noteq> CHR 0xBA" "c \<noteq> CHR 0x99"
    using 2(6) by (auto simp: plain_char_def)
  have first: "take 1 (xs @ c # b) = [d] \<longleftrightarrow> take 1 xs = [d]" if "d \<noteq> c" for d
    using that by (cases xs) auto
  have second: "take 2 (xs @ c # b) = [CHR 0xBA, CHR 0x99] \<longleftrightarrow> take 2 xs = [CHR 0xBA, CHR 0x99]"
    using other by (cases xs; cases "tl xs") auto
  have rest: "drop 1 (xs @ c # b) = drop 1 xs @ c # b" if "take 1 xs = [d]" for d
    using that by (cases xs) auto
  have rests: "drop 2 (xs @ c # b) = drop 2 xs @ c # b" if "take 2 xs = [d, e]" for d e
    using that by (cases xs; cases "tl xs") auto
  note facts = first [OF other(1) [symmetric]] first [OF other(2) [symmetric]] first [OF other(3) [symmetric]] second
  consider "x = CHR 0xC4 \<and> take 1 xs = [CHR 0xB1]" | "x = CHR 0xC5 \<and> take 1 xs = [CHR 0xBF]"
    | "x = CHR 0xC3 \<and> take 1 xs = [CHR 0x9F]" | "x = CHR 0xE1 \<and> take 2 xs = [CHR 0xBA, CHR 0x99]"
    | "\<not> (x = CHR 0xC4 \<and> take 1 xs = [CHR 0xB1])" "\<not> (x = CHR 0xC5 \<and> take 1 xs = [CHR 0xBF])"
      "\<not> (x = CHR 0xC3 \<and> take 1 xs = [CHR 0x9F])" "\<not> (x = CHR 0xE1 \<and> take 2 xs = [CHR 0xBA, CHR 0x99])"
    by blast
  then show ?case
  proof cases
    case 5
    then show ?thesis
      using 2(5) 2(6) by (simp only: append_Cons py_upper.simps(2) facts if_False simp_thms)
  qed (use 2(1-4) 2(6) in \<open>simp_all only: append_Cons py_upper.simps(2) facts rest rests char.inject
      simp_thms if_True if_False; simp\<close>)+
qed

lemma upper_plain:
  "list_all plain_char w \<Longrightarrow> w \<noteq> [] \<Longrightarrow> py_upper (a @ w @ b) = py_upper a @ map upper_char w @ py_upper b"
proof (induction w arbitrary: a)
  case (Cons c w)
  then show ?case using upper_at [of c a "w @ b"] Cons.IH [of "[]"] by (cases w) auto
qed simp

lemma contains_map: "contains w h \<Longrightarrow> contains (map f w) (map f h)"
  unfolding contains_iff by (metis map_append)

lemma lower_plain: "plain_char (lower_char c) \<Longrightarrow> plain_char c"
proof (cases "map_of (zip upper_ascii lower_ascii) c")
  case (Some d)
  then have "c \<in> set upper_ascii" by (auto dest: map_of_SomeD set_zip_leftD)
  moreover have "list_all plain_char upper_ascii" by code_simp
  ultimately show ?thesis by (simp add: list_all_iff)
qed (simp add: lower_char_def)

lemma lower_words: "list_all (\<lambda>w. list_all plain_char w \<and> w \<noteq> []) [''api_key'', ''auth_token'', ''access_token'']"
  "map (map upper_char) [''api_key'', ''auth_token'', ''access_token''] = private_words"
  "map (map lower_char) private_words = [''api_key'', ''auth_token'', ''access_token'']"
  by code_simp+

text \<open>Every such name is removed; of the names in ASCII, exactly these.\<close>

lemma secret_is_private: "secret_name key \<Longrightarrow> is_private key"
proof -
  assume "secret_name key"
  then obtain word where word: "word \<in> set [''api_key'', ''auth_token'', ''access_token'']" "contains word (map lower_char key)"
    unfolding secret_name_def list_ex_iff by blast
  then obtain a b w where key: "key = a @ w @ b" and w: "map lower_char w = word"
    by (auto simp: contains_iff map_eq_append_conv append_eq_map_conv)
  have "list_all plain_char word \<and> word \<noteq> []"
    using lower_words(1) word(1) unfolding list_all_iff [of _ "[''api_key'', ''auth_token'', ''access_token'']"] by blast
  then have "list_all plain_char w" "w \<noteq> []"
    using lower_plain unfolding w [symmetric] by (auto simp: list_all_iff)
  then have "py_upper key = py_upper a @ map upper_char w @ py_upper b"
    unfolding key by (rule upper_plain)
  moreover have "map upper_char w = map upper_char word"
    by (simp add: w [symmetric] upper_lower)
  ultimately have "contains (map upper_char word) (py_upper key)"
    by (auto simp: contains_iff)
  moreover have "map upper_char word \<in> set private_words"
    unfolding lower_words(2) [symmetric] set_map [of _ "[_, _, _]"] by (rule imageI) (rule word(1))
  ultimately show ?thesis
    unfolding is_private_def list_ex_iff by blast
qed

lemma plain_private:
  assumes "list_all plain_char key"
  shows "is_private key = secret_name key"
proof
  assume "is_private key"
  then obtain word where word: "word \<in> set private_words" "contains word (py_upper key)"
    unfolding is_private_def list_ex_iff by blast
  have "py_upper key = map upper_char key"
    using upper_plain [OF assms, of "[]" "[]"] by (cases key) simp_all
  then have "contains (map lower_char word) (map lower_char (map upper_char key))"
    using contains_map [OF word(2)] by simp
  moreover have "map lower_char word \<in> set [''api_key'', ''auth_token'', ''access_token'']"
    unfolding lower_words(3) [symmetric] set_map [of _ private_words] by (rule imageI) (rule word(1))
  ultimately show "secret_name key"
    unfolding secret_name_def list_ex_iff by (auto simp: upper_lower comp_def)
qed (rule secret_is_private)

section \<open>The environment of a client\<close>

text \<open>What the run sets for a process: its stores when it runs in parallel, and its own variables.\<close>

definition set_by_run :: "string \<Rightarrow> string \<Rightarrow> string \<Rightarrow> string \<Rightarrow> environ" where
  "set_by_run folder workspace token name =
     (if starts_with ''parallel-'' name then process_stores folder name else []) @ own_variables folder workspace token"

lemma stores_reverse: "map_of (rev (process_stores folder name)) = map_of (process_stores folder name)"
proof -
  have "distinct (map fst (process_stores folder name))"
    by (simp add: process_stores_def)
  then show ?thesis
    by (intro map_of_inject_set [THEN iffD2]) (simp_all add: rev_map [symmetric])
qed

lemma process_item: "map_of (process_env folder (client_env inherited folder workspace token) name) k
    = (case map_of (set_by_run folder workspace token name) k of
        Some v \<Rightarrow> Some v | None \<Rightarrow> if is_private k then None else map_of inherited k)"
  by (auto simp: process_env_def client_env_def set_by_run_def set_all_map own_reverse stores_reverse map_of_public
      map_add_def split: option.split)

lemma process_public:
  "list_all (\<lambda>(k, v). \<not> is_private k) (process_env folder (client_env inherited folder workspace token) name)"
proof -
  have "list_all (\<lambda>(k, v). \<not> is_private k) (client_env inherited folder workspace token)"
    unfolding client_env_def using own_public [of folder workspace token name]
    by (intro set_all_public) (auto simp: list_all_iff)
  then show ?thesis
    using own_public [of folder workspace token name] by (simp add: process_env_def set_all_public)
qed



end
