(* ===== verification/Spec2Isabelle.thy ===== *)
theory Spec2Isabelle
  imports AcceptProps HarnessVerdict FollowSeq ObserverProps ObserverStream OpenCodeProps
    ReleaseProps HardwareProps NetworkProps SettingsProps TrayProps ProvisionProps UpkeepProps FilesProps Launch
begin

text \<open>
  A verification library for the acceptance programs of uart2llm, the Python programs under
  \<^verbatim>\<open>scripts/\<close> that decide whether the gateway (a PC daemon that tunnels an LLM API through an
  ESP32 over a serial line) may be released. Their verdicts, the evidence they publish and what
  they allow a model to do on the tester's machine are what the theorems are about.

  \<^bold>\<open>The programs and the theories.\<close>

  \<^item> \<^verbatim>\<open>Prelude\<close>, \<^verbatim>\<open>PyValue\<close>, \<^verbatim>\<open>PyText\<close>, \<^verbatim>\<open>Checks\<close>: Python itself. Exceptions are values of
    \<^verbatim>\<open>exc\<close>, a method is an action \<^verbatim>\<open>state \<Rightarrow> result \<times> state\<close> whose mutations stay when it raises,
    \<^verbatim>\<open>except\<close> and \<^verbatim>\<open>finally\<close> are \<^verbatim>\<open>catch\<close> and \<^verbatim>\<open>finally_do\<close>, JSON values are \<^verbatim>\<open>pyval\<close>. Three
    calculi carry the component proofs: \<^verbatim>\<open>keeps\<close> (an invariant survives, also a raise), \<^verbatim>\<open>yields\<close>
    (what holds if the action returns) and the locale \<^verbatim>\<open>state_order\<close> (what only grows). \<^verbatim>\<open>Checks\<close>
    is the dictionary \<^verbatim>\<open>report['checks']\<close> and its passing rule.
  \<^item> \<^verbatim>\<open>Sanitize\<close>: \<^verbatim>\<open>sanitize\<close> of \<^verbatim>\<open>hardware_check_support.py\<close> and of \<^verbatim>\<open>hardware-check.py\<close>. Nothing
    under a sensitive key is published except usage counters, and the published value depends on
    nothing else (noninterference).
  \<^item> \<^verbatim>\<open>Bodies\<close>, \<^verbatim>\<open>Measurements\<close>, \<^verbatim>\<open>AcceptWork\<close>, \<^verbatim>\<open>AcceptMain\<close>, \<^verbatim>\<open>AcceptProps\<close>: \<^verbatim>\<open>acceptance.py\<close>. The
    request bodies, the statistics, the endpoint with its set of active connections, the four
    workloads, the sentinel that refuses an unknown upstream, and \<^verbatim>\<open>main\<close>.
  \<^item> \<^verbatim>\<open>Follow\<close>, \<^verbatim>\<open>FollowProps\<close>, \<^verbatim>\<open>FollowRuns\<close>, \<^verbatim>\<open>FollowSeq\<close>, \<^verbatim>\<open>FollowTools\<close>: the class \<^verbatim>\<open>Follow\<close> of
    \<^verbatim>\<open>harness-check.py\<close>, which follows one session of the model over a WebSocket, answers its
    questions, and reviews its plan: what it may grant, its bounds, its durable log, its live
    chunks, and the jobs it regards as its own.
  \<^item> \<^verbatim>\<open>Runner\<close>, \<^verbatim>\<open>RunnerProps\<close>, \<^verbatim>\<open>Phases\<close>, \<^verbatim>\<open>HarnessRun\<close>, \<^verbatim>\<open>HarnessProps\<close>, \<^verbatim>\<open>HarnessVerdict\<close>: the
    class \<^verbatim>\<open>Runner\<close>, the RPC reply of \<^verbatim>\<open>harness_support.py\<close>, every phase, the gateway monitor and
    \<^verbatim>\<open>main\<close>. A phase is a sequence of runner operations (\<^verbatim>\<open>phase_reaches\<close>), so the follower's
    invariants lift to whole phases through the locales \<^verbatim>\<open>follow_invariant\<close> and
    \<^verbatim>\<open>phase_invariant\<close>, which are instantiated with what each phase may grant: only the workflow phase
    approves a plan, only the advanced phase answers a question. The cleanup cancels every session
    the server created; a report that passed has established what \<^verbatim>\<open>passed_report_sound\<close> says, a
    cleanup without errors included.
  \<^item> \<^verbatim>\<open>Observer\<close>, \<^verbatim>\<open>ObserverProps\<close>, \<^verbatim>\<open>ObserverStream\<close>: the observing proxy of \<^verbatim>\<open>opencode-check.py\<close>.
    Admission on every branch and its budget under every interleaving of handler threads; the
    bytes the client receives; the reading of the event stream, independent of how the network
    cuts it (locale \<^verbatim>\<open>line_machine\<close>).
  \<^item> \<^verbatim>\<open>OpenCode\<close>, \<^verbatim>\<open>OpenCodeProps\<close>: the rest of \<^verbatim>\<open>opencode-check.py\<close>: the client's configuration,
    the summary of its event log, the evidence of child sessions, the checks, the verdict, and the
    redaction of the run's secrets in the published text. \<^verbatim>\<open>Launch\<close> is the environment and the command of a
    client process, without the tester's credentials: \<^verbatim>\<open>secret_name\<close> says independently of the code which
    names are meant.

  \<^item> \<^verbatim>\<open>Prompts\<close>: the texts that the phases of \<^verbatim>\<open>harness-check.py\<close> send to the model.
  \<^item> \<^verbatim>\<open>Manage\<close>, \<^verbatim>\<open>Hardware\<close>, \<^verbatim>\<open>HardwareProps\<close>: requests and named cases as the device checks share
    them, and \<^verbatim>\<open>hardware-check.py\<close> with all its phases. The locales \<^verbatim>\<open>hw_frame\<close>, \<^verbatim>\<open>hw_plain\<close>,
    \<^verbatim>\<open>hw_guard\<close> and \<^verbatim>\<open>hw_script\<close> lift an invariant of the requests through ever more of the operations:
    smoke runs change nothing, a configured network is never replaced. Whether the telemetry
    interval was changed, and from which value, is read off the requests and replies
    (\<^verbatim>\<open>changes_interval\<close>, \<^verbatim>\<open>original_interval\<close>): the cleanup puts this value back or fails the report. An
    effective value that differs from the persisted one, and other settings, are not part of this.
  \<^item> \<^verbatim>\<open>Network\<close>, \<^verbatim>\<open>NetworkProps\<close>: \<^verbatim>\<open>network-check.py\<close>. The locale \<^verbatim>\<open>net_order\<close> lifts an order on states
    through its operations; it is interpreted for the destinations of requests and for the list of
    cases. A network change that the gateway accepted is confirmed
    or rolled back; one whose reply is lost or malformed is not rolled back.
  \<^item> \<^verbatim>\<open>Release\<close>, \<^verbatim>\<open>ReleaseProps\<close>: \<^verbatim>\<open>package-offline.py\<close>, \<^verbatim>\<open>package-firmware.py\<close>, \<^verbatim>\<open>source_manifest.py\<close> and
    \<^verbatim>\<open>source-archive.py\<close>: what a release contains, that its checksums verify it, and that the two
    packaging programs fit together.

  \<^item> \<^verbatim>\<open>Settings\<close>, \<^verbatim>\<open>SettingsProps\<close>: \<^verbatim>\<open>harness-configure.py\<close> and \<^verbatim>\<open>harness-search-check.py\<close>, which change
    settings of the Harness over the RPC of \<^verbatim>\<open>Runner\<close>: an existing provider is only read, the search
    route is restored or reported lost, and a change whose reply is lost stays.
  \<^item> \<^verbatim>\<open>Tray\<close>, \<^verbatim>\<open>TrayProps\<close>: \<^verbatim>\<open>tray-check.py\<close>. The proxy is never left paused: the value read in the first
    snapshot is sent back. A passed report made one fixed sequence of requests and compared the gateway's
    counters with the usage of a real completion.
  \<^item> \<^verbatim>\<open>Upkeep\<close>, \<^verbatim>\<open>UpkeepProps\<close>: \<^verbatim>\<open>product-management-check.py\<close> and \<^verbatim>\<open>firmware-update-check.py\<close>. A candidate
    configuration is applied at most once and then rolled back, an image is uploaded once and to an idle device
    only and nothing else is changed, and the update
    check can pass although the device is never paired again.
  \<^item> \<^verbatim>\<open>FilesCheck\<close>, \<^verbatim>\<open>FilesProps\<close>: \<^verbatim>\<open>files-check.py\<close>, which deletes the file that the reply of its upload names and no
    other.
  \<^item> \<^verbatim>\<open>Provision\<close>, \<^verbatim>\<open>ProvisionProps\<close>: \<^verbatim>\<open>provision-device.py\<close>: big-endian bytes and hexadecimal digits, the group
    of the password proof, the verifier, and the order in which the pairing files are written.

  \<^verbatim>\<open>Manage\<close> also holds \<^verbatim>\<open>undone\<close>, the shape of a temporary change and its undoing as a list of requests,
  which the tray check (pause and resume) and the configuration check (candidate and rollback) share.

  \<^bold>\<open>What is a parameter.\<close> \<^verbatim>\<open>json\<close>, \<^verbatim>\<open>hashlib\<close> and \<^verbatim>\<open>str\<close> of a compound value are the fields of
  \<^verbatim>\<open>pylib\<close>; theorems hold for all of them. A server (the Harness, the gateway, the upstream) is an
  arbitrary function of the requests made to it so far, so it may misbehave, and it may raise
  anything. Clocks are inputs: the time of every read, or of every event, is given with it. What a
  WebSocket delivers is the list of frames that arrive before the deadline; a loop that has read
  them all raises the timeout. Files, child processes and the drawn image are inputs of a phase
  (the records \<^verbatim>\<open>scene\<close> and \<^verbatim>\<open>run_inputs\<close>).

  \<^bold>\<open>Bounds and fuel.\<close> Loops over received frames, arrivals, lines and chunks are structural in those
  lists. The receive loop ends because each read consumes a frame (\<^verbatim>\<open>wait_turn_ends\<close>); the hash
  loop of \<^verbatim>\<open>Bodies\<close> has fuel \<^verbatim>\<open>size + 1\<close>, and \<^verbatim>\<open>pattern_hash_correct\<close> proves it is enough; the
  catalog is polled as often as the scene says. The waits of the device checks sleep at least half
  a second per round, which bounds their rounds (70 for 35 seconds); a soak sleeps a second per
  round. The polls of the tray (100), of the rollback (40) and of the update (100 and 120) are the loop bounds of the
  source. Counters are unbounded Python integers.

  \<^bold>\<open>Abstractions.\<close> A finite float is a rational: rounding is not modelled. A string is its UTF-8
  encoding. The four parallel prompts run one after the other, which is one of the orders the
  thread pool allows; the workers of \<^verbatim>\<open>acceptance.py\<close> share the locked measurements and the locked
  set of active connections, each adding and removing its own, and are a list of whole turns in any
  order; the interrupt of the waiting main thread, after which the remaining connections are shut
  down by \<^verbatim>\<open>abort_all\<close>, is not part of \<^verbatim>\<open>accept_run\<close>; handler threads of the observer interleave freely at their critical
  sections. Faults of writing response headers and of closing a WebSocket are not modelled, nor
  are timestamps that no check reads. An integer beyond the range of a float, for which
  \<^verbatim>\<open>math.isfinite\<close> raises, is measured like any other. The report of the gateway monitor is a free input
  of \<^verbatim>\<open>conclude\<close>, and \<^verbatim>\<open>idle_check\<close> leaves out the host part of the initial state: both admit more runs
  than the programs have.

  \<^bold>\<open>Not modelled.\<close> The Go gateway, the firmware, the tray program and the web interface are in other
  languages. Of the Python scripts, the tests of the scripts, the drawing of test images, the command
  line parsers and the file and process handling around the modelled parts are left out, as are the
  regular expressions of \<^verbatim>\<open>check-source.py\<close> and the drivers \<^verbatim>\<open>live-recovery-check.py\<close>,
  \<^verbatim>\<open>passwordless-check.py\<close>, \<^verbatim>\<open>usb-performance-check.py\<close>, \<^verbatim>\<open>release-smoke.py\<close>, \<^verbatim>\<open>link-echo.py\<close> and
  \<^verbatim>\<open>capture-serial.py\<close>, which measure external programs through cookies, sockets, threads and serial ports.
\<close>

end
